(* ===== verification/Sober_Prelude.thy ===== *)
theory Sober_Prelude
  imports Main "HOL-Library.Word"
begin

text \<open>
  Shared vocabulary of the development: the fixed-width integer types of
  \<^verbatim>\<open>src/src/types.hpp\<close>, the ways a C++ function can leave its normal path (as values), the
  sequencing operator for fallible steps, and generic facts on lists, maps and words that
  the component theories use.  The build keeps \<^verbatim>\<open>assert\<close> enabled (\<^verbatim>\<open>meson.build\<close> sets no
  \<^verbatim>\<open>b_ndebug\<close>), so a failed assertion is an abort of the process.
\<close>

section \<open>Machine integers\<close>

type_synonym u8 = "8 word"
type_synonym u16 = "16 word"
type_synonym u32 = "32 word"
type_synonym u64 = "64 word"
type_synonym usize = "64 word"

section \<open>Errors as values\<close>

text \<open>
  \<open>Terminate\<close> is \<^verbatim>\<open>std::terminate\<close>, \<open>Assert_failure\<close> a failed \<^verbatim>\<open>assert\<close>, \<open>Runtime_error\<close> a
  thrown \<^verbatim>\<open>std::runtime_error\<close>, \<open>Bad_variant_access\<close> and \<open>Out_of_range\<close> the exceptions of
  \<^verbatim>\<open>std::get\<close> and of the checked \<^verbatim>\<open>at\<close>, \<open>Length_error\<close> that of an oversized \<^verbatim>\<open>reserve\<close>,
  \<open>Imm_out_of_range\<close> the exception of the assembler, \<open>Exit\<close> an early return from \<^verbatim>\<open>main\<close>,
  \<open>Nontermination\<close> a loop that never ends, and
  \<open>Invalid_access\<close> an access to memory the program does not own (undefined behaviour of the
  source: null dereference, unchecked index out of range).
\<close>

datatype error =
    Terminate string
  | Assert_failure string
  | Runtime_error string
  | Bad_variant_access
  | Out_of_range
  | Length_error
  | Imm_out_of_range
  | Invalid_access
  | Exit int
  | Nontermination

type_synonym 'a result = "error + 'a"

definition and_then :: "'e + 'a \<Rightarrow> ('a \<Rightarrow> 'e + 'b) \<Rightarrow> 'e + 'b" where
  "and_then r f = (case r of Inl e \<Rightarrow> Inl e | Inr x \<Rightarrow> f x)"

definition assert_that :: "bool \<Rightarrow> string \<Rightarrow> unit result" where
  "assert_that b msg = (if b then Inr () else Inl (Assert_failure msg))"

named_theorems outcome_simps \<open>unfolding of fallible steps\<close>

lemma and_then_Inr [simp, outcome_simps]: "and_then (Inr x) f = f x"
  by (simp add: and_then_def)

lemma and_then_Inl [simp, outcome_simps]: "and_then (Inl e) f = Inl e"
  by (simp add: and_then_def)

lemma and_then_eq_Inr: "and_then r f = Inr y \<longleftrightarrow> (\<exists>x. r = Inr x \<and> f x = Inr y)"
  by (cases r) auto

lemma and_then_InrE:
  assumes "and_then r f = Inr y"
  obtains x where "r = Inr x" "f x = Inr y"
  using assms by (auto simp: and_then_eq_Inr)

lemma and_then_eq_Inl:
  "and_then r f = Inl e \<longleftrightarrow> r = Inl e \<or> (\<exists>x. r = Inr x \<and> f x = Inl e)"
  by (cases r) auto

lemma and_then_assoc: "and_then (and_then r f) g = and_then r (\<lambda>x. and_then (f x) g)"
  by (cases r) auto

lemma and_then_cong [fundef_cong]:
  "r = r' \<Longrightarrow> (\<And>x. r' = Inr x \<Longrightarrow> f x = g x) \<Longrightarrow> and_then r f = and_then r' g"
  by (cases r') auto

lemma assert_that_True [simp, outcome_simps]: "assert_that True msg = Inr ()"
  by (simp add: assert_that_def)

lemma assert_that_False [simp, outcome_simps]: "assert_that False msg = Inl (Assert_failure msg)"
  by (simp add: assert_that_def)

lemma assert_that_eq_Inr [simp]: "assert_that b msg = Inr u \<longleftrightarrow> b"
  by (simp add: assert_that_def)

section \<open>Containers\<close>

text \<open>
  \<^verbatim>\<open>std::vector::operator[]\<close> is unchecked: outside the vector it is an invalid access.
  \<^verbatim>\<open>std::array::at\<close> and \<^verbatim>\<open>std::vector::at\<close> throw.
\<close>

definition vec_index :: "'a list \<Rightarrow> nat \<Rightarrow> 'a result" where
  "vec_index xs i = (if i < length xs then Inr (xs ! i) else Inl Invalid_access)"

definition vec_at :: "'a list \<Rightarrow> nat \<Rightarrow> 'a result" where
  "vec_at xs i = (if i < length xs then Inr (xs ! i) else Inl Out_of_range)"

definition vec_store :: "'a list \<Rightarrow> nat \<Rightarrow> 'a \<Rightarrow> 'a list result" where
  "vec_store xs i v = (if i < length xs then Inr (xs[i := v]) else Inl Invalid_access)"

definition vec_at_store :: "'a list \<Rightarrow> nat \<Rightarrow> 'a \<Rightarrow> 'a list result" where
  "vec_at_store xs i v = (if i < length xs then Inr (xs[i := v]) else Inl Out_of_range)"

lemma vec_index_Inr [simp]: "i < length xs \<Longrightarrow> vec_index xs i = Inr (xs ! i)"
  by (simp add: vec_index_def)

lemma vec_at_Inr [simp]: "i < length xs \<Longrightarrow> vec_at xs i = Inr (xs ! i)"
  by (simp add: vec_at_def)

lemma vec_store_Inr [simp]: "i < length xs \<Longrightarrow> vec_store xs i v = Inr (xs[i := v])"
  by (simp add: vec_store_def)

lemma vec_at_store_Inr [simp]: "i < length xs \<Longrightarrow> vec_at_store xs i v = Inr (xs[i := v])"
  by (simp add: vec_at_store_def)

lemma vec_index_eq_Inr: "vec_index xs i = Inr v \<longleftrightarrow> i < length xs \<and> v = xs ! i"
  by (auto simp: vec_index_def)

lemma vec_store_eq_Inr: "vec_store xs i v = Inr ys \<longleftrightarrow> i < length xs \<and> ys = xs[i := v]"
  by (auto simp: vec_store_def)

text \<open>
  \<^verbatim>\<open>std::unordered_map::insert\<close> and \<^verbatim>\<open>emplace\<close> keep an existing entry;
  \<^verbatim>\<open>insert_or_assign\<close> overwrites it (plain map update).
\<close>

definition insert_new :: "'k \<Rightarrow> 'v \<Rightarrow> ('k \<rightharpoonup> 'v) \<Rightarrow> ('k \<rightharpoonup> 'v)" where
  "insert_new k v m = (case m k of None \<Rightarrow> m(k \<mapsto> v) | Some _ \<Rightarrow> m)"

lemma insert_new_present [simp]: "m k = Some w \<Longrightarrow> insert_new k v m = m"
  by (simp add: insert_new_def)

lemma insert_new_absent [simp]: "m k = None \<Longrightarrow> insert_new k v m = m(k \<mapsto> v)"
  by (simp add: insert_new_def)

lemma insert_new_lookup:
  "insert_new k v m k' = (if k' = k \<and> m k = None then Some v else m k')"
  by (simp add: insert_new_def split: option.splits)

lemma dom_insert_new [simp]: "dom (insert_new k v m) = insert k (dom m)"
  by (auto simp: insert_new_def split: option.splits)

lemma insert_new_mono: "m k' = Some w \<Longrightarrow> insert_new k v m k' = Some w"
  by (auto simp: insert_new_lookup)

section \<open>Words\<close>

lemma unat_of_nat_u32 [simp]: "n < 4294967296 \<Longrightarrow> unat (of_nat n :: u32) = n"
  by (simp add: unat_of_nat take_bit_nat_eq_self)

lemma unat_of_nat_u64 [simp]: "n < 18446744073709551616 \<Longrightarrow> unat (of_nat n :: u64) = n"
  by (simp add: unat_of_nat take_bit_nat_eq_self)

end
