(* ===== verification/Guest_Cpu.thy ===== *)
theory Guest_Cpu
  imports Sober_Prelude
begin

unbundle bit_operations_syntax

text \<open>
  The register file of the guest as the recompiler keeps it
  (\<^verbatim>\<open>subprojects/dynarmic/src/dynarmic/backend/x64/a64_jitstate.h\<close>), its accessors
  (\<^verbatim>\<open>a64_interface.cpp\<close>), the status and control registers (\<^verbatim>\<open>a64_jitstate.cpp\<close>,
  \<^verbatim>\<open>nzcv_util.h\<close>), and the memory callbacks of \<^verbatim>\<open>src/src/execution_context.cpp\<close>.  Guest and host
  share one address space; every address the callbacks touch is taken to be mapped.
\<close>

section \<open>Register state\<close>

record A64JitState =
  reg :: "u64 list"
  sp :: u64
  pc :: u64
  cpsr_nzcv :: u32
  vec :: "u64 list"
  guest_MXCSR :: u32
  asimd_MXCSR :: u32
  halt_reason :: u32
  exclusive_state :: u8
  rsb_ptr :: u32
  rsb_location_descriptors :: "u64 list"
  rsb_codeptrs :: "u64 list"
  fpsr_exc :: u32
  fpsr_qc :: u32
  fpcr :: u32

definition RSBSize :: nat where
  "RSBSize = 8"

definition ResetRSB :: "A64JitState \<Rightarrow> A64JitState" where
  "ResetRSB j = j\<lparr>rsb_location_descriptors := replicate RSBSize 0xFFFFFFFFFFFFFFFF,
                  rsb_codeptrs := replicate RSBSize 0\<rparr>"

definition new_A64JitState :: A64JitState where
  "new_A64JitState = ResetRSB
     \<lparr>reg = replicate 31 0, sp = 0, pc = 0, cpsr_nzcv = 0, vec = replicate 64 0,
      guest_MXCSR = 0x00001f80, asimd_MXCSR = 0x00009fc0, halt_reason = 0, exclusive_state = 0,
      rsb_ptr = 0, rsb_location_descriptors = [], rsb_codeptrs = [],
      fpsr_exc = 0, fpsr_qc = 0, fpcr = 0\<rparr>"

definition jit_state_wf :: "A64JitState \<Rightarrow> bool" where
  "jit_state_wf j \<longleftrightarrow> length (reg j) = 31 \<and> length (vec j) = 64"

section \<open>Accessors\<close>

definition GetSP :: "A64JitState \<Rightarrow> u64" where
  "GetSP j = sp j"

definition SetSP :: "u64 \<Rightarrow> A64JitState \<Rightarrow> A64JitState" where
  "SetSP v j = j\<lparr>sp := v\<rparr>"

definition GetPC :: "A64JitState \<Rightarrow> u64" where
  "GetPC j = pc j"

definition SetPC :: "u64 \<Rightarrow> A64JitState \<Rightarrow> A64JitState" where
  "SetPC v j = j\<lparr>pc := v\<rparr>"

definition GetRegister :: "nat \<Rightarrow> A64JitState \<Rightarrow> u64 result" where
  "GetRegister index j = (if index = 31 then Inr (GetSP j) else vec_at (reg j) index)"

definition SetRegister :: "nat \<Rightarrow> u64 \<Rightarrow> A64JitState \<Rightarrow> A64JitState result" where
  "SetRegister index v j =
     (if index = 31 then Inr (SetSP v j)
      else and_then (vec_at_store (reg j) index v) (\<lambda>rs. Inr (j\<lparr>reg := rs\<rparr>)))"

definition GetVector :: "nat \<Rightarrow> A64JitState \<Rightarrow> (u64 \<times> u64) result" where
  "GetVector index j =
     and_then (vec_at (vec j) (index * 2)) (\<lambda>lo.
     and_then (vec_at (vec j) (index * 2 + 1)) (\<lambda>hi. Inr (lo, hi)))"

definition SetVector :: "nat \<Rightarrow> u64 \<times> u64 \<Rightarrow> A64JitState \<Rightarrow> A64JitState result" where
  "SetVector index v j =
     and_then (vec_at_store (vec j) (index * 2) (fst v)) (\<lambda>vs.
     and_then (vec_at_store vs (index * 2 + 1) (snd v)) (\<lambda>vs'. Inr (j\<lparr>vec := vs'\<rparr>)))"

definition ClearExclusiveState :: "A64JitState \<Rightarrow> A64JitState" where
  "ClearExclusiveState j = j\<lparr>exclusive_state := 0\<rparr>"

definition HaltExecution :: "u32 \<Rightarrow> A64JitState \<Rightarrow> A64JitState" where
  "HaltExecution hr j = j\<lparr>halt_reason := halt_reason j OR hr\<rparr>"

definition ClearHalt :: "u32 \<Rightarrow> A64JitState \<Rightarrow> A64JitState" where
  "ClearHalt hr j = j\<lparr>halt_reason := halt_reason j AND NOT hr\<rparr>"

section \<open>Condition flags\<close>

definition ToX64 :: "u32 \<Rightarrow> u32" where
  "ToX64 nzcv = (drop_bit 28 nzcv * 0x1081) AND 0xC101"

definition FromX64 :: "u32 \<Rightarrow> u32" where
  "FromX64 x64_flags = ((x64_flags AND 0xC101) * 0x10210000) AND 0xF0000000"

text \<open>The bit-by-bit versions the comments of the source give as the naive implementation.\<close>

definition ToX64_naive :: "u32 \<Rightarrow> u32" where
  "ToX64_naive cpsr =
     (if bit cpsr 31 then push_bit 15 1 else 0) OR
     (if bit cpsr 30 then push_bit 14 1 else 0) OR
     (if bit cpsr 29 then push_bit 8 1 else 0) OR
     (if bit cpsr 28 then 1 else 0)"

definition FromX64_naive :: "u32 \<Rightarrow> u32" where
  "FromX64_naive x64_flags =
     (if bit x64_flags 15 then push_bit 31 1 else 0) OR
     (if bit x64_flags 14 then push_bit 30 1 else 0) OR
     (if bit x64_flags 8 then push_bit 29 1 else 0) OR
     (if bit x64_flags 0 then push_bit 28 1 else 0)"

definition GetPstate :: "A64JitState \<Rightarrow> u32" where
  "GetPstate j = FromX64 (cpsr_nzcv j)"

definition SetPstate :: "u32 \<Rightarrow> A64JitState \<Rightarrow> A64JitState" where
  "SetPstate v j = j\<lparr>cpsr_nzcv := ToX64 v\<rparr>"

section \<open>Floating-point control and status\<close>

definition FPCR_MASK :: u32 where
  "FPCR_MASK = 0x07C89F00"

definition GetFpcr :: "A64JitState \<Rightarrow> u32" where
  "GetFpcr j = fpcr j"

definition MXCSR_RMode :: "u32 list" where
  "MXCSR_RMode = [0x0, 0x4000, 0x2000, 0x6000]"

definition SetFpcr :: "u32 \<Rightarrow> A64JitState \<Rightarrow> A64JitState" where
  "SetFpcr value j =
     (let asimd = (asimd_MXCSR j AND 0x3D) OR 0x1f80;
          guest0 = (guest_MXCSR j AND 0x3D) OR 0x1f80;
          guest1 = guest0 OR (MXCSR_RMode ! unat (drop_bit 22 value AND 0x3));
          guest2 = (if bit value 24 then (guest1 OR push_bit 15 1) OR push_bit 6 1 else guest1)
      in j\<lparr>fpcr := value AND FPCR_MASK, asimd_MXCSR := asimd, guest_MXCSR := guest2\<rparr>)"

definition GetFpsr :: "A64JitState \<Rightarrow> u32" where
  "GetFpsr j =
     (let mxcsr = guest_MXCSR j OR asimd_MXCSR j
      in (((mxcsr AND 0x1) OR drop_bit 1 (mxcsr AND 0x3C)) OR fpsr_exc j) OR
         push_bit 27 (if fpsr_qc j = 0 then 0 else 1))"

definition SetFpsr :: "u32 \<Rightarrow> A64JitState \<Rightarrow> A64JitState" where
  "SetFpsr value j =
     j\<lparr>guest_MXCSR := guest_MXCSR j AND NOT 0x3D,
       asimd_MXCSR := asimd_MXCSR j AND NOT 0x3D,
       fpsr_qc := drop_bit 27 value AND 1,
       fpsr_exc := value AND 0x9F\<rparr>"

section \<open>Memory callbacks\<close>

type_synonym memory = "u64 \<Rightarrow> u8"

text \<open>A value of \<open>n\<close> bytes as the byte list \<^verbatim>\<open>memcpy\<close> moves, least significant byte first.\<close>

fun load_bytes :: "nat \<Rightarrow> u64 \<Rightarrow> memory \<Rightarrow> u8 list" where
  "load_bytes 0 a m = []"
| "load_bytes (Suc n) a m = m a # load_bytes n (a + 1) m"

primrec store_bytes :: "u8 list \<Rightarrow> u64 \<Rightarrow> memory \<Rightarrow> memory" where
  "store_bytes [] a m = m"
| "store_bytes (b # bs) a m = (store_bytes bs (a + 1) m)(a := b)"

fun bytes_of :: "nat \<Rightarrow> 'a::len word \<Rightarrow> u8 list" where
  "bytes_of 0 w = []"
| "bytes_of (Suc n) w = ucast w # bytes_of n (drop_bit 8 w)"

fun word_of_bytes :: "u8 list \<Rightarrow> 'a::len word" where
  "word_of_bytes [] = 0"
| "word_of_bytes (b # bs) = ucast b OR push_bit 8 (word_of_bytes bs)"

definition read_mem :: "nat \<Rightarrow> u64 \<Rightarrow> memory \<Rightarrow> 'a::len word" where
  "read_mem n vaddr m = word_of_bytes (load_bytes n vaddr m)"

definition write_mem :: "nat \<Rightarrow> u64 \<Rightarrow> 'a::len word \<Rightarrow> memory \<Rightarrow> memory" where
  "write_mem n vaddr v m = store_bytes (bytes_of n v) vaddr m"

definition MemoryReadCode :: "u64 \<Rightarrow> memory \<Rightarrow> u32 option" where
  "MemoryReadCode vaddr m = Some (read_mem 4 vaddr m)"

definition MemoryRead8 :: "u64 \<Rightarrow> memory \<Rightarrow> u8" where
  "MemoryRead8 vaddr m = read_mem 1 vaddr m"

definition MemoryRead16 :: "u64 \<Rightarrow> memory \<Rightarrow> u16" where
  "MemoryRead16 vaddr m = read_mem 2 vaddr m"

definition MemoryRead32 :: "u64 \<Rightarrow> memory \<Rightarrow> u32" where
  "MemoryRead32 vaddr m = read_mem 4 vaddr m"

definition MemoryRead64 :: "u64 \<Rightarrow> memory \<Rightarrow> u64" where
  "MemoryRead64 vaddr m = read_mem 8 vaddr m"

definition MemoryRead128 :: "u64 \<Rightarrow> memory \<Rightarrow> u64 \<times> u64" where
  "MemoryRead128 vaddr m = (read_mem 8 vaddr m, read_mem 8 (vaddr + 8) m)"

definition MemoryWrite8 :: "u64 \<Rightarrow> u8 \<Rightarrow> memory \<Rightarrow> memory" where
  "MemoryWrite8 vaddr v m = write_mem 1 vaddr v m"

definition MemoryWrite16 :: "u64 \<Rightarrow> u16 \<Rightarrow> memory \<Rightarrow> memory" where
  "MemoryWrite16 vaddr v m = write_mem 2 vaddr v m"

definition MemoryWrite32 :: "u64 \<Rightarrow> u32 \<Rightarrow> memory \<Rightarrow> memory" where
  "MemoryWrite32 vaddr v m = write_mem 4 vaddr v m"

definition MemoryWrite64 :: "u64 \<Rightarrow> u64 \<Rightarrow> memory \<Rightarrow> memory" where
  "MemoryWrite64 vaddr v m = write_mem 8 vaddr v m"

definition MemoryWrite128 :: "u64 \<Rightarrow> u64 \<times> u64 \<Rightarrow> memory \<Rightarrow> memory" where
  "MemoryWrite128 vaddr v m = write_mem 8 (vaddr + 8) (snd v) (write_mem 8 vaddr (fst v) m)"

text \<open>\<^verbatim>\<open>__sync_bool_compare_and_swap\<close>: store the value exactly when memory holds the expected one.\<close>

definition write_exclusive ::
    "nat \<Rightarrow> u64 \<Rightarrow> 'a::len word \<Rightarrow> 'a word \<Rightarrow> memory \<Rightarrow> bool \<times> memory" where
  "write_exclusive n ptr v expected m =
     (if read_mem n ptr m = expected then (True, write_mem n ptr v m) else (False, m))"

definition MemoryWriteExclusive8 :: "u64 \<Rightarrow> u8 \<Rightarrow> u8 \<Rightarrow> memory \<Rightarrow> bool \<times> memory" where
  "MemoryWriteExclusive8 = write_exclusive 1"

definition MemoryWriteExclusive16 :: "u64 \<Rightarrow> u16 \<Rightarrow> u16 \<Rightarrow> memory \<Rightarrow> bool \<times> memory" where
  "MemoryWriteExclusive16 = write_exclusive 2"

definition MemoryWriteExclusive32 :: "u64 \<Rightarrow> u32 \<Rightarrow> u32 \<Rightarrow> memory \<Rightarrow> bool \<times> memory" where
  "MemoryWriteExclusive32 = write_exclusive 4"

definition MemoryWriteExclusive64 :: "u64 \<Rightarrow> u64 \<Rightarrow> u64 \<Rightarrow> memory \<Rightarrow> bool \<times> memory" where
  "MemoryWriteExclusive64 = write_exclusive 8"

definition MemoryWriteExclusive128 ::
    "u64 \<Rightarrow> u64 \<times> u64 \<Rightarrow> u64 \<times> u64 \<Rightarrow> memory \<Rightarrow> bool \<times> memory" where
  "MemoryWriteExclusive128 vaddr v expected m = (True, MemoryWrite128 vaddr v m)"

text \<open>Two blocks of memory with no common address (the 64-bit address space wraps around).\<close>

definition disjoint_blocks :: "u64 \<Rightarrow> nat \<Rightarrow> u64 \<Rightarrow> nat \<Rightarrow> bool" where
  "disjoint_blocks a n b k \<longleftrightarrow> (\<forall>i<n. \<forall>j<k. a + of_nat i \<noteq> b + of_nat j)"

section \<open>Accessor lemmas\<close>

lemma jit_state_wf_new [simp]: "jit_state_wf new_A64JitState"
  by (simp add: jit_state_wf_def new_A64JitState_def ResetRSB_def)

lemma GetRegister_wf [simp]:
  "jit_state_wf j \<Longrightarrow> i < 31 \<Longrightarrow> GetRegister i j = Inr (reg j ! i)"
  by (simp add: GetRegister_def jit_state_wf_def)

lemma SetRegister_wf [simp]:
  "jit_state_wf j \<Longrightarrow> i < 31 \<Longrightarrow> SetRegister i v j = Inr (j\<lparr>reg := (reg j)[i := v]\<rparr>)"
  by (simp add: SetRegister_def jit_state_wf_def)

lemma GetVector_wf [simp]:
  "jit_state_wf j \<Longrightarrow> i < 32 \<Longrightarrow> GetVector i j = Inr (vec j ! (i * 2), vec j ! (i * 2 + 1))"
  by (simp add: GetVector_def jit_state_wf_def)

lemma SetVector_wf [simp]:
  "jit_state_wf j \<Longrightarrow> i < 32 \<Longrightarrow>
   SetVector i v j = Inr (j\<lparr>vec := (vec j)[i * 2 := fst v, i * 2 + 1 := snd v]\<rparr>)"
  by (simp add: SetVector_def jit_state_wf_def)

lemma jit_state_wf_updates [simp]:
  "jit_state_wf (j\<lparr>reg := (reg j)[i := v]\<rparr>) = jit_state_wf j"
  "jit_state_wf (j\<lparr>vec := (vec j)[k := w]\<rparr>) = jit_state_wf j"
  "jit_state_wf (j\<lparr>vec := (vec j)[k := w, k' := w']\<rparr>) = jit_state_wf j"
  "jit_state_wf (j\<lparr>sp := a\<rparr>) = jit_state_wf j"
  "jit_state_wf (j\<lparr>pc := a\<rparr>) = jit_state_wf j"
  "jit_state_wf (j\<lparr>exclusive_state := e\<rparr>) = jit_state_wf j"
  "jit_state_wf (j\<lparr>halt_reason := h\<rparr>) = jit_state_wf j"
  by (simp_all add: jit_state_wf_def)

lemma SetRegister_preserves_wf:
  "jit_state_wf j \<Longrightarrow> SetRegister i v j = Inr j' \<Longrightarrow> jit_state_wf j'"
  by (auto simp: SetRegister_def SetSP_def vec_at_store_def and_then_eq_Inr jit_state_wf_def
      split: if_splits)

lemma SetVector_preserves_wf:
  "jit_state_wf j \<Longrightarrow> SetVector i v j = Inr j' \<Longrightarrow> jit_state_wf j'"
  by (auto simp: SetVector_def vec_at_store_def and_then_eq_Inr jit_state_wf_def split: if_splits)

section \<open>Condition flags: the multiplications select the right bits\<close>

lemma and_single_bit: "(x :: 'a::len word) AND push_bit n 1 = (if bit x n then push_bit n 1 else 0)"
  by (rule bit_eqI) (auto simp: bit_simps)

lemma drop28_cases:
  fixes x :: u32
  obtains k where "k < 16" "drop_bit 28 x = of_nat k"
proof -
  have "unat x < 2 ^ LENGTH(32)" by (rule unsigned_less)
  moreover have "unat (drop_bit 28 x) = drop_bit 28 (unat x)" by (rule unat_drop_bit_eq)
  ultimately have "unat (drop_bit 28 x) < 16"
    by (simp only: drop_bit_eq_div) (simp add: less_mult_imp_div_less)
  then show thesis using that [of "unat (drop_bit 28 x)"] by simp
qed

lemma bit_via_drop28: "bit (x :: u32) (28 + n) = bit (drop_bit 28 x) n"
  by (simp add: bit_drop_bit_eq)

lemma ToX64_eq_naive: "ToX64 x = ToX64_naive x"
proof -
  obtain k where k: "k < 16" "drop_bit 28 x = of_nat k" by (rule drop28_cases)
  have b: "bit x 31 = bit (of_nat k :: u32) 3" "bit x 30 = bit (of_nat k :: u32) 2"
    "bit x 29 = bit (of_nat k :: u32) 1" "bit x 28 = bit (of_nat k :: u32) 0"
    using bit_via_drop28 [of x 3] bit_via_drop28 [of x 2] bit_via_drop28 [of x 1]
      bit_via_drop28 [of x 0] k(2) by simp_all
  have "k \<in> {0, 1, 2, 3, 4, 5, 6, 7, 8, 9, 10, 11, 12, 13, 14, 15}"
    using k(1) unfolding insert_iff empty_iff by arith
  then show ?thesis
    unfolding ToX64_def ToX64_naive_def k(2) b by auto
qed

lemma x64_mask_bits:
  "(x :: u32) AND 0xC101 =
     (if bit x 15 then 0x8000 else 0) OR (if bit x 14 then 0x4000 else 0) OR
     (if bit x 8 then 0x100 else 0) OR (if bit x 0 then 1 else 0)"
proof -
  have "(0xC101 :: u32) = push_bit 15 1 OR push_bit 14 1 OR push_bit 8 1 OR push_bit 0 1"
    by simp
  then have "x AND 0xC101 = (x AND push_bit 15 1) OR (x AND push_bit 14 1) OR
      (x AND push_bit 8 1) OR (x AND push_bit 0 1)"
    by (simp only: bit.conj_disj_distrib)
  then show ?thesis unfolding and_single_bit by simp
qed

lemma FromX64_eq_naive: "FromX64 x = FromX64_naive x"
  unfolding FromX64_def x64_mask_bits FromX64_naive_def by simp

lemma arm_mask_bits:
  "(x :: u32) AND 0xF0000000 =
     (if bit x 31 then 0x80000000 else 0) OR (if bit x 30 then 0x40000000 else 0) OR
     (if bit x 29 then 0x20000000 else 0) OR (if bit x 28 then 0x10000000 else 0)"
proof -
  have "(0xF0000000 :: u32) = push_bit 31 1 OR push_bit 30 1 OR push_bit 29 1 OR push_bit 28 1"
    by simp
  then have "x AND 0xF0000000 = (x AND push_bit 31 1) OR (x AND push_bit 30 1) OR
      (x AND push_bit 29 1) OR (x AND push_bit 28 1)"
    by (simp only: bit.conj_disj_distrib)
  then show ?thesis unfolding and_single_bit by simp
qed

lemma FromX64_ToX64: "FromX64 (ToX64 x) = x AND 0xF0000000"
  unfolding FromX64_eq_naive ToX64_eq_naive arm_mask_bits
  unfolding FromX64_naive_def ToX64_naive_def by (simp add: bit_simps)

lemma ToX64_FromX64: "ToX64 (FromX64 y) = y AND 0xC101"
  unfolding FromX64_eq_naive ToX64_eq_naive x64_mask_bits
  unfolding FromX64_naive_def ToX64_naive_def by (simp add: bit_simps)

section \<open>Floating-point status\<close>

lemma and_conj_simps:
  "((x :: u32) AND 0x3D) AND 0x1 = x AND 0x1"
  "(x AND 0x3D) AND 0x3C = x AND 0x3C"
  "(x AND - 62) AND 0x1 = 0"
  "(x AND - 62) AND 0x3C = 0"
  by (simp_all add: and.assoc)

lemma MXCSR_RMode_flags:
  "(MXCSR_RMode ! unat (drop_bit 22 v AND (0x3 :: u32))) AND 0x1 = 0"
  "(MXCSR_RMode ! unat (drop_bit 22 v AND (0x3 :: u32))) AND 0x3C = 0"
proof -
  have "drop_bit 22 v AND (0x3 :: u32) = take_bit 2 (drop_bit 22 v)"
    by (simp add: take_bit_eq_mask mask_eq_exp_minus_1)
  then have "unat (drop_bit 22 v AND (0x3 :: u32)) = take_bit 2 (unat (drop_bit 22 v))"
    by (simp only: unsigned_take_bit_eq)
  then have "unat (drop_bit 22 v AND (0x3 :: u32)) < 4"
    using take_bit_nat_less_exp [of 2 "unat (drop_bit 22 v)"] by simp
  then have "unat (drop_bit 22 v AND (0x3 :: u32)) \<in> {0, 1, 2, 3}"
    unfolding insert_iff empty_iff by arith
  then show "(MXCSR_RMode ! unat (drop_bit 22 v AND (0x3 :: u32))) AND 0x1 = 0"
    "(MXCSR_RMode ! unat (drop_bit 22 v AND (0x3 :: u32))) AND 0x3C = 0"
    by (auto simp: MXCSR_RMode_def)
qed

lemma GetFpsr_SetFpcr: "GetFpsr (SetFpcr v j) = GetFpsr j"
  by (simp add: GetFpsr_def SetFpcr_def Let_def bit.conj_disj_distrib2 and_conj_simps
      MXCSR_RMode_flags del: drop_bit_and)

lemma GetFpsr_SetFpsr: "GetFpsr (SetFpsr v j) = v AND 0x0800009F"
proof -
  have q: "drop_bit 27 v AND 1 = (if bit v 27 then 1 else 0)"
    by (simp add: and_one_eq bit_iff_odd_drop_bit odd_iff_mod_2_eq_one)
  have "(0x0800009F :: u32) = 0x9F OR push_bit 27 1" by simp
  then have "v AND 0x0800009F = (v AND 0x9F) OR (v AND push_bit 27 1)"
    by (simp only: bit.conj_disj_distrib)
  then have "v AND 0x0800009F = (v AND 0x9F) OR (if bit v 27 then push_bit 27 1 else 0)"
    unfolding and_single_bit .
  then show ?thesis
    by (simp add: GetFpsr_def SetFpsr_def Let_def bit.conj_disj_distrib2 and_conj_simps q
        del: drop_bit_and)
qed

section \<open>Memory round trips\<close>

lemma length_load_bytes [simp]: "length (load_bytes n a m) = n"
  by (induction n arbitrary: a) auto

lemma length_bytes_of [simp]: "length (bytes_of n w) = n"
  by (induction n arbitrary: w) auto

lemma load_bytes_other:
  "(\<And>i. i < n \<Longrightarrow> a + of_nat i \<noteq> b) \<Longrightarrow> load_bytes n a (m(b := v)) = load_bytes n a m"
proof (induction n arbitrary: a)
  case (Suc n)
  have "a \<noteq> b" using Suc.prems [of 0] by simp
  moreover have "(a + 1) + of_nat i \<noteq> b" if "i < n" for i
    using Suc.prems [of "Suc i"] that by (simp add: algebra_simps)
  ultimately show ?case using Suc.IH [of "a + 1"] by simp
qed simp

lemma of_nat_u64_nonzero: "0 < n \<Longrightarrow> n < 18446744073709551616 \<Longrightarrow> (of_nat n :: u64) \<noteq> 0"
  by (metis less_numeral_extra(3) unat_0 unat_of_nat_u64)

lemma load_store_bytes:
  "length bs \<le> 4294967296 \<Longrightarrow> load_bytes (length bs) a (store_bytes bs a m) = bs"
proof (induction bs arbitrary: a)
  case (Cons b bs)
  have "(a + 1) + of_nat i \<noteq> a" if "i < length bs" for i
    using of_nat_u64_nonzero [of "Suc i"] that Cons.prems by (simp add: algebra_simps)
  then have "load_bytes (length bs) (a + 1) ((store_bytes bs (a + 1) m)(a := b)) = bs"
    using Cons by (subst load_bytes_other) simp_all
  then show ?case by (simp del: fun_upd_apply add: fun_upd_same)
qed simp

lemma store_bytes_other:
  "(\<And>i. i < length bs \<Longrightarrow> a + of_nat i \<noteq> x) \<Longrightarrow> store_bytes bs a m x = m x"
proof (induction bs arbitrary: a)
  case (Cons b bs)
  have "(a + 1) + of_nat i \<noteq> x" if "i < length bs" for i
    using Cons.prems [of "Suc i"] that by (simp add: algebra_simps)
  then show ?case using Cons.IH [of "a + 1"] Cons.prems [of 0] by simp
qed simp

lemma word_of_bytes_of:
  "word_of_bytes (bytes_of n (w :: 'a::len word)) = take_bit (8 * n) w"
proof (induction n arbitrary: w)
  case (Suc n)
  show ?case
    by (rule bit_eqI) (auto simp: Suc bit_simps not_less)
qed simp


lemma read_write_mem:
  fixes v :: "'a::len word"
  assumes "8 * n = LENGTH('a)" and "n \<le> 16"
  shows "read_mem n a (write_mem n a v m) = v"
proof -
  have "load_bytes n a (store_bytes (bytes_of n v) a m) = bytes_of n v"
    using load_store_bytes [of "bytes_of n v" a m] assms(2) by simp
  then show ?thesis
    using assms(1) by (simp add: read_mem_def write_mem_def word_of_bytes_of)
qed

lemma load_bytes_cong:
  "(\<And>i. i < n \<Longrightarrow> m (a + of_nat i) = m' (a + of_nat i)) \<Longrightarrow> load_bytes n a m = load_bytes n a m'"
proof (induction n arbitrary: a)
  case (Suc n)
  have "m ((a + 1) + of_nat i) = m' ((a + 1) + of_nat i)" if "i < n" for i
    using Suc.prems [of "Suc i"] that by (simp add: algebra_simps)
  then show ?case using Suc.IH [of "a + 1"] Suc.prems [of 0] by simp
qed simp

lemma read_write_other:
  "disjoint_blocks a n b k \<Longrightarrow> read_mem n a (write_mem k b v m) = read_mem n a m"
  unfolding read_mem_def write_mem_def
  by (rule arg_cong [where f = word_of_bytes], rule load_bytes_cong, rule store_bytes_other)
    (auto simp: disjoint_blocks_def eq_commute)

lemma disjoint_within:
  assumes "of_nat x + n \<le> y \<or> y + k \<le> x" "x + n < 4294967296" "y + k < 4294967296"
  shows "disjoint_blocks (base + of_nat x) n (base + of_nat y) k"
  unfolding disjoint_blocks_def
proof (intro allI impI notI)
  fix i j assume ij: "i < n" "j < k" and eq: "base + of_nat x + of_nat i = base + of_nat y + of_nat j"
  have "(of_nat (x + i) :: u64) = of_nat (y + j)" using eq by (simp add: algebra_simps)
  then have "x + i = y + j"
    using assms(2,3) ij unat_of_nat_u64 [of "x + i"] unat_of_nat_u64 [of "y + j"] by auto
  then show False using assms(1) ij by auto
qed

section \<open>Properties\<close>

text \<open>
  C25.  The multiplication-based conversions between the AArch64 condition flags and the x86 flag
  layout compute what the bit-by-bit versions in the comments compute, and writing then reading
  the processor state keeps exactly the N, Z, C and V bits.
\<close>

theorem nzcv_conversions_correct:
  "ToX64 x = ToX64_naive x \<and> FromX64 y = FromX64_naive y \<and>
   GetPstate (SetPstate x j) = x AND 0xF0000000 \<and> ToX64 (FromX64 y) = y AND 0xC101"
  by (simp add: ToX64_eq_naive [symmetric] FromX64_eq_naive [symmetric] GetPstate_def SetPstate_def
      FromX64_ToX64 ToX64_FromX64)

text \<open>
  The floating-point status register: a value written by the guest is read back on all its
  implemented bits (the cumulative exception bits and QC), no matter which exception flags the
  host control words had; writing the control register keeps the status register, and is itself
  read back on its implemented bits.
\<close>

theorem fp_status_correct:
  "GetFpsr (SetFpsr v j) = v AND 0x0800009F \<and> GetFpsr (SetFpcr w j) = GetFpsr j \<and>
   GetFpcr (SetFpcr w j) = w AND FPCR_MASK \<and> GetFpcr (SetFpsr v j) = GetFpcr j"
  by (simp add: GetFpsr_SetFpsr GetFpsr_SetFpcr GetFpcr_def)
    (simp add: SetFpcr_def SetFpsr_def Let_def)

text \<open>
  The memory callbacks are little-endian and consistent: at every width a read returns what
  the last write at that address stored, an exclusive write succeeds exactly when memory still
  holds the expected value and otherwise changes nothing, and a write is invisible to reads of
  addresses outside its block.
\<close>

theorem memory_callbacks_correct:
  "MemoryRead8 a (MemoryWrite8 a vb m) = vb \<and>
   MemoryRead16 a (MemoryWrite16 a vh m) = vh \<and>
   MemoryRead32 a (MemoryWrite32 a vw m) = vw \<and>
   MemoryRead64 a (MemoryWrite64 a vd m) = vd \<and>
   MemoryRead128 a (MemoryWrite128 a vq m) = vq \<and>
   MemoryReadCode a (MemoryWrite32 a vw m) = Some vw \<and>
   (MemoryWriteExclusive64 a vd (MemoryRead64 a m) m = (True, MemoryWrite64 a vd m)) \<and>
   (MemoryRead64 a m \<noteq> ed \<longrightarrow> MemoryWriteExclusive64 a vd ed m = (False, m)) \<and>
   (disjoint_blocks b 8 a 8 \<longrightarrow> MemoryRead64 b (MemoryWrite64 a vd m) = MemoryRead64 b m)"
proof -
  have dis: "disjoint_blocks a 8 (a + 8) 8"
    using disjoint_within [of 0 8 8 8 a] by simp
  have "(read_mem 8 a (write_mem 8 (a + 8) (snd vq) (write_mem 8 a (fst vq) m)) :: u64) = fst vq"
    by (simp add: read_write_other [OF dis] read_write_mem)
  then show ?thesis
    by (auto simp: MemoryRead8_def MemoryWrite8_def MemoryRead16_def MemoryWrite16_def
        MemoryRead32_def MemoryWrite32_def MemoryRead64_def MemoryWrite64_def MemoryRead128_def
        MemoryWrite128_def MemoryReadCode_def MemoryWriteExclusive64_def write_exclusive_def
        read_write_mem read_write_other)
qed

theorem memory_callbacks_correct_witness:
  "MemoryRead64 0x40 (MemoryWrite64 0x10 7 (\<lambda>_. 1)) = MemoryRead64 0x40 (\<lambda>_. 1) \<and>
   MemoryRead64 0x10 (MemoryWrite64 0x10 7 (\<lambda>_. 1)) = 7"
proof -
  have "disjoint_blocks 0x40 8 0x10 8" using disjoint_within [of "0x40" 8 "0x10" 8 0] by simp
  then show ?thesis
    using memory_callbacks_correct [where a = "0x10" and b = "0x40" and vd = 7 and m = "\<lambda>_. 1"] by blast
qed

end
