(* ===== verification/Function_Traits.thy ===== *)
theory Function_Traits
  imports Sober_Prelude
begin

text \<open>
  \<^verbatim>\<open>src/src/function_traits.hpp\<close>: the classification of C++ parameter and result types into
  \<open>FunctionArgumentType\<close>, the vector of classes of a function (\<^verbatim>\<open>types[0]\<close> is the result),
  and \<open>dynamic_symbol\<close>, the description of one exported symbol.
\<close>

datatype FunctionArgumentType =
    unsupported
  | none
  | signed_byte
  | signed_halfword
  | signed_word
  | signed_doubleword
  | unsigned_byte
  | unsigned_halfword
  | unsigned_word
  | unsigned_doubleword
  | single_precision_fp
  | double_precision_fp
  | pointer
  | variadic_list

text \<open>
  The C++ types the overloads distinguish; \<open>COther n\<close> is any other type of size \<open>n\<close> (plain
  \<^verbatim>\<open>char\<close>, enumerations, structs passed by value).  \<open>CVaList\<close> is the decayed \<^verbatim>\<open>va_list\<close>, which is
  tested before \<^verbatim>\<open>is_pointer\<close>.
\<close>

datatype cxx_type =
    CUnsignedChar | CBool | CSignedChar | CShort | CUnsignedShort | CInt | CUnsignedInt
  | CLong | CUnsignedLong | CLongLong | CUnsignedLongLong | CFloat | CDouble
  | CVaList | CPointer | CVoid | COther nat

definition function_argument_is_float :: "FunctionArgumentType \<Rightarrow> bool" where
  "function_argument_is_float t \<longleftrightarrow> t = single_precision_fp \<or> t = double_precision_fp"

fun get_argument_type :: "cxx_type \<Rightarrow> FunctionArgumentType" where
  "get_argument_type CUnsignedChar = unsigned_byte"
| "get_argument_type CBool = unsigned_byte"
| "get_argument_type CSignedChar = signed_byte"
| "get_argument_type CShort = signed_halfword"
| "get_argument_type CUnsignedShort = unsigned_halfword"
| "get_argument_type CInt = signed_word"
| "get_argument_type CUnsignedInt = unsigned_word"
| "get_argument_type CLong = signed_doubleword"
| "get_argument_type CUnsignedLong = unsigned_doubleword"
| "get_argument_type CLongLong = signed_doubleword"
| "get_argument_type CUnsignedLongLong = unsigned_doubleword"
| "get_argument_type CFloat = single_precision_fp"
| "get_argument_type CDouble = double_precision_fp"
| "get_argument_type CVaList = variadic_list"
| "get_argument_type CPointer = pointer"
| "get_argument_type CVoid = none"
| "get_argument_type (COther n) =
    (if n = 1 then unsigned_byte
     else if n = 2 then unsigned_halfword
     else if n = 4 then unsigned_word
     else if n = 8 then unsigned_doubleword
     else unsupported)"

text \<open>\<^verbatim>\<open>get_function_argument_types\<close>: the result type first, then the parameters in order.\<close>

definition get_function_argument_types :: "cxx_type \<Rightarrow> cxx_type list \<Rightarrow> FunctionArgumentType list" where
  "get_function_argument_types ret args = get_argument_type ret # map get_argument_type args"

datatype Tag = TagNone | HasExecutionSideEffects

record dynamic_symbol =
  sym_name :: string
  sym_value :: u64
  sym_arg_types :: "FunctionArgumentType list"
  sym_is_ellipsis_function :: bool
  sym_has_execution_side_effects :: bool

definition apply_tag :: "dynamic_symbol \<Rightarrow> Tag \<Rightarrow> dynamic_symbol" where
  "apply_tag s tag =
     (if tag = HasExecutionSideEffects then s\<lparr>sym_has_execution_side_effects := True\<rparr> else s)"

definition dynamic_symbol_data :: "string \<Rightarrow> u64 \<Rightarrow> dynamic_symbol" where
  "dynamic_symbol_data name value =
     \<lparr>sym_name = name, sym_value = value, sym_arg_types = [],
      sym_is_ellipsis_function = False, sym_has_execution_side_effects = False\<rparr>"

definition dynamic_symbol_function ::
    "string \<Rightarrow> u64 \<Rightarrow> cxx_type \<Rightarrow> cxx_type list \<Rightarrow> dynamic_symbol" where
  "dynamic_symbol_function name ptr ret args =
     \<lparr>sym_name = name, sym_value = ptr, sym_arg_types = get_function_argument_types ret args,
      sym_is_ellipsis_function = False, sym_has_execution_side_effects = False\<rparr>"

definition dynamic_symbol_ellipsis ::
    "string \<Rightarrow> u64 \<Rightarrow> cxx_type \<Rightarrow> cxx_type list \<Rightarrow> dynamic_symbol" where
  "dynamic_symbol_ellipsis name ptr ret args =
     \<lparr>sym_name = name, sym_value = ptr, sym_arg_types = get_function_argument_types ret args,
      sym_is_ellipsis_function = True, sym_has_execution_side_effects = False\<rparr>"

definition dynamic_symbol_tagged ::
    "Tag \<Rightarrow> string \<Rightarrow> u64 \<Rightarrow> cxx_type \<Rightarrow> cxx_type list \<Rightarrow> dynamic_symbol" where
  "dynamic_symbol_tagged tag name ptr ret args =
     apply_tag (dynamic_symbol_function name ptr ret args) tag"

definition dynamic_symbol_tagged_ellipsis ::
    "Tag \<Rightarrow> string \<Rightarrow> u64 \<Rightarrow> cxx_type \<Rightarrow> cxx_type list \<Rightarrow> dynamic_symbol" where
  "dynamic_symbol_tagged_ellipsis tag name ptr ret args =
     apply_tag (dynamic_symbol_ellipsis name ptr ret args) tag"

section \<open>Classes of arguments\<close>

text \<open>The integer-like classes, which travel in general registers.\<close>

fun is_int_class :: "FunctionArgumentType \<Rightarrow> bool" where
  "is_int_class unsupported = False"
| "is_int_class none = False"
| "is_int_class single_precision_fp = False"
| "is_int_class double_precision_fp = False"
| "is_int_class variadic_list = False"
| "is_int_class _ = True"

lemma arg_class_cases:
  obtains (int_class) "is_int_class t" | (float_class) "function_argument_is_float t"
    | (va_class) "t = variadic_list" | (bad_class) "t = none \<or> t = unsupported"
  by (cases t) (auto simp: function_argument_is_float_def)

lemma int_class_not_float [simp]: "is_int_class t \<Longrightarrow> \<not> function_argument_is_float t"
  by (cases t) (auto simp: function_argument_is_float_def)

lemma get_function_argument_types_nonempty [simp]: "get_function_argument_types ret args \<noteq> []"
  by (simp add: get_function_argument_types_def)

lemma apply_tag_fields [simp]:
  "sym_name (apply_tag s tag) = sym_name s"
  "sym_value (apply_tag s tag) = sym_value s"
  "sym_arg_types (apply_tag s tag) = sym_arg_types s"
  "sym_is_ellipsis_function (apply_tag s tag) = sym_is_ellipsis_function s"
  by (simp_all add: apply_tag_def)

end
