(* ===== verification/Trampolines.thy ===== *)
theory Trampolines
  imports Function_Traits
begin

unbundle bit_operations_syntax

text \<open>
  \<^verbatim>\<open>src/src/trampoline.cpp\<close>: the table of host functions the guest can reach.  Each entry owns
  two instruction words of the guest-visible code buffer, \<^verbatim>\<open>SVC #(id + 0x10)\<close> and \<^verbatim>\<open>RET\<close>; word 0 of
  the buffer is the \<^verbatim>\<open>YIELD\<close> that ends a guest run.  The instruction encodings are those of the
  assembler under \<^verbatim>\<open>subprojects/dynarmic/externals/oaknut\<close>.
\<close>

section \<open>State\<close>

record Trampoline =
  tr_name :: string
  tr_id :: u32
  native_func :: u64
  types :: "FunctionArgumentType list"
  is_ellipsis_function :: bool
  has_execution_side_effects :: bool
  guest_trampoline :: u64

text \<open>
  \<open>trampoline_code\<close> is the base pointer (0 is \<^verbatim>\<open>nullptr\<close>, -1 is \<^verbatim>\<open>MAP_FAILED\<close>), \<open>code_words\<close> the
  words of the mapping behind it (none while nothing is mapped).
\<close>

record trampoline_state =
  trampolines :: "Trampoline list"
  trampoline_code :: u64
  code_words :: "u32 list"
  trampoline_code_index :: nat
  temp_code_gen_buf :: "u32 list"
  guest_exit_trampoline :: u64

definition trampoline_id_offset :: u32 where
  "trampoline_id_offset = 0x10"

definition trampoline_code_size :: nat where
  "trampoline_code_size = 4 * 2 * 8192"

definition initial_trampoline_state :: trampoline_state where
  "initial_trampoline_state =
     \<lparr>trampolines = [], trampoline_code = 0, code_words = [], trampoline_code_index = 0,
      temp_code_gen_buf = [], guest_exit_trampoline = 0\<rparr>"

section \<open>Instruction encodings\<close>

definition YIELD :: "u32 list \<Rightarrow> u32 list" where
  "YIELD buf = buf @ [0xd503203f]"

definition RET :: "u32 list \<Rightarrow> u32 list" where
  "RET buf = buf @ [0xd65f03c0]"

definition imm16_is_valid :: "u32 \<Rightarrow> bool" where
  "imm16_is_valid v \<longleftrightarrow> v AND 0xFFFF = v"

definition svc_word :: "u32 \<Rightarrow> u32" where
  "svc_word imm = 0xd4000001 OR push_bit 5 imm"

definition SVC :: "u32 \<Rightarrow> u32 list \<Rightarrow> u32 list result" where
  "SVC imm buf = (if imm16_is_valid imm then Inr (buf @ [svc_word imm]) else Inl Imm_out_of_range)"

text \<open>
  The decoder of the guest instruction (\<^verbatim>\<open>a64.inc\<close>: pattern \<^verbatim>\<open>11010100000iiiiiiiiiiiiiiii00001\<close>)
  and the immediate it hands to the supervisor callbacks.
\<close>

definition decode_svc :: "u32 \<Rightarrow> u32 option" where
  "decode_svc w = (if w AND 0xFFE0001F = 0xd4000001 then Some (drop_bit 5 w AND 0xFFFF) else None)"

section \<open>Operations\<close>

definition mk_Trampoline ::
    "string \<Rightarrow> u32 \<Rightarrow> u64 \<Rightarrow> FunctionArgumentType list \<Rightarrow> bool \<Rightarrow> bool \<Rightarrow> Trampoline" where
  "mk_Trampoline name i native tys ell eff =
     \<lparr>tr_name = name, tr_id = i, native_func = native, types = tys,
      is_ellipsis_function = ell, has_execution_side_effects = eff, guest_trampoline = 0\<rparr>"

definition trampoline_get_guest_exit :: "trampoline_state \<Rightarrow> u64" where
  "trampoline_get_guest_exit s = guest_exit_trampoline s"

definition code_addr :: "trampoline_state \<Rightarrow> nat \<Rightarrow> u64" where
  "code_addr s i = trampoline_code s + 4 * of_nat i"

text \<open>
  \<open>mmap_result\<close> is the address the anonymous mapping got, \<open>None\<close> when \<^verbatim>\<open>mmap\<close> failed.  Anonymous
  memory is zero-filled.
\<close>

definition trampoline_init ::
    "u64 option \<Rightarrow> trampoline_state \<Rightarrow> (int \<times> trampoline_state) result" where
  "trampoline_init mmap_result s =
     (case mmap_result of
        None \<Rightarrow> Inr (-1, s\<lparr>trampoline_code := -1, code_words := []\<rparr>)
      | Some base \<Rightarrow>
          (let s1 = s\<lparr>trampoline_code := base, code_words := replicate (trampoline_code_size div 4) 0\<rparr>;
               s2 = s1\<lparr>guest_exit_trampoline := code_addr s1 (trampoline_code_index s1),
                       temp_code_gen_buf := YIELD (temp_code_gen_buf s1)\<rparr>
           in and_then (vec_index (temp_code_gen_buf s2) 0) (\<lambda>w.
              and_then (vec_store (code_words s2) (trampoline_code_index s2) w) (\<lambda>ws.
              Inr (0, s2\<lparr>code_words := ws,
                         trampoline_code_index := trampoline_code_index s2 + 1,
                         temp_code_gen_buf := []\<rparr>)))))"

text \<open>
  The exhaustion test of the source compares \<^verbatim>\<open>trampoline_code + trampoline_code[index + 2]\<close>
  with \<^verbatim>\<open>trampoline_code + trampoline_code_size\<close>: it loads the code word two places ahead and
  compares its value with the byte size of the buffer.  The result is the index of the new
  entry (the reference the source returns).
\<close>

definition trampoline_create ::
    "string \<Rightarrow> u64 \<Rightarrow> FunctionArgumentType list \<Rightarrow> bool \<Rightarrow> bool \<Rightarrow> trampoline_state \<Rightarrow>
     (nat \<times> trampoline_state) result" where
  "trampoline_create name native tys ell eff s =
     (if trampoline_code s = 0 then Inl (Runtime_error ''Trampoline buffer not allocated'')
      else and_then (vec_index (code_words s) (trampoline_code_index s + 2)) (\<lambda>ahead.
      if trampoline_code_size \<le> unat ahead then Inl (Runtime_error ''Trampoline buffer exhausted'')
      else
        (let i = (of_nat (length (trampolines s)) :: u16);
             n = length (trampolines s);
             addr = code_addr s (trampoline_code_index s);
             s1 = s\<lparr>trampolines := trampolines s @ [mk_Trampoline name (ucast i) native tys ell eff]\<rparr>
         in and_then (SVC (ucast i + trampoline_id_offset) (temp_code_gen_buf s1)) (\<lambda>buf.
            let buf' = RET buf in
            and_then (vec_index buf' 0) (\<lambda>w0.
            and_then (vec_store (code_words s1) (trampoline_code_index s1) w0) (\<lambda>ws0.
            and_then (vec_index buf' 1) (\<lambda>w1.
            and_then (vec_store ws0 (trampoline_code_index s1 + 1) w1) (\<lambda>ws1.
            Inr (n, s1\<lparr>code_words := ws1,
                       trampoline_code_index := trampoline_code_index s1 + 2,
                       temp_code_gen_buf := [],
                       trampolines := (trampolines s1)
                         [n := (trampolines s1 ! n)\<lparr>guest_trampoline := addr\<rparr>]\<rparr>)))))))))"

text \<open>\<^verbatim>\<open>trampoline_get_by_id\<close> indexes unchecked after a wrapping 32-bit subtraction.\<close>

definition trampoline_get_by_id :: "u32 \<Rightarrow> trampoline_state \<Rightarrow> nat result" where
  "trampoline_get_by_id i s =
     (let k = unat (i - trampoline_id_offset)
      in if k < length (trampolines s) then Inr k else Inl Invalid_access)"

definition trampoline_maybe_get_by_id :: "u32 \<Rightarrow> trampoline_state \<Rightarrow> nat option" where
  "trampoline_maybe_get_by_id i s =
     (if i < trampoline_id_offset then None
      else (let computed_id = i - trampoline_id_offset
            in if length (trampolines s) \<le> unat computed_id then None
               else Some (unat computed_id)))"

section \<open>Registration of many functions\<close>

text \<open>
  The clients (library tables, JNI tables, the GL and Vulkan resolvers) register functions one
  after the other; \<open>register_all\<close> is that loop over any registry.
\<close>

fun register_all :: "('d \<Rightarrow> 's \<Rightarrow> 'e + nat \<times> 's) \<Rightarrow> 'd list \<Rightarrow> 's \<Rightarrow> 'e + nat list \<times> 's" where
  "register_all create [] s = Inr ([], s)"
| "register_all create (d # ds) s =
     and_then (create d s) (\<lambda>(n, s1).
     and_then (register_all create ds s1) (\<lambda>(ns, s2). Inr (n # ns, s2)))"

section \<open>Well-formedness\<close>

definition max_trampolines :: nat where
  "max_trampolines = 8191"

definition entry_wf :: "trampoline_state \<Rightarrow> nat \<Rightarrow> bool" where
  "entry_wf s i \<longleftrightarrow>
     tr_id (trampolines s ! i) = of_nat i \<and>
     guest_trampoline (trampolines s ! i) = code_addr s (1 + 2 * i) \<and>
     code_words s ! (1 + 2 * i) = svc_word (of_nat i + trampoline_id_offset) \<and>
     code_words s ! (2 + 2 * i) = 0xd65f03c0"

definition trampolines_wf :: "trampoline_state \<Rightarrow> bool" where
  "trampolines_wf s \<longleftrightarrow>
     trampoline_code s \<noteq> 0 \<and>
     length (code_words s) = trampoline_code_size div 4 \<and>
     length (trampolines s) \<le> max_trampolines \<and>
     trampoline_code_index s = 1 + 2 * length (trampolines s) \<and>
     temp_code_gen_buf s = [] \<and>
     guest_exit_trampoline s = trampoline_code s \<and>
     code_words s ! 0 = 0xd503203f \<and>
     (\<forall>i<length (trampolines s). entry_wf s i) \<and>
     (\<forall>j<length (code_words s). trampoline_code_index s \<le> j \<longrightarrow> code_words s ! j = 0)"

text \<open>The word the guest fetches at an address of the code buffer.\<close>

definition fetch_code :: "trampoline_state \<Rightarrow> u64 \<Rightarrow> u32 result" where
  "fetch_code s a = vec_index (code_words s) (unat (a - trampoline_code s) div 4)"

text \<open>The guest reaches entry \<open>i\<close> of the table through the code at its guest address.\<close>

definition dispatches_to :: "trampoline_state \<Rightarrow> u64 \<Rightarrow> nat \<Rightarrow> bool" where
  "dispatches_to s a i \<longleftrightarrow>
     (case fetch_code s a of
        Inr w \<Rightarrow> (case decode_svc w of
                    Some imm \<Rightarrow> trampoline_get_by_id imm s = Inr i \<and>
                                trampoline_maybe_get_by_id imm s = Some i
                  | None \<Rightarrow> False)
      | Inl _ \<Rightarrow> False) \<and>
     fetch_code s (a + 4) = Inr 0xd65f03c0"

text \<open>What a registered function must look like from its description.\<close>

type_synonym trampoline_spec = "string \<times> u64 \<times> FunctionArgumentType list \<times> bool \<times> bool"

definition create_from :: "trampoline_spec \<Rightarrow> trampoline_state \<Rightarrow> (nat \<times> trampoline_state) result" where
  "create_from d s = (case d of (name, f, tys, ell, eff) \<Rightarrow> trampoline_create name f tys ell eff s)"

definition spec_of :: "Trampoline \<Rightarrow> trampoline_spec" where
  "spec_of t = (tr_name t, native_func t, types t, is_ellipsis_function t,
                has_execution_side_effects t)"

definition entry_at :: "trampoline_state \<Rightarrow> nat \<Rightarrow> Trampoline option" where
  "entry_at s n = (if n < length (trampolines s) then Some (trampolines s ! n) else None)"

definition free_trampolines :: "trampoline_state \<Rightarrow> nat" where
  "free_trampolines s = max_trampolines - length (trampolines s)"

text \<open>The state after a successful registration, written out.\<close>

definition new_trampoline :: "trampoline_spec \<Rightarrow> trampoline_state \<Rightarrow> Trampoline" where
  "new_trampoline d s =
     (let n = length (trampolines s)
      in case d of (name, f, tys, ell, eff) \<Rightarrow>
           (mk_Trampoline name (of_nat n) f tys ell eff)
             \<lparr>guest_trampoline := code_addr s (1 + 2 * n)\<rparr>)"

definition with_trampoline :: "trampoline_spec \<Rightarrow> trampoline_state \<Rightarrow> trampoline_state" where
  "with_trampoline d s =
     (let n = length (trampolines s)
      in s\<lparr>trampolines := trampolines s @ [new_trampoline d s],
           code_words := (code_words s)[1 + 2 * n := svc_word (of_nat n + trampoline_id_offset),
                                        2 + 2 * n := 0xd65f03c0],
           trampoline_code_index := 3 + 2 * n\<rparr>)"

section \<open>Encoding lemmas\<close>

lemma and_ffff_u32: "(v :: u32) AND 0xFFFF = take_bit 16 v"
  by (simp add: take_bit_eq_mask mask_eq_exp_minus_1)

lemma imm16_is_valid_iff: "imm16_is_valid v \<longleftrightarrow> unat v < 65536"
proof -
  have "unat (take_bit 16 v) = take_bit 16 (unat v)"
    by (rule unsigned_take_bit_eq)
  then show ?thesis
    by (simp add: imm16_is_valid_def and_ffff_u32 word_unat_eq_iff take_bit_nat_eq_self_iff)
qed

lemma imm16_bits: "imm16_is_valid imm \<Longrightarrow> bit imm n \<Longrightarrow> n < 16"
  unfolding imm16_is_valid_def and_ffff_u32 by (metis bit_take_bit_iff)

lemma decode_svc_word:
  assumes "imm16_is_valid imm"
  shows "decode_svc (svc_word imm) = Some imm"
proof -
  have imm: "imm AND 0xFFFF = imm"
    using assms by (simp add: imm16_is_valid_def)
  have "push_bit 5 imm AND 0xFFE0001F = push_bit 5 imm AND (push_bit 5 (0xFFFF :: u32) AND 0xFFE0001F)"
    by (subst imm [symmetric]) (simp only: push_bit_and and.assoc)
  then have "push_bit 5 imm AND 0xFFE0001F = 0"
    by simp
  then have "svc_word imm AND 0xFFE0001F = 0xd4000001"
    by (simp add: svc_word_def bit.conj_disj_distrib2)
  moreover have drop: "drop_bit 5 (push_bit 5 imm) = imm"
    by (rule bit_eqI) (auto simp: bit_simps dest: imm16_bits [OF assms])
  have "drop_bit 5 (svc_word imm) AND 0xFFFF = imm"
    by (simp add: svc_word_def bit.conj_disj_distrib2 drop imm)
  ultimately show ?thesis by (simp add: decode_svc_def)
qed

lemma svc_id_small:
  assumes "i \<le> max_trampolines"
  shows "imm16_is_valid ((of_nat i :: u32) + trampoline_id_offset)"
    and "unat ((of_nat i :: u32) + trampoline_id_offset) = i + 16"
proof -
  have eq: "(of_nat i :: u32) + trampoline_id_offset = of_nat (i + 16)"
    by (simp add: trampoline_id_offset_def)
  show u: "unat ((of_nat i :: u32) + trampoline_id_offset) = i + 16"
    using assms unfolding eq by (subst unat_of_nat_u32) (simp_all add: max_trampolines_def)
  show "imm16_is_valid ((of_nat i :: u32) + trampoline_id_offset)"
    using assms unfolding imm16_is_valid_iff u by (simp add: max_trampolines_def)
qed

section \<open>The operations on well-formed states\<close>

lemma code_addr_simps [simp]:
  "code_addr (s\<lparr>trampolines := a\<rparr>) i = code_addr s i"
  "code_addr (s\<lparr>code_words := b\<rparr>) i = code_addr s i"
  "code_addr (s\<lparr>trampoline_code_index := c\<rparr>) i = code_addr s i"
  "code_addr (s\<lparr>temp_code_gen_buf := d\<rparr>) i = code_addr s i"
  "code_addr (s\<lparr>guest_exit_trampoline := e\<rparr>) i = code_addr s i"
  by (simp_all add: code_addr_def)

lemma wf_sizes:
  assumes "trampolines_wf s"
  shows "length (code_words s) = 16384" "length (trampolines s) \<le> 8191"
    "trampoline_code_index s = 1 + 2 * length (trampolines s)" "trampoline_code s \<noteq> 0"
    "temp_code_gen_buf s = []"
  using assms by (simp_all add: trampolines_wf_def trampoline_code_size_def max_trampolines_def)

lemma ucast_id_u16: "n \<le> 8191 \<Longrightarrow> (ucast (of_nat n :: u16) :: u32) = of_nat n"
  by (simp add: word_unat_eq_iff unsigned_ucast_eq unsigned_of_nat take_bit_nat_eq_self)

lemma create_from_eq:
  assumes wf: "trampolines_wf s" and room: "length (trampolines s) < max_trampolines"
  shows "create_from d s = Inr (length (trampolines s), with_trampoline d s)"
proof -
  let ?n = "length (trampolines s)"
  have n: "?n < 8191" using room by (simp add: max_trampolines_def)
  have len: "length (code_words s) = 16384" and idx: "trampoline_code_index s = 1 + 2 * ?n"
    using wf_sizes [OF wf] by simp_all
  have "3 + 2 * ?n < length (code_words s)" "trampoline_code_index s \<le> 3 + 2 * ?n"
    using n len idx by simp_all
  then have "code_words s ! (3 + 2 * ?n) = 0"
    using wf unfolding trampolines_wf_def by blast
  then have zero: "code_words s ! Suc (Suc (Suc (2 * ?n))) = 0"
    by (simp add: numeral_3_eq_3)
  have svc: "SVC (of_nat ?n + trampoline_id_offset) [] =
      Inr [svc_word (of_nat ?n + trampoline_id_offset)]"
    using svc_id_small(1) [of ?n] room by (simp add: SVC_def)
  obtain name f tys ell eff where d: "d = (name, f, tys, ell, eff)" by (cases d) auto
  show ?thesis
    using wf_sizes [OF wf] n
    by (simp add: create_from_def d trampoline_create_def zero svc RET_def Let_def
        ucast_id_u16 trampoline_code_size_def with_trampoline_def new_trampoline_def)
qed

lemma with_trampoline_wf:
  assumes wf: "trampolines_wf s" and room: "length (trampolines s) < max_trampolines"
  shows "trampolines_wf (with_trampoline d s)"
proof -
  let ?n = "length (trampolines s)" and ?s = "with_trampoline d s"
  have n: "?n < 8191" using room by (simp add: max_trampolines_def)
  note sizes = wf_sizes [OF wf]
  have new: "entry_wf ?s ?n"
    using n sizes by (auto simp: entry_wf_def with_trampoline_def new_trampoline_def Let_def
        mk_Trampoline_def split: prod.splits)
  have old: "entry_wf ?s i" if "i < ?n" for i
  proof -
    have "entry_wf s i" using wf that by (simp add: trampolines_wf_def)
    then show ?thesis using that n sizes
      by (simp add: entry_wf_def with_trampoline_def Let_def nth_append)
  qed
  have ents: "\<forall>i<length (trampolines ?s). entry_wf ?s i"
    using new old by (auto simp: with_trampoline_def Let_def less_Suc_eq)
  show ?thesis
    using wf n sizes ents
    by (auto simp: trampolines_wf_def with_trampoline_def Let_def max_trampolines_def nth_list_update)
qed

lemma with_trampoline_entry:
  "entry_at (with_trampoline d s) (length (trampolines s)) = Some (new_trampoline d s)"
  "entry_at s k = Some e \<Longrightarrow> entry_at (with_trampoline d s) k = Some e"
  by (auto simp: entry_at_def with_trampoline_def Let_def nth_append split: if_splits)

lemma spec_of_new_trampoline [simp]: "spec_of (new_trampoline d s) = d"
  by (auto simp: spec_of_def new_trampoline_def mk_Trampoline_def Let_def split: prod.splits)

lemma trampoline_init_wf:
  assumes "base \<noteq> 0"
  shows "\<exists>s. trampoline_init (Some base) initial_trampoline_state = Inr (0, s) \<and>
           trampolines_wf s \<and> trampoline_code s = base \<and> trampolines s = []"
  using assms
  by (auto simp: trampoline_init_def initial_trampoline_state_def YIELD_def Let_def
      trampolines_wf_def trampoline_code_size_def code_addr_def nth_list_update)

lemma create_wf_cases:
  assumes wf: "trampolines_wf s" and ok: "create_from d s = Inr (n, s')"
  shows "n = length (trampolines s) \<and> n < max_trampolines \<and> s' = with_trampoline d s"
proof (cases "length (trampolines s) < max_trampolines")
  case True
  then show ?thesis using create_from_eq [OF wf True, of d] ok by simp
next
  case False
  then have "length (trampolines s) = 8191"
    using wf_sizes(2) [OF wf] by (simp add: max_trampolines_def)
  then have "create_from d s = Inl Invalid_access"
    using wf_sizes [OF wf]
    by (simp add: create_from_def trampoline_create_def vec_index_def split: prod.splits)
  then show ?thesis using ok by simp
qed

section \<open>The registry as an interface\<close>

text \<open>
  What the clients of the trampoline table rely on: a registration yields an entry that matches
  its description, never disturbs an earlier entry, and succeeds while there is room.
\<close>

locale host_function_registry =
  fixes inv :: "'s \<Rightarrow> bool"
    and create :: "'d \<Rightarrow> 's \<Rightarrow> error + nat \<times> 's"
    and entry :: "'s \<Rightarrow> nat \<Rightarrow> 'e option"
    and describe :: "'e \<Rightarrow> 'd"
    and room :: "'s \<Rightarrow> nat"
  assumes create_inv: "inv s \<Longrightarrow> create d s = Inr (n, s') \<Longrightarrow> inv s'"
    and create_fresh: "inv s \<Longrightarrow> create d s = Inr (n, s') \<Longrightarrow> entry s n = None"
    and create_entry: "inv s \<Longrightarrow> create d s = Inr (n, s') \<Longrightarrow> \<exists>e. entry s' n = Some e \<and> describe e = d"
    and create_keeps: "inv s \<Longrightarrow> create d s = Inr (n, s') \<Longrightarrow> entry s k = Some e \<Longrightarrow> entry s' k = Some e"
    and create_room: "inv s \<Longrightarrow> 0 < room s \<Longrightarrow> \<exists>n s'. create d s = Inr (n, s') \<and> room s' = room s - 1"
begin

lemma register_all_inv:
  "inv s \<Longrightarrow> register_all create ds s = Inr (ns, s') \<Longrightarrow> inv s'"
  by (induction ds arbitrary: s ns) (auto simp: and_then_eq_Inr split: prod.splits dest: create_inv)

lemma register_all_keeps:
  "inv s \<Longrightarrow> register_all create ds s = Inr (ns, s') \<Longrightarrow> entry s k = Some e \<Longrightarrow> entry s' k = Some e"
  by (induction ds arbitrary: s ns)
    (auto simp: and_then_eq_Inr split: prod.splits dest: create_inv create_keeps)

lemma register_all_fresh:
  "inv s \<Longrightarrow> register_all create ds s = Inr (ns, s') \<Longrightarrow> n \<in> set ns \<Longrightarrow> entry s n = None"
proof (induction ds arbitrary: s ns)
  case (Cons d ds)
  then obtain n1 s1 ns1 where 1: "create d s = Inr (n1, s1)"
    and 2: "register_all create ds s1 = Inr (ns1, s')" and ns: "ns = n1 # ns1"
    by (auto simp: and_then_eq_Inr split: prod.splits)
  show ?case
  proof (cases "n = n1")
    case True
    then show ?thesis using create_fresh [OF Cons.prems(1) 1] by simp
  next
    case False
    then have "entry s1 n = None"
      using Cons.IH [OF create_inv [OF Cons.prems(1) 1] 2] Cons.prems(3) ns by simp
    then show ?thesis using create_keeps [OF Cons.prems(1) 1] by (cases "entry s n") auto
  qed
qed simp

lemma register_all_entries:
  "inv s \<Longrightarrow> register_all create ds s = Inr (ns, s') \<Longrightarrow>
   list_all2 (\<lambda>n d. \<exists>e. entry s' n = Some e \<and> describe e = d) ns ds \<and> distinct ns"
proof (induction ds arbitrary: s ns)
  case (Cons d ds)
  then obtain n1 s1 ns1 where 1: "create d s = Inr (n1, s1)"
    and 2: "register_all create ds s1 = Inr (ns1, s')" and ns: "ns = n1 # ns1"
    by (auto simp: and_then_eq_Inr split: prod.splits)
  note inv1 = create_inv [OF Cons.prems(1) 1]
  obtain e where e: "entry s1 n1 = Some e" "describe e = d"
    using create_entry [OF Cons.prems(1) 1] by blast
  have "n1 \<notin> set ns1" using register_all_fresh [OF inv1 2, of n1] e by auto
  then show ?case
    using Cons.IH [OF inv1 2] register_all_keeps [OF inv1 2 e(1)] e(2) ns by auto
qed simp

lemma register_all_total:
  "inv s \<Longrightarrow> length ds \<le> room s \<Longrightarrow>
   \<exists>ns s'. register_all create ds s = Inr (ns, s') \<and> room s' = room s - length ds"
proof (induction ds arbitrary: s)
  case (Cons d ds)
  then obtain n s1 where 1: "create d s = Inr (n, s1)" "room s1 = room s - 1"
    using create_room [of s d] by auto
  obtain ns s' where "register_all create ds s1 = Inr (ns, s')" "room s' = room s1 - length ds"
    using Cons.IH [OF create_inv [OF Cons.prems(1) 1(1)]] Cons.prems(2) 1(2) by fastforce
  then show ?case using 1 by simp
qed simp

end

interpretation tramp: host_function_registry trampolines_wf create_from entry_at spec_of free_trampolines
proof unfold_locales
  fix s d n s' assume "trampolines_wf s" "create_from d s = Inr (n, s')"
  note c = create_wf_cases [OF this] and wf = this(1)
  show "trampolines_wf s'" using with_trampoline_wf [OF wf] c by simp
  show "entry_at s n = None" using c by (simp add: entry_at_def)
  show "\<exists>e. entry_at s' n = Some e \<and> spec_of e = d" using c with_trampoline_entry(1) by auto
  show "entry_at s' k = Some e" if "entry_at s k = Some e" for k e
    using c with_trampoline_entry(2) [OF that] by simp
next
  fix s d assume "trampolines_wf s" "0 < free_trampolines s"
  then show "\<exists>n s'. create_from d s = Inr (n, s') \<and> free_trampolines s' = free_trampolines s - 1"
    using create_from_eq [of s d] by (auto simp: free_trampolines_def with_trampoline_def Let_def)
qed

section \<open>Dispatch\<close>

lemma fetch_code_addr:
  assumes "trampolines_wf s" "j < 16384"
  shows "fetch_code s (code_addr s j) = Inr (code_words s ! j)"
proof -
  have "unat (4 * of_nat j :: u64) = 4 * j"
    using assms(2) unat_of_nat_u64 [of "4 * j"] by simp
  then show ?thesis
    using assms wf_sizes(1) by (simp add: fetch_code_def code_addr_def)
qed

lemma get_by_id_offset:
  assumes "trampolines_wf s" "i < length (trampolines s)"
  shows "trampoline_get_by_id (of_nat i + trampoline_id_offset) s = Inr i"
    and "trampoline_maybe_get_by_id (of_nat i + trampoline_id_offset) s = Some i"
proof -
  have i: "i \<le> max_trampolines" "i < 4294967296"
    using assms(2) wf_sizes(2) [OF assms(1)] by (simp_all add: max_trampolines_def)
  show "trampoline_get_by_id (of_nat i + trampoline_id_offset) s = Inr i"
    using assms i by (simp add: trampoline_get_by_id_def)
  have "\<not> (of_nat i + trampoline_id_offset < trampoline_id_offset)"
    unfolding word_less_nat_alt svc_id_small(2) [OF i(1)] by (simp add: trampoline_id_offset_def)
  then show "trampoline_maybe_get_by_id (of_nat i + trampoline_id_offset) s = Some i"
    using assms i by (simp add: trampoline_maybe_get_by_id_def)
qed

lemma entry_dispatches:
  assumes wf: "trampolines_wf s" and i: "i < length (trampolines s)"
  shows "dispatches_to s (guest_trampoline (trampolines s ! i)) i"
proof -
  have e: "entry_wf s i" using wf i by (simp add: trampolines_wf_def)
  have small: "2 + 2 * i < 16384" using i wf_sizes(2) [OF wf] by simp
  have imm: "imm16_is_valid (of_nat i + trampoline_id_offset)"
    using svc_id_small(1) [of i] i wf_sizes(2) [OF wf] by (simp add: max_trampolines_def)
  have "code_addr s (1 + 2 * i) + 4 = code_addr s (2 + 2 * i)"
    by (simp add: code_addr_def algebra_simps)
  then show ?thesis
    using e fetch_code_addr [OF wf, of "1 + 2 * i"] fetch_code_addr [OF wf, of "2 + 2 * i"] small
      get_by_id_offset [OF wf i] decode_svc_word [OF imm]
    by (simp add: dispatches_to_def entry_wf_def)
qed

section \<open>Properties\<close>

text \<open>
  C1.  After a successful initialisation, registering any list of at most 8191 functions
  succeeds, and the guest address handed out for each one executes an \<^verbatim>\<open>SVC\<close> whose immediate
  the table resolves to exactly that function (name, host pointer, argument classes and flags
  as registered), followed by \<^verbatim>\<open>RET\<close>; different registrations get different entries.
\<close>

theorem trampoline_dispatch_correct:
  assumes "base \<noteq> 0" and "length ds \<le> 8191"
  shows "\<exists>s0 ns s. trampoline_init (Some base) initial_trampoline_state = Inr (0, s0) \<and>
           register_all create_from ds s0 = Inr (ns, s) \<and> distinct ns \<and>
           list_all2 (\<lambda>n d. spec_of (trampolines s ! n) = d \<and>
                            dispatches_to s (guest_trampoline (trampolines s ! n)) n) ns ds"
proof -
  obtain s0 where s0: "trampoline_init (Some base) initial_trampoline_state = Inr (0, s0)"
    "trampolines_wf s0" "trampolines s0 = []"
    using trampoline_init_wf [OF assms(1)] by blast
  then obtain ns s where reg: "register_all create_from ds s0 = Inr (ns, s)"
    using tramp.register_all_total [of s0 ds] assms(2)
    by (auto simp: free_trampolines_def max_trampolines_def)
  have wf: "trampolines_wf s" by (rule tramp.register_all_inv [OF s0(2) reg])
  have "list_all2 (\<lambda>n d. spec_of (trampolines s ! n) = d \<and>
          dispatches_to s (guest_trampoline (trampolines s ! n)) n) ns ds"
    using tramp.register_all_entries [OF s0(2) reg] entry_dispatches [OF wf]
    by (auto elim!: list_all2_mono simp: entry_at_def split: if_splits)
  then show ?thesis using s0(1) reg tramp.register_all_entries [OF s0(2) reg] by blast
qed

theorem trampoline_dispatch_correct_witness:
  "(0x10000 :: u64) \<noteq> 0 \<and>
   (\<exists>s0 ns s. trampoline_init (Some 0x10000) initial_trampoline_state = Inr (0, s0) \<and>
           register_all create_from [(''abs'', 0x4000, [signed_word, signed_word], False, False)] s0
             = Inr (ns, s) \<and> distinct ns \<and>
           list_all2 (\<lambda>n d. spec_of (trampolines s ! n) = d \<and>
                            dispatches_to s (guest_trampoline (trampolines s ! n)) n) ns
             [(''abs'', 0x4000, [signed_word, signed_word], False, False)])"
  using trampoline_dispatch_correct
    [of "0x10000" "[(''abs'', 0x4000, [signed_word, signed_word], False, False)]"]
  by simp

text \<open>
  C3.  The guard against a full buffer never fires: in every well-formed state
  \<^verbatim>\<open>trampoline_create\<close> either adds the function, or, when 8191 functions are registered, reads
  past the end of the code buffer; the \<^verbatim>\<open>Trampoline buffer exhausted\<close> error is unreachable.
\<close>

theorem trampoline_create_exhaustion:
  assumes "trampolines_wf s"
  shows "trampoline_create name f tys ell eff s =
           (if length (trampolines s) < 8191
            then Inr (length (trampolines s), with_trampoline (name, f, tys, ell, eff) s)
            else Inl Invalid_access)"
proof (cases "length (trampolines s) < 8191")
  case True
  then show ?thesis
    using create_from_eq [OF assms, of "(name, f, tys, ell, eff)"]
    by (simp add: create_from_def max_trampolines_def)
next
  case False
  then show ?thesis
    using wf_sizes [OF assms] by (simp add: trampoline_create_def vec_index_def)
qed

lemma full_table_reachable:
  "\<exists>s0 ns s. trampoline_init (Some 0x10000) initial_trampoline_state = Inr (0, s0) \<and>
     register_all create_from (replicate 8191 d) s0 = Inr (ns, s) \<and>
     trampolines_wf s \<and> length (trampolines s) = 8191"
proof -
  obtain s0 where s0: "trampoline_init (Some 0x10000) initial_trampoline_state = Inr (0, s0)"
    "trampolines_wf s0" "trampolines s0 = []"
    using trampoline_init_wf [of "0x10000"] by auto
  then obtain ns s where reg: "register_all create_from (replicate 8191 d) s0 = Inr (ns, s)"
    "free_trampolines s = 0"
    using tramp.register_all_total [of s0 "replicate 8191 d"]
    by (auto simp: free_trampolines_def max_trampolines_def)
  then show ?thesis
    using s0(1) tramp.register_all_inv [OF s0(2) reg(1)] wf_sizes(2)
    by (fastforce simp: free_trampolines_def max_trampolines_def)
qed

theorem trampoline_create_exhaustion_witness:
  "\<exists>s0 ns s. trampoline_init (Some 0x10000) initial_trampoline_state = Inr (0, s0) \<and>
     register_all create_from (replicate 8191 (''f'', 0x4000, [none], False, False)) s0 = Inr (ns, s) \<and>
     trampolines_wf s \<and>
     trampoline_create ''g'' 0x5000 [none] False False s = Inl Invalid_access"
proof -
  obtain s0 ns s where
    "trampoline_init (Some 0x10000) initial_trampoline_state = Inr (0, s0)"
    "register_all create_from (replicate 8191 (''f'', 0x4000, [none], False, False)) s0 = Inr (ns, s)"
    "trampolines_wf s" "length (trampolines s) = 8191"
    using full_table_reachable by blast
  then show ?thesis
    using trampoline_create_exhaustion [of s "''g''" "0x5000" "[none]" False False] by auto
qed

end
