(* ===== verification/Execution_Context.thy ===== *)
theory Execution_Context
  imports Guest_Cpu Trampolines
begin

unbundle bit_operations_syntax

text \<open>
  \<^verbatim>\<open>src/src/execution_context.cpp\<close>, the life of a thread's execution context: the pool of
  processor ids, \<^verbatim>\<open>execution_context_init\<close> and \<^verbatim>\<open>execution_context_free\<close>, the reference count, the
  configuration handed to the recompiler, and the callbacks that stop a guest run.  The state
  of one thread is a \<open>machine\<close>; a \<open>process\<close> holds the shared part and the context of every
  thread, and \<open>ctx_step\<close> is what threads do to it.
\<close>

section \<open>State\<close>

text \<open>An owning raw pointer: null, an object, or an object that was deleted.\<close>

datatype 'a owned = Null | Owned 'a | Dangling

record UserConfig =
  cfg_processor_id :: nat
  cfg_optimizations :: u32
  cfg_unsafe_optimizations :: bool
  cfg_hook_data_cache_operations :: bool
  cfg_hook_isb :: bool
  cfg_hook_hint_instructions :: bool
  cfg_cntfrq_el0 :: u32
  cfg_ctr_el0 :: u32
  cfg_dczid_el0 :: u32
  cfg_tpidrro_el0 :: u64
  cfg_tpidr_el0 :: u64
  cfg_page_table :: u64
  cfg_page_table_address_space_bits :: nat
  cfg_page_table_pointer_mask_bits :: nat
  cfg_silently_mirror_page_table :: bool
  cfg_absolute_offset_page_table :: bool
  cfg_detect_misaligned_access_via_page_table :: u8
  cfg_only_detect_misalignment_via_page_table_on_page_boundary :: bool
  cfg_fastmem_pointer :: "u64 option"
  cfg_fastmem_address_space_bits :: nat
  cfg_fastmem_exclusive_access :: bool
  cfg_recompile_on_fastmem_failure :: bool
  cfg_recompile_on_exclusive_fastmem_failure :: bool
  cfg_silently_mirror_fastmem :: bool
  cfg_define_unpredictable_behaviour :: bool
  cfg_wall_clock_cntpct :: bool
  cfg_check_halt_on_memory_access :: bool
  cfg_enable_cycle_counting :: bool
  cfg_code_cache_size :: nat
  cfg_very_verbose_debugging_output :: bool

record Jit =
  jit_state :: A64JitState
  is_executing :: bool
  conf :: UserConfig

record ExecutionContext =
  environment :: "nat owned"
  jit :: "Jit owned"
  dyncall_vm :: "unit owned"
  stack :: u64
  stack_size :: u64
  initialized :: bool
  processor_id :: nat
  ref_count :: u64
  svc_number :: u32
  tls_buffer_addr :: u64
  tls_buffer :: "u64 list"

record machine =
  execution_context :: ExecutionContext
  used_processors :: "bool list"
  guest_memory :: memory
  tramps :: trampoline_state
  call_logging_enabled :: bool
  current_qsort_compar :: u64
  current_bsearch_compar :: u64

definition TLS_SIZE :: nat where
  "TLS_SIZE = 512"

definition STACK_SIZE :: u64 where
  "STACK_SIZE = 4 * 1024 * 1024"

definition MAX_CPUS :: nat where
  "MAX_CPUS = 64"

definition SuccessfulExit :: u32 where
  "SuccessfulExit = 0x01000000"

definition SupervisorCall :: u32 where
  "SupervisorCall = 0x02000000"

definition new_ExecutionContext :: ExecutionContext where
  "new_ExecutionContext =
     \<lparr>environment = Null, jit = Null, dyncall_vm = Null, stack = 0, stack_size = 0,
      initialized = False, processor_id = 0, ref_count = 1, svc_number = 0,
      tls_buffer_addr = 0, tls_buffer = replicate TLS_SIZE 0\<rparr>"

text \<open>The state at program start; \<open>mem\<close> is whatever the address space holds.\<close>

definition initial_machine :: "memory \<Rightarrow> machine" where
  "initial_machine mem =
     \<lparr>execution_context = new_ExecutionContext, used_processors = replicate MAX_CPUS False,
      guest_memory = mem, tramps = initial_trampoline_state, call_logging_enabled = False,
      current_qsort_compar = 0, current_bsearch_compar = 0\<rparr>"

section \<open>Recompiler configuration\<close>

definition all_safe_optimizations :: u32 where
  "all_safe_optimizations = 0x0000FFFF"

definition Unsafe_IgnoreGlobalMonitor :: u32 where
  "Unsafe_IgnoreGlobalMonitor = 0x00100000"

definition default_UserConfig :: UserConfig where
  "default_UserConfig =
     \<lparr>cfg_processor_id = 0, cfg_optimizations = all_safe_optimizations,
      cfg_unsafe_optimizations = False, cfg_hook_data_cache_operations = False, cfg_hook_isb = False,
      cfg_hook_hint_instructions = False, cfg_cntfrq_el0 = 600000000, cfg_ctr_el0 = 0x8444c004,
      cfg_dczid_el0 = 4, cfg_tpidrro_el0 = 0, cfg_tpidr_el0 = 0, cfg_page_table = 0,
      cfg_page_table_address_space_bits = 36, cfg_page_table_pointer_mask_bits = 0,
      cfg_silently_mirror_page_table = True, cfg_absolute_offset_page_table = False,
      cfg_detect_misaligned_access_via_page_table = 0,
      cfg_only_detect_misalignment_via_page_table_on_page_boundary = False, cfg_fastmem_pointer = None,
      cfg_fastmem_address_space_bits = 36, cfg_fastmem_exclusive_access = False,
      cfg_recompile_on_fastmem_failure = True, cfg_recompile_on_exclusive_fastmem_failure = True,
      cfg_silently_mirror_fastmem = True, cfg_define_unpredictable_behaviour = False,
      cfg_wall_clock_cntpct = False, cfg_check_halt_on_memory_access = False,
      cfg_enable_cycle_counting = True, cfg_code_cache_size = 128 * 1024 * 1024,
      cfg_very_verbose_debugging_output = False\<rparr>"

definition HasOptimization :: "u32 \<Rightarrow> UserConfig \<Rightarrow> bool" where
  "HasOptimization f c =
     (let f' = (if \<not> cfg_unsafe_optimizations c then f AND all_safe_optimizations else f)
      in f' AND cfg_optimizations c \<noteq> 0)"

record TranslationOptions =
  opt_define_unpredictable_behaviour :: bool
  opt_wall_clock_cntpct :: bool
  opt_hook_hint_instructions :: bool

definition default_TranslationOptions :: TranslationOptions where
  "default_TranslationOptions =
     \<lparr>opt_define_unpredictable_behaviour = False, opt_wall_clock_cntpct = False,
      opt_hook_hint_instructions = True\<rparr>"

text \<open>
  The options \<^verbatim>\<open>GetBlock\<close> passes to the translator: two members are given, the third keeps its
  default member initialiser.
\<close>

definition translation_options :: "UserConfig \<Rightarrow> TranslationOptions" where
  "translation_options c =
     default_TranslationOptions
       \<lparr>opt_define_unpredictable_behaviour := cfg_define_unpredictable_behaviour c,
        opt_wall_clock_cntpct := cfg_wall_clock_cntpct c\<rparr>"

datatype A64_Exception = Exception_Yield | Exception_Other

text \<open>What translating a \<^verbatim>\<open>YIELD\<close> emits: nothing, or a raise with the PC moved to the next word.\<close>

definition translate_YIELD :: "TranslationOptions \<Rightarrow> u64 \<Rightarrow> (u64 \<times> A64_Exception) option" where
  "translate_YIELD opts at_pc =
     (if \<not> opt_hook_hint_instructions opts then None else Some (at_pc + 4, Exception_Yield))"

section \<open>Processor ids\<close>

fun find_unused :: "bool list \<Rightarrow> nat \<Rightarrow> nat option" where
  "find_unused [] i = None"
| "find_unused (b # bs) i = (if \<not> b then Some i else find_unused bs (i + 1))"

definition allocate_processor_id :: "machine \<Rightarrow> (nat \<times> machine) result" where
  "allocate_processor_id m =
     (case find_unused (used_processors m) 0 of
        None \<Rightarrow> Inl (Terminate ''Could not allocate processor_id: ran out of ids'')
      | Some found_index \<Rightarrow>
          Inr (found_index, m\<lparr>used_processors := (used_processors m)[found_index := True]\<rparr>))"

definition release_processor_id :: "nat \<Rightarrow> machine \<Rightarrow> machine result" where
  "release_processor_id i m =
     and_then (vec_store (used_processors m) i False) (\<lambda>us. Inr (m\<lparr>used_processors := us\<rparr>))"

section \<open>Creating and destroying a context\<close>

definition MAP_FAILED :: u64 where
  "MAP_FAILED = -1"

definition context_config :: "nat \<Rightarrow> u64 \<Rightarrow> UserConfig" where
  "context_config i tls_addr_ptr =
     default_UserConfig
       \<lparr>cfg_processor_id := i,
        cfg_tpidr_el0 := tls_addr_ptr,
        cfg_fastmem_pointer := Some 0,
        cfg_fastmem_address_space_bits := 64,
        cfg_fastmem_exclusive_access := True,
        cfg_recompile_on_fastmem_failure := False,
        cfg_recompile_on_exclusive_fastmem_failure := False,
        cfg_silently_mirror_fastmem := False,
        cfg_enable_cycle_counting := False,
        cfg_wall_clock_cntpct := True,
        cfg_cntfrq_el0 := 19200000,
        cfg_code_cache_size := 192 * 1024 * 1024,
        cfg_unsafe_optimizations := True,
        cfg_optimizations := all_safe_optimizations OR Unsafe_IgnoreGlobalMonitor\<rparr>"

text \<open>
  \<open>mmap_result\<close> is the address of the stack mapping (\<open>None\<close>: \<^verbatim>\<open>MAP_FAILED\<close>, which the code
  only logs); \<open>tls_addr\<close> is the address of this thread's \<^verbatim>\<open>tls_buffer\<close>, \<open>tls_addr_ptr\<close> that of
  the member holding it.
\<close>

definition execution_context_init :: "u64 option \<Rightarrow> u64 \<Rightarrow> u64 \<Rightarrow> machine \<Rightarrow> machine result" where
  "execution_context_init mmap_result tls_addr tls_addr_ptr m =
     and_then (assert_that (\<not> initialized (execution_context m)) ''!execution_context.initialized'') (\<lambda>_.
     and_then (allocate_processor_id m) (\<lambda>(i, m1).
     (let stack_addr = (case mmap_result of Some a \<Rightarrow> a | None \<Rightarrow> MAP_FAILED);
          stack_top = stack_addr + STACK_SIZE;
          config = context_config i tls_addr_ptr;
          j = \<lparr>jit_state = SetSP stack_top new_A64JitState, is_executing = False, conf = config\<rparr>
      in Inr (m1\<lparr>execution_context := (execution_context m1)
                  \<lparr>stack_size := STACK_SIZE, stack := stack_addr, tls_buffer_addr := tls_addr,
                   environment := Owned (cfg_processor_id config),
                   processor_id := cfg_processor_id config,
                   jit := Owned j, dyncall_vm := Owned (), initialized := True\<rparr>\<rparr>))))"

definition delete_owned :: "'a owned \<Rightarrow> 'a owned result" where
  "delete_owned p = (case p of Null \<Rightarrow> Inr Null | Owned _ \<Rightarrow> Inr Dangling | Dangling \<Rightarrow> Inl Invalid_access)"

definition execution_context_free :: "machine \<Rightarrow> machine result" where
  "execution_context_free m =
     (let c = execution_context m in
      and_then (delete_owned (environment c)) (\<lambda>env.
      and_then (delete_owned (jit c)) (\<lambda>jt.
      and_then (delete_owned (dyncall_vm c)) (\<lambda>vm.
      release_processor_id (processor_id c)
        (m\<lparr>execution_context := c\<lparr>environment := env, jit := jt, dyncall_vm := vm, initialized := False\<rparr>\<rparr>)))))"

definition execution_context_add_ref :: "machine \<Rightarrow> u64 \<times> machine" where
  "execution_context_add_ref m =
     (let n = ref_count (execution_context m) + 1
      in (n, m\<lparr>execution_context := (execution_context m)\<lparr>ref_count := n\<rparr>\<rparr>))"

definition execution_context_sub_ref :: "machine \<Rightarrow> u64 \<times> machine" where
  "execution_context_sub_ref m =
     (let n = ref_count (execution_context m) - 1
      in (n, m\<lparr>execution_context := (execution_context m)\<lparr>ref_count := n\<rparr>\<rparr>))"

definition set_call_logging :: "bool \<Rightarrow> machine \<Rightarrow> machine" where
  "set_call_logging logging_enabled m = m\<lparr>call_logging_enabled := logging_enabled\<rparr>"

section \<open>Callbacks of the environment\<close>

text \<open>\<^verbatim>\<open>get_jit()\<close> followed by a dereference: an error unless the recompiler object exists.\<close>

definition get_jit :: "machine \<Rightarrow> Jit result" where
  "get_jit m = (case jit (execution_context m) of Owned j \<Rightarrow> Inr j | _ \<Rightarrow> Inl Invalid_access)"

definition put_jit_state :: "A64JitState \<Rightarrow> machine \<Rightarrow> machine" where
  "put_jit_state j m =
     m\<lparr>execution_context := (execution_context m)
         \<lparr>jit := (case jit (execution_context m) of
                   Owned k \<Rightarrow> Owned (k\<lparr>jit_state := j\<rparr>) | p \<Rightarrow> p)\<rparr>\<rparr>"

definition on_jit :: "(A64JitState \<Rightarrow> A64JitState result) \<Rightarrow> machine \<Rightarrow> machine result" where
  "on_jit f m = and_then (get_jit m) (\<lambda>k. and_then (f (jit_state k)) (\<lambda>j. Inr (put_jit_state j m)))"

definition CNT_FREQUENCY :: int where
  "CNT_FREQUENCY = 19200000"

text \<open>\<^verbatim>\<open>std::ratio\<close> keeps numerator and denominator in lowest terms.\<close>

definition CntRatio_num :: int where
  "CntRatio_num = CNT_FREQUENCY div gcd CNT_FREQUENCY 1000000000"

definition CntRatio_den :: int where
  "CntRatio_den = 1000000000 div gcd CNT_FREQUENCY 1000000000"

definition GetCNTPCT :: "int \<Rightarrow> u64" where
  "GetCNTPCT nanoseconds = of_int (nanoseconds * CntRatio_num div CntRatio_den)"

definition AddTicks :: "u64 \<Rightarrow> machine \<Rightarrow> machine result" where
  "AddTicks n m =
     and_then (assert_that False ''Cycle counting is expected to be disabled'') (\<lambda>_. Inr m)"

definition GetTicksRemaining :: "machine \<Rightarrow> u64 result" where
  "GetTicksRemaining m =
     and_then (assert_that False ''Cycle counting is expected to be disabled'') (\<lambda>_. Inr 0)"

definition InterpreterFallback :: "int \<Rightarrow> u64 \<Rightarrow> nat \<Rightarrow> machine \<Rightarrow> machine result" where
  "InterpreterFallback nanoseconds at_pc num_instructions m =
     (let instruction = (read_mem 4 at_pc (guest_memory m) :: u32)
      in if num_instructions = 1 \<and> instruction = 0xd53be040 then
           and_then (assert_that (initialized (execution_context m)) ''execution_context.initialized'') (\<lambda>_.
           on_jit (\<lambda>j. and_then (SetRegister 0 (GetCNTPCT nanoseconds) j) (\<lambda>j1.
                        Inr (SetPC (at_pc + 4) j1))) m)
         else and_then (assert_that False ''Unimplemented instruction'') (\<lambda>_. Inr m))"

definition ExceptionRaised :: "u64 \<Rightarrow> A64_Exception \<Rightarrow> machine \<Rightarrow> machine result" where
  "ExceptionRaised at_pc ex m =
     (case ex of
        Exception_Yield \<Rightarrow>
          and_then (assert_that (initialized (execution_context m)) ''execution_context.initialized'') (\<lambda>_.
          on_jit (\<lambda>j. Inr (HaltExecution SuccessfulExit j)) m)
      | Exception_Other \<Rightarrow> and_then (assert_that False ''exception raised'') (\<lambda>_. Inr m))"

definition CallSVC :: "u32 \<Rightarrow> machine \<Rightarrow> machine result" where
  "CallSVC swi m =
     and_then (assert_that (initialized (execution_context m)) ''execution_context.initialized'') (\<lambda>_.
     on_jit (\<lambda>j. Inr (HaltExecution SupervisorCall j))
       (m\<lparr>execution_context := (execution_context m)\<lparr>svc_number := swi\<rparr>\<rparr>))"

section \<open>Threads\<close>

record process =
  contexts :: "nat \<Rightarrow> ExecutionContext"
  shared :: machine

definition thread_machine :: "nat \<Rightarrow> process \<Rightarrow> machine" where
  "thread_machine t p = (shared p)\<lparr>execution_context := contexts p t\<rparr>"

definition put_thread :: "nat \<Rightarrow> machine \<Rightarrow> process \<Rightarrow> process" where
  "put_thread t m p = p\<lparr>contexts := (contexts p)(t := execution_context m), shared := m\<rparr>"

text \<open>
  One operation on the context of some thread.  The callers of \<^verbatim>\<open>execution_context_free\<close>
  (\<^verbatim>\<open>libs/pthread_impl.cpp\<close>) run it for a context they have initialised.
\<close>

inductive ctx_step :: "process \<Rightarrow> process \<Rightarrow> bool" where
  step_init: "execution_context_init stk ta tp (thread_machine t p) = Inr m \<Longrightarrow>
              ctx_step p (put_thread t m p)"
| step_free: "initialized (contexts p t) \<Longrightarrow>
              execution_context_free (thread_machine t p) = Inr m \<Longrightarrow>
              ctx_step p (put_thread t m p)"
| step_add_ref: "execution_context_add_ref (thread_machine t p) = (n, m) \<Longrightarrow>
                 ctx_step p (put_thread t m p)"
| step_sub_ref: "execution_context_sub_ref (thread_machine t p) = (n, m) \<Longrightarrow>
                 ctx_step p (put_thread t m p)"

inductive_cases ctx_stepE: "ctx_step p q"

definition initial_process :: "machine \<Rightarrow> process" where
  "initial_process m =
     \<lparr>contexts = (\<lambda>_. new_ExecutionContext),
      shared = m\<lparr>used_processors := replicate MAX_CPUS False\<rparr>\<rparr>"

text \<open>
  The pool describes the live contexts exactly: a live context owns its objects and a used id
  below 64, no two threads share an id, and every used id has an owner.
\<close>

definition live_ctx_ok :: "bool list \<Rightarrow> ExecutionContext \<Rightarrow> bool" where
  "live_ctx_ok us c \<longleftrightarrow>
     processor_id c < MAX_CPUS \<and> us ! processor_id c \<and>
     environment c = Owned (processor_id c) \<and>
     (\<exists>j. jit c = Owned j \<and> cfg_processor_id (conf j) = processor_id c) \<and>
     dyncall_vm c = Owned ()"

definition pool_inv :: "process \<Rightarrow> bool" where
  "pool_inv p \<longleftrightarrow>
     length (used_processors (shared p)) = MAX_CPUS \<and>
     (\<forall>t. initialized (contexts p t) \<longrightarrow> live_ctx_ok (used_processors (shared p)) (contexts p t)) \<and>
     (\<forall>t u. initialized (contexts p t) \<and> initialized (contexts p u) \<and>
            processor_id (contexts p t) = processor_id (contexts p u) \<longrightarrow> t = u) \<and>
     (\<forall>i<MAX_CPUS. used_processors (shared p) ! i \<longrightarrow>
        (\<exists>t. initialized (contexts p t) \<and> processor_id (contexts p t) = i))"

section \<open>Lemmas\<close>

lemma find_unused_Some:
  "find_unused bs i = Some k \<Longrightarrow> i \<le> k \<and> k < i + length bs \<and> \<not> bs ! (k - i) \<and> (\<forall>j. i \<le> j \<and> j < k \<longrightarrow> bs ! (j - i))"
proof (induction bs arbitrary: i)
  case (Cons b bs)
  show ?case
  proof (cases b)
    case True
    then have "find_unused bs (i + 1) = Some k" using Cons.prems by simp
    then show ?thesis using Cons.IH [of "i + 1"] True
      by (auto simp: nth_Cons' Suc_le_eq)
  qed (use Cons.prems in auto)
qed simp

lemma find_unused_None: "find_unused bs i = None \<longleftrightarrow> (\<forall>b\<in>set bs. b)"
  by (induction bs arbitrary: i) auto

lemma execution_context_init_Inr:
  assumes "execution_context_init stk ta tp m = Inr m'"
  obtains i where "find_unused (used_processors m) 0 = Some i" "\<not> initialized (execution_context m)"
    "used_processors m' = (used_processors m)[i := True]" "initialized (execution_context m')"
    "processor_id (execution_context m') = i" "environment (execution_context m') = Owned i"
    "\<exists>j. jit (execution_context m') = Owned j \<and> cfg_processor_id (conf j) = i"
    "dyncall_vm (execution_context m') = Owned ()"
  using assms that
  by (auto simp: execution_context_init_def and_then_eq_Inr allocate_processor_id_def Let_def
      context_config_def split: option.splits)

lemma execution_context_free_live:
  assumes "live_ctx_ok us (execution_context m)" "used_processors m = us" "length us = MAX_CPUS"
  shows "execution_context_free m =
    Inr (m\<lparr>execution_context := (execution_context m)
            \<lparr>environment := Dangling, jit := Dangling, dyncall_vm := Dangling, initialized := False\<rparr>,
          used_processors := us[processor_id (execution_context m) := False]\<rparr>)"
  using assms
  by (auto simp: execution_context_free_def live_ctx_ok_def delete_owned_def Let_def
      release_processor_id_def)

lemma pool_inv_initial: "pool_inv (initial_process m)"
  by (simp add: pool_inv_def initial_process_def new_ExecutionContext_def)

lemma pool_inv_live:
  assumes "pool_inv p" "initialized (contexts p u)"
  shows "processor_id (contexts p u) < length (used_processors (shared p))"
    "used_processors (shared p) ! processor_id (contexts p u)"
    "length (used_processors (shared p)) = MAX_CPUS"
  using assms by (auto simp: pool_inv_def live_ctx_ok_def)

lemma pool_inv_owner:
  assumes "pool_inv p" "i < MAX_CPUS" "used_processors (shared p) ! i"
  shows "\<exists>u. initialized (contexts p u) \<and> processor_id (contexts p u) = i"
  using assms by (simp add: pool_inv_def)

lemma pool_inv_update:
  assumes inv: "pool_inv p"
    and q: "contexts q = (contexts p)(t := c)" "used_processors (shared q) = us"
    and len: "length us = MAX_CPUS"
    and new: "initialized c \<Longrightarrow> live_ctx_ok us c"
    and clash: "\<And>u. initialized c \<Longrightarrow> initialized (contexts p u) \<Longrightarrow> u \<noteq> t \<Longrightarrow>
                 processor_id (contexts p u) \<noteq> processor_id c"
    and keep: "\<And>u. initialized (contexts p u) \<Longrightarrow> u \<noteq> t \<Longrightarrow> us ! processor_id (contexts p u)"
    and owner: "\<And>i. i < MAX_CPUS \<Longrightarrow> us ! i \<Longrightarrow>
                 (initialized c \<and> processor_id c = i) \<or>
                 (\<exists>u. u \<noteq> t \<and> initialized (contexts p u) \<and> processor_id (contexts p u) = i)"
  shows "pool_inv q"
  unfolding pool_inv_def q
proof (intro conjI allI impI)
  fix u assume "initialized (((contexts p)(t := c)) u)"
  then show "live_ctx_ok us (((contexts p)(t := c)) u)"
    using inv new keep [of u] by (cases "u = t") (auto simp: pool_inv_def live_ctx_ok_def)
next
  fix u v
  assume "initialized (((contexts p)(t := c)) u) \<and> initialized (((contexts p)(t := c)) v) \<and>
    processor_id (((contexts p)(t := c)) u) = processor_id (((contexts p)(t := c)) v)"
  then show "u = v"
    using inv clash [of u] clash [of v]
    by (cases "u = t"; cases "v = t") (auto simp: pool_inv_def)
next
  fix i assume "i < MAX_CPUS" "us ! i"
  then consider "initialized c \<and> processor_id c = i"
    | u where "u \<noteq> t" "initialized (contexts p u)" "processor_id (contexts p u) = i"
    using owner by blast
  then show "\<exists>u. initialized (((contexts p)(t := c)) u) \<and> processor_id (((contexts p)(t := c)) u) = i"
  proof cases
    case 1
    then show ?thesis by (intro exI [of _ t]) simp
  next
    case (2 u)
    then show ?thesis by (intro exI [of _ u]) simp
  qed
qed (rule len)

lemma pool_inv_init:
  assumes inv: "pool_inv p" and ok: "execution_context_init stk ta tp (thread_machine t p) = Inr m"
  shows "pool_inv (put_thread t m p)"
proof -
  obtain i where i: "find_unused (used_processors (thread_machine t p)) 0 = Some i"
    and ni: "\<not> initialized (execution_context (thread_machine t p))"
    and us: "used_processors m = (used_processors (thread_machine t p))[i := True]"
    and c: "initialized (execution_context m)" "processor_id (execution_context m) = i"
      "environment (execution_context m) = Owned i"
      "\<exists>j. jit (execution_context m) = Owned j \<and> cfg_processor_id (conf j) = i"
      "dyncall_vm (execution_context m) = Owned ()"
    by (rule execution_context_init_Inr [OF ok]) blast
  have fresh: "i < MAX_CPUS" "\<not> used_processors (shared p) ! i"
    using find_unused_Some [OF i] inv by (auto simp: pool_inv_def thread_machine_def)
  have us': "used_processors m = (used_processors (shared p))[i := True]"
    using us by (simp add: thread_machine_def)
  have new: "contexts (put_thread t m p) = (contexts p)(t := execution_context m)"
    "used_processors (shared (put_thread t m p)) = (used_processors (shared p))[i := True]"
    by (simp_all add: put_thread_def us')
  have nt: "\<not> initialized (contexts p t)" using ni by (simp add: thread_machine_def)
  have len: "length (used_processors (shared p)) = MAX_CPUS" using inv by (simp add: pool_inv_def)
  have other: "processor_id (contexts p u) \<noteq> i" if "initialized (contexts p u)" for u
    using pool_inv_live(2) [OF inv that] fresh(2) by auto
  have c_ok: "live_ctx_ok ((used_processors (shared p))[i := True]) (execution_context m)"
    using c fresh(1) len by (auto simp: live_ctx_ok_def)
  have owner: "k = i \<or> (\<exists>u. u \<noteq> t \<and> initialized (contexts p u) \<and> processor_id (contexts p u) = k)"
    if "k < MAX_CPUS" "((used_processors (shared p))[i := True]) ! k" for k
    using that pool_inv_owner [OF inv, of k] nt by (cases "k = i") auto
  have keep: "((used_processors (shared p))[i := True]) ! processor_id (contexts p u)"
    if "initialized (contexts p u)" for u
    using pool_inv_live(2) [OF inv that] other [OF that] by simp
  show ?thesis
  proof (rule pool_inv_update [OF inv new])
    show "length ((used_processors (shared p))[i := True]) = MAX_CPUS" using len by simp
    show "live_ctx_ok ((used_processors (shared p))[i := True]) (execution_context m)" by (rule c_ok)
    show "processor_id (contexts p u) \<noteq> processor_id (execution_context m)"
      if "initialized (contexts p u)" for u
      using other [OF that] c(2) by simp
    show "initialized (execution_context m) \<and> processor_id (execution_context m) = k \<or>
        (\<exists>u. u \<noteq> t \<and> initialized (contexts p u) \<and> processor_id (contexts p u) = k)"
      if "k < MAX_CPUS" "((used_processors (shared p))[i := True]) ! k" for k
      using owner [OF that] c(1,2) by auto
  qed (use keep in simp_all)
qed

lemma pool_inv_free:
  assumes inv: "pool_inv p" and live: "initialized (contexts p t)"
    and ok: "execution_context_free (thread_machine t p) = Inr m"
  shows "pool_inv (put_thread t m p)"
proof -
  have c: "live_ctx_ok (used_processors (shared p)) (contexts p t)"
    and len: "length (used_processors (shared p)) = MAX_CPUS"
    using inv live by (auto simp: pool_inv_def)
  have m: "m = (thread_machine t p)\<lparr>execution_context := (contexts p t)
            \<lparr>environment := Dangling, jit := Dangling, dyncall_vm := Dangling, initialized := False\<rparr>,
          used_processors := (used_processors (shared p))[processor_id (contexts p t) := False]\<rparr>"
    using execution_context_free_live [of "used_processors (shared p)" "thread_machine t p"] c len ok
    by (simp add: thread_machine_def)
  have uniq: "processor_id (contexts p u) \<noteq> processor_id (contexts p t)"
    if "initialized (contexts p u)" "u \<noteq> t" for u
    using inv live that by (auto simp: pool_inv_def)
  have new: "contexts (put_thread t m p) = (contexts p)(t := execution_context m)"
    "used_processors (shared (put_thread t m p)) =
       (used_processors (shared p))[processor_id (contexts p t) := False]"
    by (simp_all add: put_thread_def m)
  let ?us = "(used_processors (shared p))[processor_id (contexts p t) := False]"
  have off: "\<not> initialized (execution_context m)" by (simp add: m)
  have owner: "\<exists>u. u \<noteq> t \<and> initialized (contexts p u) \<and> processor_id (contexts p u) = i"
    if "i < MAX_CPUS" "?us ! i" for i
    using that pool_inv_owner [OF inv, of i] pool_inv_live(1) [OF inv live]
    by (cases "i = processor_id (contexts p t)") auto
  have keep: "?us ! processor_id (contexts p u)" if "initialized (contexts p u)" "u \<noteq> t" for u
    using pool_inv_live(2) [OF inv that(1)] uniq [OF that] by simp
  show ?thesis
  proof (rule pool_inv_update [OF inv new])
    show "length ?us = MAX_CPUS" using len by simp
  qed (use off keep owner in simp_all)
qed

lemma pool_inv_ref:
  assumes inv: "pool_inv p" and m: "used_processors m = used_processors (shared p)"
    "execution_context m = (contexts p t)\<lparr>ref_count := n\<rparr>"
  shows "pool_inv (put_thread t m p)"
proof -
  have new: "contexts (put_thread t m p) = (contexts p)(t := execution_context m)"
    "used_processors (shared (put_thread t m p)) = used_processors (shared p)"
    by (simp_all add: put_thread_def m)
  have owner: "(initialized (contexts p t) \<and> processor_id (contexts p t) = i) \<or>
      (\<exists>u. u \<noteq> t \<and> initialized (contexts p u) \<and> processor_id (contexts p u) = i)"
    if "i < MAX_CPUS" "used_processors (shared p) ! i" for i
    using inv that unfolding pool_inv_def by metis
  show ?thesis
    by (rule pool_inv_update [OF inv new])
      (use inv m(2) owner in \<open>auto simp: pool_inv_def live_ctx_ok_def\<close>)
qed

lemma pool_inv_step: "ctx_step p q \<Longrightarrow> pool_inv p \<Longrightarrow> pool_inv q"
proof (induction rule: ctx_step.induct)
  case (step_add_ref t p n m)
  then show ?case
    by (intro pool_inv_ref [where n = n])
      (auto simp: execution_context_add_ref_def thread_machine_def Let_def)
next
  case (step_sub_ref t p n m)
  then show ?case
    by (intro pool_inv_ref [where n = n])
      (auto simp: execution_context_sub_ref_def thread_machine_def Let_def)
qed (auto intro: pool_inv_init pool_inv_free)

lemma pool_inv_reachable: "ctx_step\<^sup>*\<^sup>* (initial_process m) p \<Longrightarrow> pool_inv p"
  by (induction rule: rtranclp_induct) (auto intro: pool_inv_initial pool_inv_step)

lemma init_succeeds_iff:
  assumes inv: "pool_inv p" and t: "\<not> initialized (contexts p t)"
  shows "(\<exists>m. execution_context_init stk ta tp (thread_machine t p) = Inr m) \<longleftrightarrow>
         (\<exists>i<MAX_CPUS. \<forall>u. initialized (contexts p u) \<longrightarrow> processor_id (contexts p u) \<noteq> i)"
    (is "?L \<longleftrightarrow> ?R")
proof -
  let ?us = "used_processors (shared p)"
  have len: "length ?us = MAX_CPUS" using inv by (simp add: pool_inv_def)
  have "?L \<longleftrightarrow> find_unused ?us 0 \<noteq> None"
    using t by (auto simp: execution_context_init_def allocate_processor_id_def thread_machine_def
        Let_def split: option.splits)
  also have "\<dots> \<longleftrightarrow> (\<exists>i<MAX_CPUS. \<not> ?us ! i)"
    by (simp add: find_unused_None all_set_conv_all_nth len)
  also have "\<dots> \<longleftrightarrow> ?R"
    using pool_inv_owner [OF inv] pool_inv_live(2) [OF inv] by blast
  finally show ?thesis .
qed

section \<open>Properties\<close>

text \<open>
  C10.  Whatever sequence of context operations the threads perform, live contexts have
  pairwise different processor ids below 64 (so they never share a slot of the exclusive
  monitor), the recompiler of each was configured with that id, freeing a live context always
  succeeds without a double delete, and creating one fails only when all 64 ids belong to live
  contexts.
\<close>

theorem processor_ids_exclusive:
  assumes "ctx_step\<^sup>*\<^sup>* (initial_process m0) p"
  shows "(\<forall>t u. initialized (contexts p t) \<and> initialized (contexts p u) \<and>
                 processor_id (contexts p t) = processor_id (contexts p u) \<longrightarrow> t = u) \<and>
         (\<forall>t. initialized (contexts p t) \<longrightarrow>
              processor_id (contexts p t) < 64 \<and>
              (\<exists>j. get_jit (thread_machine t p) = Inr j \<and>
                   cfg_processor_id (conf j) = processor_id (contexts p t)) \<and>
              (\<exists>m. execution_context_free (thread_machine t p) = Inr m)) \<and>
         (\<forall>t. \<not> initialized (contexts p t) \<longrightarrow>
              ((\<exists>m. execution_context_init stk ta tp (thread_machine t p) = Inr m) \<longleftrightarrow>
               (\<exists>i<64. \<forall>u. initialized (contexts p u) \<longrightarrow> processor_id (contexts p u) \<noteq> i)))"
proof (intro conjI allI impI)
  have inv: "pool_inv p" by (rule pool_inv_reachable [OF assms])
  fix t
  {
    fix u
    assume "initialized (contexts p t) \<and> initialized (contexts p u) \<and>
      processor_id (contexts p t) = processor_id (contexts p u)"
    then show "t = u" using inv by (simp add: pool_inv_def)
  }
  {
    assume "initialized (contexts p t)"
    then have ok: "live_ctx_ok (used_processors (shared p)) (contexts p t)"
      and len: "length (used_processors (shared p)) = MAX_CPUS"
      using inv by (simp_all add: pool_inv_def)
    then show "processor_id (contexts p t) < 64" by (simp add: live_ctx_ok_def MAX_CPUS_def)
    show "\<exists>j. get_jit (thread_machine t p) = Inr j \<and>
        cfg_processor_id (conf j) = processor_id (contexts p t)"
      using ok by (auto simp: live_ctx_ok_def get_jit_def thread_machine_def)
    show "\<exists>m. execution_context_free (thread_machine t p) = Inr m"
      using execution_context_free_live [of _ "thread_machine t p"] ok len
      by (simp add: thread_machine_def)
  }
  assume "\<not> initialized (contexts p t)"
  then show "(\<exists>m. execution_context_init stk ta tp (thread_machine t p) = Inr m) =
      (\<exists>i<64. \<forall>u. initialized (contexts p u) \<longrightarrow> processor_id (contexts p u) \<noteq> i)"
    using init_succeeds_iff [OF inv] by (simp add: MAX_CPUS_def)
qed

lemma main_thread_initialises:
  "\<exists>m. execution_context_init (Some 0x70000000) 0x1000 0x0ff8
         (thread_machine 0 (initial_process (initial_machine (\<lambda>_. 0)))) = Inr m \<and>
       initialized (execution_context m)"
  by (simp add: execution_context_init_def allocate_processor_id_def thread_machine_def
      initial_process_def initial_machine_def new_ExecutionContext_def MAX_CPUS_def Let_def
      numeral_eq_Suc)

theorem processor_ids_exclusive_witness:
  "\<exists>p. ctx_step\<^sup>*\<^sup>* (initial_process (initial_machine (\<lambda>_. 0))) p \<and> initialized (contexts p 0) \<and>
       (\<exists>m. execution_context_free (thread_machine 0 p) = Inr m)"
proof -
  let ?p0 = "initial_process (initial_machine (\<lambda>_. 0))"
  obtain m where m: "execution_context_init (Some 0x70000000) 0x1000 0x0ff8 (thread_machine 0 ?p0) = Inr m"
    "initialized (execution_context m)"
    using main_thread_initialises by blast
  have reach: "ctx_step\<^sup>*\<^sup>* ?p0 (put_thread 0 m ?p0)"
    by (rule r_into_rtranclp, rule step_init [OF m(1)])
  have live: "initialized (contexts (put_thread 0 m ?p0) 0)" using m(2) by (simp add: put_thread_def)
  then show ?thesis using reach processor_ids_exclusive [OF reach] by blast
qed

section \<open>Ending a guest run\<close>

lemma on_jit_owned:
  "jit (execution_context m) = Owned k \<Longrightarrow>
   on_jit f m = and_then (f (jit_state k)) (\<lambda>j. Inr (put_jit_state j m))"
  by (simp add: on_jit_def get_jit_def)

text \<open>
  In every context the initialisation produces, the \<^verbatim>\<open>YIELD\<close> word that ends a guest run is
  translated to a raised exception although the configuration leaves
  \<^verbatim>\<open>hook_hint_instructions\<close> off; the callback then requests a halt whose reason is exactly
  \<^verbatim>\<open>SuccessfulExit\<close>, while a supervisor call requests \<^verbatim>\<open>SupervisorCall\<close> and records its number.
\<close>

theorem guest_exit_halts:
  assumes "execution_context_init stk ta tp m = Inr m1"
  shows "\<exists>k m2 m3. get_jit m1 = Inr k \<and> \<not> cfg_hook_hint_instructions (conf k) \<and>
           translate_YIELD (translation_options (conf k)) a = Some (a + 4, Exception_Yield) \<and>
           ExceptionRaised a Exception_Yield m1 = Inr m2 \<and>
           and_then (get_jit m2) (\<lambda>k. Inr (halt_reason (jit_state k))) = Inr SuccessfulExit \<and>
           CallSVC swi m1 = Inr m3 \<and>
           and_then (get_jit m3) (\<lambda>k. Inr (halt_reason (jit_state k))) = Inr SupervisorCall \<and>
           svc_number (execution_context m3) = swi"
  using assms
  by (auto simp: execution_context_init_def and_then_eq_Inr allocate_processor_id_def Let_def
      get_jit_def context_config_def default_UserConfig_def translate_YIELD_def
      translation_options_def default_TranslationOptions_def ExceptionRaised_def CallSVC_def
      on_jit_def put_jit_state_def HaltExecution_def SetSP_def new_A64JitState_def ResetRSB_def
      split: option.splits)

theorem guest_exit_halts_witness:
  "\<exists>m1 m2. execution_context_init (Some 0x70000000) 0x1000 0x0ff8 (initial_machine (\<lambda>_. 0)) = Inr m1 \<and>
     ExceptionRaised 0x40 Exception_Yield m1 = Inr m2 \<and>
     and_then (get_jit m2) (\<lambda>k. Inr (halt_reason (jit_state k))) = Inr SuccessfulExit"
proof -
  obtain m1 where m1: "execution_context_init (Some 0x70000000) 0x1000 0x0ff8 (initial_machine (\<lambda>_. 0)) = Inr m1"
    by (simp add: execution_context_init_def allocate_processor_id_def
      initial_machine_def new_ExecutionContext_def MAX_CPUS_def Let_def numeral_eq_Suc)
  show ?thesis using m1 guest_exit_halts [OF m1, of "0x40"] by blast
qed

section \<open>The counter-timer\<close>

text \<open>
  C26.  The guest's counter register is the host clock scaled from nanoseconds to the advertised
  19.2 MHz, rounded down: reducing the ratio to lowest terms loses nothing, and the counter is
  monotone and exact to one tick.
\<close>

theorem cntpct_frequency:
  assumes "0 \<le> t" and "t \<le> t'" and "t' < 700000000000000000"
  shows "GetCNTPCT t = of_int (t * CNT_FREQUENCY div 1000000000) \<and> GetCNTPCT t \<le> GetCNTPCT t' \<and>
         uint (GetCNTPCT t) * 1000000000 \<le> t * CNT_FREQUENCY \<and>
         t * CNT_FREQUENCY < (uint (GetCNTPCT t) + 1) * 1000000000"
proof -
  have ratio: "CntRatio_num = 12" "CntRatio_den = 625"
    by code_simp+
  have eq: "x * 12 div 625 = x * 19200000 div 1000000000" for x :: int
    using div_mult_mult2 [of "1600000 :: int" "x * 12" 625] by simp
  have small: "uint (GetCNTPCT x) = x * 12 div 625" if "0 \<le> x" "x \<le> t'" for x
  proof -
    have "x * 12 \<le> t' * 12" using that by simp
    then have "x * 12 div 625 \<le> t' * 12 div 625" by (rule zdiv_mono1) simp
    also have "t' * 12 div 625 < 18446744073709551616" using assms(3) by simp
    finally show ?thesis
      unfolding GetCNTPCT_def ratio using that by (simp add: unsigned_of_int take_bit_int_eq_self)
  qed
  have mono: "t * 12 div 625 \<le> t' * 12 div 625" using assms(2) by (intro zdiv_mono1) auto
  let ?n = "t * 19200000 :: int"
  note n = div_mult_mod_eq [of ?n 1000000000] pos_mod_sign [of 1000000000 ?n]
    pos_mod_bound [of 1000000000 ?n]
  have lower: "?n div 1000000000 * 1000000000 \<le> ?n" using n by linarith
  have "?n < (?n div 1000000000 + 1) * 1000000000" unfolding distrib_right using n by linarith
  then show ?thesis
    using small [of t] small [of t'] assms(1,2) mono lower
    by (simp add: GetCNTPCT_def ratio eq CNT_FREQUENCY_def word_le_def)
qed

theorem cntpct_frequency_witness:
  "(0 :: int) \<le> 1000000000 \<and> GetCNTPCT 1000000000 \<le> GetCNTPCT 2000000000 \<and>
   uint (GetCNTPCT 1000000000) * 1000000000 \<le> 1000000000 * CNT_FREQUENCY"
proof -
  have h: "(0 :: int) \<le> 1000000000" "(1000000000 :: int) \<le> 2000000000"
    "(2000000000 :: int) < 700000000000000000" by simp_all
  show ?thesis using h(1) cntpct_frequency [OF h] by blast
qed

end
