(* ===== verification/Supervisor_Call.thy ===== *)
theory Supervisor_Call
  imports Execution_Context
begin

unbundle bit_operations_syntax

text \<open>
  The two ways a guest \<^verbatim>\<open>SVC\<close> reaches a host function.  \<^verbatim>\<open>GetSupervisorFastCall\<close>
  (\<^verbatim>\<open>src/src/execution_context.cpp\<close>) decides whether the recompiler emits a direct call
  (\<^verbatim>\<open>EmitA64CallSupervisor\<close> in \<^verbatim>\<open>a64_emit_x64.cpp\<close>); otherwise the run halts and \<^verbatim>\<open>handle_call_svc\<close>
  marshals the arguments through dyncall, translating a guest \<^verbatim>\<open>va_list\<close> on the way.  Dyncall
  and the host functions are parameters: \<open>native kind f args m\<close> is the effect of resetting the
  call VM, pushing \<open>args\<close> in order and calling \<open>f\<close>; \<open>sysv f ints floats m\<close> is a direct call with
  the given argument registers, yielding the two return registers.
\<close>

section \<open>Calls out of the guest\<close>

datatype dc_arg = DcLongLong u64 | DcDouble u64 | DcPointer u64

datatype dc_kind = CallPointer | CallDouble | CallVoid

type_synonym native_call = "dc_kind \<Rightarrow> u64 \<Rightarrow> dc_arg list \<Rightarrow> machine \<Rightarrow> (u64 \<times> machine) result"
type_synonym sysv_call = "u64 \<Rightarrow> u64 list \<Rightarrow> u64 list \<Rightarrow> machine \<Rightarrow> (u64 \<times> u64 \<times> machine) result"

datatype ReturnType = ReturnVoid | ReturnInteger | ReturnFloat

record SupervisorFastCall =
  fc_function :: u64
  integer_params :: nat
  float_params :: nat
  return_type :: ReturnType

section \<open>The decision\<close>

text \<open>The loop over \<^verbatim>\<open>types[1..]\<close>: \<open>None\<close> is the early \<^verbatim>\<open>return std::nullopt\<close>.\<close>

fun count_fast_args :: "FunctionArgumentType list \<Rightarrow> nat \<Rightarrow> nat \<Rightarrow> (nat \<times> nat) option" where
  "count_fast_args [] int_args float_args = Some (int_args, float_args)"
| "count_fast_args (t # ts) int_args float_args =
     (case t of
        unsigned_byte \<Rightarrow> count_fast_args ts (int_args + 1) float_args
      | signed_byte \<Rightarrow> count_fast_args ts (int_args + 1) float_args
      | unsigned_halfword \<Rightarrow> count_fast_args ts (int_args + 1) float_args
      | signed_halfword \<Rightarrow> count_fast_args ts (int_args + 1) float_args
      | unsigned_word \<Rightarrow> count_fast_args ts (int_args + 1) float_args
      | signed_word \<Rightarrow> count_fast_args ts (int_args + 1) float_args
      | unsigned_doubleword \<Rightarrow> count_fast_args ts (int_args + 1) float_args
      | signed_doubleword \<Rightarrow> count_fast_args ts (int_args + 1) float_args
      | pointer \<Rightarrow> count_fast_args ts (int_args + 1) float_args
      | single_precision_fp \<Rightarrow> count_fast_args ts int_args (float_args + 1)
      | double_precision_fp \<Rightarrow> count_fast_args ts int_args (float_args + 1)
      | variadic_list \<Rightarrow> None
      | none \<Rightarrow> None
      | unsupported \<Rightarrow> None)"

fun fast_return_type :: "FunctionArgumentType \<Rightarrow> ReturnType option" where
  "fast_return_type unsigned_byte = Some ReturnInteger"
| "fast_return_type signed_byte = Some ReturnInteger"
| "fast_return_type unsigned_halfword = Some ReturnInteger"
| "fast_return_type signed_halfword = Some ReturnInteger"
| "fast_return_type unsigned_word = Some ReturnInteger"
| "fast_return_type signed_word = Some ReturnInteger"
| "fast_return_type unsigned_doubleword = Some ReturnInteger"
| "fast_return_type signed_doubleword = Some ReturnInteger"
| "fast_return_type pointer = Some ReturnInteger"
| "fast_return_type single_precision_fp = Some ReturnFloat"
| "fast_return_type double_precision_fp = Some ReturnFloat"
| "fast_return_type none = Some ReturnVoid"
| "fast_return_type unsupported = None"
| "fast_return_type variadic_list = None"

definition VARIADIC_TRAMPOLINE_FAST_PATH :: bool where
  "VARIADIC_TRAMPOLINE_FAST_PATH = True"

definition fast_call_of :: "Trampoline \<Rightarrow> SupervisorFastCall option result" where
  "fast_call_of t =
     (if native_func t = 0 then Inr None
      else if has_execution_side_effects t then Inr None
      else if \<not> VARIADIC_TRAMPOLINE_FAST_PATH \<and> is_ellipsis_function t then Inr None
      else case count_fast_args (tl (types t)) 0 0 of
        None \<Rightarrow> Inr None
      | Some (int_args, float_args) \<Rightarrow>
          if 6 < int_args \<or> 8 < float_args then Inr None
          else
            (let (ia, fa) = (if VARIADIC_TRAMPOLINE_FAST_PATH \<and> is_ellipsis_function t
                             then (6, 8) else (int_args, float_args))
             in and_then (vec_index (types t) 0) (\<lambda>rt.
                case fast_return_type rt of
                  None \<Rightarrow> Inr None
                | Some r \<Rightarrow> Inr (Some \<lparr>fc_function = native_func t, integer_params = ia,
                                      float_params = fa, return_type = r\<rparr>))))"

definition GetSupervisorFastCall :: "u32 \<Rightarrow> machine \<Rightarrow> SupervisorFastCall option result" where
  "GetSupervisorFastCall swi m =
     (case trampoline_maybe_get_by_id swi (tramps m) of
        None \<Rightarrow> Inr None
      | Some i \<Rightarrow> fast_call_of (trampolines (tramps m) ! i))"

section \<open>The emitted direct call\<close>

text \<open>
  The code emitted for a fast call, as its effect: general registers \<open>x0..\<close> to the integer
  argument registers, the low halves of \<open>v0..\<close> to the vector argument registers, the call, and
  the result register written back.
\<close>

definition run_fast_call :: "sysv_call \<Rightarrow> SupervisorFastCall \<Rightarrow> machine \<Rightarrow> machine result" where
  "run_fast_call sysv fc m =
     and_then (assert_that (integer_params fc \<le> 6) ''integer_params <= ABI_PARAM_COUNT'') (\<lambda>_.
     and_then (assert_that (float_params fc \<le> 8) ''float_params <= ABI_FLOAT_PARAM_COUNT'') (\<lambda>_.
     and_then (get_jit m) (\<lambda>k.
     (let ints = map (\<lambda>i. reg (jit_state k) ! i) [0..<integer_params fc];
          floats = map (\<lambda>i. vec (jit_state k) ! (2 * i)) [0..<float_params fc]
      in and_then (sysv (fc_function fc) ints floats m) (\<lambda>(rax, xmm0, m1).
         case return_type fc of
           ReturnInteger \<Rightarrow> on_jit (\<lambda>j. Inr (j\<lparr>reg := (reg j)[0 := rax]\<rparr>)) m1
         | ReturnFloat \<Rightarrow> on_jit (\<lambda>j. Inr (j\<lparr>vec := (vec j)[0 := xmm0]\<rparr>)) m1
         | ReturnVoid \<Rightarrow> Inr m1)))))"

definition EmitA64CallSupervisor :: "sysv_call \<Rightarrow> u32 \<Rightarrow> machine \<Rightarrow> machine result" where
  "EmitA64CallSupervisor sysv imm m =
     and_then (GetSupervisorFastCall imm m) (\<lambda>fast_call.
     and_then (case fast_call of
                 Some fc \<Rightarrow> run_fast_call sysv fc m
               | None \<Rightarrow> CallSVC imm m) (\<lambda>m1.
     on_jit (\<lambda>j. Inr (ClearExclusiveState j)) m1))"

section \<open>The slow path\<close>

record Aarch64VaArgsData =
  va_stack :: u64
  gr_top :: u64
  vr_top :: u64
  gr_offs :: u32
  vr_offs :: u32

definition load_Aarch64VaArgsData :: "u64 \<Rightarrow> memory \<Rightarrow> Aarch64VaArgsData" where
  "load_Aarch64VaArgsData a mem =
     \<lparr>va_stack = read_mem 8 a mem, gr_top = read_mem 8 (a + 8) mem, vr_top = read_mem 8 (a + 16) mem,
      gr_offs = read_mem 4 (a + 24) mem, vr_offs = read_mem 4 (a + 28) mem\<rparr>"

record x86_64VaArgsData =
  gp_offset :: u32
  fp_offset :: u32
  overflow_arg_area :: u64
  reg_save_area :: u64

definition store_x86_64VaArgsData :: "u64 \<Rightarrow> x86_64VaArgsData \<Rightarrow> memory \<Rightarrow> memory" where
  "store_x86_64VaArgsData a d mem =
     write_mem 8 (a + 16) (reg_save_area d)
       (write_mem 8 (a + 8) (overflow_arg_area d)
         (write_mem 4 (a + 4) (fp_offset d) (write_mem 4 a (gp_offset d) mem)))"

definition load_x86_64VaArgsData :: "u64 \<Rightarrow> memory \<Rightarrow> x86_64VaArgsData" where
  "load_x86_64VaArgsData a mem =
     \<lparr>gp_offset = read_mem 4 a mem, fp_offset = read_mem 4 (a + 4) mem,
      overflow_arg_area = read_mem 8 (a + 8) mem, reg_save_area = read_mem 8 (a + 16) mem\<rparr>"

text \<open>
  The conversion of a guest \<^verbatim>\<open>va_list\<close>.  \<open>va_addr\<close> and \<open>gp_addr\<close> are the addresses of the two
  locals \<^verbatim>\<open>native_va_args_data\<close> and \<^verbatim>\<open>gp_arg_buffer\<close> (128 bytes).
\<close>

definition convert_va_list :: "u64 \<Rightarrow> u64 \<Rightarrow> u64 \<Rightarrow> memory \<Rightarrow> memory result" where
  "convert_va_list va_addr gp_addr guest mem =
     (let g = load_Aarch64VaArgsData guest mem;
          fp = 176 + vr_offs g;
          save = vr_top g - 176
      in if 0 \<le> sint (gr_offs g) then
           Inr (store_x86_64VaArgsData va_addr
                  \<lparr>gp_offset = 48, fp_offset = fp, overflow_arg_area = va_stack g,
                   reg_save_area = save\<rparr> mem)
         else
           (let gr_size = - gr_offs g;
                n = unat gr_size
            in if 128 < n then Inl Invalid_access
               else
                 (let mem1 = store_bytes (load_bytes n (gr_top g - of_nat n) mem) gp_addr mem;
                      mem2 = (if 0 < 128 - n \<and> va_stack g \<noteq> 0
                              then store_bytes (load_bytes (128 - n) (va_stack g) mem1)
                                     (gp_addr + of_nat n) mem1
                              else mem1)
                  in Inr (store_x86_64VaArgsData va_addr
                            \<lparr>gp_offset = 48, fp_offset = fp, overflow_arg_area = gp_addr,
                             reg_save_area = save\<rparr> mem2))))"

record svc_cursor =
  x_reg :: nat
  v_reg :: nat
  stack_cursor :: u64
  dc_args :: "dc_arg list"
  cur_mem :: memory

definition next_int :: "A64JitState \<Rightarrow> svc_cursor \<Rightarrow> (u64 \<times> svc_cursor) result" where
  "next_int j c =
     (if 7 < x_reg c
      then Inr (read_mem 8 (stack_cursor c) (cur_mem c), c\<lparr>stack_cursor := stack_cursor c + 8\<rparr>)
      else and_then (GetRegister (x_reg c) j) (\<lambda>v. Inr (v, c\<lparr>x_reg := x_reg c + 1\<rparr>)))"

definition next_float :: "A64JitState \<Rightarrow> svc_cursor \<Rightarrow> (u64 \<times> svc_cursor) result" where
  "next_float j c =
     (if 7 < v_reg c
      then Inr (read_mem 8 (stack_cursor c) (cur_mem c), c\<lparr>stack_cursor := stack_cursor c + 8\<rparr>)
      else and_then (GetVector (v_reg c) j) (\<lambda>v. Inr (fst v, c\<lparr>v_reg := v_reg c + 1\<rparr>)))"

definition push_arg :: "dc_arg \<Rightarrow> svc_cursor \<Rightarrow> svc_cursor" where
  "push_arg a c = c\<lparr>dc_args := dc_args c @ [a]\<rparr>"

text \<open>\<open>Inr None\<close> is the early return after \<^verbatim>\<open>Unsupported function argument type\<close>.\<close>

fun marshal_args ::
    "u64 \<Rightarrow> u64 \<Rightarrow> A64JitState \<Rightarrow> FunctionArgumentType list \<Rightarrow> svc_cursor \<Rightarrow> svc_cursor option result" where
  "marshal_args va_addr gp_addr j [] c = Inr (Some c)"
| "marshal_args va_addr gp_addr j (t # ts) c =
     (if is_int_class t then
        and_then (next_int j c) (\<lambda>(v, c1). marshal_args va_addr gp_addr j ts (push_arg (DcLongLong v) c1))
      else if function_argument_is_float t then
        and_then (next_float j c) (\<lambda>(v, c1). marshal_args va_addr gp_addr j ts (push_arg (DcDouble v) c1))
      else if t = variadic_list then
        and_then (next_int j c) (\<lambda>(guest, c1).
        and_then (convert_va_list va_addr gp_addr guest (cur_mem c1)) (\<lambda>mem.
        marshal_args va_addr gp_addr j ts (push_arg (DcPointer va_addr) (c1\<lparr>cur_mem := mem\<rparr>))))
      else Inr None)"

text \<open>The registers an ellipsis function gets in addition to its named parameters.\<close>

fun rest_ints :: "A64JitState \<Rightarrow> nat list \<Rightarrow> dc_arg list result" where
  "rest_ints j [] = Inr []"
| "rest_ints j (i # is) =
     and_then (GetRegister i j) (\<lambda>v. and_then (rest_ints j is) (\<lambda>vs. Inr (DcLongLong v # vs)))"

fun rest_floats :: "A64JitState \<Rightarrow> nat list \<Rightarrow> dc_arg list result" where
  "rest_floats j [] = Inr []"
| "rest_floats j (i # is) =
     and_then (GetVector i j) (\<lambda>v. and_then (rest_floats j is) (\<lambda>vs. Inr (DcDouble (fst v) # vs)))"

definition handle_call_svc :: "native_call \<Rightarrow> u64 \<Rightarrow> u64 \<Rightarrow> u32 \<Rightarrow> machine \<Rightarrow> machine result" where
  "handle_call_svc native va_addr gp_addr swi m =
     and_then (get_jit m) (\<lambda>k.
     and_then (trampoline_get_by_id swi (tramps m)) (\<lambda>n.
     (let t = trampolines (tramps m) ! n; j = jit_state k in
      and_then (vec_index (types t) 0) (\<lambda>rt.
      and_then (marshal_args va_addr gp_addr j (tl (types t))
                 \<lparr>x_reg = 0, v_reg = 0, stack_cursor = GetSP j, dc_args = [], cur_mem = guest_memory m\<rparr>)
       (\<lambda>marshalled. case marshalled of
          None \<Rightarrow> Inr m
        | Some c \<Rightarrow>
            and_then (if is_ellipsis_function t
                      then and_then (rest_ints j [x_reg c..<8]) (\<lambda>is.
                           and_then (rest_floats j [v_reg c..<8]) (\<lambda>fs. Inr (dc_args c @ is @ fs)))
                      else Inr (dc_args c)) (\<lambda>args.
            (let m1 = m\<lparr>guest_memory := cur_mem c\<rparr> in
             if is_int_class rt then
               and_then (native CallPointer (native_func t) args m1) (\<lambda>(v, m2). on_jit (SetRegister 0 v) m2)
             else if function_argument_is_float rt then
               and_then (GetVector 0 j) (\<lambda>old.
               and_then (native CallDouble (native_func t) args m1) (\<lambda>(v, m2).
               on_jit (SetVector 0 (v, snd old)) m2))
             else if rt = none then
               and_then (native CallVoid (native_func t) args m1) (\<lambda>(v, m2). Inr m2)
             else Inr m1)))))))"

section \<open>Specification of argument passing\<close>

text \<open>
  Where the AArch64 procedure call standard puts a parameter of class \<open>t\<close> that follows the
  parameters \<open>pre\<close>: the first eight of each kind in registers, the others in consecutive
  eight-byte stack slots.
\<close>

definition n_ints :: "FunctionArgumentType list \<Rightarrow> nat" where
  "n_ints ts = length (filter is_int_class ts)"

definition n_floats :: "FunctionArgumentType list \<Rightarrow> nat" where
  "n_floats ts = length (filter function_argument_is_float ts)"

definition stack_slots :: "FunctionArgumentType list \<Rightarrow> nat" where
  "stack_slots pre = (n_ints pre - 8) + (n_floats pre - 8)"

definition aapcs64_arg ::
    "A64JitState \<Rightarrow> memory \<Rightarrow> FunctionArgumentType list \<Rightarrow> FunctionArgumentType \<Rightarrow> dc_arg" where
  "aapcs64_arg j mem pre t =
     (let slot = read_mem 8 (sp j + 8 * of_nat (stack_slots pre)) mem
      in if is_int_class t
         then DcLongLong (if n_ints pre < 8 then reg j ! n_ints pre else slot)
         else DcDouble (if n_floats pre < 8 then vec j ! (2 * n_floats pre) else slot))"

definition aapcs64_args :: "A64JitState \<Rightarrow> memory \<Rightarrow> FunctionArgumentType list \<Rightarrow> dc_arg list" where
  "aapcs64_args j mem ts = map (\<lambda>i. aapcs64_arg j mem (take i ts) (ts ! i)) [0..<length ts]"

definition plain_class :: "FunctionArgumentType \<Rightarrow> bool" where
  "plain_class t \<longleftrightarrow> is_int_class t \<or> function_argument_is_float t"

definition ints_of :: "dc_arg list \<Rightarrow> u64 list" where
  "ints_of args = concat (map (\<lambda>a. case a of DcLongLong v \<Rightarrow> [v] | DcPointer v \<Rightarrow> [v] | DcDouble _ \<Rightarrow> []) args)"

definition floats_of :: "dc_arg list \<Rightarrow> u64 list" where
  "floats_of args = concat (map (\<lambda>a. case a of DcDouble v \<Rightarrow> [v] | _ \<Rightarrow> []) args)"

text \<open>The state of the marshalling loop after the parameters \<open>pre\<close>.\<close>

definition cursor_after :: "A64JitState \<Rightarrow> memory \<Rightarrow> FunctionArgumentType list \<Rightarrow> svc_cursor" where
  "cursor_after j mem pre =
     \<lparr>x_reg = min 8 (n_ints pre), v_reg = min 8 (n_floats pre),
      stack_cursor = sp j + 8 * of_nat (stack_slots pre),
      dc_args = aapcs64_args j mem pre, cur_mem = mem\<rparr>"

section \<open>Specification of variable arguments\<close>

text \<open>
  \<^verbatim>\<open>va_arg\<close> for eight-byte integers and for doubles, as compiled code performs it on each side:
  the AArch64 one on the guest structure, the x86-64 System V one on the converted structure.
\<close>

datatype va_request = VaInt | VaFp

fun guest_va_arg :: "va_request \<Rightarrow> memory \<Rightarrow> Aarch64VaArgsData \<Rightarrow> u64 \<times> Aarch64VaArgsData" where
  "guest_va_arg VaInt mem g =
     (if sint (gr_offs g) < 0
      then (read_mem 8 (gr_top g + scast (gr_offs g)) mem, g\<lparr>gr_offs := gr_offs g + 8\<rparr>)
      else (read_mem 8 (va_stack g) mem, g\<lparr>va_stack := va_stack g + 8\<rparr>))"
| "guest_va_arg VaFp mem g =
     (if sint (vr_offs g) < 0
      then (read_mem 8 (vr_top g + scast (vr_offs g)) mem, g\<lparr>vr_offs := vr_offs g + 16\<rparr>)
      else (read_mem 8 (va_stack g) mem, g\<lparr>va_stack := va_stack g + 8\<rparr>))"

fun native_va_arg :: "va_request \<Rightarrow> memory \<Rightarrow> x86_64VaArgsData \<Rightarrow> u64 \<times> x86_64VaArgsData" where
  "native_va_arg VaInt mem d =
     (if gp_offset d < 48
      then (read_mem 8 (reg_save_area d + ucast (gp_offset d)) mem, d\<lparr>gp_offset := gp_offset d + 8\<rparr>)
      else (read_mem 8 (overflow_arg_area d) mem, d\<lparr>overflow_arg_area := overflow_arg_area d + 8\<rparr>))"
| "native_va_arg VaFp mem d =
     (if fp_offset d < 176
      then (read_mem 8 (reg_save_area d + ucast (fp_offset d)) mem, d\<lparr>fp_offset := fp_offset d + 16\<rparr>)
      else (read_mem 8 (overflow_arg_area d) mem, d\<lparr>overflow_arg_area := overflow_arg_area d + 8\<rparr>))"

fun guest_va_args :: "va_request list \<Rightarrow> memory \<Rightarrow> Aarch64VaArgsData \<Rightarrow> u64 list" where
  "guest_va_args [] mem g = []"
| "guest_va_args (r # rs) mem g = (case guest_va_arg r mem g of (v, g') \<Rightarrow> v # guest_va_args rs mem g')"

fun native_va_args :: "va_request list \<Rightarrow> memory \<Rightarrow> x86_64VaArgsData \<Rightarrow> u64 list" where
  "native_va_args [] mem d = []"
| "native_va_args (r # rs) mem d = (case native_va_arg r mem d of (v, d') \<Rightarrow> v # native_va_args rs mem d')"

text \<open>
  A \<^verbatim>\<open>va_list\<close> with \<open>a\<close> general and \<open>b\<close> vector registers left, and the locals of the handler
  lying apart from everything it refers to.
\<close>

definition va_shape :: "Aarch64VaArgsData \<Rightarrow> nat \<Rightarrow> nat \<Rightarrow> bool" where
  "va_shape g a b \<longleftrightarrow> a \<le> 8 \<and> b \<le> 8 \<and> gr_offs g = - of_nat (8 * a) \<and> vr_offs g = - of_nat (16 * b)"

definition va_separate :: "u64 \<Rightarrow> u64 \<Rightarrow> Aarch64VaArgsData \<Rightarrow> nat \<Rightarrow> nat \<Rightarrow> bool" where
  "va_separate va gp g a b \<longleftrightarrow>
     disjoint_blocks gp 128 va 24 \<and>
     disjoint_blocks (gr_top g - of_nat (8 * a)) (8 * a) gp 128 \<and>
     disjoint_blocks (gr_top g - of_nat (8 * a)) (8 * a) va 24 \<and>
     disjoint_blocks (vr_top g - of_nat (16 * b)) (16 * b) gp 128 \<and>
     disjoint_blocks (vr_top g - of_nat (16 * b)) (16 * b) va 24 \<and>
     disjoint_blocks (va_stack g) 128 gp 128 \<and> disjoint_blocks (va_stack g) 128 va 24"

text \<open>How many integers the converted list can serve.\<close>

definition va_int_limit :: "Aarch64VaArgsData \<Rightarrow> nat \<Rightarrow> nat" where
  "va_int_limit g a = (if 0 < a \<and> va_stack g = 0 then a else 16)"

definition n_va :: "va_request \<Rightarrow> va_request list \<Rightarrow> nat" where
  "n_va r rs = length (filter (\<lambda>x. x = r) rs)"

text \<open>The value of the guest's \<open>i\<close>-th integer and \<open>f\<close>-th double.\<close>

definition guest_int :: "memory \<Rightarrow> Aarch64VaArgsData \<Rightarrow> nat \<Rightarrow> nat \<Rightarrow> u64" where
  "guest_int mem g a i =
     (if i < a then read_mem 8 (gr_top g - of_nat (8 * a) + of_nat (8 * i)) mem
      else read_mem 8 (va_stack g + of_nat (8 * (i - a))) mem)"

definition guest_fp :: "memory \<Rightarrow> Aarch64VaArgsData \<Rightarrow> nat \<Rightarrow> nat \<Rightarrow> u64" where
  "guest_fp mem g b f = read_mem 8 (vr_top g - of_nat (16 * b) + of_nat (16 * f)) mem"

text \<open>What the conversion leaves for the host function to read.\<close>

definition serves_va_list ::
    "memory \<Rightarrow> Aarch64VaArgsData \<Rightarrow> nat \<Rightarrow> nat \<Rightarrow> memory \<Rightarrow> x86_64VaArgsData \<Rightarrow> bool" where
  "serves_va_list mem g a b mem' d \<longleftrightarrow>
     gp_offset d = 48 \<and> fp_offset d = 176 + - of_nat (16 * b) \<and> reg_save_area d = vr_top g - 176 \<and>
     (\<forall>i<va_int_limit g a. read_mem 8 (overflow_arg_area d + of_nat (8 * i)) mem' = guest_int mem g a i) \<and>
     (\<forall>f<b. read_mem 8 (vr_top g - of_nat (16 * b) + of_nat (16 * f)) mem' = guest_fp mem g b f)"

text \<open>Both structures after \<open>i\<close> integers and \<open>f\<close> doubles have been fetched.\<close>

definition guest_after :: "Aarch64VaArgsData \<Rightarrow> nat \<Rightarrow> nat \<Rightarrow> nat \<Rightarrow> nat \<Rightarrow> Aarch64VaArgsData" where
  "guest_after g a b i f =
     g\<lparr>gr_offs := - of_nat (8 * (a - i)), va_stack := va_stack g + of_nat (8 * (i - a)),
       vr_offs := - of_nat (16 * (b - f))\<rparr>"

definition native_after :: "x86_64VaArgsData \<Rightarrow> nat \<Rightarrow> nat \<Rightarrow> nat \<Rightarrow> x86_64VaArgsData" where
  "native_after d b i f =
     d\<lparr>overflow_arg_area := overflow_arg_area d + of_nat (8 * i),
       fp_offset := 176 + - of_nat (16 * (b - f))\<rparr>"

text \<open>
  What the two ways of calling rely on: dyncall with at most six integer and eight
  floating-point arguments puts them, in order, in the registers the direct call uses, and a
  function registered without execution side effects leaves the guest registers alone.
\<close>

definition dyncall_matches_sysv :: "native_call \<Rightarrow> sysv_call \<Rightarrow> u64 \<Rightarrow> bool" where
  "dyncall_matches_sysv native sysv f \<longleftrightarrow>
     (\<forall>kind args m. length (ints_of args) \<le> 6 \<and> length (floats_of args) \<le> 8 \<longrightarrow>
        native kind f args m =
          and_then (sysv f (ints_of args) (floats_of args) m) (\<lambda>(rax, xmm0, m1).
            Inr (case kind of CallPointer \<Rightarrow> rax | CallDouble \<Rightarrow> xmm0 | CallVoid \<Rightarrow> 0, m1)))"

definition keeps_guest_registers :: "sysv_call \<Rightarrow> u64 \<Rightarrow> bool" where
  "keeps_guest_registers sysv f \<longleftrightarrow>
     (\<forall>ints floats m rax xmm0 m1. sysv f ints floats m = Inr (rax, xmm0, m1) \<longrightarrow>
        jit (execution_context m1) = jit (execution_context m))"

section \<open>The marshalling loop meets the specification\<close>

lemma counts_snoc [simp]:
  "n_ints (ts @ [t]) = n_ints ts + (if is_int_class t then 1 else 0)"
  "n_floats (ts @ [t]) = n_floats ts + (if function_argument_is_float t then 1 else 0)"
  "n_ints [] = 0" "n_floats [] = 0"
  by (simp_all add: n_ints_def n_floats_def)

lemma counts_Cons [simp]:
  "n_ints (t # ts) = (if is_int_class t then 1 else 0) + n_ints ts"
  "n_floats (t # ts) = (if function_argument_is_float t then 1 else 0) + n_floats ts"
  by (simp_all add: n_ints_def n_floats_def)

lemma aapcs64_args_snoc [simp]:
  "aapcs64_args j mem (ts @ [t]) = aapcs64_args j mem ts @ [aapcs64_arg j mem ts t]"
  "aapcs64_args j mem [] = []"
  by (simp_all add: aapcs64_args_def nth_append)

lemma cursor_step_int:
  assumes "jit_state_wf j" "is_int_class t"
  shows "\<exists>v c. next_int j (cursor_after j mem pre) = Inr (v, c) \<and>
               push_arg (DcLongLong v) c = cursor_after j mem (pre @ [t])"
  using assms
  by (auto simp: next_int_def cursor_after_def push_arg_def aapcs64_arg_def Let_def
      stack_slots_def algebra_simps min_def Suc_diff_le of_nat_diff)

lemma cursor_step_float:
  assumes "jit_state_wf j" "function_argument_is_float t"
  shows "\<exists>v c. next_float j (cursor_after j mem pre) = Inr (v, c) \<and>
               push_arg (DcDouble v) c = cursor_after j mem (pre @ [t])"
proof -
  have "\<not> is_int_class t" using assms(2) int_class_not_float by blast
  then show ?thesis using assms
    by (auto simp: next_float_def cursor_after_def push_arg_def aapcs64_arg_def Let_def
        stack_slots_def algebra_simps min_def Suc_diff_le of_nat_diff)
qed

lemma marshal_args_from:
  assumes "jit_state_wf j" "\<forall>t\<in>set ts. plain_class t"
  shows "marshal_args va gp j ts (cursor_after j mem pre) = Inr (Some (cursor_after j mem (pre @ ts)))"
  using assms(2)
proof (induction ts arbitrary: pre)
  case (Cons t ts)
  then have IH: "marshal_args va gp j ts (cursor_after j mem (pre @ [t])) =
      Inr (Some (cursor_after j mem (pre @ t # ts)))"
    using Cons.IH [of "pre @ [t]"] by simp
  consider "is_int_class t" | "\<not> is_int_class t" "function_argument_is_float t"
    using Cons.prems by (auto simp: plain_class_def)
  then show ?case
  proof cases
    case 1
    then show ?thesis using cursor_step_int [OF assms(1) 1, of mem pre] IH by auto
  next
    case 2
    then show ?thesis using cursor_step_float [OF assms(1) 2(2), of mem pre] IH by auto
  qed
qed simp

lemma marshal_args_aapcs64:
  assumes "jit_state_wf j" "\<forall>t\<in>set ts. plain_class t"
  shows "marshal_args va gp j ts
           \<lparr>x_reg = 0, v_reg = 0, stack_cursor = GetSP j, dc_args = [], cur_mem = mem\<rparr> =
         Inr (Some (cursor_after j mem ts))"
  using marshal_args_from [OF assms, of va gp mem "[]"]
  by (simp add: cursor_after_def stack_slots_def GetSP_def)

section \<open>The two paths agree\<close>

lemma count_fast_args_Some:
  "count_fast_args ts a b = Some (x, y) \<longleftrightarrow>
     (\<forall>t\<in>set ts. plain_class t) \<and> x = a + n_ints ts \<and> y = b + n_floats ts"
proof (induction ts arbitrary: a b)
  case (Cons t ts)
  then show ?case
    by (cases t) (auto simp: plain_class_def function_argument_is_float_def)
qed auto

lemma ints_floats_aapcs64:
  assumes "\<forall>t\<in>set ts. plain_class t" "n_ints ts \<le> 8" "n_floats ts \<le> 8"
  shows "ints_of (aapcs64_args j mem ts) = map (\<lambda>i. reg j ! i) [0..<n_ints ts]"
    and "floats_of (aapcs64_args j mem ts) = map (\<lambda>i. vec j ! (2 * i)) [0..<n_floats ts]"
  using assms
proof (induction ts rule: rev_induct)
  case (snoc t ts)
  {
    case 1
    then show ?case using snoc.IH
      by (auto simp: ints_of_def aapcs64_arg_def plain_class_def Let_def split: if_splits)
  next
    case 2
    then show ?case using snoc.IH int_class_not_float
      by (auto simp: floats_of_def aapcs64_arg_def plain_class_def Let_def split: if_splits)
  }
qed (simp_all add: ints_of_def floats_of_def)

lemma fast_return_type_cases:
  "fast_return_type rt = Some ReturnInteger \<longleftrightarrow> is_int_class rt"
  "fast_return_type rt = Some ReturnFloat \<longleftrightarrow> function_argument_is_float rt"
  "fast_return_type rt = Some ReturnVoid \<longleftrightarrow> rt = none"
  by (cases rt; simp add: function_argument_is_float_def)+

lemma fast_call_of_Some:
  assumes "fast_call_of t = Inr (Some fc)" "\<not> is_ellipsis_function t"
  obtains rt ts where "types t = rt # ts" "\<forall>t\<in>set ts. plain_class t" "n_ints ts \<le> 6"
    "n_floats ts \<le> 8" "fc = \<lparr>fc_function = native_func t, integer_params = n_ints ts,
      float_params = n_floats ts, return_type = return_type fc\<rparr>"
    "fast_return_type rt = Some (return_type fc)"
proof -
  obtain ia fa where c: "count_fast_args (tl (types t)) 0 0 = Some (ia, fa)" "ia \<le> 6" "fa \<le> 8"
    using assms by (auto simp: fast_call_of_def split: if_splits option.splits)
  have "types t \<noteq> []"
    using assms c by (auto simp: fast_call_of_def vec_index_def split: if_splits)
  then obtain rt ts where ts: "types t = rt # ts" by (cases "types t") auto
  show thesis
    using assms c ts that [of rt ts]
    by (auto simp: fast_call_of_def count_fast_args_Some split: if_splits option.splits)
qed

lemma update_keeping_high_half: "xs[0 := a, Suc 0 := xs ! Suc 0] = xs[0 := a]"
  by (cases xs) simp_all

lemma handle_call_svc_plain:
  assumes jit: "jit (execution_context m) = Owned k" "jit_state_wf (jit_state k)"
    and n: "trampoline_get_by_id swi (tramps m) = Inr n" "trampolines (tramps m) ! n = t"
    and t: "types t = rt # ts" "\<forall>t\<in>set ts. plain_class t" "\<not> is_ellipsis_function t"
  shows "handle_call_svc native va gp swi m =
    (let args = aapcs64_args (jit_state k) (guest_memory m) ts in
     if is_int_class rt then
       and_then (native CallPointer (native_func t) args m) (\<lambda>(v, m2). on_jit (SetRegister 0 v) m2)
     else if function_argument_is_float rt then
       and_then (native CallDouble (native_func t) args m) (\<lambda>(v, m2).
         on_jit (SetVector 0 (v, vec (jit_state k) ! 1)) m2)
     else if rt = none then and_then (native CallVoid (native_func t) args m) (\<lambda>(v, m2). Inr m2)
     else Inr m)"
  using assms
  by (simp add: handle_call_svc_def get_jit_def marshal_args_aapcs64 Let_def cursor_after_def)

lemma fast_slow_agree:
  assumes jit: "jit (execution_context m) = Owned k" "jit_state_wf (jit_state k)"
    and n: "trampoline_get_by_id swi (tramps m) = Inr n" "trampolines (tramps m) ! n = t"
    and fc: "fast_call_of t = Inr (Some fc)" "\<not> is_ellipsis_function t"
    and dc: "dyncall_matches_sysv native sysv (native_func t)"
    and keeps: "keeps_guest_registers sysv (native_func t)"
  shows "handle_call_svc native va gp swi m = run_fast_call sysv fc m"
proof -
  obtain rt ts where t: "types t = rt # ts" "\<forall>t\<in>set ts. plain_class t"
    and c: "n_ints ts \<le> 6" "n_floats ts \<le> 8"
    and fc': "fc = \<lparr>fc_function = native_func t, integer_params = n_ints ts,
      float_params = n_floats ts, return_type = return_type fc\<rparr>"
    and r: "fast_return_type rt = Some (return_type fc)"
    using fast_call_of_Some [OF fc] by metis
  let ?j = "jit_state k"
  let ?ints = "map (\<lambda>i. reg ?j ! i) [0..<n_ints ts]"
  let ?floats = "map (\<lambda>i. vec ?j ! (2 * i)) [0..<n_floats ts]"
  let ?call = "sysv (native_func t) ?ints ?floats m"
  have args: "ints_of (aapcs64_args ?j (guest_memory m) ts) = ?ints"
    "floats_of (aapcs64_args ?j (guest_memory m) ts) = ?floats"
    using ints_floats_aapcs64 [OF t(2)] c by simp_all
  have nat: "native kind (native_func t) (aapcs64_args ?j (guest_memory m) ts) m =
      and_then ?call (\<lambda>(rax, xmm0, m1).
        Inr (case kind of CallPointer \<Rightarrow> rax | CallDouble \<Rightarrow> xmm0 | CallVoid \<Rightarrow> 0, m1))" for kind
    using dc args c unfolding dyncall_matches_sysv_def by simp
  have run: "run_fast_call sysv fc m = and_then ?call (\<lambda>(rax, xmm0, m1).
      case return_type fc of
        ReturnInteger \<Rightarrow> on_jit (\<lambda>j. Inr (j\<lparr>reg := (reg j)[0 := rax]\<rparr>)) m1
      | ReturnFloat \<Rightarrow> on_jit (\<lambda>j. Inr (j\<lparr>vec := (vec j)[0 := xmm0]\<rparr>)) m1
      | ReturnVoid \<Rightarrow> Inr m1)"
    using c by (subst fc') (simp add: run_fast_call_def get_jit_def jit(1) Let_def)
  have same: "jit (execution_context m1) = Owned k" if "?call = Inr (rax, xmm0, m1)" for rax xmm0 m1
    using keeps that jit(1) unfolding keeps_guest_registers_def by metis
  show ?thesis
    unfolding handle_call_svc_plain [OF jit n t fc(2)] run Let_def nat
    using r fast_return_type_cases [of rt] same jit(2)
    by (cases ?call; cases "return_type fc")
      (auto simp: on_jit_owned function_argument_is_float_def update_keeping_high_half)
qed

section \<open>The converted list yields the guest's arguments\<close>

lemma store_bytes_block:
  assumes "i < n" "n \<le> 4294967296"
  shows "store_bytes (load_bytes n src m) dst m (dst + of_nat i) = m (src + of_nat i)"
proof -
  have l: "load_bytes n a f ! i = f (a + of_nat i)" for a and f :: memory
    using assms(1)
  proof (induction n arbitrary: a i)
    case (Suc n)
    then show ?case by (cases i) (simp_all add: algebra_simps)
  qed simp
  have "load_bytes n dst (store_bytes (load_bytes n src m) dst m) = load_bytes n src m"
    using load_store_bytes [of "load_bytes n src m" dst m] assms(2) by simp
  then show ?thesis using l [of dst "store_bytes (load_bytes n src m) dst m"] l [of src m] by simp
qed

lemma read_copied_block:
  assumes "k + 8 \<le> n" "n \<le> 4294967296"
  shows "(read_mem 8 (dst + of_nat k) (store_bytes (load_bytes n src m) dst m) :: 'a::len word) =
         read_mem 8 (src + of_nat k) m"
proof -
  have "load_bytes 8 (dst + of_nat k) (store_bytes (load_bytes n src m) dst m) =
        load_bytes 8 (src + of_nat k) m"
  proof (rule nth_equalityI)
    fix i assume i: "i < length (load_bytes 8 (dst + of_nat k) (store_bytes (load_bytes n src m) dst m))"
    have l: "load_bytes 8 a f ! i = f (a + of_nat i)" for a and f :: memory
      using i by (auto simp: numeral_eq_Suc less_Suc_eq algebra_simps)
    show "load_bytes 8 (dst + of_nat k) (store_bytes (load_bytes n src m) dst m) ! i =
          load_bytes 8 (src + of_nat k) m ! i"
      using store_bytes_block [of "k + i" n src m dst] assms i
      by (simp add: l algebra_simps)
  qed simp
  then show ?thesis by (simp add: read_mem_def)
qed

lemma read_store_other:
  assumes "disjoint_blocks a 8 b (length bs)"
  shows "read_mem 8 a (store_bytes bs b m) = read_mem 8 a m"
  unfolding read_mem_def
  by (rule arg_cong [where f = word_of_bytes], rule load_bytes_cong, rule store_bytes_other)
    (use assms in \<open>auto simp: disjoint_blocks_def eq_commute\<close>)

lemma disjoint_sub:
  assumes "disjoint_blocks a n b k" "x + l \<le> n"
  shows "disjoint_blocks (a + of_nat x) l b k"
  unfolding disjoint_blocks_def
proof (intro allI impI)
  fix i j assume "i < l" "j < k"
  then have "x + i < n" using assms(2) by simp
  then have "a + of_nat (x + i) \<noteq> b + of_nat j"
    using assms(1) \<open>j < k\<close> unfolding disjoint_blocks_def by blast
  then show "a + of_nat x + of_nat i \<noteq> b + of_nat j" by (simp add: algebra_simps)
qed

lemma disjoint_sym: "disjoint_blocks a n b k \<Longrightarrow> disjoint_blocks b k a n"
  unfolding disjoint_blocks_def by metis

lemma read_store_va:
  assumes "disjoint_blocks a n va 24"
  shows "(read_mem n a (store_x86_64VaArgsData va d m) :: 'a::len word) = read_mem n a m"
proof -
  have sub: "disjoint_blocks a n (va + of_nat x) l" if "x + l \<le> 24" for x l
    using disjoint_sub [OF disjoint_sym [OF assms] that] by (rule disjoint_sym)
  show ?thesis
    unfolding store_x86_64VaArgsData_def
    using sub [of 16 8] sub [of 8 8] sub [of 4 4] sub [of 0 4] by (simp add: read_write_other)
qed

lemma load_store_va: "load_x86_64VaArgsData va (store_x86_64VaArgsData va d m) = d"
proof -
  have d: "disjoint_blocks (va + of_nat x) n (va + of_nat y) k"
    if "x + n \<le> y \<or> y + k \<le> x" "x + n \<le> 24" "y + k \<le> 24" for x n y k
    by (rule disjoint_within) (use that in auto)
  show ?thesis
    using d [of 0 4 4 4] d [of 0 4 8 8] d [of 0 4 16 8] d [of 4 4 8 8] d [of 4 4 16 8] d [of 8 8 16 8]
    by (simp add: load_x86_64VaArgsData_def store_x86_64VaArgsData_def read_write_other read_write_mem)
qed

lemma small_offsets:
  assumes "x \<le> 8"
  shows "sint (- of_nat (8 * x) :: u32) = - int (8 * x)"
    and "(scast (- of_nat (8 * x) :: u32) :: u64) = - of_nat (8 * x)"
    and "unat (- (- of_nat (8 * x)) :: u32) = 8 * x"
    and "sint (- of_nat (16 * x) :: u32) = - int (16 * x)"
    and "(scast (- of_nat (16 * x) :: u32) :: u64) = - of_nat (16 * x)"
    and "(ucast (176 + - of_nat (16 * x) :: u32) :: u64) = 176 - of_nat (16 * x)"
    and "(176 + - of_nat (16 * x) :: u32) < 176 \<longleftrightarrow> 0 < x"
proof -
  have "x = 0 \<or> x = 1 \<or> x = 2 \<or> x = 3 \<or> x = 4 \<or> x = 5 \<or> x = 6 \<or> x = 7 \<or> x = 8"
    using assms by arith
  then show "sint (- of_nat (8 * x) :: u32) = - int (8 * x)"
    "(scast (- of_nat (8 * x) :: u32) :: u64) = - of_nat (8 * x)"
    "unat (- (- of_nat (8 * x)) :: u32) = 8 * x"
    "sint (- of_nat (16 * x) :: u32) = - int (16 * x)"
    "(scast (- of_nat (16 * x) :: u32) :: u64) = - of_nat (16 * x)"
    "(ucast (176 + - of_nat (16 * x) :: u32) :: u64) = 176 - of_nat (16 * x)"
    "(176 + - of_nat (16 * x) :: u32) < 176 \<longleftrightarrow> 0 < x"
    by (elim disjE; simp)+
qed

text \<open>The first copy alone, and with the stack part behind it.\<close>

lemma copied_ints:
  fixes gp :: u64
  assumes sep: "disjoint_blocks st 128 gp 128" and n: "n \<le> 128" and k: "k + 8 \<le> 128"
    and k': "k + 8 \<le> n \<or> n \<le> k"
    and mem1: "mem1 = store_bytes (load_bytes n src mem) gp mem"
    and mem2: "mem2 = store_bytes (load_bytes (128 - n) st mem1) (gp + of_nat n) mem1"
  shows "k + 8 \<le> n \<Longrightarrow> (read_mem 8 (gp + of_nat k) mem1 :: u64) = read_mem 8 (src + of_nat k) mem"
    and "k + 8 \<le> n \<Longrightarrow> (read_mem 8 (gp + of_nat k) mem2 :: u64) = read_mem 8 (src + of_nat k) mem"
    and "n \<le> k \<Longrightarrow> (read_mem 8 (gp + of_nat k) mem2 :: u64) = read_mem 8 (st + of_nat (k - n)) mem"
proof -
  show 1: "(read_mem 8 (gp + of_nat k) mem1 :: u64) = read_mem 8 (src + of_nat k) mem" if "k + 8 \<le> n"
    unfolding mem1 by (rule read_copied_block) (use that n in auto)
  have "disjoint_blocks (gp + of_nat k) 8 (gp + of_nat n) (128 - n)" if "k + 8 \<le> n"
    by (rule disjoint_within) (use that n in auto)
  then show "(read_mem 8 (gp + of_nat k) mem2 :: u64) = read_mem 8 (src + of_nat k) mem" if "k + 8 \<le> n"
    using 1 that unfolding mem2 by (simp add: read_store_other)
  show "(read_mem 8 (gp + of_nat k) mem2 :: u64) = read_mem 8 (st + of_nat (k - n)) mem" if "n \<le> k"
  proof -
    have "(read_mem 8 ((gp + of_nat n) + of_nat (k - n)) mem2 :: u64) =
        read_mem 8 (st + of_nat (k - n)) mem1"
      unfolding mem2 by (rule read_copied_block) (use that k n in auto)
    moreover have "(gp + of_nat n) + of_nat (k - n) = gp + of_nat k"
      using that by (simp add: of_nat_diff)
    moreover have "disjoint_blocks (st + of_nat (k - n)) 8 gp n"
      using disjoint_sub [OF sep, of "k - n" 8] k that n
      by (auto simp: disjoint_blocks_def)
    ultimately show ?thesis by (simp add: mem1 read_store_other)
  qed
qed

lemma convert_va_list_no_gr:
  assumes shape: "va_shape g 0 b" and sep: "va_separate va gp g 0 b"
    and g: "g = load_Aarch64VaArgsData guest mem"
  shows "\<exists>mem'. convert_va_list va gp guest mem = Inr mem' \<and>
           serves_va_list mem g 0 b mem' (load_x86_64VaArgsData va mem')"
proof -
  let ?d = "\<lparr>gp_offset = 48, fp_offset = 176 + - of_nat (16 * b),
        overflow_arg_area = va_stack g, reg_save_area = vr_top g - 176\<rparr>"
  let ?mem = "store_x86_64VaArgsData va ?d mem"
  have ok: "convert_va_list va gp guest mem = Inr ?mem"
    using shape by (simp add: convert_va_list_def va_shape_def g [symmetric] Let_def)
  have ints: "read_mem 8 (va_stack g + of_nat (8 * i)) ?mem = guest_int mem g 0 i"
    if "i < va_int_limit g 0" for i
  proof -
    have "disjoint_blocks (va_stack g + of_nat (8 * i)) 8 va 24"
      using sep that by (intro disjoint_sub) (auto simp: va_separate_def va_int_limit_def)
    then show ?thesis by (simp add: read_store_va guest_int_def)
  qed
  have fps: "read_mem 8 (vr_top g - of_nat (16 * b) + of_nat (16 * f)) ?mem = guest_fp mem g b f"
    if "f < b" for f
  proof -
    have "disjoint_blocks (vr_top g - of_nat (16 * b) + of_nat (16 * f)) 8 va 24"
      using sep that by (intro disjoint_sub) (auto simp: va_separate_def)
    then show ?thesis by (simp add: read_store_va guest_fp_def)
  qed
  show ?thesis using ok ints fps by (simp add: load_store_va serves_va_list_def)
qed

lemma convert_va_list_gr:
  assumes shape: "va_shape g a b" and sep: "va_separate va gp g a b" and a: "0 < a"
    and g: "g = load_Aarch64VaArgsData guest mem"
  shows "\<exists>mem'. convert_va_list va gp guest mem = Inr mem' \<and>
           serves_va_list mem g a b mem' (load_x86_64VaArgsData va mem')"
proof -
  let ?d = "\<lparr>gp_offset = 48, fp_offset = 176 + - of_nat (16 * b), overflow_arg_area = gp,
    reg_save_area = vr_top g - 176\<rparr>"
  define mem1 where "mem1 = store_bytes (load_bytes (8 * a) (gr_top g - of_nat (8 * a)) mem) gp mem"
  define mem2 where "mem2 = store_bytes (load_bytes (128 - 8 * a) (va_stack g) mem1) (gp + of_nat (8 * a)) mem1"
  define memc where "memc = (if va_stack g \<noteq> 0 then mem2 else mem1)"
  have a8: "a \<le> 8" "b \<le> 8" using shape by (simp_all add: va_shape_def)
  have ok: "convert_va_list va gp guest mem = Inr (store_x86_64VaArgsData va ?d memc)"
    using shape a small_offsets(1,3) [OF a8(1)]
    by (simp add: convert_va_list_def va_shape_def g [symmetric] Let_def mem1_def mem2_def memc_def)
  have gpva: "disjoint_blocks gp 128 va 24" using sep by (simp add: va_separate_def)
  have ints: "read_mem 8 (gp + of_nat (8 * i)) (store_x86_64VaArgsData va ?d memc) = guest_int mem g a i"
    if "i < va_int_limit g a" for i
  proof -
    have i16: "i < 16" "va_stack g \<noteq> 0 \<or> i < a"
      using that a a8 by (auto simp: va_int_limit_def split: if_splits)
    have st: "disjoint_blocks (va_stack g) 128 gp 128" using sep by (simp add: va_separate_def)
    have "disjoint_blocks (gp + of_nat (8 * i)) 8 va 24" by (rule disjoint_sub [OF gpva]) (use i16 in simp)
    then show ?thesis
      using copied_ints [OF st _ _ _ mem1_def mem2_def, of "8 * i"] a8 i16
      by (cases "i < a") (auto simp: read_store_va memc_def guest_int_def diff_mult_distrib2)
  qed
  have fps: "read_mem 8 (vr_top g - of_nat (16 * b) + of_nat (16 * f)) (store_x86_64VaArgsData va ?d memc)
      = guest_fp mem g b f" if "f < b" for f
  proof -
    let ?p = "vr_top g - of_nat (16 * b) + of_nat (16 * f)"
    have va: "disjoint_blocks ?p 8 va 24"
      using sep that by (intro disjoint_sub) (auto simp: va_separate_def)
    have gp: "disjoint_blocks ?p 8 gp 128"
      using sep that by (intro disjoint_sub) (auto simp: va_separate_def)
    have "disjoint_blocks ?p 8 gp (8 * a)" "disjoint_blocks ?p 8 (gp + of_nat (8 * a)) (128 - 8 * a)"
      using disjoint_sub [OF disjoint_sym [OF gp], of 0 "8 * a"]
        disjoint_sub [OF disjoint_sym [OF gp], of "8 * a" "128 - 8 * a"] a8 disjoint_sym by auto
    then show ?thesis using va
      by (simp add: read_store_va guest_fp_def memc_def mem2_def mem1_def read_store_other)
  qed
  show ?thesis using ok ints fps by (simp add: load_store_va serves_va_list_def)
qed

lemma convert_va_list_serves:
  assumes "va_shape (load_Aarch64VaArgsData guest mem) a b"
    and "va_separate va gp (load_Aarch64VaArgsData guest mem) a b"
  shows "\<exists>mem'. convert_va_list va gp guest mem = Inr mem' \<and>
           serves_va_list mem (load_Aarch64VaArgsData guest mem) a b mem' (load_x86_64VaArgsData va mem')"
  using convert_va_list_no_gr convert_va_list_gr assms by (cases "a = 0") blast+

lemma guest_va_int:
  assumes "a \<le> 8"
  shows "guest_va_arg VaInt mem (guest_after g a b i f) = (guest_int mem g a i, guest_after g a b (Suc i) f)"
proof (cases "i < a")
  case True
  define r :: u32 where "r = - of_nat (8 * (a - i))"
  obtain y where y: "a - i = Suc y" "a - Suc i = y" using True by (metis Suc_diff_Suc)
  have neg: "sint r < 0" using small_offsets(1) [of "a - i"] assms True by (simp only: r_def)
  have next_offs: "r + 8 = - of_nat (8 * (a - Suc i))" by (simp add: r_def y)
  have "scast r = (- of_nat (8 * (a - i)) :: u64)"
    using small_offsets(2) [of "a - i"] assms by (simp only: r_def)
  then have addr: "gr_top g + scast r = gr_top g - of_nat (8 * a) + of_nat (8 * i)"
    using True by (simp add: of_nat_diff algebra_simps)
  show ?thesis
    unfolding guest_after_def r_def [symmetric] guest_int_def
    using True y by (simp add: neg next_offs addr)
next
  case False
  then show ?thesis
    by (simp add: guest_after_def guest_int_def Suc_diff_le algebra_simps)
qed

lemma guest_va_fp:
  assumes "b \<le> 8" "f < b"
  shows "guest_va_arg VaFp mem (guest_after g a b i f) = (guest_fp mem g b f, guest_after g a b i (Suc f))"
proof -
  define r :: u32 where "r = - of_nat (16 * (b - f))"
  obtain y where y: "b - f = Suc y" "b - Suc f = y" using assms(2) by (metis Suc_diff_Suc)
  have neg: "sint r < 0" using small_offsets(4) [of "b - f"] assms by (simp only: r_def)
  have next_offs: "r + 16 = - of_nat (16 * (b - Suc f))" by (simp add: r_def y)
  have "scast r = (- of_nat (16 * (b - f)) :: u64)"
    using small_offsets(5) [of "b - f"] assms by (simp only: r_def)
  then have addr: "vr_top g + scast r = vr_top g - of_nat (16 * b) + of_nat (16 * f)"
    using assms by (simp add: of_nat_diff algebra_simps)
  show ?thesis
    unfolding guest_after_def r_def [symmetric] guest_fp_def
    by (simp add: neg next_offs addr)
qed

lemma native_va_int:
  assumes "serves_va_list mem g a b mem' d" "i < va_int_limit g a"
  shows "native_va_arg VaInt mem' (native_after d b i f) = (guest_int mem g a i, native_after d b (Suc i) f)"
  using assms by (simp add: serves_va_list_def native_after_def algebra_simps)

lemma native_va_fp:
  assumes "serves_va_list mem g a b mem' d" "f < b" "b \<le> 8"
  shows "native_va_arg VaFp mem' (native_after d b i f) = (guest_fp mem g b f, native_after d b i (Suc f))"
proof -
  define r :: u32 where "r = 176 + - of_nat (16 * (b - f))"
  obtain y where y: "b - f = Suc y" "b - Suc f = y" using assms(2) by (metis Suc_diff_Suc)
  have less: "r < 176" using small_offsets(7) [of "b - f"] assms by (simp only: r_def)
  have next_offs: "r + 16 = 176 + - of_nat (16 * (b - Suc f))" by (simp add: r_def y)
  have "ucast r = (176 - of_nat (16 * (b - f)) :: u64)"
    using small_offsets(6) [of "b - f"] assms by (simp only: r_def)
  then have addr: "reg_save_area d + ucast r = vr_top g - of_nat (16 * b) + of_nat (16 * f)"
    using assms by (simp add: serves_va_list_def of_nat_diff algebra_simps)
  have val: "read_mem 8 (vr_top g - of_nat (16 * b) + of_nat (16 * f)) mem' = guest_fp mem g b f"
    using assms unfolding serves_va_list_def by blast
  show ?thesis
    unfolding native_after_def r_def [symmetric] val [symmetric]
    by (simp add: less next_offs addr)
qed

lemma va_args_simulation:
  assumes "serves_va_list mem g a b mem' d" "a \<le> 8" "b \<le> 8"
  shows "i + n_va VaInt rs \<le> va_int_limit g a \<Longrightarrow> f + n_va VaFp rs \<le> b \<Longrightarrow>
    native_va_args rs mem' (native_after d b i f) = guest_va_args rs mem (guest_after g a b i f)"
proof (induction rs arbitrary: i f)
  case (Cons r rs)
  then show ?case
    using guest_va_int [OF assms(2)] guest_va_fp [OF assms(3)] native_va_int [OF assms(1)]
      native_va_fp [OF assms(1) _ assms(3)]
    by (cases r) (auto simp: n_va_def simp del: guest_va_arg.simps native_va_arg.simps)
qed simp

section \<open>Properties\<close>

text \<open>
  C11.  The slow path passes arguments by the AArch64 procedure call standard: for a registered
  function without \<^verbatim>\<open>va_list\<close> parameters the host function is called exactly once, with argument
  \<open>i\<close> taken from the register or stack slot the standard assigns to it, and its result goes to
  \<open>x0\<close>, or to the low half of \<open>v0\<close> with the high half kept, or nowhere.
\<close>

theorem svc_arguments_follow_aapcs64:
  assumes "get_jit m = Inr k" and "jit_state_wf (jit_state k)"
    and "trampoline_get_by_id swi (tramps m) = Inr n"
    and "types (trampolines (tramps m) ! n) = rt # ts"
    and "\<forall>t\<in>set ts. plain_class t" and "\<not> is_ellipsis_function (trampolines (tramps m) ! n)"
  shows "handle_call_svc native va gp swi m =
    (let f = native_func (trampolines (tramps m) ! n);
         args = aapcs64_args (jit_state k) (guest_memory m) ts in
     if is_int_class rt then
       and_then (native CallPointer f args m) (\<lambda>(v, m2). on_jit (SetRegister 0 v) m2)
     else if function_argument_is_float rt then
       and_then (native CallDouble f args m) (\<lambda>(v, m2).
         on_jit (SetVector 0 (v, vec (jit_state k) ! 1)) m2)
     else if rt = none then and_then (native CallVoid f args m) (\<lambda>(v, m2). Inr m2)
     else Inr m)"
proof -
  have "jit (execution_context m) = Owned k"
    using assms(1) by (auto simp: get_jit_def split: owned.splits)
  then show ?thesis
    using handle_call_svc_plain [OF _ assms(2,3) refl assms(4-6)] by (simp add: Let_def)
qed

text \<open>A machine whose table holds one function \<^verbatim>\<open>double f(int, double)\<close>.\<close>

definition one_function_machine :: machine where
  "one_function_machine = (initial_machine (\<lambda>_. 0))
     \<lparr>execution_context := new_ExecutionContext
        \<lparr>initialized := True,
         jit := Owned \<lparr>jit_state = new_A64JitState, is_executing = False, conf = default_UserConfig\<rparr>\<rparr>,
      tramps := initial_trampoline_state
        \<lparr>trampolines := [mk_Trampoline ''f'' 0 0x5000
           [double_precision_fp, signed_word, double_precision_fp] False False]\<rparr>\<rparr>"

lemma one_function_machine_facts:
  "get_jit one_function_machine =
     Inr \<lparr>jit_state = new_A64JitState, is_executing = False, conf = default_UserConfig\<rparr>"
  "trampoline_get_by_id 0x10 (tramps one_function_machine) = Inr 0"
  "trampoline_maybe_get_by_id 0x10 (tramps one_function_machine) = Some 0"
  "trampolines (tramps one_function_machine) ! 0 = mk_Trampoline ''f'' 0 0x5000
           [double_precision_fp, signed_word, double_precision_fp] False False"
  by (simp_all add: one_function_machine_def get_jit_def trampoline_get_by_id_def
      trampoline_maybe_get_by_id_def trampoline_id_offset_def)

theorem svc_arguments_follow_aapcs64_witness:
  "handle_call_svc (\<lambda>kind f args m. Inr (if args = [DcLongLong 0, DcDouble 0] then 7 else 8, m))
     0x100 0x200 0x10 one_function_machine =
   on_jit (SetVector 0 (7, 0)) one_function_machine"
  using svc_arguments_follow_aapcs64 [of one_function_machine
      "\<lparr>jit_state = new_A64JitState, is_executing = False, conf = default_UserConfig\<rparr>" "0x10" 0
      double_precision_fp "[signed_word, double_precision_fp]"
      "\<lambda>kind f args m. Inr (if args = [DcLongLong 0, DcDouble 0] then 7 else 8, m)" "0x100" "0x200"]
  by (simp add: one_function_machine_facts mk_Trampoline_def plain_class_def
      function_argument_is_float_def aapcs64_args_def aapcs64_arg_def n_ints_def n_floats_def
      new_A64JitState_def ResetRSB_def jit_state_wf_def)

text \<open>
  C12.  Whenever \<^verbatim>\<open>GetSupervisorFastCall\<close> lets the recompiler emit a direct call to a function
  that is not variadic, that code has the same effect on the whole machine as halting and going
  through \<^verbatim>\<open>handle_call_svc\<close>, for every dyncall that follows the host calling convention and
  every host function that leaves the guest registers alone.
\<close>

theorem fast_path_equals_slow_path:
  assumes "get_jit m = Inr k" and "jit_state_wf (jit_state k)"
    and "GetSupervisorFastCall swi m = Inr (Some fc)"
    and "trampoline_maybe_get_by_id swi (tramps m) = Some n"
    and "\<not> is_ellipsis_function (trampolines (tramps m) ! n)"
    and "dyncall_matches_sysv native sysv (native_func (trampolines (tramps m) ! n))"
    and "keeps_guest_registers sysv (native_func (trampolines (tramps m) ! n))"
  shows "handle_call_svc native va gp swi m = run_fast_call sysv fc m"
proof -
  have j: "jit (execution_context m) = Owned k"
    using assms(1) by (auto simp: get_jit_def split: owned.splits)
  have n: "trampoline_get_by_id swi (tramps m) = Inr n"
    using assms(4) by (auto simp: trampoline_maybe_get_by_id_def trampoline_get_by_id_def Let_def
        split: if_splits)
  have "fast_call_of (trampolines (tramps m) ! n) = Inr (Some fc)"
    using assms(3,4) by (simp add: GetSupervisorFastCall_def)
  then show ?thesis using fast_slow_agree [OF j assms(2) n refl _ assms(5-7)] by blast
qed

theorem fast_path_equals_slow_path_witness:
  "handle_call_svc (\<lambda>kind f args m. Inr (case kind of CallDouble \<Rightarrow> sum_list (floats_of args) + 5 | CallPointer \<Rightarrow> 3 | CallVoid \<Rightarrow> 0, m))
     0x100 0x200 0x10 one_function_machine =
   run_fast_call (\<lambda>f ints floats m. Inr (3, sum_list floats + 5, m))
     \<lparr>fc_function = 0x5000, integer_params = 1, float_params = 1, return_type = ReturnFloat\<rparr>
     one_function_machine"
  by (rule fast_path_equals_slow_path [where n = 0])
    (auto simp: one_function_machine_facts mk_Trampoline_def GetSupervisorFastCall_def fast_call_of_def
      dyncall_matches_sysv_def keeps_guest_registers_def VARIADIC_TRAMPOLINE_FAST_PATH_def
      split: dc_kind.splits)

text \<open>
  C13.  A \<^verbatim>\<open>va_list\<close> built by guest code (with \<open>a\<close> general and \<open>b\<close> vector registers left) is
  converted so that the host function fetches, in any interleaving, exactly the arguments the
  guest's own \<^verbatim>\<open>va_arg\<close> would fetch, for up to \<open>b\<close> floating-point arguments and 16 integer ones
  (\<open>a\<close> when the guest list has no stack area).
\<close>

theorem va_list_conversion_correct:
  assumes "va_shape (load_Aarch64VaArgsData guest mem) a b"
    and "va_separate va gp (load_Aarch64VaArgsData guest mem) a b"
    and "n_va VaInt rs \<le> va_int_limit (load_Aarch64VaArgsData guest mem) a" and "n_va VaFp rs \<le> b"
  shows "\<exists>mem'. convert_va_list va gp guest mem = Inr mem' \<and>
           native_va_args rs mem' (load_x86_64VaArgsData va mem') =
           guest_va_args rs mem (load_Aarch64VaArgsData guest mem)"
proof -
  let ?g = "load_Aarch64VaArgsData guest mem"
  obtain mem' where ok: "convert_va_list va gp guest mem = Inr mem'"
    and serves: "serves_va_list mem ?g a b mem' (load_x86_64VaArgsData va mem')"
    using convert_va_list_serves [OF assms(1,2)] by blast
  have "native_after (load_x86_64VaArgsData va mem') b 0 0 = load_x86_64VaArgsData va mem'"
    using serves by (simp add: native_after_def serves_va_list_def)
  moreover have "guest_after ?g a b 0 0 = ?g"
    using assms(1) by (simp add: guest_after_def va_shape_def)
  ultimately show ?thesis
    using va_args_simulation [OF serves, of 0 rs 0] ok assms by (simp add: va_shape_def)
qed

text \<open>
  A guest list at \<open>0x1000\<close>: one general register left (value 5, saved at \<open>0x4000\<close>), one vector
  register left (value 7, at \<open>0x5000\<close>), and the value 9 first on the stack area at \<open>0x3000\<close>.
\<close>

definition example_va_memory :: memory where
  "example_va_memory =
     ((\<lambda>_. 0)(0x1001 := 0x30, 0x1008 := 0x08, 0x1009 := 0x40, 0x1010 := 0x10, 0x1011 := 0x50,
       0x1018 := 0xF8, 0x1019 := 0xFF, 0x101A := 0xFF, 0x101B := 0xFF,
       0x101C := 0xF0, 0x101D := 0xFF, 0x101E := 0xFF, 0x101F := 0xFF,
       0x3000 := 9, 0x4000 := 5, 0x5000 := 7))"

lemma example_va_list:
  "load_Aarch64VaArgsData 0x1000 example_va_memory =
     \<lparr>va_stack = 0x3000, gr_top = 0x4008, vr_top = 0x5010, gr_offs = - 8, vr_offs = - 16\<rparr>"
  by (simp add: load_Aarch64VaArgsData_def read_mem_def numeral_eq_Suc)
    (simp add: example_va_memory_def)

lemma example_va_separate:
  "va_separate 0x6000 0x7000
     \<lparr>va_stack = 0x3000, gr_top = 0x4008, vr_top = 0x5010, gr_offs = - 8, vr_offs = - 16\<rparr> 1 1"
  using disjoint_within [of "0x7000" 128 "0x6000" 24 0] disjoint_within [of "0x4000" 8 "0x7000" 128 0]
    disjoint_within [of "0x4000" 8 "0x6000" 24 0] disjoint_within [of "0x5000" 16 "0x7000" 128 0]
    disjoint_within [of "0x5000" 16 "0x6000" 24 0] disjoint_within [of "0x3000" 128 "0x7000" 128 0]
    disjoint_within [of "0x3000" 128 "0x6000" 24 0]
  by (simp add: va_separate_def)

lemma example_va_values:
  "guest_va_args [VaInt, VaFp, VaInt] example_va_memory
     \<lparr>va_stack = 0x3000, gr_top = 0x4008, vr_top = 0x5010, gr_offs = - 8, vr_offs = - 16\<rparr> = [5, 7, 9]"
  by (simp add: read_mem_def numeral_eq_Suc) (simp add: example_va_memory_def)

theorem va_list_conversion_correct_witness:
  "\<exists>mem'. convert_va_list 0x6000 0x7000 0x1000 example_va_memory = Inr mem' \<and>
     native_va_args [VaInt, VaFp, VaInt] mem' (load_x86_64VaArgsData 0x6000 mem') = [5, 7, 9]"
proof -
  have "\<exists>mem'. convert_va_list 0x6000 0x7000 0x1000 example_va_memory = Inr mem' \<and>
     native_va_args [VaInt, VaFp, VaInt] mem' (load_x86_64VaArgsData 0x6000 mem') =
     guest_va_args [VaInt, VaFp, VaInt] example_va_memory
       (load_Aarch64VaArgsData 0x1000 example_va_memory)"
    by (rule va_list_conversion_correct [where a = 1 and b = 1])
      (use example_va_separate in
        \<open>simp_all only: example_va_list, simp_all add: va_shape_def va_int_limit_def n_va_def\<close>)
  then show ?thesis by (simp only: example_va_list example_va_values)
qed

end
