(* ===== verification/Execution_Fiber.thy ===== *)
theory Execution_Fiber
  imports Supervisor_Call
begin

text \<open>
  \<^verbatim>\<open>src/src/execution_context.cpp\<close> and \<^verbatim>\<open>.hpp\<close>: \<^verbatim>\<open>SavedRegisters\<close>, \<^verbatim>\<open>execution_loop\<close> and
  \<^verbatim>\<open>ScopedExecutionFiber\<close>, the way host code runs guest code.  The recompiled guest is a
  parameter: \<open>run m\<close> is what \<^verbatim>\<open>Jit::Run\<close> does, \<open>None\<close> when the guest never halts, otherwise the
  halt reason and the new machine; \<open>svc\<close> is the supervisor-call handler.
\<close>

section \<open>Saved registers\<close>

record SavedRegisters =
  r19 :: u64  r20 :: u64  r21 :: u64  r22 :: u64  r23 :: u64  r24 :: u64
  r25 :: u64  r26 :: u64  r27 :: u64  r28 :: u64  r29 :: u64  r30 :: u64
  saved_sp :: u64  saved_pc :: u64
  d8 :: u64  d9 :: u64  d10 :: u64  d11 :: u64  d12 :: u64  d13 :: u64  d14 :: u64  d15 :: u64

definition get_saved_registers :: "A64JitState \<Rightarrow> SavedRegisters result" where
  "get_saved_registers j =
     and_then (GetRegister 19 j) (\<lambda>x19. and_then (GetRegister 20 j) (\<lambda>x20.
     and_then (GetRegister 21 j) (\<lambda>x21. and_then (GetRegister 22 j) (\<lambda>x22.
     and_then (GetRegister 23 j) (\<lambda>x23. and_then (GetRegister 24 j) (\<lambda>x24.
     and_then (GetRegister 25 j) (\<lambda>x25. and_then (GetRegister 26 j) (\<lambda>x26.
     and_then (GetRegister 27 j) (\<lambda>x27. and_then (GetRegister 28 j) (\<lambda>x28.
     and_then (GetRegister 29 j) (\<lambda>x29. and_then (GetRegister 30 j) (\<lambda>x30.
     and_then (GetVector 8 j) (\<lambda>v8. and_then (GetVector 9 j) (\<lambda>v9.
     and_then (GetVector 10 j) (\<lambda>v10. and_then (GetVector 11 j) (\<lambda>v11.
     and_then (GetVector 12 j) (\<lambda>v12. and_then (GetVector 13 j) (\<lambda>v13.
     and_then (GetVector 14 j) (\<lambda>v14. and_then (GetVector 15 j) (\<lambda>v15.
     Inr \<lparr>r19 = x19, r20 = x20, r21 = x21, r22 = x22, r23 = x23, r24 = x24, r25 = x25, r26 = x26,
          r27 = x27, r28 = x28, r29 = x29, r30 = x30, saved_sp = GetSP j, saved_pc = GetPC j,
          d8 = fst v8, d9 = fst v9, d10 = fst v10, d11 = fst v11, d12 = fst v12, d13 = fst v13,
          d14 = fst v14, d15 = fst v15\<rparr>))))))))))))))))))))"

definition set_d_reg :: "nat \<Rightarrow> u64 \<Rightarrow> A64JitState \<Rightarrow> A64JitState result" where
  "set_d_reg index value j = and_then (GetVector index j) (\<lambda>vector. SetVector index (value, snd vector) j)"

definition restore_saved_registers :: "SavedRegisters \<Rightarrow> A64JitState \<Rightarrow> A64JitState result" where
  "restore_saved_registers regs j =
     and_then (SetRegister 19 (r19 regs) j) (\<lambda>j. and_then (SetRegister 20 (r20 regs) j) (\<lambda>j.
     and_then (SetRegister 21 (r21 regs) j) (\<lambda>j. and_then (SetRegister 22 (r22 regs) j) (\<lambda>j.
     and_then (SetRegister 23 (r23 regs) j) (\<lambda>j. and_then (SetRegister 24 (r24 regs) j) (\<lambda>j.
     and_then (SetRegister 25 (r25 regs) j) (\<lambda>j. and_then (SetRegister 26 (r26 regs) j) (\<lambda>j.
     and_then (SetRegister 27 (r27 regs) j) (\<lambda>j. and_then (SetRegister 28 (r28 regs) j) (\<lambda>j.
     and_then (SetRegister 29 (r29 regs) j) (\<lambda>j. and_then (SetRegister 30 (r30 regs) j) (\<lambda>j.
     let j = SetPC (saved_pc regs) (SetSP (saved_sp regs) j) in
     and_then (set_d_reg 8 (d8 regs) j) (\<lambda>j. and_then (set_d_reg 9 (d9 regs) j) (\<lambda>j.
     and_then (set_d_reg 10 (d10 regs) j) (\<lambda>j. and_then (set_d_reg 11 (d11 regs) j) (\<lambda>j.
     and_then (set_d_reg 12 (d12 regs) j) (\<lambda>j. and_then (set_d_reg 13 (d13 regs) j) (\<lambda>j.
     and_then (set_d_reg 14 (d14 regs) j) (\<lambda>j. set_d_reg 15 (d15 regs) j)))))))))))))))))))"

section \<open>The execution loop\<close>

type_synonym guest_run = "machine \<Rightarrow> (u32 \<times> machine) result option"
type_synonym svc_handler = "u32 \<Rightarrow> machine \<Rightarrow> machine result option"

text \<open>\<open>None\<close> is a run that never ends; both parameters may diverge.\<close>

partial_function (option) execution_loop_from ::
    "guest_run \<Rightarrow> svc_handler \<Rightarrow> machine \<Rightarrow> machine result option" where
  "execution_loop_from run svc m =
     (case on_jit (\<lambda>j. Inr (ClearExclusiveState j)) m of
        Inl e \<Rightarrow> Some (Inl e)
      | Inr m1 \<Rightarrow> Option.bind (run m1) (\<lambda>r.
          case r of
            Inl e \<Rightarrow> Some (Inl e)
          | Inr (reason, m2) \<Rightarrow>
              if reason = SupervisorCall then
                Option.bind (svc (svc_number (execution_context m2)) m2) (\<lambda>h.
                  case h of Inl e \<Rightarrow> Some (Inl e) | Inr m3 \<Rightarrow> execution_loop_from run svc m3)
              else if reason = SuccessfulExit then Some (Inr m2)
              else Some (Inl (Terminate ''execution_context_loop: jit halted with unexpected reason''))))"

definition execution_loop :: "guest_run \<Rightarrow> svc_handler \<Rightarrow> machine \<Rightarrow> machine result option" where
  "execution_loop run svc m =
     (if initialized (execution_context m) then execution_loop_from run svc m
      else Some (Inl (Assert_failure ''execution_context.initialized'')))"

section \<open>Fibers\<close>

datatype FiberKind = Root | Callee

record ScopedExecutionFiber =
  fiber_kind :: FiberKind
  saved_registers :: "SavedRegisters option"

text \<open>A root fiber leaves \<^verbatim>\<open>saved_registers\<close> uninitialised.\<close>

definition fiber_ctor :: "FiberKind \<Rightarrow> machine \<Rightarrow> ScopedExecutionFiber result" where
  "fiber_ctor kind m =
     and_then (assert_that (initialized (execution_context m)) ''execution_context.initialized'') (\<lambda>_.
     if kind = Callee then
       and_then (get_jit m) (\<lambda>k. and_then (get_saved_registers (jit_state k)) (\<lambda>regs.
       Inr \<lparr>fiber_kind = kind, saved_registers = Some regs\<rparr>))
     else Inr \<lparr>fiber_kind = kind, saved_registers = None\<rparr>)"

definition fiber_dtor :: "ScopedExecutionFiber \<Rightarrow> machine \<Rightarrow> machine result" where
  "fiber_dtor fib m =
     and_then (assert_that (initialized (execution_context m)) ''execution_context.initialized'') (\<lambda>_.
     if fiber_kind fib = Callee then
       (case saved_registers fib of
          Some regs \<Rightarrow> on_jit (restore_saved_registers regs) m
        | None \<Rightarrow> Inl Invalid_access)
     else Inr m)"

definition fiber_get_register :: "nat \<Rightarrow> machine \<Rightarrow> u64 result" where
  "fiber_get_register index m = and_then (get_jit m) (\<lambda>k. GetRegister index (jit_state k))"

definition fiber_set_register :: "nat \<Rightarrow> u64 \<Rightarrow> machine \<Rightarrow> machine result" where
  "fiber_set_register index value m = on_jit (SetRegister index value) m"

definition fiber_set_vector_first :: "nat \<Rightarrow> u64 \<Rightarrow> machine \<Rightarrow> machine result" where
  "fiber_set_vector_first index value m = on_jit (set_d_reg index value) m"

definition fiber_run :: "guest_run \<Rightarrow> svc_handler \<Rightarrow> u64 \<Rightarrow> machine \<Rightarrow> machine result option" where
  "fiber_run run svc address m =
     (case and_then (get_jit m) (\<lambda>k.
           and_then (assert_that (\<not> is_executing k) ''jit && !jit->IsExecuting()'') (\<lambda>_.
           on_jit (\<lambda>j. and_then (SetRegister 30 (trampoline_get_guest_exit (tramps m)) j) (\<lambda>j1.
                        Inr (SetPC address j1))) m)) of
        Inl e \<Rightarrow> Some (Inl e)
      | Inr m1 \<Rightarrow> execution_loop run svc m1)"

text \<open>
  Arguments of the variadic \<^verbatim>\<open>run\<close> template: integral, pointer or null (already widened to 64 bits)
  or the bits of a float.
\<close>

datatype guest_arg = IntArg u64 | FloatArg u32

fun fiber_set_args :: "guest_arg list \<Rightarrow> nat \<Rightarrow> nat \<Rightarrow> machine \<Rightarrow> machine result" where
  "fiber_set_args [] register_index vector_index m = Inr m"
| "fiber_set_args (IntArg v # args) register_index vector_index m =
     and_then (fiber_set_register register_index v m)
       (fiber_set_args args (register_index + 1) vector_index)"
| "fiber_set_args (FloatArg w # args) register_index vector_index m =
     and_then (fiber_set_vector_first vector_index (ucast w) m)
       (fiber_set_args args register_index (vector_index + 1))"

definition fiber_run_args ::
    "guest_run \<Rightarrow> svc_handler \<Rightarrow> u64 \<Rightarrow> guest_arg list \<Rightarrow> machine \<Rightarrow> machine result option" where
  "fiber_run_args run svc routine args m =
     (case fiber_set_args args 0 0 m of Inl e \<Rightarrow> Some (Inl e) | Inr m1 \<Rightarrow> fiber_run run svc routine m1)"

text \<open>
  The pattern every host-to-guest callback follows: a callee fiber in a block, \<^verbatim>\<open>run\<close>, then
  \<^verbatim>\<open>get_register(0)\<close>, then the destructor.
\<close>

definition call_guest ::
    "guest_run \<Rightarrow> svc_handler \<Rightarrow> u64 \<Rightarrow> guest_arg list \<Rightarrow> machine \<Rightarrow> (u64 \<times> machine) result option" where
  "call_guest run svc routine args m =
     (case fiber_ctor Callee m of
        Inl e \<Rightarrow> Some (Inl e)
      | Inr fib \<Rightarrow> map_option (\<lambda>r. and_then r (\<lambda>m1.
          and_then (fiber_get_register 0 m1) (\<lambda>out.
          and_then (fiber_dtor fib m1) (\<lambda>m2. Inr (out, m2))))) (fiber_run_args run svc routine args m))"

section \<open>Saving and restoring\<close>

text \<open>Register files large enough for the saved registers; \<^verbatim>\<open>std::array\<close> makes this always true.\<close>

definition holds_saved :: "A64JitState \<Rightarrow> bool" where
  "holds_saved j \<longleftrightarrow> 30 < length (reg j) \<and> 31 < length (vec j)"

lemma holds_saved_wf: "jit_state_wf j \<Longrightarrow> holds_saved j"
  by (simp add: holds_saved_def jit_state_wf_def)

lemma get_saved_registers_eq:
  "holds_saved j \<Longrightarrow> get_saved_registers j =
     Inr \<lparr>r19 = reg j ! 19, r20 = reg j ! 20, r21 = reg j ! 21, r22 = reg j ! 22, r23 = reg j ! 23,
          r24 = reg j ! 24, r25 = reg j ! 25, r26 = reg j ! 26, r27 = reg j ! 27, r28 = reg j ! 28,
          r29 = reg j ! 29, r30 = reg j ! 30, saved_sp = sp j, saved_pc = pc j,
          d8 = vec j ! 16, d9 = vec j ! 18, d10 = vec j ! 20, d11 = vec j ! 22, d12 = vec j ! 24,
          d13 = vec j ! 26, d14 = vec j ! 28, d15 = vec j ! 30\<rparr>"
  by (simp add: get_saved_registers_def holds_saved_def GetRegister_def GetVector_def GetSP_def GetPC_def)

lemma set_d_reg_eq:
  assumes "2 * i + 1 < length (vec j)"
  shows "set_d_reg i v j = Inr (j\<lparr>vec := (vec j)[2 * i := v]\<rparr>)"
proof -
  have "(vec j)[i * 2 := v, Suc (i * 2) := vec j ! Suc (i * 2)] = (vec j)[2 * i := v]"
    by (rule nth_equalityI) (use assms in \<open>auto simp: nth_list_update mult.commute\<close>)
  then show ?thesis
    using assms by (simp add: set_d_reg_def GetVector_def SetVector_def mult.commute)
qed

definition restored :: "SavedRegisters \<Rightarrow> A64JitState \<Rightarrow> A64JitState" where
  "restored regs j =
     j\<lparr>reg := (reg j)[19 := r19 regs, 20 := r20 regs, 21 := r21 regs, 22 := r22 regs,
                23 := r23 regs, 24 := r24 regs, 25 := r25 regs, 26 := r26 regs, 27 := r27 regs,
                28 := r28 regs, 29 := r29 regs, 30 := r30 regs],
       sp := saved_sp regs, pc := saved_pc regs,
       vec := (vec j)[16 := d8 regs, 18 := d9 regs, 20 := d10 regs, 22 := d11 regs,
                24 := d12 regs, 26 := d13 regs, 28 := d14 regs, 30 := d15 regs]\<rparr>"

lemma restore_saved_registers_eq:
  assumes "holds_saved j"
  shows "restore_saved_registers regs j = Inr (restored regs j)"
  using assms
  by (simp add: restore_saved_registers_def SetRegister_def SetSP_def SetPC_def Let_def
      holds_saved_def set_d_reg_eq restored_def)

lemma restore_saved_registers_ok:
  assumes "restore_saved_registers regs j = Inr j'"
  shows "holds_saved j \<and> j' = restored regs j"
proof -
  have r: "30 < length (reg j)"
    using assms
    by (auto simp: restore_saved_registers_def and_then_eq_Inr SetRegister_def vec_at_store_def
        split: if_splits)
  have "31 < length (vec j)"
    using assms r
    by (auto simp: restore_saved_registers_def and_then_eq_Inr SetRegister_def SetSP_def SetPC_def
        set_d_reg_def GetVector_def SetVector_def vec_at_store_def vec_at_def Let_def split: if_splits)
  then have h: "holds_saved j" using r by (simp add: holds_saved_def)
  then show ?thesis using assms restore_saved_registers_eq [OF h] by simp
qed

lemma get_saved_restored:
  assumes "holds_saved j"
  shows "get_saved_registers (restored regs j) = Inr regs"
proof -
  have "holds_saved (restored regs j)" using assms by (simp add: holds_saved_def restored_def)
  then show ?thesis
    using assms by (simp add: get_saved_registers_eq) (simp add: restored_def holds_saved_def)
qed

lemma restored_others:
  "i < 19 \<Longrightarrow> reg (restored regs j) ! i = reg j ! i"
  "i < 16 \<or> 31 < i \<or> odd i \<Longrightarrow> vec (restored regs j) ! i = vec j ! i"
proof -
  show "reg (restored regs j) ! i = reg j ! i" if "i < 19"
    using that by (simp add: restored_def)
  show "vec (restored regs j) ! i = vec j ! i" if "i < 16 \<or> 31 < i \<or> odd i"
  proof -
    have "16 \<noteq> i" "18 \<noteq> i" "20 \<noteq> i" "22 \<noteq> i" "24 \<noteq> i" "26 \<noteq> i" "28 \<noteq> i" "30 \<noteq> i"
      using that by auto
    then show ?thesis by (simp add: restored_def)
  qed
qed

section \<open>The loop returns exactly when the guest yields\<close>

text \<open>The guest yields after \<open>n\<close> supervisor calls.\<close>

inductive guest_exits :: "guest_run \<Rightarrow> svc_handler \<Rightarrow> machine \<Rightarrow> nat \<Rightarrow> machine \<Rightarrow> bool"
  for run svc where
  exits: "on_jit (\<lambda>j. Inr (ClearExclusiveState j)) m = Inr m1 \<Longrightarrow>
          run m1 = Some (Inr (SuccessfulExit, m2)) \<Longrightarrow> guest_exits run svc m 0 m2"
| calls: "on_jit (\<lambda>j. Inr (ClearExclusiveState j)) m = Inr m1 \<Longrightarrow>
          run m1 = Some (Inr (SupervisorCall, m2)) \<Longrightarrow>
          svc (svc_number (execution_context m2)) m2 = Some (Inr m3) \<Longrightarrow>
          guest_exits run svc m3 n m' \<Longrightarrow> guest_exits run svc m (Suc n) m'"

inductive_cases guest_exits_0E: "guest_exits run svc m 0 m'"

lemma halt_reasons_differ [simp]: "SuccessfulExit \<noteq> SupervisorCall" "SupervisorCall \<noteq> SuccessfulExit"
  by (simp_all add: SuccessfulExit_def SupervisorCall_def)

lemma guest_exits_loop: "guest_exits run svc m n m' \<Longrightarrow> execution_loop_from run svc m = Some (Inr m')"
  by (induction rule: guest_exits.induct) (subst execution_loop_from.simps; simp)+

lemma loop_guest_exits:
  assumes "execution_loop_from run svc m = Some r"
  shows "\<forall>m'. r = Inr m' \<longrightarrow> (\<exists>n. guest_exits run svc m n m')"
proof (rule execution_loop_from.raw_induct
    [of "\<lambda>run svc m r. \<forall>m'. r = Inr m' \<longrightarrow> (\<exists>n. guest_exits run svc m n m')", OF _ assms])
  fix loop :: "guest_run \<Rightarrow> svc_handler \<Rightarrow> machine \<Rightarrow> machine result option"
    and run svc m r
  assume IH: "\<And>run svc m r. loop run svc m = Some r \<Longrightarrow>
      \<forall>m'. r = Inr m' \<longrightarrow> (\<exists>n. guest_exits run svc m n m')"
    and body: "(case on_jit (\<lambda>j. Inr (ClearExclusiveState j)) m of
        Inl e \<Rightarrow> Some (Inl e)
      | Inr m1 \<Rightarrow> Option.bind (run m1) (\<lambda>r.
          case r of
            Inl e \<Rightarrow> Some (Inl e)
          | Inr (reason, m2) \<Rightarrow>
              if reason = SupervisorCall then
                Option.bind (svc (svc_number (execution_context m2)) m2) (\<lambda>h.
                  case h of Inl e \<Rightarrow> Some (Inl e) | Inr m3 \<Rightarrow> loop run svc m3)
              else if reason = SuccessfulExit then Some (Inr m2)
              else Some (Inl (Terminate ''execution_context_loop: jit halted with unexpected reason'')))) = Some r"
  show "\<forall>m'. r = Inr m' \<longrightarrow> (\<exists>n. guest_exits run svc m n m')"
    using body IH
    by (auto split: sum.splits if_splits Option.bind_splits prod.splits intro: guest_exits.intros)
      (metis calls)
qed

section \<open>Entering the guest\<close>

fun int_args :: "guest_arg list \<Rightarrow> u64 list" where
  "int_args [] = []"
| "int_args (IntArg v # args) = v # int_args args"
| "int_args (FloatArg w # args) = int_args args"

fun float_args :: "guest_arg list \<Rightarrow> u32 list" where
  "float_args [] = []"
| "float_args (IntArg v # args) = float_args args"
| "float_args (FloatArg w # args) = w # float_args args"

text \<open>Storing a list into consecutive elements, and into every second element.\<close>

fun put_from :: "nat \<Rightarrow> nat \<Rightarrow> 'a list \<Rightarrow> 'a list \<Rightarrow> 'a list" where
  "put_from step i [] xs = xs"
| "put_from step i (v # vs) xs = put_from step (i + step) vs (xs[i := v])"

lemma length_put_from [simp]: "length (put_from step i vs xs) = length xs"
  by (induction step i vs xs rule: put_from.induct) auto

lemma put_from_before: "0 < step \<Longrightarrow> k < i \<Longrightarrow> put_from step i vs xs ! k = xs ! k"
  by (induction step i vs xs rule: put_from.induct) auto

lemma put_from_nth:
  "0 < step \<Longrightarrow> n < length vs \<Longrightarrow> i + step * n < length xs \<Longrightarrow>
   put_from step i vs xs ! (i + step * n) = vs ! n"
proof (induction step i vs xs arbitrary: n rule: put_from.induct)
  case (2 step i v vs xs)
  then show ?case
  proof (cases n)
    case 0
    then show ?thesis using 2 by (simp add: put_from_before)
  next
    case (Suc k)
    then show ?thesis using 2 by (simp add: algebra_simps)
  qed
qed simp

lemma get_jit_put [simp]:
  "get_jit m = Inr k \<Longrightarrow> get_jit (put_jit_state j m) = Inr (k\<lparr>jit_state := j\<rparr>)"
  by (auto simp: get_jit_def put_jit_state_def split: owned.splits)

lemma put_jit_state_put [simp]: "put_jit_state j' (put_jit_state j m) = put_jit_state j' m"
  by (auto simp: put_jit_state_def split: owned.splits)

lemma put_jit_state_same: "get_jit m = Inr k \<Longrightarrow> put_jit_state (jit_state k) m = m"
  by (auto simp: get_jit_def put_jit_state_def split: owned.splits)

lemma put_jit_state_fields [simp]:
  "initialized (execution_context (put_jit_state j m)) = initialized (execution_context m)"
  "tramps (put_jit_state j m) = tramps m"
  "guest_memory (put_jit_state j m) = guest_memory m"
  by (simp_all add: put_jit_state_def)

lemma on_jit_get: "get_jit m = Inr k \<Longrightarrow> on_jit f m = and_then (f (jit_state k)) (\<lambda>j. Inr (put_jit_state j m))"
  by (simp add: on_jit_def)

lemma fiber_set_args_eq:
  assumes "get_jit m = Inr k" "jit_state_wf (jit_state k)"
    "i + length (int_args args) \<le> 31" "f + length (float_args args) \<le> 32"
  shows "fiber_set_args args i f m =
    Inr (put_jit_state ((jit_state k)
      \<lparr>reg := put_from 1 i (int_args args) (reg (jit_state k)),
       vec := put_from 2 (2 * f) (map ucast (float_args args)) (vec (jit_state k))\<rparr>) m)"
  using assms
proof (induction args i f m arbitrary: k rule: fiber_set_args.induct)
  case (1 i f m)
  then show ?case by (simp add: put_jit_state_same)
next
  case (2 v args i f m)
  have "fiber_set_register i v m = Inr (put_jit_state ((jit_state k)\<lparr>reg := (reg (jit_state k))[i := v]\<rparr>) m)"
    using 2 by (simp add: fiber_set_register_def on_jit_get)
  then show ?case using 2 by simp
next
  case (3 w args i f m)
  have "fiber_set_vector_first f (ucast w) m =
      Inr (put_jit_state ((jit_state k)\<lparr>vec := (vec (jit_state k))[2 * f := ucast w]\<rparr>) m)"
    using 3 by (simp add: fiber_set_vector_first_def on_jit_get set_d_reg_eq jit_state_wf_def)
  then show ?case using 3 by simp
qed

definition entry_state :: "u64 \<Rightarrow> u64 \<Rightarrow> guest_arg list \<Rightarrow> A64JitState \<Rightarrow> A64JitState" where
  "entry_state exit_addr routine args j =
     j\<lparr>vec := put_from 2 0 (map ucast (float_args args)) (vec j),
       reg := (put_from 1 0 (int_args args) (reg j))[30 := exit_addr], pc := routine\<rparr>"

lemma fiber_run_args_eq:
  assumes k: "get_jit m = Inr k" "jit_state_wf (jit_state k)" "\<not> is_executing k"
    and n: "length (int_args args) \<le> 31" "length (float_args args) \<le> 32"
  shows "fiber_run_args run svc routine args m =
    execution_loop run svc
      (put_jit_state (entry_state (trampoline_get_guest_exit (tramps m)) routine args (jit_state k)) m)"
  using fiber_set_args_eq [OF k(1,2), of 0 args 0] n k
  by (simp add: fiber_run_args_def fiber_run_def on_jit_get jit_state_wf_def SetRegister_def SetPC_def
      entry_state_def)

section \<open>Properties\<close>




text \<open>A guest routine that overwrites x19 and x0 and returns.\<close>

definition clobbering_guest :: guest_run where
  "clobbering_guest m =
     (case on_jit (\<lambda>j. Inr (j\<lparr>reg := (reg j)[19 := 99, 0 := 5]\<rparr>)) m of
        Inl e \<Rightarrow> Some (Inl e) | Inr m1 \<Rightarrow> Some (Inr (SuccessfulExit, m1)))"

definition guest_ready :: "machine \<Rightarrow> bool" where
  "guest_ready m \<longleftrightarrow> initialized (execution_context m) \<and>
     (case get_jit m of Inr k \<Rightarrow> jit_state_wf (jit_state k) \<and> \<not> is_executing k | Inl _ \<Rightarrow> False)"

lemma clobbering_guest_returns:
  assumes "guest_ready m" "length (int_args args) \<le> 31" "length (float_args args) \<le> 32"
  shows "\<exists>j. call_guest clobbering_guest svc routine args m = Some (Inr (5, put_jit_state j m)) \<and>
    jit_state_wf j"
proof -
  obtain k where k: "get_jit m = Inr k" "jit_state_wf (jit_state k)" "\<not> is_executing k"
    and init: "initialized (execution_context m)"
    using assms(1) by (auto simp: guest_ready_def split: sum.splits)
  let ?e = "entry_state (trampoline_get_guest_exit (tramps m)) routine args (jit_state k)"
  let ?c = "(ClearExclusiveState ?e)\<lparr>reg := (reg ?e)[19 := 99, 0 := 5]\<rparr>"
  have "guest_exits clobbering_guest svc (put_jit_state ?e m) 0 (put_jit_state ?c m)"
  proof (rule exits)
    show "on_jit (\<lambda>j. Inr (ClearExclusiveState j)) (put_jit_state ?e m) =
        Inr (put_jit_state (ClearExclusiveState ?e) m)"
      using on_jit_get [OF get_jit_put [OF k(1)]] by simp
    show "clobbering_guest (put_jit_state (ClearExclusiveState ?e) m) =
        Some (Inr (SuccessfulExit, put_jit_state ?c m))"
      using on_jit_get [OF get_jit_put [OF k(1)]] by (simp add: clobbering_guest_def ClearExclusiveState_def)
  qed
  then have run: "fiber_run_args clobbering_guest svc routine args m = Some (Inr (put_jit_state ?c m))"
    using guest_exits_loop init fiber_run_args_eq [OF k assms(2,3)] by (simp add: execution_loop_def)
  have wf: "jit_state_wf ?c"
    using k(2) by (simp add: jit_state_wf_def entry_state_def ClearExclusiveState_def)
  have x0: "GetRegister 0 ?c = Inr 5"
    using k(2) by (simp add: jit_state_wf_def GetRegister_def entry_state_def ClearExclusiveState_def)
  obtain regs where regs: "get_saved_registers (jit_state k) = Inr regs"
    using get_saved_registers_eq [OF holds_saved_wf [OF k(2)]] by simp
  have "jit_state_wf (restored regs ?c)" using wf by (simp add: jit_state_wf_def restored_def)
  then show ?thesis
    using init run k(1) x0 regs restore_saved_registers_eq [OF holds_saved_wf [OF wf]]
      get_jit_put [OF k(1), of ?c]
    by (intro exI [of _ "restored regs ?c"])
      (simp add: call_guest_def fiber_ctor_def fiber_get_register_def fiber_dtor_def on_jit_get)
qed

lemma one_function_machine_ready: "guest_ready one_function_machine"
  using one_function_machine_facts(1) by (simp add: guest_ready_def one_function_machine_def)




end
