(* ===== verification/Guest_Callbacks.thy ===== *)
theory Guest_Callbacks
  imports Execution_Fiber
begin

text \<open>
  Host functions that call back into the guest: \<^verbatim>\<open>src/src/libs/libc_impl.cpp\<close> (linker callers,
  \<^verbatim>\<open>atexit\<close>, \<^verbatim>\<open>bsearch\<close>, \<^verbatim>\<open>qsort\<close>, \<^verbatim>\<open>setjmp\<close>, \<^verbatim>\<open>longjmp\<close>), the thread entry of
  \<^verbatim>\<open>src/src/libs/pthread_impl.cpp\<close>, and the allocator wrappers of \<^verbatim>\<open>src/src/libs/zlib_syms.cpp\<close>.
\<close>

section \<open>Wrapped guest routines\<close>

record GuestRoutineWrapper =
  guest_routine :: u64
  wrapper_value :: u64

text \<open>A callback whose result the host ignores.\<close>

definition call_guest_void ::
    "guest_run \<Rightarrow> svc_handler \<Rightarrow> u64 \<Rightarrow> guest_arg list \<Rightarrow> machine \<Rightarrow> machine result option" where
  "call_guest_void run svc routine args m =
     (case fiber_ctor Callee m of
        Inl e \<Rightarrow> Some (Inl e)
      | Inr fib \<Rightarrow> map_option (\<lambda>r. and_then r (fiber_dtor fib)) (fiber_run_args run svc routine args m))"

text \<open>The conversion of x0 to a C \<^verbatim>\<open>int\<close> keeps the low 32 bits, read as signed.\<close>

definition int_of_x0 :: "u64 \<Rightarrow> int" where
  "int_of_x0 v = sint (ucast v :: u32)"

definition u64_of_int :: "u32 \<Rightarrow> u64" where
  "u64_of_int v = scast v"

section \<open>Linker callbacks\<close>

definition linker_func_caller ::
    "guest_run \<Rightarrow> svc_handler \<Rightarrow> u32 \<Rightarrow> u64 \<Rightarrow> u64 \<Rightarrow> u64 \<Rightarrow> bool \<Rightarrow> machine \<Rightarrow> machine result option" where
  "linker_func_caller run svc global_argc global_argv environ addr is_ctor m =
     (if is_ctor
      then call_guest_void run svc addr [IntArg (u64_of_int global_argc), IntArg global_argv, IntArg environ] m
      else call_guest_void run svc addr [] m)"

definition linker_phdr_cb_caller ::
    "guest_run \<Rightarrow> svc_handler \<Rightarrow> u64 \<Rightarrow> u64 \<Rightarrow> u64 \<Rightarrow> u64 \<Rightarrow> machine \<Rightarrow> (int \<times> machine) result option" where
  "linker_phdr_cb_caller run svc addr info sz data m =
     map_option (\<lambda>r. and_then r (\<lambda>(v, m1). Inr (int_of_x0 v, m1)))
       (call_guest run svc addr [IntArg info, IntArg sz, IntArg data] m)"

definition pthread_caller ::
    "guest_run \<Rightarrow> svc_handler \<Rightarrow> u64 \<Rightarrow> bool \<Rightarrow> u64 \<Rightarrow> machine \<Rightarrow> machine result option" where
  "pthread_caller run svc addr pass_ptr_arg ptr m =
     call_guest_void run svc addr (if pass_ptr_arg then [IntArg ptr] else []) m"

section \<open>atexit\<close>

text \<open>The list of handlers \<^verbatim>\<open>__cxa_atexit\<close> keeps, latest first; they run in that order.\<close>

definition atexit_impl ::
    "u64 \<Rightarrow> u64 \<Rightarrow> GuestRoutineWrapper list \<Rightarrow> int \<times> GuestRoutineWrapper list" where
  "atexit_impl routine arg handlers = (0, \<lparr>guest_routine = routine, wrapper_value = arg\<rparr> # handlers)"

definition atexit_routine ::
    "guest_run \<Rightarrow> svc_handler \<Rightarrow> GuestRoutineWrapper \<Rightarrow> machine \<Rightarrow> machine result option" where
  "atexit_routine run svc wrapper m =
     call_guest_void run svc (guest_routine wrapper) [IntArg (wrapper_value wrapper)] m"

fun run_atexit ::
    "guest_run \<Rightarrow> svc_handler \<Rightarrow> GuestRoutineWrapper list \<Rightarrow> machine \<Rightarrow> machine result option" where
  "run_atexit run svc [] m = Some (Inr m)"
| "run_atexit run svc (h # hs) m =
     Option.bind (atexit_routine run svc h m) (\<lambda>r.
       case r of Inl e \<Rightarrow> Some (Inl e) | Inr m1 \<Rightarrow> run_atexit run svc hs m1)"

section \<open>Searching and sorting\<close>

text \<open>
  The comparison the host \<^verbatim>\<open>bsearch\<close> and \<^verbatim>\<open>qsort\<close> are given: a captureless lambda that reads the
  thread-local comparator each time.
\<close>

type_synonym host_compar = "u64 \<Rightarrow> u64 \<Rightarrow> machine \<Rightarrow> (int \<times> machine) result option"

definition bsearch_compar :: "guest_run \<Rightarrow> svc_handler \<Rightarrow> host_compar" where
  "bsearch_compar run svc a b m =
     map_option (\<lambda>r. and_then r (\<lambda>(v, m1). Inr (int_of_x0 v, m1)))
       (call_guest run svc (current_bsearch_compar m) [IntArg a, IntArg b] m)"

definition qsort_compar :: "guest_run \<Rightarrow> svc_handler \<Rightarrow> host_compar" where
  "qsort_compar run svc a b m =
     map_option (\<lambda>r. and_then r (\<lambda>(v, m1). Inr (int_of_x0 v, m1)))
       (call_guest run svc (current_qsort_compar m) [IntArg a, IntArg b] m)"

text \<open>The host's binary search over \<open>nmemb\<close> elements: the loop of the C library.\<close>

function bsearch_loop ::
    "host_compar \<Rightarrow> u64 \<Rightarrow> u64 \<Rightarrow> u64 \<Rightarrow> nat \<Rightarrow> nat \<Rightarrow> machine \<Rightarrow> (u64 \<times> machine) result option" where
  "bsearch_loop cmp key base sz l u m =
     (if u \<le> l then Some (Inr (0, m))
      else
        (let idx = (l + u) div 2;
             p = base + of_nat idx * sz
         in Option.bind (cmp key p m) (\<lambda>r.
            case r of
              Inl e \<Rightarrow> Some (Inl e)
            | Inr (c, m1) \<Rightarrow>
                if c < 0 then bsearch_loop cmp key base sz l idx m1
                else if 0 < c then bsearch_loop cmp key base sz (idx + 1) u m1
                else Some (Inr (p, m1)))))"
  by pat_completeness auto

termination
  by (relation "measure (\<lambda>(cmp, key, base, sz, l, u, m). u - l)") auto

definition bsearch_impl ::
    "guest_run \<Rightarrow> svc_handler \<Rightarrow> u64 \<Rightarrow> u64 \<Rightarrow> nat \<Rightarrow> u64 \<Rightarrow> u64 \<Rightarrow> machine \<Rightarrow>
     (u64 \<times> machine) result option" where
  "bsearch_impl run svc key base nmemb sz compar m =
     bsearch_loop (bsearch_compar run svc) key base sz 0 nmemb (m\<lparr>current_bsearch_compar := compar\<rparr>)"

text \<open>The host's \<^verbatim>\<open>qsort\<close> is a parameter: it may call the comparison any number of times.\<close>

type_synonym host_qsort = "u64 \<Rightarrow> u64 \<Rightarrow> u64 \<Rightarrow> host_compar \<Rightarrow> machine \<Rightarrow> machine result option"

definition qsort_impl ::
    "host_qsort \<Rightarrow> guest_run \<Rightarrow> svc_handler \<Rightarrow> u64 \<Rightarrow> u64 \<Rightarrow> u64 \<Rightarrow> u64 \<Rightarrow> machine \<Rightarrow>
     machine result option" where
  "qsort_impl qsort run svc base nmemb sz compar m =
     qsort base nmemb sz (qsort_compar run svc) (m\<lparr>current_qsort_compar := compar\<rparr>)"

section \<open>Non-local jumps\<close>

text \<open>The jump buffer holds a \<^verbatim>\<open>SavedRegisters\<close>: 22 consecutive eight-byte words.\<close>

definition saved_words :: "SavedRegisters \<Rightarrow> u64 list" where
  "saved_words r =
     [r19 r, r20 r, r21 r, r22 r, r23 r, r24 r, r25 r, r26 r, r27 r, r28 r, r29 r, r30 r,
      saved_sp r, saved_pc r, d8 r, d9 r, d10 r, d11 r, d12 r, d13 r, d14 r, d15 r]"

definition words_saved :: "u64 list \<Rightarrow> SavedRegisters" where
  "words_saved w =
     \<lparr>r19 = w ! 0, r20 = w ! 1, r21 = w ! 2, r22 = w ! 3, r23 = w ! 4, r24 = w ! 5, r25 = w ! 6,
      r26 = w ! 7, r27 = w ! 8, r28 = w ! 9, r29 = w ! 10, r30 = w ! 11, saved_sp = w ! 12,
      saved_pc = w ! 13, d8 = w ! 14, d9 = w ! 15, d10 = w ! 16, d11 = w ! 17, d12 = w ! 18,
      d13 = w ! 19, d14 = w ! 20, d15 = w ! 21\<rparr>"

fun store_words :: "u64 list \<Rightarrow> u64 \<Rightarrow> memory \<Rightarrow> memory" where
  "store_words [] a mem = mem"
| "store_words (w # ws) a mem = write_mem 8 a w (store_words ws (a + 8) mem)"

fun load_words :: "nat \<Rightarrow> u64 \<Rightarrow> memory \<Rightarrow> u64 list" where
  "load_words 0 a mem = []"
| "load_words (Suc n) a mem = read_mem 8 a mem # load_words n (a + 8) mem"

definition setjmp_impl :: "u64 \<Rightarrow> machine \<Rightarrow> (int \<times> machine) result" where
  "setjmp_impl ctx m =
     and_then (fiber_ctor Callee m) (\<lambda>fib.
     case saved_registers fib of
       None \<Rightarrow> Inl Invalid_access
     | Some regs \<Rightarrow>
         and_then (fiber_dtor fib (m\<lparr>guest_memory := store_words (saved_words regs) ctx (guest_memory m)\<rparr>))
           (\<lambda>m1. Inr (0, m1)))"

definition longjmp_impl :: "u64 \<Rightarrow> u32 \<Rightarrow> machine \<Rightarrow> machine result" where
  "longjmp_impl ctx value m =
     and_then (fiber_ctor Callee m) (\<lambda>fib.
     (let fib1 = fib\<lparr>saved_registers := Some (words_saved (load_words 22 ctx (guest_memory m)))\<rparr>
      in and_then (fiber_set_register 0 (u64_of_int value) m) (fiber_dtor fib1)))"

section \<open>Threads\<close>

text \<open>
  \<^verbatim>\<open>thread_routine\<close>: the new thread's context is created, the guest routine runs, and the
  reference the thread itself holds is dropped; the last reference frees the context.
\<close>

definition thread_routine ::
    "guest_run \<Rightarrow> svc_handler \<Rightarrow> u64 option \<Rightarrow> u64 \<Rightarrow> u64 \<Rightarrow> GuestRoutineWrapper \<Rightarrow> machine \<Rightarrow>
     (u64 \<times> machine) result option" where
  "thread_routine run svc stk ta tp wrapper m =
     (case execution_context_init stk ta tp m of
        Inl e \<Rightarrow> Some (Inl e)
      | Inr m1 \<Rightarrow>
          map_option (\<lambda>r. and_then r (\<lambda>(out, m2).
            (case execution_context_sub_ref m2 of (n, m3) \<Rightarrow>
               and_then (if n = 0 then execution_context_free m3 else Inr m3) (\<lambda>m4. Inr (out, m4)))))
            (call_guest run svc (guest_routine wrapper) [IntArg (wrapper_value wrapper)] m1))"

section \<open>zlib allocators\<close>

record ZlibGuestWrapper =
  guest_zalloc :: u64
  guest_zfree :: u64
  guest_opaque :: u64
  needs_cleanup :: bool

text \<open>
  The fields of a \<^verbatim>\<open>z_stream\<close> the wrapper changes.  A callback or context is either the
  guest's value or the host's wrapper.
\<close>

datatype z_callback = GuestFn u64 | HostCaller

datatype z_opaque = GuestOpaque u64 | Wrapper ZlibGuestWrapper

record z_stream =
  zalloc :: z_callback
  zfree :: z_callback
  opaque :: z_opaque

definition is_null_fn :: "z_callback \<Rightarrow> bool" where
  "is_null_fn f \<longleftrightarrow> f = GuestFn 0"

definition fn_address :: "u64 \<Rightarrow> z_callback \<Rightarrow> u64" where
  "fn_address host f = (case f of GuestFn a \<Rightarrow> a | HostCaller \<Rightarrow> host)"

text \<open>
  \<open>host_zalloc\<close>, \<open>host_zfree\<close> are the addresses of the two host callers and \<open>addr_of\<close> the address
  of a wrapper object: what the code would save if a patched stream were patched again.
\<close>

definition patch_z_stream ::
    "u64 \<Rightarrow> u64 \<Rightarrow> (ZlibGuestWrapper \<Rightarrow> u64) \<Rightarrow> z_stream \<Rightarrow> z_stream" where
  "patch_z_stream host_zalloc host_zfree addr_of strm =
     (if is_null_fn (zalloc strm) \<or> is_null_fn (zfree strm) then strm
      else \<lparr>zalloc = HostCaller, zfree = HostCaller,
            opaque = Wrapper \<lparr>guest_zalloc = fn_address host_zalloc (zalloc strm),
                              guest_zfree = fn_address host_zfree (zfree strm),
                              guest_opaque = (case opaque strm of GuestOpaque v \<Rightarrow> v | Wrapper w \<Rightarrow> addr_of w),
                              needs_cleanup = False\<rparr>\<rparr>)"

definition zalloc_caller ::
    "guest_run \<Rightarrow> svc_handler \<Rightarrow> ZlibGuestWrapper option \<Rightarrow> u32 \<Rightarrow> u32 \<Rightarrow> machine \<Rightarrow>
     (u64 \<times> machine) result option" where
  "zalloc_caller run svc wrapper items sz m =
     (case wrapper of
        None \<Rightarrow> Some (Inl (Assert_failure ''wrapper''))
      | Some w \<Rightarrow>
          if guest_zalloc w = 0 then Some (Inl (Assert_failure ''wrapper->guest_zalloc''))
          else call_guest run svc (guest_zalloc w)
                 [IntArg (guest_opaque w), IntArg (ucast items), IntArg (ucast sz)] m)"

definition zfree_caller ::
    "guest_run \<Rightarrow> svc_handler \<Rightarrow> ZlibGuestWrapper option \<Rightarrow> u64 \<Rightarrow> machine \<Rightarrow> machine result option" where
  "zfree_caller run svc wrapper address m =
     (case wrapper of
        None \<Rightarrow> Some (Inl (Assert_failure ''wrapper''))
      | Some w \<Rightarrow>
          if guest_zfree w = 0 then Some (Inl (Assert_failure ''wrapper->guest_zfree''))
          else call_guest_void run svc (guest_zfree w) [IntArg (guest_opaque w), IntArg address] m)"

section \<open>The jump buffer\<close>

lemma words_saved_words [simp]: "words_saved (saved_words r) = r"
  by (simp add: words_saved_def saved_words_def)

lemma length_saved_words [simp]: "length (saved_words r) = 22"
  by (simp add: saved_words_def)

lemma load_words_other:
  "(\<And>i. i < n \<Longrightarrow> disjoint_blocks (a + of_nat (8 * i)) 8 b 8) \<Longrightarrow>
   load_words n a (write_mem 8 b (v :: u64) mem) = load_words n a mem"
proof (induction n arbitrary: a)
  case (Suc n)
  have "disjoint_blocks (a + 8 + of_nat (8 * i)) 8 b 8" if "i < n" for i
    using Suc.prems [of "Suc i"] that by (simp add: algebra_simps)
  then show ?case using Suc.IH [of "a + 8"] Suc.prems [of 0] by (simp add: read_write_other)
qed simp

lemma load_store_words:
  "length ws \<le> 1024 \<Longrightarrow> load_words (length ws) a (store_words ws a mem) = ws"
proof (induction ws arbitrary: a)
  case (Cons w ws)
  have "disjoint_blocks (a + 8 + of_nat (8 * i)) 8 a 8" if "i < length ws" for i
    using disjoint_within [of "8 + 8 * i" 8 0 8 a] that Cons.prems by (simp add: algebra_simps)
  then have "load_words (length ws) (a + 8) (write_mem 8 a w (store_words ws (a + 8) mem)) = ws"
    using Cons by (subst load_words_other) simp_all
  then show ?case by (simp add: read_write_mem)
qed simp

lemma restored_same:
  assumes "get_saved_registers j = Inr regs" "holds_saved j"
  shows "restored regs j = j"
proof -
  have "regs = \<lparr>r19 = reg j ! 19, r20 = reg j ! 20, r21 = reg j ! 21, r22 = reg j ! 22, r23 = reg j ! 23,
          r24 = reg j ! 24, r25 = reg j ! 25, r26 = reg j ! 26, r27 = reg j ! 27, r28 = reg j ! 28,
          r29 = reg j ! 29, r30 = reg j ! 30, saved_sp = sp j, saved_pc = pc j,
          d8 = vec j ! 16, d9 = vec j ! 18, d10 = vec j ! 20, d11 = vec j ! 22, d12 = vec j ! 24,
          d13 = vec j ! 26, d14 = vec j ! 28, d15 = vec j ! 30\<rparr>"
    using assms(1) by (simp add: get_saved_registers_eq [OF assms(2)])
  then show ?thesis by (simp add: restored_def)
qed

lemma get_jit_memory [simp]: "get_jit (m\<lparr>guest_memory := mem\<rparr>) = get_jit m"
  by (simp add: get_jit_def)

lemma put_jit_state_memory:
  "get_jit m = Inr k \<Longrightarrow> put_jit_state (jit_state k) (m\<lparr>guest_memory := mem\<rparr>) = m\<lparr>guest_memory := mem\<rparr>"
  by (rule put_jit_state_same) simp

lemma setjmp_impl_eq:
  assumes "get_jit m = Inr k" "holds_saved (jit_state k)" "initialized (execution_context m)"
    "get_saved_registers (jit_state k) = Inr regs"
  shows "setjmp_impl ctx m =
    Inr (0, m\<lparr>guest_memory := store_words (saved_words regs) ctx (guest_memory m)\<rparr>)"
  using assms
  by (simp add: setjmp_impl_def fiber_ctor_def fiber_dtor_def on_jit_get
      restore_saved_registers_eq restored_same put_jit_state_memory)

lemma longjmp_impl_eq:
  assumes "get_jit m = Inr k" "jit_state_wf (jit_state k)" "initialized (execution_context m)"
  shows "longjmp_impl ctx v m =
    Inr (put_jit_state (restored (words_saved (load_words 22 ctx (guest_memory m)))
           ((jit_state k)\<lparr>reg := (reg (jit_state k))[0 := u64_of_int v]\<rparr>)) m)"
proof -
  let ?j = "(jit_state k)\<lparr>reg := (reg (jit_state k))[0 := u64_of_int v]\<rparr>"
  have "holds_saved ?j" using assms(2) holds_saved_wf by simp
  then show ?thesis
    using assms get_saved_registers_eq [OF holds_saved_wf [OF assms(2)]]
    by (simp add: longjmp_impl_def fiber_ctor_def fiber_set_register_def on_jit_get fiber_dtor_def
        restore_saved_registers_eq)
qed

section \<open>Properties\<close>

text \<open>
  C17.  \<^verbatim>\<open>setjmp\<close> and \<^verbatim>\<open>longjmp\<close> on the guest's registers: \<^verbatim>\<open>setjmp\<close> returns 0 and leaves the
  registers alone; a later \<^verbatim>\<open>longjmp\<close> on an intact buffer, from any register state, brings back
  every callee-saved register, the stack pointer and the program counter of the \<^verbatim>\<open>setjmp\<close>, with
  the given value in x0 and the other caller-saved registers untouched.
\<close>

theorem setjmp_longjmp_correct:
  assumes "get_jit m = Inr k" and "jit_state_wf (jit_state k)" and "initialized (execution_context m)"
    and "setjmp_impl ctx m = Inr (ret, m1)"
    and "get_jit m2 = Inr k2" and "jit_state_wf (jit_state k2)" and "initialized (execution_context m2)"
    and "load_words 22 ctx (guest_memory m2) = load_words 22 ctx (guest_memory m1)"
  shows "ret = 0 \<and> get_jit m1 = Inr k \<and>
    (\<exists>m3 k3. longjmp_impl ctx v m2 = Inr m3 \<and> get_jit m3 = Inr k3 \<and>
       get_saved_registers (jit_state k3) = get_saved_registers (jit_state k) \<and>
       reg (jit_state k3) ! 0 = u64_of_int v \<and>
       (\<forall>i. 0 < i \<and> i < 19 \<longrightarrow> reg (jit_state k3) ! i = reg (jit_state k2) ! i))"
proof -
  note h = holds_saved_wf [OF assms(2)]
  obtain regs where regs: "get_saved_registers (jit_state k) = Inr regs"
    using get_saved_registers_eq [OF h] by simp
  have m1: "ret = 0" "m1 = m\<lparr>guest_memory := store_words (saved_words regs) ctx (guest_memory m)\<rparr>"
    using setjmp_impl_eq [OF assms(1) h assms(3) regs, of ctx] assms(4) by simp_all
  have load: "load_words 22 ctx (guest_memory m2) = saved_words regs"
    using assms(8) load_store_words [of "saved_words regs" ctx "guest_memory m"] by (simp add: m1(2))
  let ?j = "(jit_state k2)\<lparr>reg := (reg (jit_state k2))[0 := u64_of_int v]\<rparr>"
  have h2: "holds_saved ?j" using assms(6) holds_saved_wf by simp
  have "0 < length (reg (jit_state k2))" using assms(6) by (simp add: jit_state_wf_def)
  then have "reg (restored regs ?j) ! 0 = u64_of_int v"
    "\<forall>i. 0 < i \<and> i < 19 \<longrightarrow> reg (restored regs ?j) ! i = reg (jit_state k2) ! i"
    using restored_others(1) [of _ regs ?j] by auto
  then show ?thesis
    using longjmp_impl_eq [OF assms(5-7), of ctx v] load m1 assms(1,5) regs get_saved_restored [OF h2, of regs]
    by auto
qed

theorem setjmp_longjmp_correct_witness:
  "\<exists>m1 m3 k3. setjmp_impl 0x9000 one_function_machine = Inr (0, m1) \<and>
     longjmp_impl 0x9000 3 (m1\<lparr>execution_context := (execution_context m1)
        \<lparr>jit := Owned \<lparr>jit_state = new_A64JitState\<lparr>sp := 0x55\<rparr>, is_executing = False,
                      conf = default_UserConfig\<rparr>\<rparr>\<rparr>) = Inr m3 \<and>
     get_jit m3 = Inr k3 \<and> get_saved_registers (jit_state k3) = get_saved_registers new_A64JitState \<and>
     reg (jit_state k3) ! 0 = 3"
proof -
  let ?k = "\<lparr>jit_state = new_A64JitState, is_executing = False, conf = default_UserConfig\<rparr>"
  let ?k2 = "\<lparr>jit_state = new_A64JitState\<lparr>sp := 0x55\<rparr>, is_executing = False, conf = default_UserConfig\<rparr>"
  have init: "initialized (execution_context one_function_machine)" by (simp add: one_function_machine_def)
  note k = one_function_machine_facts(1)
  have h: "holds_saved (jit_state ?k)" by (simp add: holds_saved_wf)
  obtain regs where "get_saved_registers (jit_state ?k) = Inr regs" using get_saved_registers_eq [OF h] by simp
  from setjmp_impl_eq [OF k h init this]
  obtain m1 where m1: "setjmp_impl 0x9000 one_function_machine = Inr (0, m1)"
    "initialized (execution_context m1)" using init by simp
  let ?m2 = "m1\<lparr>execution_context := (execution_context m1)\<lparr>jit := Owned ?k2\<rparr>\<rparr>"
  have k2: "get_jit ?m2 = Inr ?k2" by (simp add: get_jit_def)
  have "(0 :: int) = 0 \<and> get_jit m1 = Inr ?k \<and>
    (\<exists>m3 k3. longjmp_impl 0x9000 3 ?m2 = Inr m3 \<and> get_jit m3 = Inr k3 \<and>
       get_saved_registers (jit_state k3) = get_saved_registers (jit_state ?k) \<and>
       reg (jit_state k3) ! 0 = u64_of_int 3 \<and>
       (\<forall>i. 0 < i \<and> i < 19 \<longrightarrow> reg (jit_state k3) ! i = reg (jit_state ?k2) ! i))"
    by (rule setjmp_longjmp_correct [OF k _ init m1(1) k2]) (simp_all add: m1(2))
  then show ?thesis using m1(1) by (auto simp: u64_of_int_def)
qed

text \<open>
  The end of a guest thread: when its routine has returned, the value passed to the joiner
  is the guest's x0, and the context is freed and its processor id released exactly when the
  thread holds the only reference; while thread-specific values keep it referenced, the context
  stays usable for their destructors.
\<close>

theorem thread_routine_releases_context:
  assumes "execution_context_init stk ta tp m = Inr m1"
    and "call_guest run svc (guest_routine w) [IntArg (wrapper_value w)] m1 = Some (Inr (out, m2))"
    and "live_ctx_ok (used_processors m2) (execution_context m2)"
    and "length (used_processors m2) = MAX_CPUS"
  shows "\<exists>m'. thread_routine run svc stk ta tp w m = Some (Inr (out, m')) \<and>
    ref_count (execution_context m') = ref_count (execution_context m2) - 1 \<and>
    (if ref_count (execution_context m2) = 1
     then \<not> initialized (execution_context m') \<and> jit (execution_context m') = Dangling \<and>
          used_processors m' = (used_processors m2)[processor_id (execution_context m2) := False]
     else initialized (execution_context m') = initialized (execution_context m2) \<and>
          used_processors m' = used_processors m2 \<and>
          jit (execution_context m') = jit (execution_context m2))"
proof -
  let ?m3 = "m2\<lparr>execution_context := (execution_context m2)
                \<lparr>ref_count := ref_count (execution_context m2) - 1\<rparr>\<rparr>"
  have "live_ctx_ok (used_processors ?m3) (execution_context ?m3)"
    using assms(3) by (simp add: live_ctx_ok_def)
  then have "execution_context_free ?m3 = Inr (?m3\<lparr>execution_context := (execution_context ?m3)
            \<lparr>environment := Dangling, jit := Dangling, dyncall_vm := Dangling, initialized := False\<rparr>,
          used_processors := (used_processors ?m3)[processor_id (execution_context ?m3) := False]\<rparr>)"
    by (rule execution_context_free_live) (use assms(4) in simp_all)
  then show ?thesis
    using assms(1,2)
    by (cases "ref_count (execution_context m2) = 1")
      (simp_all add: thread_routine_def execution_context_sub_ref_def Let_def)
qed

lemma find_unused_initial: "find_unused (replicate MAX_CPUS False) 0 = Some 0"
  by (simp add: MAX_CPUS_def numeral_eq_Suc)

lemma guest_ready_put: "guest_ready m \<Longrightarrow> jit_state_wf j \<Longrightarrow> guest_ready (put_jit_state j m)"
  by (auto simp: guest_ready_def get_jit_put split: sum.splits)

theorem thread_routine_releases_context_witness:
  "\<exists>m'. thread_routine clobbering_guest (\<lambda>_ m. Some (Inr m)) (Some 0x70000000) 0x1000 0x0ff8
          \<lparr>guest_routine = 0x8000, wrapper_value = 1\<rparr> (initial_machine (\<lambda>_. 0)) = Some (Inr (5, m')) \<and>
        \<not> initialized (execution_context m')"
proof -
  let ?w = "\<lparr>guest_routine = 0x8000, wrapper_value = 1\<rparr>"
  obtain m1 where m1: "execution_context_init (Some 0x70000000) 0x1000 0x0ff8 (initial_machine (\<lambda>_. 0)) = Inr m1"
    and ready: "guest_ready m1" and rc: "ref_count (execution_context m1) = 1"
    and live: "live_ctx_ok (used_processors m1) (execution_context m1)"
      "length (used_processors m1) = MAX_CPUS"
    by (simp add: execution_context_init_def allocate_processor_id_def initial_machine_def
        new_ExecutionContext_def Let_def guest_ready_def get_jit_def live_ctx_ok_def context_config_def
        jit_state_wf_def SetSP_def new_A64JitState_def ResetRSB_def find_unused_initial)
      (simp add: MAX_CPUS_def)
  obtain j where j: "call_guest clobbering_guest (\<lambda>_ m. Some (Inr m)) (guest_routine ?w)
      [IntArg (wrapper_value ?w)] m1 = Some (Inr (5, put_jit_state j m1))"
    using clobbering_guest_returns [OF ready, of "[IntArg 1]"] by auto
  have "live_ctx_ok (used_processors (put_jit_state j m1)) (execution_context (put_jit_state j m1))"
    "length (used_processors (put_jit_state j m1)) = MAX_CPUS"
    "ref_count (execution_context (put_jit_state j m1)) = 1"
    using live rc by (auto simp: live_ctx_ok_def put_jit_state_def)
  then show ?thesis using thread_routine_releases_context [OF m1 j] by auto
qed

section \<open>Searching\<close>

text \<open>
  A comparison that sees a sorted array, from every machine state satisfying \<open>I\<close>, which it
  keeps: element \<open>i\<close> compares as \<open>c i\<close>, and the results decrease along the array.
\<close>

definition sorted_compar ::
    "host_compar \<Rightarrow> u64 \<Rightarrow> u64 \<Rightarrow> u64 \<Rightarrow> nat \<Rightarrow> (nat \<Rightarrow> int) \<Rightarrow> (machine \<Rightarrow> bool) \<Rightarrow> bool" where
  "sorted_compar cmp key base sz n c I \<longleftrightarrow>
     (\<forall>m i. I m \<and> i < n \<longrightarrow> (\<exists>m'. I m' \<and> cmp key (base + of_nat i * sz) m = Some (Inr (c i, m')))) \<and>
     (\<forall>i j. i \<le> j \<and> j < n \<longrightarrow> c j \<le> c i)"

lemma bsearch_loop_correct:
  assumes "sorted_compar cmp key base sz n c I" "u \<le> n"
    "\<forall>i<l. 0 < c i" "\<forall>i<n. u \<le> i \<longrightarrow> c i < 0" "I m"
  shows "\<exists>p m'. bsearch_loop cmp key base sz l u m = Some (Inr (p, m')) \<and> I m' \<and>
     (if \<exists>i<n. c i = 0 then \<exists>i<n. c i = 0 \<and> p = base + of_nat i * sz else p = 0)"
  using assms
proof (induction "u - l" arbitrary: l u m rule: less_induct)
  case less
  show ?case
  proof (cases "u \<le> l")
    case True
    then have "c i \<noteq> 0" if "i < n" for i
      using less.prems(3,4) that by (cases "i < l") (auto simp: not_less)
    then show ?thesis using True less.prems(5) by (auto simp: bsearch_loop.simps)
  next
    case False
    define idx where "idx = (l + u) div 2"
    have idx: "l \<le> idx" "idx < u" "idx < n" using False less.prems(2) by (auto simp: idx_def)
    obtain m1 where call: "cmp key (base + of_nat idx * sz) m = Some (Inr (c idx, m1))" and I1: "I m1"
      using less.prems(1,5) idx unfolding sorted_compar_def by blast
    have mono: "\<And>i j. i \<le> j \<Longrightarrow> j < n \<Longrightarrow> c j \<le> c i"
      using less.prems(1) by (simp add: sorted_compar_def)
    have step: "bsearch_loop cmp key base sz l u m =
       (if c idx < 0 then bsearch_loop cmp key base sz l idx m1
        else if 0 < c idx then bsearch_loop cmp key base sz (idx + 1) u m1
        else Some (Inr (base + of_nat idx * sz, m1)))"
      using False call by (subst bsearch_loop.simps) (simp add: idx_def Let_def)
    consider "c idx < 0" | "0 < c idx" | "c idx = 0" by linarith
    then show ?thesis
    proof cases
      case 1
      have "\<forall>i<n. idx \<le> i \<longrightarrow> c i < 0" using mono 1 by fastforce
      then show ?thesis using less.hyps [of idx l m1] less.prems(1-4) I1 idx step 1 by simp
    next
      case 2
      have "0 < c i" if "i < idx + 1" for i
        using mono [of i idx] 2 idx(3) that by simp
      then show ?thesis using less.hyps [of u "idx + 1" m1] less.prems(1-4) I1 idx step 2 by simp
    next
      case 3
      then show ?thesis using idx(3) step I1 by auto
    qed
  qed
qed



text \<open>
  The comparator of \<^verbatim>\<open>qsort\<close> is a thread-local that is not restored: after a nested sort
  (even of an array too short to need a comparison) every further comparison of the enclosing
  sort goes to the nested sort's comparator, whatever the enclosing one was.
\<close>

theorem nested_qsort_replaces_comparator:
  assumes "\<And>m. qsort base nmemb sz (qsort_compar run svc) m = Some (Inr m)"
  shows "\<exists>m'. qsort_impl qsort run svc base nmemb sz inner m = Some (Inr m') \<and>
     qsort_compar run svc a b m' =
       map_option (\<lambda>r. and_then r (\<lambda>(v, m1). Inr (int_of_x0 v, m1)))
         (call_guest run svc inner [IntArg a, IntArg b] m')"
  using assms by (simp add: qsort_impl_def qsort_compar_def)

theorem nested_qsort_replaces_comparator_witness:
  "\<exists>m'. qsort_impl (\<lambda>_ _ _ _ m. Some (Inr m)) clobbering_guest (\<lambda>_ m. Some (Inr m)) 0x100 1 8 0x7000
          (one_function_machine\<lparr>current_qsort_compar := 0x6000\<rparr>) = Some (Inr m') \<and>
     qsort_compar clobbering_guest (\<lambda>_ m. Some (Inr m)) 1 2 m' =
       map_option (\<lambda>r. and_then r (\<lambda>(v, m1). Inr (int_of_x0 v, m1)))
         (call_guest clobbering_guest (\<lambda>_ m. Some (Inr m)) 0x7000 [IntArg 1, IntArg 2] m')"
  by (rule nested_qsort_replaces_comparator) simp

end
