(* ===== verification/Thread_Keys.thy ===== *)
theory Thread_Keys
  imports Guest_Callbacks
begin

text \<open>
  Thread-specific data, \<^verbatim>\<open>src/src/libs/pthread_impl.cpp\<close>.  Every non-null value a guest thread
  stores is kept in a heap-allocated wrapper with the key's guest destructor; the host key holds
  the wrapper, and each wrapper keeps the storing thread's execution context alive.  The host's
  keys are modelled by their POSIX meaning; \<open>refs t\<close> is the reference count of thread \<open>t\<close>'s
  context.
\<close>

section \<open>State and operations\<close>

record MapValue =
  guest_destructor :: u64
  mv_wrappers :: "u64 list"

record key_state =
  host_tls :: "nat \<Rightarrow> nat \<Rightarrow> u64"
  wrapper_heap :: "u64 \<rightharpoonup> GuestRoutineWrapper"
  key_destructor_map :: "nat \<rightharpoonup> MapValue"
  refs :: "nat \<Rightarrow> u64"

definition initial_key_state :: key_state where
  "initial_key_state =
     \<lparr>host_tls = (\<lambda>_ _. 0), wrapper_heap = Map.empty, key_destructor_map = Map.empty, refs = (\<lambda>_. 1)\<rparr>"

definition EINVAL :: int where
  "EINVAL = 22"

definition delete_wrapper :: "u64 \<Rightarrow> key_state \<Rightarrow> key_state result" where
  "delete_wrapper p s =
     (if wrapper_heap s p = None then Inl Invalid_access
      else Inr (s\<lparr>wrapper_heap := (wrapper_heap s)(p := None)\<rparr>))"

definition add_ref :: "nat \<Rightarrow> key_state \<Rightarrow> key_state" where
  "add_ref t s = s\<lparr>refs := (refs s)(t := refs s t + 1)\<rparr>"

definition sub_ref :: "nat \<Rightarrow> key_state \<Rightarrow> key_state" where
  "sub_ref t s = s\<lparr>refs := (refs s)(t := refs s t - 1)\<rparr>"

definition set_host_tls :: "nat \<Rightarrow> nat \<Rightarrow> u64 \<Rightarrow> key_state \<Rightarrow> key_state" where
  "set_host_tls t key v s = s\<lparr>host_tls := (host_tls s)(t := (host_tls s t)(key := v))\<rparr>"

text \<open>
  \<open>ret\<close> and \<open>key\<close> are the outcome of the host's \<^verbatim>\<open>pthread_key_create\<close>; a new key is null in every
  thread.  \<^verbatim>\<open>emplace\<close> keeps an entry that is already there.
\<close>

definition pthread_key_create_impl :: "int \<Rightarrow> nat \<Rightarrow> u64 \<Rightarrow> key_state \<Rightarrow> int \<times> key_state" where
  "pthread_key_create_impl ret key destructor s =
     (if ret \<noteq> 0 then (ret, s)
      else (0, s\<lparr>host_tls := (\<lambda>t. (host_tls s t)(key := 0)),
                key_destructor_map := insert_new key \<lparr>guest_destructor = destructor, mv_wrappers = []\<rparr>
                  (key_destructor_map s)\<rparr>))"

fun delete_wrappers :: "nat \<Rightarrow> u64 list \<Rightarrow> key_state \<Rightarrow> key_state result" where
  "delete_wrappers t [] s = Inr s"
| "delete_wrappers t (p # ps) s =
     and_then (delete_wrapper p s) (\<lambda>s1. delete_wrappers t ps (sub_ref t s1))"

definition pthread_key_delete_impl :: "nat \<Rightarrow> int \<Rightarrow> nat \<Rightarrow> key_state \<Rightarrow> (int \<times> key_state) result" where
  "pthread_key_delete_impl t ret key s =
     (case key_destructor_map s key of
        None \<Rightarrow> Inl Out_of_range
      | Some mv \<Rightarrow> and_then (delete_wrappers t (mv_wrappers mv) s) (\<lambda>s1. Inr (ret, s1)))"

text \<open>
  \<open>fresh\<close> is the address \<^verbatim>\<open>new\<close> returns and \<open>ret\<close> the result of the host's
  \<^verbatim>\<open>pthread_setspecific\<close>.
\<close>

definition pthread_setspecific_impl ::
    "nat \<Rightarrow> u64 \<Rightarrow> int \<Rightarrow> nat \<Rightarrow> u64 \<Rightarrow> key_state \<Rightarrow> (int \<times> key_state) result" where
  "pthread_setspecific_impl t fresh ret key value s =
     (let wrapper = host_tls s t key in
      if value = 0 then
        (if wrapper \<noteq> 0 then
           (case key_destructor_map s key of
              None \<Rightarrow> Inl Out_of_range
            | Some mv \<Rightarrow>
                (let s1 = s\<lparr>key_destructor_map := (key_destructor_map s)
                              (key \<mapsto> mv\<lparr>mv_wrappers := filter (\<lambda>p. p \<noteq> wrapper) (mv_wrappers mv)\<rparr>)\<rparr>
                 in and_then (delete_wrapper wrapper s1) (\<lambda>s2.
                    Inr (0, set_host_tls t key 0 (sub_ref t s2)))))
         else Inr (0, s))
      else if wrapper = 0 then
        (case key_destructor_map s key of
           None \<Rightarrow> Inr (EINVAL, s)
         | Some mv \<Rightarrow>
             (let s1 = s\<lparr>wrapper_heap := (wrapper_heap s)
                           (fresh \<mapsto> \<lparr>guest_routine = guest_destructor mv, wrapper_value = value\<rparr>)\<rparr>
              in if ret \<noteq> 0 then and_then (delete_wrapper fresh s1) (\<lambda>s2. Inr (ret, s2))
                 else Inr (0, add_ref t ((set_host_tls t key fresh s1)
                        \<lparr>key_destructor_map := (key_destructor_map s)
                           (key \<mapsto> mv\<lparr>mv_wrappers := mv_wrappers mv @ [fresh]\<rparr>)\<rparr>))))
      else
        (case wrapper_heap s wrapper of
           None \<Rightarrow> Inl Invalid_access
         | Some w \<Rightarrow> Inr (0, s\<lparr>wrapper_heap := (wrapper_heap s)(wrapper \<mapsto> w\<lparr>wrapper_value := value\<rparr>)\<rparr>)))"

definition pthread_getspecific_impl :: "nat \<Rightarrow> nat \<Rightarrow> key_state \<Rightarrow> u64 result" where
  "pthread_getspecific_impl t key s =
     (let wrapper = host_tls s t key in
      if wrapper \<noteq> 0 then
        (case wrapper_heap s wrapper of None \<Rightarrow> Inl Invalid_access | Some w \<Rightarrow> Inr (wrapper_value w))
      else Inr 0)"

text \<open>
  The host destructor of a key at thread exit: the host has reset the thread's value to null, the
  guest destructor runs on the wrapped value, and the wrapper is deleted.  The result holds the
  call made and whether the context is to be freed.
\<close>

definition key_destructor ::
    "nat \<Rightarrow> nat \<Rightarrow> key_state \<Rightarrow> ((u64 \<times> u64) option \<times> bool \<times> key_state) result" where
  "key_destructor t key s =
     (let wrapper = host_tls s t key in
      if wrapper = 0 then Inr (None, False, s)
      else
        (let s1 = set_host_tls t key 0 s in
         case wrapper_heap s1 wrapper of
           None \<Rightarrow> Inl Invalid_access
         | Some w \<Rightarrow>
             and_then (delete_wrapper wrapper s1) (\<lambda>s2.
             (let s3 = sub_ref t s2
              in Inr (Some (guest_routine w, wrapper_value w), refs s3 t = 0, s3)))))"

section \<open>Steps and invariant\<close>

text \<open>The operations threads perform while keys are not deleted.\<close>

inductive key_step :: "key_state \<Rightarrow> key_state \<Rightarrow> bool" where
  step_create: "key_destructor_map s key = None \<Longrightarrow>
                pthread_key_create_impl ret key d s = (r, s') \<Longrightarrow> key_step s s'"
| step_set: "fresh \<noteq> 0 \<Longrightarrow> wrapper_heap s fresh = None \<Longrightarrow>
             pthread_setspecific_impl t fresh ret key value s = Inr (r, s') \<Longrightarrow> key_step s s'"
| step_destroy: "key_destructor t key s = Inr (c, f, s') \<Longrightarrow> key_step s s'"

inductive_cases key_stepE: "key_step s s'"

definition used_keys :: "nat \<Rightarrow> key_state \<Rightarrow> nat set" where
  "used_keys t s = {key. host_tls s t key \<noteq> 0}"

definition key_inv :: "key_state \<Rightarrow> bool" where
  "key_inv s \<longleftrightarrow>
     (\<forall>t key. host_tls s t key \<noteq> 0 \<longrightarrow>
        wrapper_heap s (host_tls s t key) \<noteq> None \<and> key_destructor_map s key \<noteq> None) \<and>
     (\<forall>t key t' key'. host_tls s t key \<noteq> 0 \<and> host_tls s t key = host_tls s t' key' \<longrightarrow>
        t = t' \<and> key = key') \<and>
     (\<forall>t. finite (used_keys t s) \<and> refs s t = 1 + of_nat (card (used_keys t s)))"

section \<open>Lemmas\<close>

lemma key_inv_initial: "key_inv initial_key_state"
  by (simp add: key_inv_def initial_key_state_def used_keys_def)

lemma key_inv_live:
  assumes "key_inv s" "host_tls s t key \<noteq> 0"
  obtains w mv where "wrapper_heap s (host_tls s t key) = Some w" "key_destructor_map s key = Some mv"
  using assms unfolding key_inv_def by (metis option.exhaust)

lemma key_inv_distinct:
  assumes "key_inv s" "host_tls s t key \<noteq> 0" "(t, key) \<noteq> (u, k)"
  shows "host_tls s u k \<noteq> host_tls s t key"
  using assms unfolding key_inv_def by metis

lemma key_inv_inj:
  assumes "key_inv s" "host_tls s t key \<noteq> 0" "host_tls s t key = host_tls s u k"
  shows "t = u \<and> key = k"
  using assms unfolding key_inv_def by metis

lemma key_inv_refs:
  assumes "key_inv s"
  shows "finite (used_keys t s)" "refs s t = 1 + of_nat (card (used_keys t s))"
  using assms by (auto simp: key_inv_def)

lemma used_keys_clear:
  assumes "host_tls s' = (host_tls s)(t := (host_tls s t)(key := 0))"
  shows "used_keys u s' = (if u = t then used_keys t s - {key} else used_keys u s)"
  using assms by (auto simp: used_keys_def)

lemma used_keys_fill:
  assumes "host_tls s' = (host_tls s)(t := (host_tls s t)(key := p))" "p \<noteq> 0"
  shows "used_keys u s' = (if u = t then insert key (used_keys t s) else used_keys u s)"
  using assms by (auto simp: used_keys_def)

text \<open>A slot is emptied and its wrapper deleted.\<close>

lemma key_inv_clear:
  assumes inv: "key_inv s" and used: "host_tls s t key \<noteq> 0"
    and tls: "host_tls s' = (host_tls s)(t := (host_tls s t)(key := 0))"
    and heap: "wrapper_heap s' = (wrapper_heap s)(host_tls s t key := None)"
    and dom: "dom (key_destructor_map s') = dom (key_destructor_map s)"
    and refs: "refs s' = (refs s)(t := refs s t - 1)"
  shows "key_inv s'"
  unfolding key_inv_def
proof (intro conjI allI impI)
  fix u k assume n: "host_tls s' u k \<noteq> 0"
  then have ne: "(t, key) \<noteq> (u, k)" and same: "host_tls s' u k = host_tls s u k"
    using tls by (auto split: if_splits)
  have d: "host_tls s u k \<noteq> host_tls s t key" by (rule key_inv_distinct [OF inv used ne])
  obtain w mv where wm: "wrapper_heap s (host_tls s u k) = Some w" "key_destructor_map s k = Some mv"
    using key_inv_live [OF inv, of u k] n same by auto
  show "wrapper_heap s' (host_tls s' u k) \<noteq> None" using wm d same heap by simp
  show "key_destructor_map s' k \<noteq> None" using wm dom by (metis domIff option.simps(3))
next
  fix u k u' k' assume a: "host_tls s' u k \<noteq> 0 \<and> host_tls s' u k = host_tls s' u' k'"
  have at: "host_tls s' v l = (if v = t \<and> l = key then 0 else host_tls s v l)" for v l
    by (simp add: tls)
  have "host_tls s' u' k' \<noteq> 0" using a by metis
  then have "host_tls s u k \<noteq> 0" "host_tls s u' k' = host_tls s u k"
    using a at [of u k] at [of u' k'] by (auto split: if_splits)
  then show "u = u'" "k = k'" using key_inv_distinct [OF inv, of u k u' k'] by auto
next
  fix u
  have key: "key \<in> used_keys t s" using used by (simp add: used_keys_def)
  show "finite (used_keys u s')" using used_keys_clear [OF tls, of u] key_inv_refs(1) [OF inv] by simp
  have "card (used_keys t s) = Suc (card (used_keys t s - {key}))"
    using key_inv_refs(1) [OF inv, of t] key by (metis card_Suc_Diff1)
  then have "refs s t - 1 = 1 + of_nat (card (used_keys t s - {key}))"
    using key_inv_refs(2) [OF inv, of t] by simp
  then show "refs s' u = 1 + of_nat (card (used_keys u s'))"
    using used_keys_clear [OF tls, of u] refs key_inv_refs(2) [OF inv] by simp
qed

text \<open>An empty slot gets a fresh wrapper.\<close>

lemma key_inv_fill:
  assumes inv: "key_inv s" and empty: "host_tls s t key = 0"
    and fresh: "p \<noteq> 0" "wrapper_heap s p = None"
    and tls: "host_tls s' = (host_tls s)(t := (host_tls s t)(key := p))"
    and heap: "wrapper_heap s' = (wrapper_heap s)(p \<mapsto> w)"
    and dom: "dom (key_destructor_map s') = insert key (dom (key_destructor_map s))"
    and refs: "refs s' = (refs s)(t := refs s t + 1)"
  shows "key_inv s'"
proof -
  have live: "wrapper_heap s (host_tls s u k) \<noteq> None \<and> key_destructor_map s k \<noteq> None"
    if "host_tls s u k \<noteq> 0" for u k using inv that by (simp add: key_inv_def)
  have other: "host_tls s u k \<noteq> p" if "host_tls s u k \<noteq> 0" for u k
    using live [OF that] fresh(2) by metis
  have at: "host_tls s' u k = (if u = t \<and> k = key then p else host_tls s u k)" for u k
    by (simp add: tls)
  have map_live: "key_destructor_map s' k \<noteq> None" if "k = key \<or> key_destructor_map s k \<noteq> None" for k
    using dom that by (metis domIff insert_iff)
  have heap_live: "wrapper_heap s' q \<noteq> None" if "q = p \<or> wrapper_heap s q \<noteq> None" for q
    using that by (auto simp: heap)
  have 1: "wrapper_heap s' (host_tls s' u k) \<noteq> None \<and> key_destructor_map s' k \<noteq> None"
    if "host_tls s' u k \<noteq> 0" for u k
    using that live [of u k] map_live [of k] heap_live [of "host_tls s' u k"] at [of u k]
    by (cases "u = t \<and> k = key") simp_all
  have 2: "\<forall>u k u' k'. host_tls s' u k \<noteq> 0 \<and> host_tls s' u k = host_tls s' u' k' \<longrightarrow> u = u' \<and> k = k'"
  proof (intro allI impI)
    fix u k u' k' assume "host_tls s' u k \<noteq> 0 \<and> host_tls s' u k = host_tls s' u' k'"
    then have "host_tls s' u k \<noteq> 0" "host_tls s' u k = host_tls s' u' k'" by blast+
    then show "u = u' \<and> k = k'"
      by (metis at other key_inv_inj [OF inv])
  qed
  have "key \<notin> used_keys t s" using empty by (simp add: used_keys_def)
  then have 3: "finite (used_keys u s') \<and> refs s' u = 1 + of_nat (card (used_keys u s'))" for u
    using used_keys_fill [OF tls fresh(1), of u] key_inv_refs [OF inv] refs by simp
  show ?thesis unfolding key_inv_def by (intro conjI 2) (use 1 3 in simp_all)
qed

lemma key_inv_same_tls:
  assumes inv: "key_inv s" and tls: "host_tls s' = host_tls s" and refs: "refs s' = refs s"
    and heap: "dom (wrapper_heap s) \<subseteq> dom (wrapper_heap s')"
    and dom: "dom (key_destructor_map s) \<subseteq> dom (key_destructor_map s')"
  shows "key_inv s'"
proof -
  have live: "wrapper_heap s' (host_tls s t key) \<noteq> None \<and> key_destructor_map s' key \<noteq> None"
    if "host_tls s t key \<noteq> 0" for t key
    using key_inv_live [OF inv that] heap dom by (metis domI domIff subsetD)
  have used: "used_keys t s' = used_keys t s" for t by (simp add: used_keys_def tls)
  show ?thesis
    unfolding key_inv_def used unfolding tls refs
    using inv live unfolding key_inv_def by (intro conjI) simp_all
qed

section \<open>Preservation\<close>

lemma key_inv_create:
  assumes "key_inv s" "key_destructor_map s key = None" "pthread_key_create_impl ret key d s = (r, s')"
  shows "key_inv s'"
proof (cases "ret = 0")
  case True
  have "host_tls s t key = 0" for t
    using assms(1,2) unfolding key_inv_def by metis
  then have "(\<lambda>t. (host_tls s t)(key := 0)) = host_tls s" by (auto simp: fun_eq_iff)
  then show ?thesis
    using assms(3) True
    by (intro key_inv_same_tls [OF assms(1)]) (auto simp: pthread_key_create_impl_def insert_new_lookup)
next
  case False
  then show ?thesis using assms by (simp add: pthread_key_create_impl_def)
qed

lemma key_inv_set:
  assumes inv: "key_inv s" and fresh: "fresh \<noteq> 0" "wrapper_heap s fresh = None"
    and ok: "pthread_setspecific_impl t fresh ret key value s = Inr (r, s')"
  shows "key_inv s'"
proof -
  consider (clear) "value = 0" "host_tls s t key \<noteq> 0" | (noop) "value = 0" "host_tls s t key = 0"
    | (fill) "value \<noteq> 0" "host_tls s t key = 0" | (update) "value \<noteq> 0" "host_tls s t key \<noteq> 0"
    by blast
  then show ?thesis
  proof cases
    case clear
    then obtain mv where "key_destructor_map s key = Some mv" using key_inv_live [OF inv clear(2)] by blast
    then show ?thesis using ok clear
      by (intro key_inv_clear [OF inv clear(2)])
        (auto simp: pthread_setspecific_impl_def delete_wrapper_def set_host_tls_def sub_ref_def Let_def
          split: if_splits)
  next
    case noop
    then show ?thesis using ok inv by (simp add: pthread_setspecific_impl_def)
  next
    case fill
    show ?thesis
    proof (cases "key_destructor_map s key")
      case None
      then show ?thesis using ok fill inv by (simp add: pthread_setspecific_impl_def)
    next
      case (Some mv)
      show ?thesis
      proof (cases "ret = 0")
        case True
        then show ?thesis using ok fill Some
          by (intro key_inv_fill [OF inv fill(2) fresh])
            (auto simp: pthread_setspecific_impl_def set_host_tls_def add_ref_def)
      next
        case False
        then have "s' = s" using ok fill Some fresh(2)
          by (auto simp: pthread_setspecific_impl_def delete_wrapper_def fun_upd_idem)
        then show ?thesis using inv by simp
      qed
    qed
  next
    case update
    then show ?thesis using ok
      by (intro key_inv_same_tls [OF inv])
        (auto simp: pthread_setspecific_impl_def Let_def split: option.splits)
  qed
qed

lemma key_inv_destroy:
  assumes inv: "key_inv s" and ok: "key_destructor t key s = Inr (c, f, s')"
  shows "key_inv s'"
proof (cases "host_tls s t key = 0")
  case True
  then show ?thesis using ok inv by (simp add: key_destructor_def)
next
  case False
  obtain w mv where w: "wrapper_heap s (host_tls s t key) = Some w"
    using key_inv_live [OF inv False] by blast
  have "s' = s\<lparr>host_tls := (host_tls s)(t := (host_tls s t)(key := 0)),
      wrapper_heap := (wrapper_heap s)(host_tls s t key := None), refs := (refs s)(t := refs s t - 1)\<rparr>"
    using ok False w by (simp add: key_destructor_def delete_wrapper_def set_host_tls_def sub_ref_def Let_def)
  then show ?thesis by (intro key_inv_clear [OF inv False]) simp_all
qed

lemma key_inv_reachable: "key_step\<^sup>*\<^sup>* initial_key_state s \<Longrightarrow> key_inv s"
proof (induction rule: rtranclp_induct)
  case (step s s')
  from step.hyps(2) show ?case
  proof cases
    case step_create
    then show ?thesis using key_inv_create [OF step.IH] by blast
  next
    case step_set
    then show ?thesis using key_inv_set [OF step.IH] by blast
  next
    case step_destroy
    then show ?thesis using key_inv_destroy [OF step.IH] by blast
  qed
qed (rule key_inv_initial)

section \<open>Properties\<close>

lemma getspecific_live:
  assumes "key_inv s"
  shows "\<exists>v. pthread_getspecific_impl t key s = Inr v"
proof (cases "host_tls s t key = 0")
  case False
  obtain w where "wrapper_heap s (host_tls s t key) = Some w" using key_inv_live [OF assms False] by blast
  then show ?thesis by (simp add: pthread_getspecific_impl_def Let_def)
qed (simp add: pthread_getspecific_impl_def)

lemma setspecific_get:
  assumes inv: "key_inv s" and fresh: "fresh \<noteq> 0" "wrapper_heap s fresh = None"
    and key: "key_destructor_map s key = Some mv"
  shows "\<exists>s'. pthread_setspecific_impl t fresh 0 key value s = Inr (0, s') \<and>
    pthread_getspecific_impl t key s' = Inr value \<and>
    (\<forall>u k. (u, k) \<noteq> (t, key) \<longrightarrow>
       host_tls s' u k = host_tls s u k \<and>
       (host_tls s u k \<noteq> 0 \<longrightarrow> wrapper_heap s' (host_tls s u k) = wrapper_heap s (host_tls s u k)))"
proof -
  have other: "host_tls s u k \<noteq> fresh" if "host_tls s u k \<noteq> 0" for u k
    using inv that fresh(2) unfolding key_inv_def by metis
  show ?thesis
  proof (cases "host_tls s t key = 0")
    case True
    then show ?thesis
      using key fresh other
      by (auto simp: pthread_setspecific_impl_def pthread_getspecific_impl_def set_host_tls_def
          add_ref_def Let_def)
  next
    case False
    obtain w where w: "wrapper_heap s (host_tls s t key) = Some w"
      using key_inv_live [OF inv False] by blast
    have dist: "host_tls s u k \<noteq> host_tls s t key" if "(u, k) \<noteq> (t, key)" for u k
      by (rule key_inv_distinct [OF inv False]) (use that in auto)
    show ?thesis
      using key False w dist
      by (cases "value = 0")
        (auto simp: pthread_setspecific_impl_def pthread_getspecific_impl_def set_host_tls_def
          delete_wrapper_def sub_ref_def Let_def)
  qed
qed

text \<open>
  C18.  Thread-specific values behave like a map: in every state threads can reach by creating
  keys, setting values and running key destructors, storing a value for a registered key (null
  included) succeeds and is what the same thread reads back, and no other thread's or key's value
  changes.
\<close>

theorem setspecific_getspecific_correct:
  assumes "key_step\<^sup>*\<^sup>* initial_key_state s" and "fresh \<noteq> 0" and "wrapper_heap s fresh = None"
    and "key_destructor_map s key = Some mv"
  shows "\<exists>s'. pthread_setspecific_impl t fresh 0 key value s = Inr (0, s') \<and>
    pthread_getspecific_impl t key s' = Inr value \<and>
    (\<forall>u k. (u, k) \<noteq> (t, key) \<longrightarrow> pthread_getspecific_impl u k s' = pthread_getspecific_impl u k s)"
proof -
  have inv: "key_inv s" by (rule key_inv_reachable [OF assms(1)])
  obtain s' where s': "pthread_setspecific_impl t fresh 0 key value s = Inr (0, s')"
    "pthread_getspecific_impl t key s' = Inr value"
    and same: "\<And>u k. (u, k) \<noteq> (t, key) \<Longrightarrow> host_tls s' u k = host_tls s u k \<and>
       (host_tls s u k \<noteq> 0 \<longrightarrow> wrapper_heap s' (host_tls s u k) = wrapper_heap s (host_tls s u k))"
    using setspecific_get [OF inv assms(2-4)] by metis
  have "pthread_getspecific_impl u k s' = pthread_getspecific_impl u k s" if "(u, k) \<noteq> (t, key)" for u k
    using same [OF that] by (simp add: pthread_getspecific_impl_def Let_def)
  then show ?thesis using s' by blast
qed

text \<open>One key, created with guest destructor \<open>0x700\<close>.\<close>

definition one_key_state :: key_state where
  "one_key_state = snd (pthread_key_create_impl 0 3 0x700 initial_key_state)"

lemma one_key_state_facts:
  "key_step\<^sup>*\<^sup>* initial_key_state one_key_state"
  "wrapper_heap one_key_state = Map.empty" "host_tls one_key_state = (\<lambda>_ _. 0)"
  "key_destructor_map one_key_state = [3 \<mapsto> \<lparr>guest_destructor = 0x700, mv_wrappers = []\<rparr>]"
  "refs one_key_state = (\<lambda>_. 1)"
proof -
  have "key_step initial_key_state one_key_state"
    by (rule step_create [of _ 3 0 "0x700" 0])
      (simp_all add: one_key_state_def initial_key_state_def pthread_key_create_impl_def)
  then show "key_step\<^sup>*\<^sup>* initial_key_state one_key_state" by (rule r_into_rtranclp)
qed (simp_all add: one_key_state_def initial_key_state_def pthread_key_create_impl_def fun_eq_iff)

theorem setspecific_getspecific_correct_witness:
  "\<exists>s'. pthread_setspecific_impl 1 0x800 0 3 0x55 one_key_state = Inr (0, s') \<and>
    pthread_getspecific_impl 1 3 s' = Inr 0x55"
  using setspecific_getspecific_correct [OF one_key_state_facts(1), of "0x800" 3
      "\<lparr>guest_destructor = 0x700, mv_wrappers = []\<rparr>" 1 "0x55"]
  by (auto simp: one_key_state_facts)




end
