(* ===== verification/Symbol_Tables.thy ===== *)
theory Symbol_Tables
  imports Trampolines
begin

text \<open>
  Binding of symbol descriptions to guest addresses, the loop body shared by \<^verbatim>\<open>add_library\<close>
  (\<^verbatim>\<open>src/src/libs/syms.cpp\<close>) and \<^verbatim>\<open>java_vm_new\<close> (\<^verbatim>\<open>src/src/jni.cpp\<close>): a data symbol is bound to
  its value, a function to the guest address of a fresh trampoline.
\<close>

definition spec_of_symbol :: "dynamic_symbol \<Rightarrow> trampoline_spec" where
  "spec_of_symbol d = (sym_name d, sym_value d, sym_arg_types d, sym_is_ellipsis_function d,
                       sym_has_execution_side_effects d)"

definition is_function_symbol :: "dynamic_symbol \<Rightarrow> bool" where
  "is_function_symbol d \<longleftrightarrow> sym_arg_types d \<noteq> []"

definition symbol_address ::
    "dynamic_symbol \<Rightarrow> trampoline_state \<Rightarrow> (u64 \<times> trampoline_state) result" where
  "symbol_address d ts =
     (if sym_arg_types d = [] then Inr (sym_value d, ts)
      else and_then (trampoline_create (sym_name d) (sym_value d) (sym_arg_types d)
                       (sym_is_ellipsis_function d) (sym_has_execution_side_effects d) ts)
             (\<lambda>(n, ts'). Inr (guest_trampoline (trampolines ts' ! n), ts')))"

fun bind_symbols ::
    "dynamic_symbol list \<Rightarrow> trampoline_state \<Rightarrow> (u64 list \<times> trampoline_state) result" where
  "bind_symbols [] ts = Inr ([], ts)"
| "bind_symbols (d # ds) ts =
     and_then (symbol_address d ts) (\<lambda>(a, ts1).
     and_then (bind_symbols ds ts1) (\<lambda>(as, ts2). Inr (a # as, ts2)))"

definition function_count :: "dynamic_symbol list \<Rightarrow> nat" where
  "function_count ds = length (filter is_function_symbol ds)"

text \<open>What an address handed to the guest for a symbol means in a trampoline state.\<close>

definition bound_to :: "trampoline_state \<Rightarrow> dynamic_symbol \<Rightarrow> u64 \<Rightarrow> bool" where
  "bound_to ts d a \<longleftrightarrow>
     (if is_function_symbol d
      then (\<exists>n e. entry_at ts n = Some e \<and> spec_of e = spec_of_symbol d \<and>
                  guest_trampoline e = a \<and> dispatches_to ts a n)
      else a = sym_value d)"

lemma function_count_simps [simp]:
  "function_count [] = 0"
  "function_count (d # ds) = (if is_function_symbol d then 1 else 0) + function_count ds"
  by (simp_all add: function_count_def)

lemma function_count_append [simp]: "function_count (xs @ ys) = function_count xs + function_count ys"
  by (simp add: function_count_def)

lemma entry_at_dispatches:
  "trampolines_wf ts \<Longrightarrow> entry_at ts n = Some e \<Longrightarrow> dispatches_to ts (guest_trampoline e) n"
  using entry_dispatches by (auto simp: entry_at_def split: if_splits)

text \<open>The states that follow by further registrations.\<close>

definition extends :: "trampoline_state \<Rightarrow> trampoline_state \<Rightarrow> bool" where
  "extends ts ts' \<longleftrightarrow> (\<forall>n e. entry_at ts n = Some e \<longrightarrow> entry_at ts' n = Some e)"

lemma extends_refl [simp]: "extends ts ts"
  by (simp add: extends_def)

lemma extends_trans: "extends a b \<Longrightarrow> extends b c \<Longrightarrow> extends a c"
  by (simp add: extends_def)

lemma bound_to_extends:
  "trampolines_wf ts' \<Longrightarrow> extends ts ts' \<Longrightarrow> bound_to ts d a \<Longrightarrow> bound_to ts' d a"
  unfolding bound_to_def extends_def using entry_at_dispatches [of ts'] by (metis (full_types))

lemma symbol_address_correct:
  assumes "trampolines_wf ts" and "is_function_symbol d \<Longrightarrow> 0 < free_trampolines ts"
  shows "\<exists>a ts'. symbol_address d ts = Inr (a, ts') \<and> trampolines_wf ts' \<and> extends ts ts' \<and>
           bound_to ts' d a \<and>
           free_trampolines ts' = free_trampolines ts - (if is_function_symbol d then 1 else 0)"
proof (cases "is_function_symbol d")
  case False
  then show ?thesis
    using assms by (simp add: symbol_address_def bound_to_def is_function_symbol_def)
next
  case True
  obtain n ts' where c: "create_from (spec_of_symbol d) ts = Inr (n, ts')"
    "free_trampolines ts' = free_trampolines ts - 1"
    using tramp.create_room [OF assms(1) assms(2) [OF True]] by blast
  obtain e where e: "entry_at ts' n = Some e" "spec_of e = spec_of_symbol d"
    using tramp.create_entry [OF assms(1) c(1)] by blast
  have "symbol_address d ts = Inr (guest_trampoline e, ts')"
    using True c(1) e(1)
    by (auto simp: symbol_address_def is_function_symbol_def create_from_def spec_of_symbol_def
        entry_at_def split: if_splits)
  then show ?thesis
    using True c e tramp.create_inv [OF assms(1) c(1)] tramp.create_keeps [OF assms(1) c(1)]
    by (auto simp: bound_to_def extends_def intro: entry_at_dispatches)
qed

lemma bind_symbols_correct:
  assumes "trampolines_wf ts" and "function_count ds \<le> free_trampolines ts"
  shows "\<exists>as ts'. bind_symbols ds ts = Inr (as, ts') \<and> trampolines_wf ts' \<and> extends ts ts' \<and>
           list_all2 (bound_to ts') ds as \<and>
           free_trampolines ts' = free_trampolines ts - function_count ds"
  using assms
proof (induction ds arbitrary: ts)
  case (Cons d ds)
  have room: "0 < free_trampolines ts" if "is_function_symbol d"
    using Cons.prems(2) that by simp
  obtain a ts1 where 1: "symbol_address d ts = Inr (a, ts1)" "trampolines_wf ts1" "extends ts ts1"
    "bound_to ts1 d a"
    "free_trampolines ts1 = free_trampolines ts - (if is_function_symbol d then 1 else 0)"
    using symbol_address_correct [OF Cons.prems(1) room] by blast
  then have "function_count ds \<le> free_trampolines ts1"
    using Cons.prems(2) by (auto split: if_splits)
  then obtain as ts2 where 2: "bind_symbols ds ts1 = Inr (as, ts2)" "trampolines_wf ts2"
    "extends ts1 ts2" "list_all2 (bound_to ts2) ds as"
    "free_trampolines ts2 = free_trampolines ts1 - function_count ds"
    using Cons.IH [OF 1(2)] by blast
  then show ?case
    using 1 extends_trans [OF 1(3) 2(3)] bound_to_extends [OF 2(2) 2(3) 1(4)] by simp
qed simp

end
