(* ===== verification/Jni_Model.thy ===== *)
theory Jni_Model
  imports Symbol_Tables
begin

text \<open>
  \<^verbatim>\<open>src/src/jni.cpp\<close> and the data types of \<^verbatim>\<open>src/src/jni.hpp\<close>: the emulated Java virtual machine.
  Host objects live in an explicit store from addresses to objects; a \<open>jmethodID\<close> and a
  \<open>jfieldID\<close> are pointers into the nodes of a class's tables, so they are modelled by the class
  and the key of the node.  The bodies of Java methods are C++ closures; a closure is named by
  a value of type \<open>'f\<close>, and what running it does is the argument \<open>run\<close> of the calling operations.
\<close>

section \<open>Values and objects\<close>

text \<open>An address of a host object; \<open>0\<close> is \<^verbatim>\<open>nullptr\<close>.\<close>

type_synonym ref = nat

datatype jtype =
  JBoolean | JByte | JChar | JShort | JInt | JLong | JFloat | JDouble | JObject

datatype ValueVariant =
    VBoolean u8 | VByte u8 | VChar u16 | VShort u16 | VInt u32 | VLong u64
  | VFloat u32 | VDouble u64 | VObject ref

fun variant_type :: "ValueVariant \<Rightarrow> jtype" where
  "variant_type (VBoolean _) = JBoolean"
| "variant_type (VByte _) = JByte"
| "variant_type (VChar _) = JChar"
| "variant_type (VShort _) = JShort"
| "variant_type (VInt _) = JInt"
| "variant_type (VLong _) = JLong"
| "variant_type (VFloat _) = JFloat"
| "variant_type (VDouble _) = JDouble"
| "variant_type (VObject _) = JObject"

text \<open>\<^verbatim>\<open>std::get\<close> throws when the variant holds another alternative; \<^verbatim>\<open>T()\<close> is zero.\<close>

definition variant_get :: "jtype \<Rightarrow> ValueVariant \<Rightarrow> ValueVariant result" where
  "variant_get t v = (if variant_type v = t then Inr v else Inl Bad_variant_access)"

fun variant_zero :: "jtype \<Rightarrow> ValueVariant" where
  "variant_zero JBoolean = VBoolean 0"
| "variant_zero JByte = VByte 0"
| "variant_zero JChar = VChar 0"
| "variant_zero JShort = VShort 0"
| "variant_zero JInt = VInt 0"
| "variant_zero JLong = VLong 0"
| "variant_zero JFloat = VFloat 0"
| "variant_zero JDouble = VDouble 0"
| "variant_zero JObject = VObject 0"

type_synonym jfieldID = "ref \<times> string"
type_synonym jmethodID = "ref \<times> string"

datatype MethodType = Static | Member

text \<open>\<open>m_function\<close> is the member of the two \<^verbatim>\<open>std::function\<close>s that \<open>m_type\<close> selects.\<close>

record 'f Method =
  m_type :: MethodType
  m_name :: string
  m_owner_class :: ref
  m_function :: 'f

record 'f Class =
  full_name :: string
  class_fields :: "string \<rightharpoonup> ValueVariant"
  class_methods :: "string \<rightharpoonup> 'f Method"

record ArrayBase =
  array_size :: u32
  array_type :: jtype
  array_data :: "ValueVariant list"

text \<open>
  What an object is besides an \<^verbatim>\<open>Object\<close>: nothing more, a \<^verbatim>\<open>Class\<close>, a \<^verbatim>\<open>String\<close>, or an
  \<^verbatim>\<open>ArrayBase\<close> (which derives from \<^verbatim>\<open>Class\<close>).
\<close>

datatype 'f object_kind =
  KObject | KClass "'f Class" | KString string | KArray "'f Class" ArrayBase

record 'f Object =
  obj_super :: ref
  obj_fields :: "jfieldID \<rightharpoonup> ValueVariant"
  obj_kind :: "'f object_kind"

section \<open>The virtual machine\<close>

text \<open>A function table is the list of its slots; the empty list stands for a null table pointer.\<close>

record JNIEnv =
  native_interface_functions :: "u64 list"
  env_vm :: ref
  has_exception :: bool

record JavaVM =
  vm_invocation :: "u64 list"
  vm_native_interface_functions :: "u64 list"
  name_to_class :: "string \<rightharpoonup> ref"

record JNIThreadData =
  td_initialized :: bool
  td_env :: JNIEnv

record 'f jni_state =
  objects :: "ref \<rightharpoonup> 'f Object"
  java_vms :: "ref \<rightharpoonup> JavaVM"
  next_ref :: nat
  thread_data :: "nat \<Rightarrow> JNIThreadData"
  string_class :: ref
  list_class :: ref
  jni_env_functions :: "u64 list"
  jni_invocation_functions :: "u64 list"
  did_init_funcs :: bool

definition initial_thread_data :: JNIThreadData where
  "initial_thread_data =
     \<lparr>td_initialized = False,
      td_env = \<lparr>native_interface_functions = [], env_vm = 0, has_exception = False\<rparr>\<rparr>"

definition initial_jni_state :: "'f jni_state" where
  "initial_jni_state =
     \<lparr>objects = Map.empty, java_vms = Map.empty, next_ref = 1,
      thread_data = (\<lambda>_. initial_thread_data), string_class = 0, list_class = 0,
      jni_env_functions = [], jni_invocation_functions = [], did_init_funcs = False\<rparr>"

definition JNI_OK :: u32 where "JNI_OK = 0"
definition JNI_EDETACHED :: u32 where "JNI_EDETACHED = - 2"
definition JNI_VERSION_1_6 :: u32 where "JNI_VERSION_1_6 = 0x10006"

text \<open>\<^verbatim>\<open>new\<close>: an address no object has had.\<close>

definition new_object ::
    "'f Object \<Rightarrow> ('f, 'z) jni_state_scheme \<Rightarrow> ref \<times> ('f, 'z) jni_state_scheme" where
  "new_object ob s =
     (next_ref s, s\<lparr>objects := (objects s)(next_ref s \<mapsto> ob), next_ref := next_ref s + 1\<rparr>)"

definition plain_object :: "ref \<Rightarrow> 'f Object" where
  "plain_object c = \<lparr>obj_super = c, obj_fields = Map.empty, obj_kind = KObject\<rparr>"

definition mk_Class :: "string \<Rightarrow> 'f Class" where
  "mk_Class name = \<lparr>full_name = name, class_fields = Map.empty, class_methods = Map.empty\<rparr>"

definition deref :: "ref \<Rightarrow> ('f, 'z) jni_state_scheme \<Rightarrow> 'f Object result" where
  "deref r s = (case objects s r of None \<Rightarrow> Inl Invalid_access | Some ob \<Rightarrow> Inr ob)"

definition deref_class :: "ref \<Rightarrow> ('f, 'z) jni_state_scheme \<Rightarrow> 'f Class result" where
  "deref_class r s =
     and_then (deref r s) (\<lambda>ob. case obj_kind ob of
        KClass c \<Rightarrow> Inr c | KArray c _ \<Rightarrow> Inr c | _ \<Rightarrow> Inl Invalid_access)"

definition deref_string :: "ref \<Rightarrow> ('f, 'z) jni_state_scheme \<Rightarrow> string result" where
  "deref_string r s =
     and_then (deref r s) (\<lambda>ob. case obj_kind ob of KString x \<Rightarrow> Inr x | _ \<Rightarrow> Inl Invalid_access)"

definition deref_array :: "ref \<Rightarrow> ('f, 'z) jni_state_scheme \<Rightarrow> ArrayBase result" where
  "deref_array r s =
     and_then (deref r s) (\<lambda>ob. case obj_kind ob of KArray _ a \<Rightarrow> Inr a | _ \<Rightarrow> Inl Invalid_access)"

definition deref_array_of ::
    "jtype \<Rightarrow> ref \<Rightarrow> ('f, 'z) jni_state_scheme \<Rightarrow> ArrayBase result" where
  "deref_array_of T r s =
     and_then (deref_array r s) (\<lambda>a. if array_type a = T then Inr a else Inl Invalid_access)"

definition deref_vm :: "ref \<Rightarrow> ('f, 'z) jni_state_scheme \<Rightarrow> JavaVM result" where
  "deref_vm r s = (case java_vms s r of None \<Rightarrow> Inl Invalid_access | Some v \<Rightarrow> Inr v)"

definition set_class_part :: "'f Class \<Rightarrow> 'f Object \<Rightarrow> 'f Object" where
  "set_class_part c ob =
     (case obj_kind ob of
        KClass _ \<Rightarrow> ob\<lparr>obj_kind := KClass c\<rparr>
      | KArray _ a \<Rightarrow> ob\<lparr>obj_kind := KArray c a\<rparr>
      | _ \<Rightarrow> ob)"

definition put_class ::
    "ref \<Rightarrow> 'f Class \<Rightarrow> ('f, 'z) jni_state_scheme \<Rightarrow> ('f, 'z) jni_state_scheme" where
  "put_class r c s =
     (case objects s r of
        None \<Rightarrow> s
      | Some ob \<Rightarrow> s\<lparr>objects := (objects s)(r \<mapsto> set_class_part c ob)\<rparr>)"

definition put_array ::
    "ref \<Rightarrow> ArrayBase \<Rightarrow> ('f, 'z) jni_state_scheme \<Rightarrow> ('f, 'z) jni_state_scheme" where
  "put_array r a s =
     (case objects s r of
        Some ob \<Rightarrow> (case obj_kind ob of
            KArray c _ \<Rightarrow> s\<lparr>objects := (objects s)(r \<mapsto> ob\<lparr>obj_kind := KArray c a\<rparr>)\<rparr>
          | _ \<Rightarrow> s)
      | None \<Rightarrow> s)"

section \<open>Threads\<close>

definition attach_thread ::
    "nat \<Rightarrow> ref \<Rightarrow> ('f, 'z) jni_state_scheme \<Rightarrow> (JNIEnv \<times> ('f, 'z) jni_state_scheme) result" where
  "attach_thread t vm s =
     (if td_initialized (thread_data s t) then Inr (td_env (thread_data s t), s)
      else and_then (deref_vm vm s) (\<lambda>v.
        let env = (td_env (thread_data s t))
              \<lparr>native_interface_functions := vm_native_interface_functions v, env_vm := vm\<rparr>
        in Inr (env, s\<lparr>thread_data := (thread_data s)
                         (t := \<lparr>td_initialized = True, td_env = env\<rparr>)\<rparr>)))"

definition get_jni_env :: "nat \<Rightarrow> ('f, 'z) jni_state_scheme \<Rightarrow> JNIEnv option" where
  "get_jni_env t s =
     (if td_initialized (thread_data s t) then Some (td_env (thread_data s t)) else None)"

definition GetEnv ::
    "nat \<Rightarrow> u32 \<Rightarrow> ('f, 'z) jni_state_scheme \<Rightarrow> (JNIEnv option \<times> u32) result" where
  "GetEnv t version s =
     and_then (assert_that (version = JNI_VERSION_1_6) ''version == 0x10006'') (\<lambda>_.
     if \<not> td_initialized (thread_data s t) then Inr (None, JNI_EDETACHED)
     else Inr (Some (td_env (thread_data s t)), JNI_OK))"

definition AttachCurrentThread ::
    "nat \<Rightarrow> ref \<Rightarrow> ('f, 'z) jni_state_scheme \<Rightarrow>
     (JNIEnv \<times> u32 \<times> ('f, 'z) jni_state_scheme) result" where
  "AttachCurrentThread t vm s =
     and_then (attach_thread t vm s) (\<lambda>(_, s').
     Inr (td_env (thread_data s' t), JNI_OK, s'))"

definition DetachCurrentThread :: "('f, 'z) jni_state_scheme \<Rightarrow> u32 \<times> ('f, 'z) jni_state_scheme" where
  "DetachCurrentThread s = (JNI_OK, s)"

definition ExceptionCheck :: "nat \<Rightarrow> ('f, 'z) jni_state_scheme \<Rightarrow> bool" where
  "ExceptionCheck t s = has_exception (td_env (thread_data s t))"

definition ExceptionOccurred :: "nat \<Rightarrow> ('f, 'z) jni_state_scheme \<Rightarrow> ref result" where
  "ExceptionOccurred t s =
     (if has_exception (td_env (thread_data s t))
      then Inl (Assert_failure ''ExceptionOccurred was called while an exception was thrown'')
      else Inr 0)"

definition ExceptionClear ::
    "nat \<Rightarrow> ('f, 'z) jni_state_scheme \<Rightarrow> ('f, 'z) jni_state_scheme" where
  "ExceptionClear t s =
     s\<lparr>thread_data := (thread_data s)(t := (thread_data s t)
         \<lparr>td_env := (td_env (thread_data s t))\<lparr>has_exception := False\<rparr>\<rparr>)\<rparr>"

definition GetVersion :: u32 where
  "GetVersion = 0x10006"

section \<open>Classes, methods and fields\<close>

definition create_class ::
    "ref \<Rightarrow> string \<Rightarrow> ('f, 'z) jni_state_scheme \<Rightarrow> (ref \<times> ('f, 'z) jni_state_scheme) result" where
  "create_class vm name s =
     and_then (deref_vm vm s) (\<lambda>v. case name_to_class v name of
        Some c \<Rightarrow> Inr (c, s)
      | None \<Rightarrow>
          (let (c, s1) = new_object \<lparr>obj_super = 0, obj_fields = Map.empty,
                                     obj_kind = KClass (mk_Class name)\<rparr> s
           in Inr (c, s1\<lparr>java_vms := (java_vms s1)
                (vm \<mapsto> v\<lparr>name_to_class := (name_to_class v)(name \<mapsto> c)\<rparr>)\<rparr>)))"

definition FindClass :: "nat \<Rightarrow> string \<Rightarrow> ('f, 'z) jni_state_scheme \<Rightarrow> ref result" where
  "FindClass t name s =
     and_then (deref_vm (env_vm (td_env (thread_data s t))) s) (\<lambda>v.
       case name_to_class v name of
         Some c \<Rightarrow> Inr c
       | None \<Rightarrow> Inl (Terminate (''!! CLASS NOT FOUND IN FindClass: '' @ name)))"

definition class_add_method ::
    "MethodType \<Rightarrow> ref \<Rightarrow> string \<Rightarrow> 'f \<Rightarrow> ('f, 'z) jni_state_scheme \<Rightarrow>
     (jmethodID \<times> ('f, 'z) jni_state_scheme) result" where
  "class_add_method ty this name func s =
     and_then (deref_class this s) (\<lambda>c.
       Inr ((this, name), put_class this
         (c\<lparr>class_methods := insert_new name
              \<lparr>m_type = ty, m_name = name, m_owner_class = this, m_function = func\<rparr>
              (class_methods c)\<rparr>) s))"

definition static_method ::
    "ref \<Rightarrow> string \<Rightarrow> 'f \<Rightarrow> ('f, 'z) jni_state_scheme \<Rightarrow>
     (jmethodID \<times> ('f, 'z) jni_state_scheme) result" where
  "static_method = class_add_method Static"

definition member_method ::
    "ref \<Rightarrow> string \<Rightarrow> 'f \<Rightarrow> ('f, 'z) jni_state_scheme \<Rightarrow>
     (jmethodID \<times> ('f, 'z) jni_state_scheme) result" where
  "member_method = class_add_method Member"

definition static_field ::
    "ref \<Rightarrow> string \<Rightarrow> ValueVariant \<Rightarrow> ('f, 'z) jni_state_scheme \<Rightarrow>
     (jfieldID \<times> ('f, 'z) jni_state_scheme) result" where
  "static_field this name value s =
     and_then (deref_class this s) (\<lambda>c.
       Inr ((this, name), put_class this
         (c\<lparr>class_fields := insert_new name value (class_fields c)\<rparr>) s))"

definition class_field ::
    "ref \<Rightarrow> string \<Rightarrow> ('f, 'z) jni_state_scheme \<Rightarrow>
     (jfieldID \<times> ('f, 'z) jni_state_scheme) result" where
  "class_field this name s =
     and_then (deref_class this s) (\<lambda>c.
       Inr ((this, name), put_class this
         (c\<lparr>class_fields := insert_new name (VObject 0) (class_fields c)\<rparr>) s))"

definition find_method_generic ::
    "ref \<Rightarrow> string \<Rightarrow> ('f, 'z) jni_state_scheme \<Rightarrow> jmethodID result" where
  "find_method_generic clazz name s =
     and_then (deref_class clazz s) (\<lambda>c. case class_methods c name of
        Some _ \<Rightarrow> Inr (clazz, name)
      | None \<Rightarrow> Inl (Terminate (''!! METHOD NOT FOUND: '' @ name)))"

definition GetStaticMethodID ::
    "ref \<Rightarrow> string \<Rightarrow> ('f, 'z) jni_state_scheme \<Rightarrow> jmethodID result" where
  "GetStaticMethodID clazz name s = find_method_generic clazz name s"

definition GetMethodID ::
    "ref \<Rightarrow> string \<Rightarrow> ('f, 'z) jni_state_scheme \<Rightarrow> jmethodID result" where
  "GetMethodID clazz name s = find_method_generic clazz name s"

definition GetFieldID ::
    "ref \<Rightarrow> string \<Rightarrow> ('f, 'z) jni_state_scheme \<Rightarrow> jfieldID result" where
  "GetFieldID clazz name s =
     and_then (deref_class clazz s) (\<lambda>c. case class_fields c name of
        Some _ \<Rightarrow> Inr (clazz, name)
      | None \<Rightarrow> Inl (Terminate (''!! FIELD NOT FOUND: '' @ name)))"

definition GetStaticFieldID ::
    "ref \<Rightarrow> string \<Rightarrow> ('f, 'z) jni_state_scheme \<Rightarrow> jfieldID result" where
  "GetStaticFieldID clazz name s = GetFieldID clazz name s"

definition deref_method :: "jmethodID \<Rightarrow> ('f, 'z) jni_state_scheme \<Rightarrow> 'f Method result" where
  "deref_method m s =
     and_then (deref_class (fst m) s) (\<lambda>c. case class_methods c (snd m) of
        Some me \<Rightarrow> Inr me | None \<Rightarrow> Inl Invalid_access)"

section \<open>Calls and field reads\<close>

text \<open>
  The remaining arguments of a \<^verbatim>\<open>va_list\<close>.  Fetching past the end or with another type is
  undefined in the source.
\<close>

datatype va_slot = VaWord u64 | VaRef ref

type_synonym va_list = "va_slot list"

type_synonym ('f, 'z) runner =
  "'f \<Rightarrow> ref \<Rightarrow> va_list \<Rightarrow> ('f, 'z) jni_state_scheme \<Rightarrow>
   (ValueVariant \<times> ('f, 'z) jni_state_scheme) result"

fun va_arg_ref :: "va_list \<Rightarrow> (ref \<times> va_list) result" where
  "va_arg_ref (VaRef r # rest) = Inr (r, rest)"
| "va_arg_ref _ = Inl Invalid_access"

fun va_arg_jint :: "va_list \<Rightarrow> (u32 \<times> va_list) result" where
  "va_arg_jint (VaWord w # rest) = Inr (ucast w, rest)"
| "va_arg_jint _ = Inl Invalid_access"

fun va_arg_jlong :: "va_list \<Rightarrow> (u64 \<times> va_list) result" where
  "va_arg_jlong (VaWord w # rest) = Inr (w, rest)"
| "va_arg_jlong _ = Inl Invalid_access"

text \<open>The result type \<open>T\<close> of the template is \<open>None\<close> for \<^verbatim>\<open>void\<close>.\<close>

definition returned_as ::
    "jtype option \<Rightarrow> ValueVariant \<times> 's \<Rightarrow> (ValueVariant option \<times> 's) result" where
  "returned_as T r =
     (case T of
        None \<Rightarrow> Inr (None, snd r)
      | Some ty \<Rightarrow> and_then (variant_get ty (fst r)) (\<lambda>v. Inr (Some v, snd r)))"

definition method_call_generic ::
    "('f, 'z) runner \<Rightarrow> jtype option \<Rightarrow> jmethodID \<Rightarrow> ref \<Rightarrow> ref \<Rightarrow> va_list \<Rightarrow>
     ('f, 'z) jni_state_scheme \<Rightarrow> (ValueVariant option \<times> ('f, 'z) jni_state_scheme) result" where
  "method_call_generic run T m clazz object args s =
     and_then (deref_method m s) (\<lambda>me.
       if m_type me = Static then
         and_then (assert_that (clazz \<noteq> 0) ''clazz != nullptr'') (\<lambda>_.
         and_then (run (m_function me) clazz args s) (returned_as T))
       else
         and_then (assert_that (object \<noteq> 0) ''object != nullptr'') (\<lambda>_.
         and_then (run (m_function me) object args s) (returned_as T)))"

definition CallStaticMethodV where
  "CallStaticMethodV run T clazz m args s = method_call_generic run T m clazz 0 args s"

definition CallMethodV where
  "CallMethodV run T obj m args s = method_call_generic run T m 0 obj args s"

definition CallNonvirtualMethodV where
  "CallNonvirtualMethodV run T obj clazz m args s = method_call_generic run T m clazz obj args s"

text \<open>Every variadic and every \<^verbatim>\<open>jvalue\<close> form of a call is an assertion failure.\<close>

definition CallMethod :: "'a result" where
  "CallMethod = Inl (Assert_failure ''Not implemented'')"

definition NewObjectV ::
    "('f, 'z) runner \<Rightarrow> ref \<Rightarrow> jmethodID \<Rightarrow> va_list \<Rightarrow> ('f, 'z) jni_state_scheme \<Rightarrow>
     (ref \<times> ('f, 'z) jni_state_scheme) result" where
  "NewObjectV run clazz cons args s =
     (let (ob, s1) = new_object (plain_object clazz) s
      in and_then (method_call_generic run None cons clazz ob args s1) (\<lambda>(_, s2). Inr (ob, s2)))"

text \<open>\<^verbatim>\<open>object->fields.emplace(field, value)\<close>, as the object builders use it.\<close>

definition emplace_field ::
    "ref \<Rightarrow> jfieldID \<Rightarrow> ValueVariant \<Rightarrow> ('f, 'z) jni_state_scheme \<Rightarrow>
     ('f, 'z) jni_state_scheme result" where
  "emplace_field object field value s =
     and_then (deref object s) (\<lambda>ob.
       Inr (s\<lparr>objects := (objects s)
              (object \<mapsto> ob\<lparr>obj_fields := insert_new field value (obj_fields ob)\<rparr>)\<rparr>))"

definition field_get_generic ::
    "jtype \<Rightarrow> ref \<Rightarrow> jfieldID \<Rightarrow> ('f, 'z) jni_state_scheme \<Rightarrow> ValueVariant result" where
  "field_get_generic T object field s =
     and_then (deref object s) (\<lambda>ob. case obj_fields ob field of
        Some v \<Rightarrow> variant_get T v
      | None \<Rightarrow> Inl (Assert_failure ''Invalid jfieldID''))"

definition static_field_get_generic ::
    "jtype \<Rightarrow> ref \<Rightarrow> jfieldID \<Rightarrow> ('f, 'z) jni_state_scheme \<Rightarrow> ValueVariant result" where
  "static_field_get_generic T clazz field s =
     and_then (deref_class clazz s) (\<lambda>c. case class_fields c (snd field) of
        Some v \<Rightarrow> variant_get T v
      | None \<Rightarrow> Inl (Assert_failure ''Invalid jfieldID''))"

definition GetTField where
  "GetTField T object field s = field_get_generic T object field s"

definition GetStaticTField where
  "GetStaticTField T clazz field s = static_field_get_generic T clazz field s"

section \<open>Strings and references\<close>

text \<open>A C string ends at the first NUL; both overloads of \<^verbatim>\<open>create_string\<close> take one.\<close>

definition c_str :: "string \<Rightarrow> string" where
  "c_str x = takeWhile (\<lambda>c. c \<noteq> CHR 0x00) x"

definition create_string ::
    "string \<Rightarrow> ('f, 'z) jni_state_scheme \<Rightarrow> ref \<times> ('f, 'z) jni_state_scheme" where
  "create_string data s =
     new_object \<lparr>obj_super = string_class s, obj_fields = Map.empty, obj_kind = KString (c_str data)\<rparr> s"

definition NewStringUTF ::
    "string \<Rightarrow> ('f, 'z) jni_state_scheme \<Rightarrow> ref \<times> ('f, 'z) jni_state_scheme" where
  "NewStringUTF data s = create_string data s"

definition GetStringUTFLength :: "ref \<Rightarrow> ('f, 'z) jni_state_scheme \<Rightarrow> u32 result" where
  "GetStringUTFLength r s = and_then (deref_string r s) (\<lambda>x. Inr (of_nat (length x)))"

text \<open>The characters and the value stored through a non-null \<^verbatim>\<open>is_copy\<close>.\<close>

definition GetStringUTFChars :: "ref \<Rightarrow> ('f, 'z) jni_state_scheme \<Rightarrow> (string \<times> bool) result" where
  "GetStringUTFChars r s = and_then (deref_string r s) (\<lambda>x. Inr (x, False))"

definition NewGlobalRef :: "ref \<Rightarrow> ref" where
  "NewGlobalRef obj = obj"

definition NewWeakGlobalRef :: "ref \<Rightarrow> ref" where
  "NewWeakGlobalRef obj = obj"

definition DeleteGlobalRef ::
    "ref \<Rightarrow> ('f, 'z) jni_state_scheme \<Rightarrow> ('f, 'z) jni_state_scheme" where
  "DeleteGlobalRef obj s = s"

definition DeleteLocalRef ::
    "ref \<Rightarrow> ('f, 'z) jni_state_scheme \<Rightarrow> ('f, 'z) jni_state_scheme" where
  "DeleteLocalRef obj s = s"

definition DeleteWeakGlobalRef ::
    "ref \<Rightarrow> ('f, 'z) jni_state_scheme \<Rightarrow> ('f, 'z) jni_state_scheme" where
  "DeleteWeakGlobalRef obj s = s"

definition ReleaseStringUTFChars ::
    "ref \<Rightarrow> ('f, 'z) jni_state_scheme \<Rightarrow> ('f, 'z) jni_state_scheme" where
  "ReleaseStringUTFChars r s = s"

definition GetObjectClass :: "ref \<Rightarrow> ('f, 'z) jni_state_scheme \<Rightarrow> ref result" where
  "GetObjectClass r s = and_then (deref r s) (\<lambda>ob. Inr (obj_super ob))"

section \<open>Arrays\<close>

definition array_object :: "jtype \<Rightarrow> u32 \<Rightarrow> ValueVariant list \<Rightarrow> 'f Object" where
  "array_object T n vs =
     \<lparr>obj_super = 0, obj_fields = Map.empty,
      obj_kind = KArray (mk_Class ''<array>'')
                   \<lparr>array_size = n, array_type = T, array_data = vs\<rparr>\<rparr>"

definition GetArrayLength :: "ref \<Rightarrow> ('f, 'z) jni_state_scheme \<Rightarrow> u32 result" where
  "GetArrayLength r s = and_then (deref_array r s) (\<lambda>a. Inr (array_size a))"

text \<open>
  A negative length becomes a huge \<^verbatim>\<open>size_t\<close> in \<^verbatim>\<open>reserve\<close>, which throws; otherwise the loop
  pushes one value per index.
\<close>

definition new_filled_array ::
    "jtype \<Rightarrow> u32 \<Rightarrow> ValueVariant \<Rightarrow> ('f, 'z) jni_state_scheme \<Rightarrow>
     (ref \<times> ('f, 'z) jni_state_scheme) result" where
  "new_filled_array T n v s =
     (if sint n < 0 then Inl Length_error
      else Inr (new_object (array_object T n (replicate (nat (sint n)) v)) s))"

definition new_array_generic ::
    "jtype \<Rightarrow> u32 \<Rightarrow> ('f, 'z) jni_state_scheme \<Rightarrow> (ref \<times> ('f, 'z) jni_state_scheme) result" where
  "new_array_generic T n s = new_filled_array T n (variant_zero T) s"

definition NewObjectArray ::
    "u32 \<Rightarrow> ref \<Rightarrow> ('f, 'z) jni_state_scheme \<Rightarrow> (ref \<times> ('f, 'z) jni_state_scheme) result" where
  "NewObjectArray n initial s = new_filled_array JObject n (VObject initial) s"

definition get_array_elements_generic ::
    "jtype \<Rightarrow> ref \<Rightarrow> ('f, 'z) jni_state_scheme \<Rightarrow> (ValueVariant list \<times> bool) result" where
  "get_array_elements_generic T r s = and_then (deref_array_of T r s) (\<lambda>a. Inr (array_data a, False))"

text \<open>
  The loops of the region copies run from \<open>start\<close> to \<open>len\<close> (signed) and use the same index on
  both sides; \<open>copy_range\<close> is the loop on the indices that remain.
\<close>

fun copy_range :: "ValueVariant list \<Rightarrow> int list \<Rightarrow> ValueVariant list \<Rightarrow> ValueVariant list result" where
  "copy_range src [] dst = Inr dst"
| "copy_range src (i # is) dst =
     (if i < 0 then Inl Invalid_access
      else and_then (vec_index src (nat i)) (\<lambda>v.
           and_then (vec_store dst (nat i) v) (copy_range src is)))"

definition get_array_region_generic ::
    "jtype \<Rightarrow> ref \<Rightarrow> u32 \<Rightarrow> u32 \<Rightarrow> ValueVariant list \<Rightarrow> ('f, 'z) jni_state_scheme \<Rightarrow>
     ValueVariant list result" where
  "get_array_region_generic T r start len buf s =
     and_then (deref_array_of T r s) (\<lambda>a. copy_range (array_data a) [sint start..sint len - 1] buf)"

definition set_array_region_generic ::
    "jtype \<Rightarrow> ref \<Rightarrow> u32 \<Rightarrow> u32 \<Rightarrow> ValueVariant list \<Rightarrow> ('f, 'z) jni_state_scheme \<Rightarrow>
     ('f, 'z) jni_state_scheme result" where
  "set_array_region_generic T r start len buf s =
     and_then (deref_array_of T r s) (\<lambda>a.
     and_then (copy_range buf [sint start..sint len - 1] (array_data a)) (\<lambda>vs.
     Inr (put_array r (a\<lparr>array_data := vs\<rparr>) s)))"

text \<open>Unchecked indexing with a signed index.\<close>

definition GetObjectArrayElement ::
    "ref \<Rightarrow> u32 \<Rightarrow> ('f, 'z) jni_state_scheme \<Rightarrow> ValueVariant result" where
  "GetObjectArrayElement r i s =
     and_then (deref_array_of JObject r s) (\<lambda>a.
     if sint i < 0 then Inl Invalid_access else vec_index (array_data a) (nat (sint i)))"

definition SetObjectArrayElement ::
    "ref \<Rightarrow> u32 \<Rightarrow> ref \<Rightarrow> ('f, 'z) jni_state_scheme \<Rightarrow> ('f, 'z) jni_state_scheme result" where
  "SetObjectArrayElement r i v s =
     and_then (deref_array_of JObject r s) (\<lambda>a.
     if sint i < 0 then Inl Invalid_access
     else and_then (vec_store (array_data a) (nat (sint i)) (VObject v)) (\<lambda>vs.
          Inr (put_array r (a\<lparr>array_data := vs\<rparr>) s)))"

section \<open>Creation of the virtual machine\<close>

text \<open>
  The closures the virtual machine registers itself; \<open>Body b\<close> is a closure of another part of
  the program.
\<close>

datatype 'b jni_body = String_getBytes | List_get | List_size | Body 'b

text \<open>
  \<^verbatim>\<open>getBytes\<close> fills the vector of a fresh array and leaves its \<^verbatim>\<open>array_size\<close> at the initial 0.
\<close>

definition String_getBytes_body ::
    "ref \<Rightarrow> ('f, 'z) jni_state_scheme \<Rightarrow> (ValueVariant \<times> ('f, 'z) jni_state_scheme) result" where
  "String_getBytes_body object s =
     and_then (deref_string object s) (\<lambda>str.
       let (r, s') = new_object (array_object JByte 0 (map (\<lambda>c. VByte (of_char c)) str)) s
       in Inr (VObject r, s'))"

definition List_get_body ::
    "ref \<Rightarrow> va_list \<Rightarrow> ('f, 'z) jni_state_scheme \<Rightarrow>
     (ValueVariant \<times> ('f, 'z) jni_state_scheme) result" where
  "List_get_body lst args s =
     and_then (va_arg_jint args) (\<lambda>(index, _).
     and_then (deref_array_of JObject lst s) (\<lambda>a.
     if sint index < 0 then Inl Out_of_range
     else and_then (vec_at (array_data a) (nat (sint index))) (\<lambda>v. Inr (v, s))))"

definition List_size_body ::
    "ref \<Rightarrow> ('f, 'z) jni_state_scheme \<Rightarrow> (ValueVariant \<times> ('f, 'z) jni_state_scheme) result" where
  "List_size_body lst s = and_then (deref_array lst s) (\<lambda>a. Inr (VInt (array_size a), s))"

fun run_jni_body ::
    "('b \<Rightarrow> ref \<Rightarrow> va_list \<Rightarrow> ('b jni_body, 'z) jni_state_scheme \<Rightarrow>
        (ValueVariant \<times> ('b jni_body, 'z) jni_state_scheme) result) \<Rightarrow>
     ('b jni_body, 'z) runner" where
  "run_jni_body run String_getBytes object args s = String_getBytes_body object s"
| "run_jni_body run List_get object args s = List_get_body object args s"
| "run_jni_body run List_size object args s = List_size_body object s"
| "run_jni_body run (Body b) object args s = run b object args s"

definition init_functions ::
    "dynamic_symbol list \<Rightarrow> dynamic_symbol list \<Rightarrow>
     trampoline_state \<times> ('f, 'z) jni_state_scheme \<Rightarrow>
     (trampoline_state \<times> ('f, 'z) jni_state_scheme) result" where
  "init_functions env_syms invocation_syms st =
     (case st of (ts, s) \<Rightarrow>
        if did_init_funcs s then Inr (ts, s)
        else and_then (bind_symbols env_syms ts) (\<lambda>(env_fs, ts1).
             and_then (bind_symbols invocation_syms ts1) (\<lambda>(inv_fs, ts2).
             Inr (ts2, s\<lparr>jni_env_functions := jni_env_functions s @ env_fs,
                         jni_invocation_functions := jni_invocation_functions s @ inv_fs,
                         did_init_funcs := True\<rparr>))))"

definition create_vm ::
    "('f, 'z) jni_state_scheme \<Rightarrow> ref \<times> ('f, 'z) jni_state_scheme" where
  "create_vm s =
     (next_ref s, s\<lparr>java_vms := (java_vms s)(next_ref s \<mapsto>
         \<lparr>vm_invocation = jni_invocation_functions s,
          vm_native_interface_functions = jni_env_functions s,
          name_to_class = Map.empty\<rparr>), next_ref := next_ref s + 1\<rparr>)"

definition java_vm_new ::
    "dynamic_symbol list \<Rightarrow> dynamic_symbol list \<Rightarrow> nat \<Rightarrow>
     trampoline_state \<times> ('b jni_body, 'z) jni_state_scheme \<Rightarrow>
     (ref \<times> trampoline_state \<times> ('b jni_body, 'z) jni_state_scheme) result" where
  "java_vm_new env_syms invocation_syms t st =
     and_then (init_functions env_syms invocation_syms st) (\<lambda>(ts, s0).
     let (vm, s1) = create_vm s0 in
     and_then (attach_thread t vm s1) (\<lambda>(_, s2).
     and_then (create_class vm ''java/lang/String'' s2) (\<lambda>(c, s3).
     and_then (member_method c ''getBytes'' String_getBytes (s3\<lparr>string_class := c\<rparr>)) (\<lambda>(_, s4).
     and_then (create_class vm ''java/util/List'' s4) (\<lambda>(l, s5).
     and_then (member_method l ''get'' List_get (s5\<lparr>list_class := l\<rparr>)) (\<lambda>(_, s6).
     and_then (member_method l ''size'' List_size s6) (\<lambda>(_, s7).
     Inr (vm, ts, s7))))))))"

section \<open>Access lemmas\<close>

named_theorems jni_simps \<open>reads after writes in the object store\<close>

lemma new_object_simps [jni_simps]:
  "fst (new_object ob s) = next_ref s"
  "objects (snd (new_object ob s)) = (objects s)(next_ref s \<mapsto> ob)"
  "next_ref (snd (new_object ob s)) = next_ref s + 1"
  "java_vms (snd (new_object ob s)) = java_vms s"
  "thread_data (snd (new_object ob s)) = thread_data s"
  "string_class (snd (new_object ob s)) = string_class s"
  "list_class (snd (new_object ob s)) = list_class s"
  by (simp_all add: new_object_def)

lemma put_class_simps [jni_simps]:
  "java_vms (put_class r c s) = java_vms s"
  "next_ref (put_class r c s) = next_ref s"
  "thread_data (put_class r c s) = thread_data s"
  "string_class (put_class r c s) = string_class s"
  "list_class (put_class r c s) = list_class s"
  "dom (objects (put_class r c s)) = dom (objects s)"
  by (auto simp: put_class_def split: option.splits)

lemma put_array_simps [jni_simps]:
  "java_vms (put_array r a s) = java_vms s"
  "next_ref (put_array r a s) = next_ref s"
  "thread_data (put_array r a s) = thread_data s"
  "string_class (put_array r a s) = string_class s"
  "dom (objects (put_array r a s)) = dom (objects s)"
  by (auto simp: put_array_def split: option.splits object_kind.splits)

lemma deref_class_eq:
  "deref_class r s = Inr c \<longleftrightarrow>
   (\<exists>ob. objects s r = Some ob \<and> (obj_kind ob = KClass c \<or> (\<exists>a. obj_kind ob = KArray c a)))"
  by (auto simp: deref_class_def deref_def split: option.splits object_kind.splits)

lemma deref_array_eq:
  "deref_array r s = Inr a \<longleftrightarrow> (\<exists>ob c. objects s r = Some ob \<and> obj_kind ob = KArray c a)"
  by (auto simp: deref_array_def deref_def split: option.splits object_kind.splits)

lemma deref_string_eq:
  "deref_string r s = Inr x \<longleftrightarrow> (\<exists>ob. objects s r = Some ob \<and> obj_kind ob = KString x)"
  by (auto simp: deref_string_def deref_def split: option.splits object_kind.splits)

lemma deref_class_cong: "objects s r = objects s' r \<Longrightarrow> deref_class r s = deref_class r s'"
  by (simp add: deref_class_def deref_def)

lemma objects_put_class_other [jni_simps]: "r' \<noteq> r \<Longrightarrow> objects (put_class r c s) r' = objects s r'"
  by (simp add: put_class_def split: option.splits)

lemma deref_class_put_class_other [jni_simps]:
  "r' \<noteq> r \<Longrightarrow> deref_class r' (put_class r c s) = deref_class r' s"
  by (rule deref_class_cong) (simp add: jni_simps)

lemma deref_class_put_class [jni_simps]:
  "deref_class r s = Inr c0 \<Longrightarrow> deref_class r (put_class r c s) = Inr c"
  by (auto simp: deref_class_eq put_class_def set_class_part_def)

lemma deref_class_new_object [jni_simps]:
  "r \<noteq> next_ref s \<Longrightarrow> deref_class r (snd (new_object ob s)) = deref_class r s"
  by (rule deref_class_cong) (simp add: jni_simps)

lemma deref_array_put_array [jni_simps]:
  "deref_array r s = Inr a0 \<Longrightarrow> deref_array r (put_array r a s) = Inr a"
  by (auto simp: deref_array_eq put_array_def)

section \<open>First registration wins\<close>

text \<open>
  Methods and fields are kept in hash maps filled by \<^verbatim>\<open>insert\<close>: an entry, once made, is never
  replaced.  The interface is what the class builders rely on.
\<close>

fun register_entries :: "('k \<Rightarrow> 'v \<Rightarrow> 's \<Rightarrow> 's result) \<Rightarrow> ('k \<times> 'v) list \<Rightarrow> 's \<Rightarrow> 's result" where
  "register_entries reg [] s = Inr s"
| "register_entries reg ((k, v) # kvs) s = and_then (reg k v s) (register_entries reg kvs)"

locale keep_first_table =
  fixes valid :: "'s \<Rightarrow> bool"
    and reg :: "'k \<Rightarrow> 'v \<Rightarrow> 's \<Rightarrow> 's result"
    and entry :: "'s \<Rightarrow> 'k \<Rightarrow> 'v option"
  assumes reg_defined: "valid s \<Longrightarrow> \<exists>s'. reg k v s = Inr s' \<and> valid s'"
    and reg_entry: "valid s \<Longrightarrow> reg k v s = Inr s' \<Longrightarrow> entry s' = insert_new k v (entry s)"
begin

lemma register_entries_correct:
  "valid s \<Longrightarrow>
   \<exists>s'. register_entries reg kvs s = Inr s' \<and> valid s' \<and> entry s' = map_of kvs ++ entry s"
proof (induction kvs arbitrary: s)
  case (Cons kv kvs)
  obtain k v where kv: "kv = (k, v)" by (cases kv)
  obtain s1 where 1: "reg k v s = Inr s1" "valid s1"
    using reg_defined [OF Cons.prems, of k v] by blast
  obtain s2 where 2: "register_entries reg kvs s1 = Inr s2" "valid s2"
    "entry s2 = map_of kvs ++ entry s1"
    using Cons.IH [OF 1(2)] by blast
  have "entry s2 = map_of (kv # kvs) ++ entry s"
    unfolding 2(3) reg_entry [OF Cons.prems 1(1)] kv
    by (auto simp: fun_eq_iff map_add_def insert_new_lookup split: option.splits)
  moreover have "register_entries reg (kv # kvs) s = Inr s2" using 1 2 kv by simp
  ultimately show ?case using 2(2) by blast
qed (simp add: map_add_def)

lemma registered_entry_kept:
  "valid s \<Longrightarrow> entry s k = Some v \<Longrightarrow> register_entries reg kvs s = Inr s' \<Longrightarrow> entry s' k = Some v"
  using register_entries_correct [of s kvs] by (auto simp: map_add_def)

end

definition is_class :: "ref \<Rightarrow> ('f, 'z) jni_state_scheme \<Rightarrow> bool" where
  "is_class c s \<longleftrightarrow> (case deref_class c s of Inr _ \<Rightarrow> True | Inl _ \<Rightarrow> False)"

definition add_method ::
    "ref \<Rightarrow> string \<Rightarrow> MethodType \<times> 'f \<Rightarrow> ('f, 'z) jni_state_scheme \<Rightarrow>
     ('f, 'z) jni_state_scheme result" where
  "add_method c name tf s = and_then (class_add_method (fst tf) c name (snd tf) s) (\<lambda>(_, s'). Inr s')"

definition add_field ::
    "ref \<Rightarrow> string \<Rightarrow> ValueVariant \<Rightarrow> ('f, 'z) jni_state_scheme \<Rightarrow>
     ('f, 'z) jni_state_scheme result" where
  "add_field c name v s = and_then (static_field c name v s) (\<lambda>(_, s'). Inr s')"

definition method_entry ::
    "ref \<Rightarrow> ('f, 'z) jni_state_scheme \<Rightarrow> string \<Rightarrow> (MethodType \<times> 'f) option" where
  "method_entry c s name =
     (case deref_class c s of
        Inr cl \<Rightarrow> map_option (\<lambda>me. (m_type me, m_function me)) (class_methods cl name)
      | Inl _ \<Rightarrow> None)"

definition field_entry ::
    "ref \<Rightarrow> ('f, 'z) jni_state_scheme \<Rightarrow> string \<Rightarrow> ValueVariant option" where
  "field_entry c s = (case deref_class c s of Inr cl \<Rightarrow> class_fields cl | Inl _ \<Rightarrow> Map.empty)"

lemma is_class_iff: "is_class c s \<longleftrightarrow> (\<exists>cl. deref_class c s = Inr cl)"
  by (auto simp: is_class_def split: sum.splits)

interpretation methods: keep_first_table "is_class c" "add_method c" "method_entry c" for c
proof unfold_locales
  fix s :: "('f, 'z) jni_state_scheme" and k v
  assume "is_class c s"
  then obtain cl where cl: "deref_class c s = Inr cl" by (auto simp: is_class_iff)
  show "\<exists>s'. add_method c k v s = Inr s' \<and> is_class c s'"
    using cl by (auto simp: add_method_def class_add_method_def is_class_iff jni_simps)
  fix s' assume "add_method c k v s = Inr s'"
  then show "method_entry c s' = insert_new k v (method_entry c s)"
    using cl by (auto simp: add_method_def class_add_method_def method_entry_def jni_simps
        insert_new_lookup fun_eq_iff)
qed

interpretation class_field_table: keep_first_table "is_class c" "add_field c" "field_entry c" for c
proof unfold_locales
  fix s :: "('f, 'z) jni_state_scheme" and k v
  assume "is_class c s"
  then obtain cl where cl: "deref_class c s = Inr cl" by (auto simp: is_class_iff)
  show "\<exists>s'. add_field c k v s = Inr s' \<and> is_class c s'"
    using cl by (auto simp: add_field_def static_field_def is_class_iff jni_simps)
  fix s' assume "add_field c k v s = Inr s'"
  then show "field_entry c s' = insert_new k v (field_entry c s)"
    using cl by (auto simp: add_field_def static_field_def field_entry_def jni_simps)
qed

end
