(* ===== verification/Jni_Invariants.thy ===== *)
theory Jni_Invariants
  imports Jni_Model
begin

text \<open>
  Invariants of the emulated virtual machine (\<^verbatim>\<open>src/src/jni.cpp\<close>): every operation only extends
  the object store, so identifiers handed to the guest stay valid; names, owners and element
  types stay consistent; and the properties of classes, calls, strings and arrays.
\<close>

section \<open>The store only grows\<close>

definition class_evolves :: "'f Class \<Rightarrow> 'f Class \<Rightarrow> bool" where
  "class_evolves c c' \<longleftrightarrow>
     full_name c' = full_name c \<and> class_fields c \<subseteq>\<^sub>m class_fields c' \<and>
     class_methods c \<subseteq>\<^sub>m class_methods c'"

definition array_evolves :: "ArrayBase \<Rightarrow> ArrayBase \<Rightarrow> bool" where
  "array_evolves a a' \<longleftrightarrow>
     array_size a' = array_size a \<and> array_type a' = array_type a \<and>
     length (array_data a') = length (array_data a)"

fun kind_evolves :: "'f object_kind \<Rightarrow> 'f object_kind \<Rightarrow> bool" where
  "kind_evolves KObject k = (k = KObject)"
| "kind_evolves (KString x) k = (k = KString x)"
| "kind_evolves (KClass c) (KClass c') = class_evolves c c'"
| "kind_evolves (KArray c a) (KArray c' a') = (class_evolves c c' \<and> array_evolves a a')"
| "kind_evolves _ _ = False"

definition object_evolves :: "'f Object \<Rightarrow> 'f Object \<Rightarrow> bool" where
  "object_evolves ob ob' \<longleftrightarrow>
     obj_super ob' = obj_super ob \<and> obj_fields ob \<subseteq>\<^sub>m obj_fields ob' \<and>
     kind_evolves (obj_kind ob) (obj_kind ob')"

definition vm_evolves :: "JavaVM \<Rightarrow> JavaVM \<Rightarrow> bool" where
  "vm_evolves v v' \<longleftrightarrow>
     vm_invocation v' = vm_invocation v \<and>
     vm_native_interface_functions v' = vm_native_interface_functions v \<and>
     name_to_class v \<subseteq>\<^sub>m name_to_class v'"

definition thread_evolves :: "JNIThreadData \<Rightarrow> JNIThreadData \<Rightarrow> bool" where
  "thread_evolves d d' \<longleftrightarrow>
     (td_initialized d \<longrightarrow>
        td_initialized d' \<and> env_vm (td_env d') = env_vm (td_env d) \<and>
        native_interface_functions (td_env d') = native_interface_functions (td_env d))"

definition state_evolves ::
    "('f, 'z) jni_state_scheme \<Rightarrow> ('f, 'z) jni_state_scheme \<Rightarrow> bool" where
  "state_evolves s s' \<longleftrightarrow>
     (\<forall>r ob. objects s r = Some ob \<longrightarrow> (\<exists>ob'. objects s' r = Some ob' \<and> object_evolves ob ob')) \<and>
     (\<forall>r v. java_vms s r = Some v \<longrightarrow> (\<exists>v'. java_vms s' r = Some v' \<and> vm_evolves v v')) \<and>
     (\<forall>t. thread_evolves (thread_data s t) (thread_data s' t)) \<and>
     next_ref s \<le> next_ref s'"

lemma class_evolves_refl [simp]: "class_evolves c c"
  by (simp add: class_evolves_def)

lemma array_evolves_refl [simp]: "array_evolves a a"
  by (simp add: array_evolves_def)

lemma kind_evolves_refl [simp]: "kind_evolves k k"
  by (cases k) auto

lemma object_evolves_refl [simp]: "object_evolves ob ob"
  by (simp add: object_evolves_def)

lemma vm_evolves_refl [simp]: "vm_evolves v v"
  by (simp add: vm_evolves_def)

lemma thread_evolves_refl [simp]: "thread_evolves d d"
  by (simp add: thread_evolves_def)

lemma class_evolves_trans: "class_evolves a b \<Longrightarrow> class_evolves b c \<Longrightarrow> class_evolves a c"
  by (auto simp: class_evolves_def intro: map_le_trans)

lemma kind_evolves_trans: "kind_evolves a b \<Longrightarrow> kind_evolves b c \<Longrightarrow> kind_evolves a c"
  by (cases a; cases b; cases c) (auto simp: array_evolves_def intro: class_evolves_trans)

lemma object_evolves_trans: "object_evolves a b \<Longrightarrow> object_evolves b c \<Longrightarrow> object_evolves a c"
  by (auto simp: object_evolves_def intro: map_le_trans kind_evolves_trans)

lemma vm_evolves_trans: "vm_evolves a b \<Longrightarrow> vm_evolves b c \<Longrightarrow> vm_evolves a c"
  by (auto simp: vm_evolves_def intro: map_le_trans)

lemma thread_evolves_trans: "thread_evolves a b \<Longrightarrow> thread_evolves b c \<Longrightarrow> thread_evolves a c"
  by (auto simp: thread_evolves_def)

lemma state_evolves_refl [simp]: "state_evolves s s"
  by (simp add: state_evolves_def)

lemma state_evolves_trans:
  "state_evolves a b \<Longrightarrow> state_evolves b c \<Longrightarrow> state_evolves a c"
  unfolding state_evolves_def
  by (meson le_trans object_evolves_trans vm_evolves_trans thread_evolves_trans)

lemma state_evolves_object:
  "state_evolves s s' \<Longrightarrow> objects s r = Some ob \<Longrightarrow>
   \<exists>ob'. objects s' r = Some ob' \<and> object_evolves ob ob'"
  by (simp add: state_evolves_def)

lemma state_evolves_vm:
  "state_evolves s s' \<Longrightarrow> java_vms s r = Some v \<Longrightarrow>
   \<exists>v'. java_vms s' r = Some v' \<and> vm_evolves v v'"
  by (simp add: state_evolves_def)

lemma map_le_insert_new [simp]: "m \<subseteq>\<^sub>m insert_new k v m"
  by (auto simp: map_le_def insert_new_def split: option.splits)

section \<open>Well-formed states and steps\<close>

definition refs_wf :: "('f, 'z) jni_state_scheme \<Rightarrow> bool" where
  "refs_wf s \<longleftrightarrow>
     0 < next_ref s \<and> (\<forall>r. objects s r \<noteq> None \<longrightarrow> 0 < r \<and> r < next_ref s) \<and>
     (\<forall>r. java_vms s r \<noteq> None \<longrightarrow> 0 < r \<and> r < next_ref s)"

definition class_wf :: "ref \<Rightarrow> 'f Class \<Rightarrow> bool" where
  "class_wf r c \<longleftrightarrow>
     (\<forall>n me. class_methods c n = Some me \<longrightarrow> m_name me = n \<and> m_owner_class me = r)"

definition array_wf :: "ArrayBase \<Rightarrow> bool" where
  "array_wf a \<longleftrightarrow> list_all (\<lambda>v. variant_type v = array_type a) (array_data a)"

fun kind_wf :: "ref \<Rightarrow> 'f object_kind \<Rightarrow> bool" where
  "kind_wf r (KClass c) = class_wf r c"
| "kind_wf r (KArray c a) = (class_wf r c \<and> array_wf a)"
| "kind_wf r _ = True"

definition objects_wf :: "('f, 'z) jni_state_scheme \<Rightarrow> bool" where
  "objects_wf s \<longleftrightarrow> (\<forall>r ob. objects s r = Some ob \<longrightarrow> kind_wf r (obj_kind ob))"

definition vm_wf :: "('f, 'z) jni_state_scheme \<Rightarrow> JavaVM \<Rightarrow> bool" where
  "vm_wf s v \<longleftrightarrow>
     (\<forall>name c. name_to_class v name = Some c \<longrightarrow>
        (\<exists>cl. deref_class c s = Inr cl \<and> full_name cl = name))"

definition vms_wf :: "('f, 'z) jni_state_scheme \<Rightarrow> bool" where
  "vms_wf s \<longleftrightarrow> (\<forall>r v. java_vms s r = Some v \<longrightarrow> vm_wf s v)"

definition thread_wf :: "('f, 'z) jni_state_scheme \<Rightarrow> JNIThreadData \<Rightarrow> bool" where
  "thread_wf s d \<longleftrightarrow>
     (td_initialized d \<longrightarrow>
        (\<exists>v. java_vms s (env_vm (td_env d)) = Some v \<and>
             native_interface_functions (td_env d) = vm_native_interface_functions v)) \<and>
     (\<not> td_initialized d \<longrightarrow> env_vm (td_env d) = 0) \<and>
     \<not> has_exception (td_env d)"

definition jni_wf :: "('f, 'z) jni_state_scheme \<Rightarrow> bool" where
  "jni_wf s \<longleftrightarrow> refs_wf s \<and> objects_wf s \<and> vms_wf s \<and> (\<forall>t. thread_wf s (thread_data s t))"

text \<open>
  One operation of any thread.  A method body is a sequence of such operations; a region write
  comes with a buffer of the array's element type, which the C++ signatures guarantee.
\<close>

inductive jni_step :: "('f, 'z) jni_state_scheme \<Rightarrow> ('f, 'z) jni_state_scheme \<Rightarrow> bool" where
  step_vm: "jni_step s (snd (create_vm s))"
| step_functions: "init_functions es is (ts, s) = Inr (ts', s') \<Longrightarrow> jni_step s s'"
| step_attach: "AttachCurrentThread t vm s = Inr (env, rc, s') \<Longrightarrow> jni_step s s'"
| step_clear: "jni_step s (ExceptionClear t s)"
| step_class: "create_class vm name s = Inr (c, s') \<Longrightarrow> jni_step s s'"
| step_method: "class_add_method ty c name f s = Inr (m, s') \<Longrightarrow> jni_step s s'"
| step_static_field: "static_field c name v s = Inr (fid, s') \<Longrightarrow> jni_step s s'"
| step_field: "class_field c name s = Inr (fid, s') \<Longrightarrow> jni_step s s'"
| step_object: "jni_step s (snd (new_object (plain_object c) s))"
| step_emplace: "emplace_field r fid v s = Inr s' \<Longrightarrow> jni_step s s'"
| step_string: "jni_step s (snd (create_string x s))"
| step_array: "new_array_generic T n s = Inr (r, s') \<Longrightarrow> jni_step s s'"
| step_object_array: "NewObjectArray n i s = Inr (r, s') \<Longrightarrow> jni_step s s'"
| step_get_bytes: "String_getBytes_body r s = Inr (v, s') \<Longrightarrow> jni_step s s'"
| step_region: "set_array_region_generic T r i n buf s = Inr s' \<Longrightarrow>
    list_all (\<lambda>v. variant_type v = T) buf \<Longrightarrow> jni_step s s'"
| step_element: "SetObjectArrayElement r i v s = Inr s' \<Longrightarrow> jni_step s s'"

abbreviation jni_steps where "jni_steps \<equiv> jni_step\<^sup>*\<^sup>*"

text \<open>Two shapes of change cover the operations on objects: a new object, and an evolved one.\<close>

lemma new_object_evolves: "refs_wf s \<Longrightarrow> state_evolves s (snd (new_object ob s))"
  unfolding state_evolves_def refs_wf_def by (auto simp: jni_simps)

lemma kind_evolves_class:
  "kind_evolves (KClass c) k \<longleftrightarrow> (\<exists>c'. k = KClass c' \<and> class_evolves c c')"
  "kind_evolves (KArray c a) k \<longleftrightarrow>
     (\<exists>c' a'. k = KArray c' a' \<and> class_evolves c c' \<and> array_evolves a a')"
  by (cases k; auto)+

lemma deref_class_evolves:
  assumes "state_evolves s s'" "deref_class c s = Inr cl"
  shows "\<exists>cl'. deref_class c s' = Inr cl' \<and> class_evolves cl cl'"
proof -
  obtain ob where ob: "objects s c = Some ob"
    "obj_kind ob = KClass cl \<or> (\<exists>a. obj_kind ob = KArray cl a)"
    using assms(2) by (auto simp: deref_class_eq)
  obtain ob' where "objects s' c = Some ob'" "kind_evolves (obj_kind ob) (obj_kind ob')"
    using state_evolves_object [OF assms(1) ob(1)] unfolding object_evolves_def by blast
  then show ?thesis
    using ob(2) by (auto simp: deref_class_eq kind_evolves_class)
qed

lemma vm_wf_evolves: "state_evolves s s' \<Longrightarrow> vm_wf s v \<Longrightarrow> vm_wf s' v"
  unfolding vm_wf_def using deref_class_evolves [of s s'] by (metis class_evolves_def)

lemma thread_wf_evolves:
  assumes "state_evolves s s'" "thread_wf s d"
  shows "thread_wf s' d"
proof (cases "td_initialized d")
  case True
  then obtain v where "java_vms s (env_vm (td_env d)) = Some v"
    "native_interface_functions (td_env d) = vm_native_interface_functions v"
    using assms(2) by (auto simp: thread_wf_def)
  then show ?thesis
    using state_evolves_vm [OF assms(1)] assms(2) by (fastforce simp: thread_wf_def vm_evolves_def)
qed (use assms in \<open>simp add: thread_wf_def\<close>)

lemma jni_wf_object_change:
  assumes wf: "jni_wf s" and ev: "state_evolves s s'"
    and same: "java_vms s' = java_vms s" "thread_data s' = thread_data s"
    and dom: "\<And>r. objects s' r \<noteq> None \<Longrightarrow> r < next_ref s' \<and> 0 < r"
    and kinds: "\<And>r ob. objects s' r = Some ob \<Longrightarrow> objects s' r \<noteq> objects s r \<Longrightarrow> kind_wf r (obj_kind ob)"
  shows "jni_wf s'"
proof -
  have le: "next_ref s \<le> next_ref s'" using ev by (simp add: state_evolves_def)
  have "refs_wf s'"
    using wf dom le unfolding jni_wf_def refs_wf_def same by (fastforce intro: less_le_trans)
  moreover have "objects_wf s'"
    using wf kinds unfolding jni_wf_def objects_wf_def by metis
  moreover have "vms_wf s'"
    using wf vm_wf_evolves [OF ev] unfolding jni_wf_def vms_wf_def same by blast
  ultimately show ?thesis
    using wf thread_wf_evolves [OF ev] unfolding jni_wf_def same by blast
qed

lemma new_object_wf:
  assumes "jni_wf s" "kind_wf (next_ref s) (obj_kind ob)"
  shows "jni_wf (snd (new_object ob s))"
proof (rule jni_wf_object_change [OF assms(1)])
  have refs: "refs_wf s" using assms(1) by (simp add: jni_wf_def)
  show "state_evolves s (snd (new_object ob s))" by (rule new_object_evolves [OF refs])
  show "r < next_ref (snd (new_object ob s)) \<and> 0 < r"
    if "objects (snd (new_object ob s)) r \<noteq> None" for r
    using that refs by (auto simp: jni_simps refs_wf_def less_Suc_eq split: if_splits)
  show "kind_wf r (obj_kind ob')" if "objects (snd (new_object ob s)) r = Some ob'"
    "objects (snd (new_object ob s)) r \<noteq> objects s r" for r ob'
    using that assms(2) by (auto simp: jni_simps split: if_splits)
qed (simp_all add: jni_simps)

lemma update_object:
  assumes wf: "jni_wf s" and ob: "objects s r = Some ob"
    and ev: "object_evolves ob ob'" and k: "kind_wf r (obj_kind ob')"
  shows "jni_wf (s\<lparr>objects := (objects s)(r \<mapsto> ob')\<rparr>)"
    and "state_evolves s (s\<lparr>objects := (objects s)(r \<mapsto> ob')\<rparr>)"
proof -
  show e: "state_evolves s (s\<lparr>objects := (objects s)(r \<mapsto> ob')\<rparr>)"
    using ob ev by (simp add: state_evolves_def)
  show "jni_wf (s\<lparr>objects := (objects s)(r \<mapsto> ob')\<rparr>)"
  proof (rule jni_wf_object_change [OF wf e])
    show "i < next_ref (s\<lparr>objects := (objects s)(r \<mapsto> ob')\<rparr>) \<and> 0 < i"
      if "objects (s\<lparr>objects := (objects s)(r \<mapsto> ob')\<rparr>) i \<noteq> None" for i
      using that wf ob by (cases "i = r") (auto simp: jni_wf_def refs_wf_def)
    show "kind_wf i (obj_kind x)" if "objects (s\<lparr>objects := (objects s)(r \<mapsto> ob')\<rparr>) i = Some x"
      "objects (s\<lparr>objects := (objects s)(r \<mapsto> ob')\<rparr>) i \<noteq> objects s i" for i x
      using that k by (auto split: if_splits)
  qed simp_all
qed

lemma kind_wf_class:
  "objects_wf s \<Longrightarrow> deref_class r s = Inr c \<Longrightarrow> class_wf r c"
  unfolding objects_wf_def deref_class_eq by (metis kind_wf.simps(1,2))

lemma put_class_step:
  assumes wf: "jni_wf s" and c: "deref_class r s = Inr c"
    and ev: "class_evolves c c'" and cwf: "class_wf r c'"
  shows "jni_wf (put_class r c' s) \<and> state_evolves s (put_class r c' s)"
proof -
  obtain ob where ob: "objects s r = Some ob"
    "obj_kind ob = KClass c \<or> (\<exists>a. obj_kind ob = KArray c a)"
    using c by (auto simp: deref_class_eq)
  have "kind_wf r (obj_kind ob)" using wf ob(1) by (simp add: jni_wf_def objects_wf_def)
  then have "object_evolves ob (set_class_part c' ob)" "kind_wf r (obj_kind (set_class_part c' ob))"
    using ob(2) ev cwf by (auto simp: object_evolves_def set_class_part_def)
  then show ?thesis
    using update_object [OF wf ob(1)] ob(1) by (simp add: put_class_def)
qed

lemma class_add_method_step:
  assumes wf: "jni_wf s" and step: "class_add_method ty c name f s = Inr (m, s')"
  shows "jni_wf s' \<and> state_evolves s s'"
proof -
  obtain cl where cl: "deref_class c s = Inr cl"
    "s' = put_class c (cl\<lparr>class_methods := insert_new name
       \<lparr>m_type = ty, m_name = name, m_owner_class = c, m_function = f\<rparr> (class_methods cl)\<rparr>) s"
    using step by (auto simp: class_add_method_def and_then_eq_Inr)
  have "class_wf c cl" using wf kind_wf_class cl(1) by (auto simp: jni_wf_def)
  then show ?thesis
    unfolding cl(2) by (intro put_class_step [OF wf cl(1)])
      (auto simp: class_evolves_def class_wf_def insert_new_lookup split: if_splits)
qed

lemma static_field_step:
  assumes wf: "jni_wf s" and step: "static_field c name v s = Inr (fid, s')"
  shows "jni_wf s' \<and> state_evolves s s'"
proof -
  obtain cl where cl: "deref_class c s = Inr cl"
    "s' = put_class c (cl\<lparr>class_fields := insert_new name v (class_fields cl)\<rparr>) s"
    using step by (auto simp: static_field_def and_then_eq_Inr)
  have "class_wf c cl" using wf kind_wf_class cl(1) by (auto simp: jni_wf_def)
  then show ?thesis
    unfolding cl(2) by (intro put_class_step [OF wf cl(1)])
      (auto simp: class_evolves_def class_wf_def)
qed

lemma class_field_eq: "class_field c name s = static_field c name (VObject 0) s"
  by (simp add: class_field_def static_field_def)

lemma emplace_field_step:
  assumes "jni_wf s" "emplace_field r fid v s = Inr s'"
  shows "jni_wf s' \<and> state_evolves s s'"
proof -
  obtain ob where ob: "objects s r = Some ob"
    "s' = s\<lparr>objects := (objects s)(r \<mapsto> ob\<lparr>obj_fields := insert_new fid v (obj_fields ob)\<rparr>)\<rparr>"
    using assms(2) by (auto simp: emplace_field_def and_then_eq_Inr deref_def split: option.splits)
  have "kind_wf r (obj_kind ob)" using assms(1) ob(1) by (simp add: jni_wf_def objects_wf_def)
  then show ?thesis
    unfolding ob(2) using update_object [OF assms(1) ob(1)] by (simp add: object_evolves_def)
qed

lemma new_object_step:
  "jni_wf s \<Longrightarrow> kind_wf (next_ref s) (obj_kind ob) \<Longrightarrow>
   jni_wf (snd (new_object ob s)) \<and> state_evolves s (snd (new_object ob s))"
  by (simp add: new_object_wf new_object_evolves jni_wf_def [of s])

lemma array_kind_wf [simp]:
  "kind_wf r (obj_kind (array_object T n vs)) \<longleftrightarrow> list_all (\<lambda>v. variant_type v = T) vs"
  by (simp add: array_object_def class_wf_def mk_Class_def array_wf_def)

lemma variant_type_zero [simp]: "variant_type (variant_zero T) = T"
  by (cases T) auto

lemma new_filled_array_step:
  "jni_wf s \<Longrightarrow> variant_type v = T \<Longrightarrow> new_filled_array T n v s = Inr (r, s') \<Longrightarrow>
   jni_wf s' \<and> state_evolves s s'"
  using new_object_step [of s "array_object T n (replicate (nat (sint n)) v)"]
  by (auto simp: new_filled_array_def list_all_iff split: if_splits)

lemma getBytes_step:
  assumes "jni_wf s" "String_getBytes_body r s = Inr (v, s')"
  shows "jni_wf s' \<and> state_evolves s s'"
proof -
  obtain x where "s' = snd (new_object (array_object JByte 0 (map (\<lambda>c. VByte (of_char c)) x)) s)"
    using assms(2) by (auto simp: String_getBytes_body_def and_then_eq_Inr new_object_def Let_def)
  then show ?thesis
    using new_object_step [OF assms(1)] by (simp add: list_all_iff)
qed

lemma put_array_step:
  assumes wf: "jni_wf s" and a: "deref_array r s = Inr a"
    and ev: "array_evolves a a'" and awf: "array_wf a'"
  shows "jni_wf (put_array r a' s) \<and> state_evolves s (put_array r a' s)"
proof -
  obtain ob c where ob: "objects s r = Some ob" "obj_kind ob = KArray c a"
    using a by (auto simp: deref_array_eq)
  have "deref_class r s = Inr c" using ob by (auto simp: deref_class_eq)
  then have "class_wf r c" using wf kind_wf_class by (auto simp: jni_wf_def)
  then have "object_evolves ob (ob\<lparr>obj_kind := KArray c a'\<rparr>)"
    "kind_wf r (obj_kind (ob\<lparr>obj_kind := KArray c a'\<rparr>))"
    using ob(2) ev awf by (simp_all add: object_evolves_def)
  then show ?thesis
    using update_object [OF wf ob(1)] ob by (simp add: put_array_def)
qed

lemma deref_array_wf: "jni_wf s \<Longrightarrow> deref_array r s = Inr a \<Longrightarrow> array_wf a"
  unfolding jni_wf_def objects_wf_def deref_array_eq by (metis kind_wf.simps(2))

lemma list_all_update: "list_all P xs \<Longrightarrow> P v \<Longrightarrow> list_all P (xs[i := v])"
  by (simp add: list_all_length nth_list_update) (metis nth_list_update_eq nth_list_update_neq)

lemma copy_range_typed:
  "copy_range src is dst = Inr vs \<Longrightarrow> list_all P src \<Longrightarrow> list_all P dst \<Longrightarrow>
   list_all P vs \<and> length vs = length dst"
proof (induction src "is" dst rule: copy_range.induct)
  case (2 src i "is" dst)
  then obtain v where v: "0 \<le> i" "nat i < length src" "v = src ! nat i" "nat i < length dst"
    "copy_range src is (dst[nat i := v]) = Inr vs"
    by (auto simp: and_then_eq_Inr vec_index_eq_Inr vec_store_eq_Inr split: if_splits)
  have "P v" using v(2,3) 2(3) by (simp add: list_all_length)
  then have "list_all P vs \<and> length vs = length (dst[nat i := v])"
    using 2(1) [of v "dst[nat i := v]"] v 2(3,4) by (auto simp: list_all_update)
  then show ?case by simp
qed simp

lemma region_step:
  assumes "jni_wf s" "set_array_region_generic T r i n buf s = Inr s'"
    "list_all (\<lambda>v. variant_type v = T) buf"
  shows "jni_wf s' \<and> state_evolves s s'"
proof -
  obtain a vs where a: "deref_array r s = Inr a" "array_type a = T"
    "copy_range buf [sint i..sint n - 1] (array_data a) = Inr vs"
    "s' = put_array r (a\<lparr>array_data := vs\<rparr>) s"
    using assms(2) by (auto simp: set_array_region_generic_def deref_array_of_def and_then_eq_Inr
        split: if_splits)
  then show ?thesis
    using copy_range_typed [OF a(3) assms(3)] deref_array_wf [OF assms(1) a(1)] a(2)
    by (auto intro!: put_array_step [OF assms(1) a(1)] simp: array_evolves_def array_wf_def)
qed

lemma element_step:
  assumes "jni_wf s" "SetObjectArrayElement r i v s = Inr s'"
  shows "jni_wf s' \<and> state_evolves s s'"
proof -
  obtain a where a: "deref_array r s = Inr a" "array_type a = JObject"
    "s' = put_array r (a\<lparr>array_data := (array_data a)[nat (sint i) := VObject v]\<rparr>) s"
    using assms(2) by (auto simp: SetObjectArrayElement_def deref_array_of_def and_then_eq_Inr
        vec_store_eq_Inr split: if_splits)
  then show ?thesis
    using deref_array_wf [OF assms(1) a(1)]
    by (auto intro!: put_array_step [OF assms(1) a(1)] list_all_update
        simp: array_evolves_def array_wf_def)
qed

text \<open>The operations that touch the tables of virtual machines or threads.\<close>

lemma vm_thread_change:
  assumes wf: "jni_wf s" and ev: "state_evolves s s'"
    and same: "objects s' = objects s"
    and refs: "\<And>r. java_vms s' r \<noteq> None \<Longrightarrow> 0 < r \<and> r < next_ref s'"
    and vms: "\<And>r v. java_vms s' r = Some v \<Longrightarrow> java_vms s' r \<noteq> java_vms s r \<Longrightarrow> vm_wf s' v"
    and threads: "\<And>t. thread_data s' t \<noteq> thread_data s t \<Longrightarrow> thread_wf s' (thread_data s' t)"
  shows "jni_wf s'"
proof -
  have le: "next_ref s \<le> next_ref s'" using ev by (simp add: state_evolves_def)
  have "refs_wf s'"
    using wf refs le unfolding jni_wf_def refs_wf_def same by (fastforce intro: less_le_trans)
  moreover have "objects_wf s'" using wf by (simp add: jni_wf_def objects_wf_def same)
  moreover have "vm_wf s' v" if "java_vms s' r = Some v" for r v
  proof (cases "java_vms s' r = java_vms s r")
    case True
    then show ?thesis using wf that vm_wf_evolves [OF ev] by (simp add: jni_wf_def vms_wf_def)
  qed (use that vms in blast)
  moreover have "thread_wf s' (thread_data s' t)" for t
  proof (cases "thread_data s' t = thread_data s t")
    case True
    then show ?thesis using wf thread_wf_evolves [OF ev] by (simp add: jni_wf_def)
  qed (use threads in blast)
  ultimately show ?thesis by (simp add: jni_wf_def vms_wf_def)
qed

lemma create_vm_step:
  assumes "jni_wf s"
  shows "jni_wf (snd (create_vm s)) \<and> state_evolves s (snd (create_vm s))"
proof -
  have refs: "refs_wf s" using assms by (simp add: jni_wf_def)
  have ev: "state_evolves s (snd (create_vm s))"
    using refs by (auto simp: state_evolves_def create_vm_def refs_wf_def)
  have "jni_wf (snd (create_vm s))"
    using refs by (intro vm_thread_change [OF assms ev])
      (auto simp: create_vm_def refs_wf_def vm_wf_def less_Suc_eq split: if_splits)
  then show ?thesis using ev by simp
qed

lemma init_functions_step:
  assumes "jni_wf s" "init_functions es is (ts, s) = Inr (ts', s')"
  shows "jni_wf s' \<and> state_evolves s s'"
proof -
  have same: "objects s' = objects s" "java_vms s' = java_vms s" "next_ref s' = next_ref s"
    "thread_data s' = thread_data s"
    using assms(2) by (auto simp: init_functions_def and_then_eq_Inr split: if_splits)
  have ev: "state_evolves s s'" by (simp add: state_evolves_def same)
  have "jni_wf s'"
    using assms(1) by (intro vm_thread_change [OF assms(1) ev])
      (simp_all add: same jni_wf_def refs_wf_def)
  then show ?thesis using ev by simp
qed

lemma attach_step:
  assumes "jni_wf s" "attach_thread t vm s = Inr (env, s')"
  shows "jni_wf s' \<and> state_evolves s s'"
proof (cases "td_initialized (thread_data s t)")
  case False
  then obtain v where v: "java_vms s vm = Some v"
    "env = (td_env (thread_data s t))
       \<lparr>native_interface_functions := vm_native_interface_functions v, env_vm := vm\<rparr>"
    "s' = s\<lparr>thread_data := (thread_data s)(t := \<lparr>td_initialized = True, td_env = env\<rparr>)\<rparr>"
    using assms(2)
    by (auto simp: attach_thread_def deref_vm_def and_then_eq_Inr Let_def split: option.splits)
  have ev: "state_evolves s s'"
    using False by (auto simp: state_evolves_def v(3) thread_evolves_def)
  have ne: "\<not> has_exception (td_env (thread_data s t))"
    using assms(1) by (simp add: jni_wf_def thread_wf_def)
  have "jni_wf s'"
    using assms(1) ne v(1,2) by (intro vm_thread_change [OF assms(1) ev])
      (auto simp: v(3) jni_wf_def refs_wf_def thread_wf_def split: if_splits)
  then show ?thesis using ev by simp
qed (use assms in \<open>auto simp: attach_thread_def\<close>)

lemma env_without_exception: "\<not> has_exception e \<Longrightarrow> e\<lparr>has_exception := False\<rparr> = e"
  by (cases e) simp

lemma exception_clear_step:
  assumes "jni_wf s"
  shows "jni_wf (ExceptionClear t s) \<and> state_evolves s (ExceptionClear t s)"
proof -
  have "\<not> has_exception (td_env (thread_data s t))"
    using assms by (simp add: jni_wf_def thread_wf_def)
  then have "ExceptionClear t s = s"
    by (simp add: ExceptionClear_def env_without_exception)
  then show ?thesis using assms by simp
qed

lemma create_class_step:
  assumes wf: "jni_wf s" and step: "create_class vm name s = Inr (c, s')"
  shows "jni_wf s' \<and> state_evolves s s'"
proof -
  obtain v where v: "java_vms s vm = Some v"
    using step by (auto simp: create_class_def deref_vm_def and_then_eq_Inr split: option.splits)
  show ?thesis
  proof (cases "name_to_class v name")
    case (Some d)
    then show ?thesis using step v wf by (simp add: create_class_def deref_vm_def)
  next
    case None
    define ob :: "'a Object" where
      "ob = \<lparr>obj_super = 0, obj_fields = Map.empty, obj_kind = KClass (mk_Class name)\<rparr>"
    define s1 where "s1 = snd (new_object ob s)"
    have s': "c = next_ref s"
      "s' = s1\<lparr>java_vms := (java_vms s)(vm \<mapsto> v\<lparr>name_to_class := (name_to_class v)(name \<mapsto> c)\<rparr>)\<rparr>"
      using step v None
      by (auto simp: create_class_def deref_vm_def s1_def ob_def new_object_def Let_def)
    have 1: "jni_wf s1" "state_evolves s s1"
      using new_object_step [OF wf, of ob]
      by (simp_all add: s1_def ob_def class_wf_def mk_Class_def)
    have vms1: "java_vms s1 = java_vms s" by (simp add: s1_def jni_simps)
    have ev: "state_evolves s1 s'"
      using v None by (auto simp: state_evolves_def s' vms1 vm_evolves_def map_le_def)
    have cl: "deref_class c s' = Inr (mk_Class name)"
      by (simp add: deref_class_eq s' s1_def jni_simps ob_def)
    have old: "vm_wf s' v"
      using wf v vm_wf_evolves [OF state_evolves_trans [OF 1(2) ev]]
      by (simp add: jni_wf_def vms_wf_def)
    have "jni_wf s'"
    proof (rule vm_thread_change [OF 1(1) ev])
      show "0 < r \<and> r < next_ref s'" if "java_vms s' r \<noteq> None" for r
        using that 1(1) v by (auto simp: s' vms1 jni_wf_def refs_wf_def split: if_splits)
      show "vm_wf s' w" if "java_vms s' r = Some w" "java_vms s' r \<noteq> java_vms s1 r" for r w
        using that old cl by (auto simp: vm_wf_def s'(2) vms1 mk_Class_def split: if_splits)
    qed (simp_all add: s')
    then show ?thesis using state_evolves_trans [OF 1(2) ev] by simp
  qed
qed

lemma jni_step_wf: "jni_step s s' \<Longrightarrow> jni_wf s \<Longrightarrow> jni_wf s' \<and> state_evolves s s'"
proof (induction rule: jni_step.induct)
  case (step_attach t vm s env rc s')
  then show ?case using attach_step [of s t vm] by (auto simp: AttachCurrentThread_def and_then_eq_Inr)
next
  case (step_object s c)
  then show ?case by (simp add: new_object_step plain_object_def)
next
  case (step_string s x)
  then show ?case by (simp add: create_string_def new_object_step)
next
  case (step_array T n s r s')
  then show ?case using new_filled_array_step [of s "variant_zero T" T] by (simp add: new_array_generic_def)
next
  case (step_object_array n i s r s')
  then show ?case using new_filled_array_step [of s "VObject i" JObject] by (simp add: NewObjectArray_def)
next
  case (step_field c name s fid s')
  then show ?case using static_field_step by (simp add: class_field_eq)
qed (rule create_vm_step init_functions_step exception_clear_step create_class_step
    class_add_method_step static_field_step emplace_field_step getBytes_step
    region_step element_step; assumption)+

lemma jni_steps_wf: "jni_steps s s' \<Longrightarrow> jni_wf s \<Longrightarrow> jni_wf s' \<and> state_evolves s s'"
  by (induction rule: rtranclp_induct) (auto dest: jni_step_wf intro: state_evolves_trans)

lemma initial_jni_state_wf: "jni_wf initial_jni_state"
  by (simp add: jni_wf_def initial_jni_state_def refs_wf_def objects_wf_def vms_wf_def thread_wf_def
      initial_thread_data_def)

section \<open>Consequences of growth\<close>

lemma map_leD: "m \<subseteq>\<^sub>m m' \<Longrightarrow> m k = Some v \<Longrightarrow> m' k = Some v"
  by (metis domI map_le_def)

lemma deref_method_evolves:
  "state_evolves s s' \<Longrightarrow> deref_method m s = Inr me \<Longrightarrow> deref_method m s' = Inr me"
  using deref_class_evolves [of s s' "fst m"]
  by (fastforce simp: deref_method_def and_then_eq_Inr class_evolves_def split: option.splits
      dest: map_leD)

lemma GetFieldID_evolves:
  "state_evolves s s' \<Longrightarrow> GetFieldID c n s = Inr fid \<Longrightarrow> GetFieldID c n s' = Inr fid"
  using deref_class_evolves [of s s' c]
  by (fastforce simp: GetFieldID_def and_then_eq_Inr class_evolves_def split: option.splits
      dest: map_leD)

lemma static_field_get_evolves:
  "state_evolves s s' \<Longrightarrow> static_field_get_generic T c fid s = Inr v \<Longrightarrow>
   static_field_get_generic T c fid s' = Inr v"
  using deref_class_evolves [of s s' c]
  by (fastforce simp: static_field_get_generic_def and_then_eq_Inr class_evolves_def
      split: option.splits dest: map_leD)

lemma field_get_evolves:
  assumes "state_evolves s s'" "field_get_generic T r fid s = Inr v"
  shows "field_get_generic T r fid s' = Inr v"
proof -
  obtain ob x where ob: "objects s r = Some ob" "obj_fields ob fid = Some x" "variant_get T x = Inr v"
    using assms(2)
    by (auto simp: field_get_generic_def deref_def and_then_eq_Inr split: option.splits)
  obtain ob' where "objects s' r = Some ob'" "obj_fields ob \<subseteq>\<^sub>m obj_fields ob'"
    using state_evolves_object [OF assms(1) ob(1)] unfolding object_evolves_def by blast
  then show ?thesis
    using ob(2,3) map_leD by (fastforce simp: field_get_generic_def deref_def)
qed

lemma deref_string_evolves:
  assumes "state_evolves s s'" "deref_string r s = Inr x"
  shows "deref_string r s' = Inr x"
proof -
  obtain ob where ob: "objects s r = Some ob" "obj_kind ob = KString x"
    using assms(2) by (auto simp: deref_string_eq)
  obtain ob' where "objects s' r = Some ob'" "kind_evolves (obj_kind ob) (obj_kind ob')"
    using state_evolves_object [OF assms(1) ob(1)] unfolding object_evolves_def by blast
  then show ?thesis using ob(2) by (auto simp: deref_string_eq)
qed

lemma FindClass_attached:
  assumes "jni_wf s" "FindClass t n s = Inr c"
  obtains v where "td_initialized (thread_data s t)"
    "java_vms s (env_vm (td_env (thread_data s t))) = Some v" "name_to_class v n = Some c"
proof -
  obtain v where v: "java_vms s (env_vm (td_env (thread_data s t))) = Some v"
    "name_to_class v n = Some c"
    using assms(2) by (auto simp: FindClass_def deref_vm_def and_then_eq_Inr split: option.splits)
  have "env_vm (td_env (thread_data s t)) \<noteq> 0"
    using assms(1) v(1) unfolding jni_wf_def refs_wf_def by (metis less_irrefl option.distinct(1))
  moreover have "thread_wf s (thread_data s t)" using assms(1) by (simp add: jni_wf_def)
  ultimately have "td_initialized (thread_data s t)" by (auto simp: thread_wf_def)
  then show ?thesis using that v by blast
qed

lemma FindClass_evolves:
  assumes "jni_wf s" "state_evolves s s'" "FindClass t n s = Inr c"
  shows "FindClass t n s' = Inr c"
proof -
  obtain v where v: "td_initialized (thread_data s t)"
    "java_vms s (env_vm (td_env (thread_data s t))) = Some v" "name_to_class v n = Some c"
    by (rule FindClass_attached [OF assms(1,3)])
  obtain v' where "java_vms s' (env_vm (td_env (thread_data s t))) = Some v'"
    "name_to_class v \<subseteq>\<^sub>m name_to_class v'"
    using state_evolves_vm [OF assms(2) v(2)] unfolding vm_evolves_def by blast
  moreover have "env_vm (td_env (thread_data s' t)) = env_vm (td_env (thread_data s t))"
    using assms(2) v(1) by (simp add: state_evolves_def thread_evolves_def)
  moreover have "name_to_class v' n = Some c" using map_leD calculation(2) v(3) by fast
  ultimately show ?thesis by (simp add: FindClass_def deref_vm_def)
qed

section \<open>Properties\<close>

text \<open>
  C36.  Whatever sequence of operations ran so far (of any threads, in any order), a class found
  by name has that name, a \<^verbatim>\<open>jmethodID\<close> denotes a method of the class and the name it was looked
  up with, the elements of an array have the array's element type, and no exception is pending.
\<close>

theorem jni_state_consistent:
  assumes "jni_steps initial_jni_state s"
  shows "(FindClass t n s = Inr c \<longrightarrow> (\<exists>cl. deref_class c s = Inr cl \<and> full_name cl = n)) \<and>
         (deref_method (c, n) s = Inr me \<longrightarrow> m_name me = n \<and> m_owner_class me = c) \<and>
         (get_array_elements_generic T r s = Inr (vs, copied) \<longrightarrow> (\<forall>v\<in>set vs. variant_type v = T)) \<and>
         \<not> ExceptionCheck t s"
proof (intro conjI impI)
  have wf: "jni_wf s" using jni_steps_wf [OF assms initial_jni_state_wf] by simp
  show "\<exists>cl. deref_class c s = Inr cl \<and> full_name cl = n" if "FindClass t n s = Inr c"
    using wf by (rule_tac FindClass_attached [OF wf that]) (simp add: jni_wf_def vms_wf_def vm_wf_def)
  show "m_name me = n" "m_owner_class me = c" if "deref_method (c, n) s = Inr me"
    using that wf kind_wf_class [of s c]
    by (auto simp: deref_method_def and_then_eq_Inr jni_wf_def class_wf_def split: option.splits)
  show "\<forall>v\<in>set vs. variant_type v = T" if "get_array_elements_generic T r s = Inr (vs, copied)"
    using that deref_array_wf [OF wf]
    by (auto simp: get_array_elements_generic_def deref_array_of_def and_then_eq_Inr array_wf_def
        list_all_iff split: if_splits)
  show "\<not> ExceptionCheck t s" using wf by (simp add: ExceptionCheck_def jni_wf_def thread_wf_def)
qed

text \<open>A virtual machine with one class, one method and one attached thread.\<close>

definition demo_jni_state :: "nat jni_state" where
  "demo_jni_state =
     initial_jni_state\<lparr>
       objects := [2 \<mapsto> \<lparr>obj_super = 0, obj_fields = Map.empty,
         obj_kind = KClass \<lparr>full_name = ''A'', class_fields = Map.empty,
           class_methods = [''m'' \<mapsto> \<lparr>m_type = Member, m_name = ''m'', m_owner_class = 2,
                                      m_function = 7\<rparr>]\<rparr>\<rparr>],
       java_vms := [1 \<mapsto> \<lparr>vm_invocation = [], vm_native_interface_functions = [],
                          name_to_class = [''A'' \<mapsto> 2]\<rparr>],
       next_ref := 3,
       thread_data := (\<lambda>_. initial_thread_data)(0 := \<lparr>td_initialized = True,
         td_env = \<lparr>native_interface_functions = [], env_vm = 1, has_exception = False\<rparr>\<rparr>)\<rparr>"

lemma demo_jni_state_reachable: "jni_steps initial_jni_state demo_jni_state"
proof -
  define s1 where "s1 = snd (create_vm (initial_jni_state :: nat jni_state))"
  have 1: "jni_step initial_jni_state s1" unfolding s1_def by (rule jni_step.step_vm)
  obtain e rc s2 where 2: "AttachCurrentThread 0 1 s1 = Inr (e, rc, s2)"
    and s2: "s2 = s1\<lparr>thread_data := (thread_data s1)(0 := \<lparr>td_initialized = True,
       td_env = \<lparr>native_interface_functions = [], env_vm = 1, has_exception = False\<rparr>\<rparr>)\<rparr>"
    by (simp add: AttachCurrentThread_def attach_thread_def s1_def create_vm_def deref_vm_def
        initial_jni_state_def initial_thread_data_def Let_def)
  obtain s3 where 3: "create_class 1 ''A'' s2 = Inr (2, s3)"
    and s3: "s3 = s2\<lparr>objects := [2 \<mapsto> \<lparr>obj_super = 0, obj_fields = Map.empty,
                                      obj_kind = KClass (mk_Class ''A'')\<rparr>], next_ref := 3,
       java_vms := [1 \<mapsto> \<lparr>vm_invocation = [], vm_native_interface_functions = [],
                          name_to_class = [''A'' \<mapsto> 2]\<rparr>]\<rparr>"
    by (simp add: create_class_def deref_vm_def s2 s1_def create_vm_def initial_jni_state_def
        new_object_def Let_def eval_nat_numeral)
  have 4: "class_add_method Member 2 ''m'' 7 s3 = Inr ((2, ''m''), demo_jni_state)"
    by (simp add: class_add_method_def deref_class_def deref_def s3 s2 s1_def create_vm_def
        initial_jni_state_def put_class_def set_class_part_def mk_Class_def demo_jni_state_def)
  from 1 have "jni_steps initial_jni_state s1" by (rule r_into_rtranclp)
  also have "jni_step s1 s2" by (rule jni_step.step_attach [OF 2])
  also have "jni_step s2 s3" by (rule jni_step.step_class [OF 3])
  also have "jni_step s3 demo_jni_state" by (rule jni_step.step_method [OF 4])
  finally show ?thesis .
qed

theorem jni_state_consistent_witness:
  "jni_steps initial_jni_state demo_jni_state \<and>
   FindClass 0 ''A'' demo_jni_state = Inr 2 \<and>
   (\<exists>cl. deref_class 2 demo_jni_state = Inr cl \<and> full_name cl = ''A'') \<and>
   \<not> ExceptionCheck 0 demo_jni_state"
proof -
  have "FindClass 0 ''A'' demo_jni_state = Inr 2"
    by (simp add: FindClass_def demo_jni_state_def deref_vm_def)
  then show ?thesis
    using jni_state_consistent [OF demo_jni_state_reachable, of 0 "''A''" 2] demo_jni_state_reachable
    by simp
qed

text \<open>
  C35.  Identifiers handed to the guest never go stale.  Whatever operations follow, a class stays
  findable under the same pointer, a \<^verbatim>\<open>jmethodID\<close> keeps denoting the same method, field
  identifiers and static field values stay, and strings are immutable.
\<close>

theorem jni_identifiers_stable:
  assumes "jni_steps initial_jni_state s" and "jni_steps s s'"
  shows "(FindClass t n s = Inr c \<longrightarrow> FindClass t n s' = Inr c) \<and>
         (deref_method m s = Inr me \<longrightarrow> deref_method m s' = Inr me) \<and>
         (GetFieldID c n s = Inr fid \<longrightarrow> GetFieldID c n s' = Inr fid) \<and>
         (GetStaticTField T c fid s = Inr v \<longrightarrow> GetStaticTField T c fid s' = Inr v) \<and>
         (GetTField T r fid s = Inr v \<longrightarrow> GetTField T r fid s' = Inr v) \<and>
         (GetStringUTFChars r s = Inr x \<longrightarrow> GetStringUTFChars r s' = Inr x)"
proof -
  have wf: "jni_wf s" using jni_steps_wf [OF assms(1) initial_jni_state_wf] by simp
  have ev: "state_evolves s s'" using jni_steps_wf [OF assms(2) wf] by simp
  show ?thesis
    using FindClass_evolves [OF wf ev] deref_method_evolves [OF ev] GetFieldID_evolves [OF ev]
      static_field_get_evolves [OF ev] field_get_evolves [OF ev] deref_string_evolves [OF ev]
    by (auto simp: GetStaticTField_def GetTField_def GetStringUTFChars_def and_then_eq_Inr)
qed

theorem jni_identifiers_stable_witness:
  "jni_steps initial_jni_state demo_jni_state \<and>
   jni_steps demo_jni_state (snd (create_string ''x'' demo_jni_state)) \<and>
   FindClass 0 ''A'' (snd (create_string ''x'' demo_jni_state)) = Inr 2 \<and>
   deref_method (2, ''m'') (snd (create_string ''x'' demo_jni_state)) =
     Inr \<lparr>m_type = Member, m_name = ''m'', m_owner_class = 2, m_function = 7\<rparr>"
proof -
  have step: "jni_steps demo_jni_state (snd (create_string ''x'' demo_jni_state))"
    by (intro r_into_rtranclp jni_step.step_string)
  have "FindClass 0 ''A'' demo_jni_state = Inr 2"
    "deref_method (2, ''m'') demo_jni_state =
       Inr \<lparr>m_type = Member, m_name = ''m'', m_owner_class = 2, m_function = 7\<rparr>"
    by (simp_all add: FindClass_def demo_jni_state_def deref_vm_def deref_method_def deref_class_def
        deref_def)
  then show ?thesis
    using jni_identifiers_stable [OF demo_jni_state_reachable step] demo_jni_state_reachable step
    by blast
qed

end
