(* ===== verification/Jni_Operations.thy ===== *)
theory Jni_Operations
  imports Jni_Invariants
begin

text \<open>
  Functional behaviour of the emulated virtual machine (\<^verbatim>\<open>src/src/jni.cpp\<close>): registered methods
  are the ones that run, strings and arrays round-trip, and a new machine hands out a working
  function table.
\<close>

section \<open>Methods\<close>

lemma class_add_method_lookup:
  assumes "class_add_method ty c n f s = Inr (m, s')" and "method_entry c s n = None"
  shows "m = (c, n) \<and> deref_method (c, n) s' =
           Inr \<lparr>m_type = ty, m_name = n, m_owner_class = c, m_function = f\<rparr>"
proof -
  obtain cl where cl: "deref_class c s = Inr cl" "m = (c, n)"
    "s' = put_class c (cl\<lparr>class_methods := insert_new n
       \<lparr>m_type = ty, m_name = n, m_owner_class = c, m_function = f\<rparr> (class_methods cl)\<rparr>) s"
    using assms(1) by (auto simp: class_add_method_def and_then_eq_Inr)
  moreover have "class_methods cl n = None"
    using assms(2) cl(1) by (simp add: method_entry_def)
  ultimately show ?thesis by (simp add: deref_method_def deref_class_put_class)
qed

lemma find_method_deref: "deref_method (c, n) s = Inr me \<Longrightarrow> find_method_generic c n s = Inr (c, n)"
  by (auto simp: deref_method_def find_method_generic_def and_then_eq_Inr split: option.splits)

text \<open>
  C37.  A method registered under a name its class did not have is the one the guest reaches:
  after any further operations, looking the name up yields its identifier, and calling it runs
  the registered function with the given receiver and arguments; a null receiver is an assertion
  failure, and a result of another type than the call's a \<^verbatim>\<open>bad_variant_access\<close>.
\<close>

theorem registered_method_called:
  assumes "jni_steps initial_jni_state s"
    and "member_method c n f s = Inr (m, s1)" and "method_entry c s n = None"
    and "jni_steps s1 s2"
  shows "GetMethodID c n s2 = Inr m \<and>
         CallMethodV run T obj m args s2 =
           (if obj = 0 then Inl (Assert_failure ''object != nullptr'')
            else and_then (run f obj args s2) (\<lambda>(v, s3).
              case T of None \<Rightarrow> Inr (None, s3)
              | Some ty \<Rightarrow> if variant_type v = ty then Inr (Some v, s3) else Inl Bad_variant_access))"
proof -
  have wf: "jni_wf s" using jni_steps_wf [OF assms(1) initial_jni_state_wf] by simp
  have add: "class_add_method Member c n f s = Inr (m, s1)"
    using assms(2) by (simp add: member_method_def)
  have "state_evolves s1 s2" using jni_steps_wf [OF assms(4)] class_add_method_step [OF wf add] by simp
  then have me: "m = (c, n)" "deref_method (c, n) s2 =
      Inr \<lparr>m_type = Member, m_name = n, m_owner_class = c, m_function = f\<rparr>"
    using class_add_method_lookup [OF add assms(3)] deref_method_evolves by auto
  have ret: "returned_as T = (\<lambda>(v, s3). case T of None \<Rightarrow> Inr (None, s3)
      | Some ty \<Rightarrow> if variant_type v = ty then Inr (Some v, s3) else Inl Bad_variant_access)"
    by (auto simp: returned_as_def variant_get_def fun_eq_iff split: option.splits)
  show ?thesis
    unfolding ret [symmetric]
    using me find_method_deref [OF me(2)]
    by (simp add: GetMethodID_def CallMethodV_def method_call_generic_def)
qed

theorem registered_method_called_witness:
  "jni_steps initial_jni_state demo_jni_state \<and>
   (\<exists>m s1. member_method 2 ''k'' 9 demo_jni_state = Inr (m, s1) \<and>
      GetMethodID 2 ''k'' s1 = Inr m \<and>
      CallMethodV (\<lambda>f r args s. Inr (VInt (of_nat (f + r)), s)) (Some JInt) 2 m [] s1
        = Inr (Some (VInt 11), s1) \<and>
      CallMethodV (\<lambda>f r args s. Inr (VInt (of_nat (f + r)), s)) (Some JLong) 2 m [] s1
        = Inl Bad_variant_access)"
proof -
  have none: "method_entry 2 demo_jni_state ''k'' = None"
    by (simp add: method_entry_def demo_jni_state_def deref_class_def deref_def)
  obtain m s1 where reg: "member_method 2 ''k'' 9 demo_jni_state = Inr (m, s1)"
    by (simp add: member_method_def class_add_method_def demo_jni_state_def deref_class_def deref_def)
  show ?thesis
    using reg demo_jni_state_reachable
      registered_method_called [OF demo_jni_state_reachable reg none rtranclp.rtrancl_refl,
        of "\<lambda>f r args s. Inr (VInt (of_nat (f + r)), s)" "Some JInt" 2 "[]"]
      registered_method_called [OF demo_jni_state_reachable reg none rtranclp.rtrancl_refl,
        of "\<lambda>f r args s. Inr (VInt (of_nat (f + r)), s)" "Some JLong" 2 "[]"]
    by simp
qed

section \<open>Strings\<close>

lemma c_str_id: "c_str x = x \<longleftrightarrow> CHR 0x00 \<notin> set x"
  by (auto simp: c_str_def takeWhile_eq_all_conv)

text \<open>
  A string handed to the virtual machine comes back up to its first NUL, of class
  \<^verbatim>\<open>java/lang/String\<close>, after any further operations; it comes back whole exactly when it has no
  NUL.  Its reported length is the length of what comes back, modulo the width of a \<^verbatim>\<open>jsize\<close>.
\<close>

theorem string_round_trip:
  assumes "jni_steps initial_jni_state s" and "NewStringUTF x s = (r, s1)" and "jni_steps s1 s2"
  shows "GetStringUTFChars r s2 = Inr (c_str x, False) \<and>
         (c_str x = x \<longleftrightarrow> CHR 0x00 \<notin> set x) \<and>
         GetStringUTFLength r s2 = Inr (of_nat (length (c_str x))) \<and>
         GetObjectClass r s1 = Inr (string_class s)"
proof -
  have wf: "jni_wf s" using jni_steps_wf [OF assms(1) initial_jni_state_wf] by simp
  have s1: "s1 = snd (create_string x s)" "r = next_ref s"
    using assms(2) by (auto simp: NewStringUTF_def create_string_def new_object_def)
  have "jni_wf s1" unfolding s1(1) using jni_step_wf [OF jni_step.step_string wf] by simp
  then have ev: "state_evolves s1 s2" using jni_steps_wf [OF assms(3)] by simp
  have "deref_string r s1 = Inr (c_str x)"
    by (simp add: deref_string_eq s1 create_string_def jni_simps)
  then have "deref_string r s2 = Inr (c_str x)" by (rule deref_string_evolves [OF ev])
  moreover have "GetObjectClass r s1 = Inr (string_class s)"
    by (simp add: GetObjectClass_def deref_def s1 create_string_def jni_simps)
  ultimately show ?thesis
    using c_str_id by (simp add: GetStringUTFChars_def GetStringUTFLength_def)
qed

theorem string_round_trip_witness:
  "\<exists>r s1. NewStringUTF ''ab'' demo_jni_state = (r, s1) \<and>
     jni_steps initial_jni_state demo_jni_state \<and>
     GetStringUTFChars r s1 = Inr (''ab'', False) \<and> GetStringUTFLength r s1 = Inr 2"
proof -
  obtain r s1 where s1: "NewStringUTF ''ab'' demo_jni_state = (r, s1)" by force
  have c: "c_str ''ab'' = ''ab''" by (simp add: c_str_def)
  show ?thesis
    using string_round_trip [OF demo_jni_state_reachable s1 rtranclp.rtrancl_refl] s1
      demo_jni_state_reachable by (simp add: c)
qed

section \<open>Arrays\<close>

lemma copy_range_correct:
  assumes "list_all (\<lambda>i. 0 \<le> i \<and> nat i < length src \<and> nat i < length dst) is"
  shows "\<exists>vs. copy_range src is dst = Inr vs \<and> length vs = length dst \<and>
           (\<forall>j<length dst. vs ! j = (if int j \<in> set is then src ! j else dst ! j))"
  using assms
proof (induction "is" arbitrary: dst)
  case (Cons i "is")
  let ?dst = "dst[nat i := src ! nat i]"
  have i: "0 \<le> i" "nat i < length src" "nat i < length dst" using Cons.prems by simp_all
  obtain vs where vs: "copy_range src is ?dst = Inr vs" "length vs = length ?dst"
    "\<forall>j<length ?dst. vs ! j = (if int j \<in> set is then src ! j else ?dst ! j)"
    using Cons.IH [of ?dst] Cons.prems by (auto simp: list_all_iff)
  have "\<forall>j<length dst. vs ! j = (if int j \<in> set (i # is) then src ! j else dst ! j)"
    using vs(3) i by (auto simp: nth_list_update)
  then show ?case using vs i by simp
qed simp

lemma region_indices:
  assumes "0 \<le> a" "b \<le> int (length src)" "b \<le> int (length dst)"
  shows "list_all (\<lambda>i. 0 \<le> i \<and> nat i < length src \<and> nat i < length dst) [a..b - 1]"
proof -
  have "0 \<le> i \<and> nat i < length src \<and> nat i < length dst" if "a \<le> i" "i \<le> b - 1" for i
    using assms that by linarith
  then show ?thesis by (simp add: list_all_iff)
qed

lemma region_copy:
  assumes "0 \<le> a" "b \<le> int (length src)" "b \<le> int (length dst)"
  obtains vs where "copy_range src [a..b - 1] dst = Inr vs" "length vs = length dst"
    "\<And>j. j < length dst \<Longrightarrow> vs ! j = (if a \<le> int j \<and> int j < b then src ! j else dst ! j)"
proof -
  obtain vs where vs: "copy_range src [a..b - 1] dst = Inr vs" "length vs = length dst"
    "\<forall>j<length dst. vs ! j = (if int j \<in> set [a..b - 1] then src ! j else dst ! j)"
    using copy_range_correct [OF region_indices [OF assms]] by blast
  have "vs ! j = (if a \<le> int j \<and> int j < b then src ! j else dst ! j)" if "j < length dst" for j
    using vs(3) that by (simp del: upto.simps)
  then show ?thesis using that vs(1,2) by blast
qed

lemma deref_array_of_Inr: "deref_array_of T r s = Inr a \<Longrightarrow> deref_array r s = Inr a \<and> array_type a = T"
  by (auto simp: deref_array_of_def and_then_eq_Inr split: if_splits)

lemma get_region:
  assumes "deref_array_of T r s = Inr a" and "0 \<le> sint start"
    and "sint len \<le> int (length (array_data a))" and "sint len \<le> int (length buf)"
  obtains vs where "get_array_region_generic T r start len buf s = Inr vs" "length vs = length buf"
    "\<And>j. j < length buf \<Longrightarrow>
       vs ! j = (if sint start \<le> int j \<and> int j < sint len then array_data a ! j else buf ! j)"
  using region_copy [OF assms(2-4)] assms(1) that by (metis get_array_region_generic_def and_then_Inr)

text \<open>
  \<^verbatim>\<open>Get<Type>ArrayRegion\<close> copies the indices from \<open>start\<close> up to \<open>len\<close>, at the same places of
  the buffer.  With \<open>start = 0\<close> that is the documented region; with \<open>len \<le> start\<close> nothing at all
  is copied, where the documentation asks for \<open>len\<close> elements from \<open>start\<close> on.
\<close>

theorem array_region_copy:
  assumes "deref_array_of T r s = Inr a" and "0 \<le> sint start"
    and "sint len \<le> int (length (array_data a))" and "sint len \<le> int (length buf)"
  shows "\<exists>vs. get_array_region_generic T r start len buf s = Inr vs \<and> length vs = length buf \<and>
           (\<forall>j<length buf. vs ! j =
              (if sint start \<le> int j \<and> int j < sint len then array_data a ! j else buf ! j)) \<and>
           (start = 0 \<longrightarrow> take (nat (sint len)) vs = take (nat (sint len)) (array_data a)) \<and>
           (sint len \<le> sint start \<longrightarrow> vs = buf)"
proof -
  obtain vs where vs: "get_array_region_generic T r start len buf s = Inr vs" "length vs = length buf"
    and nth: "\<And>j. j < length buf \<Longrightarrow>
       vs ! j = (if sint start \<le> int j \<and> int j < sint len then array_data a ! j else buf ! j)"
    using get_region [OF assms] by blast
  have "take (nat (sint len)) vs = take (nat (sint len)) (array_data a)" if "start = 0"
  proof (rule nth_equalityI)
    show "length (take (nat (sint len)) vs) = length (take (nat (sint len)) (array_data a))"
      using vs(2) assms(3,4) by simp
    show "take (nat (sint len)) vs ! j = take (nat (sint len)) (array_data a) ! j"
      if "j < length (take (nat (sint len)) vs)" for j
      using that nth [of j] vs(2) \<open>start = 0\<close> by (simp add: zless_nat_eq_int_zless)
  qed
  moreover have "vs = buf" if "sint len \<le> sint start"
    using that vs(2) nth by (intro nth_equalityI) auto
  ultimately show ?thesis using vs nth by blast
qed

definition demo_array_state :: "nat jni_state" where
  "demo_array_state = snd (new_object (array_object JInt 4 [VInt 1, VInt 2, VInt 3, VInt 4]) demo_jni_state)"

lemma demo_array_state_array:
  "deref_array_of JInt 3 demo_array_state =
     Inr \<lparr>array_size = 4, array_type = JInt, array_data = [VInt 1, VInt 2, VInt 3, VInt 4]\<rparr>"
  by (simp add: demo_array_state_def deref_array_of_def deref_array_def deref_def new_object_def
      demo_jni_state_def array_object_def)

theorem array_region_copy_witness:
  "deref_array_of JInt 3 demo_array_state =
     Inr \<lparr>array_size = 4, array_type = JInt, array_data = [VInt 1, VInt 2, VInt 3, VInt 4]\<rparr> \<and>
   get_array_region_generic JInt 3 2 2 [VInt 0, VInt 0] demo_array_state = Inr [VInt 0, VInt 0]"
proof -
  have "\<exists>vs. get_array_region_generic JInt 3 2 2 [VInt 0, VInt 0] demo_array_state = Inr vs \<and>
          vs = [VInt 0, VInt 0]"
    using array_region_copy [OF demo_array_state_array, of 2 2 "[VInt 0, VInt 0]"] by force
  then show ?thesis using demo_array_state_array by simp
qed

text \<open>
  Writing the first \<open>len\<close> elements of an array and reading them back returns what was
  written, and leaves the rest of the array and its reported length unchanged.
\<close>

theorem array_region_round_trip:
  assumes "deref_array_of T r s = Inr a"
    and "0 \<le> sint len" and "sint len \<le> int (length (array_data a))"
    and "length buf = nat (sint len)" and "length out = nat (sint len)"
  shows "\<exists>s' a'. set_array_region_generic T r 0 len buf s = Inr s' \<and>
           get_array_region_generic T r 0 len out s' = Inr buf \<and>
           deref_array_of T r s' = Inr a' \<and> array_size a' = array_size a \<and>
           array_data a' = buf @ drop (nat (sint len)) (array_data a)"
proof -
  have ar: "deref_array r s = Inr a" "array_type a = T"
    using deref_array_of_Inr [OF assms(1)] by simp_all
  have le: "sint len \<le> int (length buf)" "sint len \<le> int (length out)" "(0::int) \<le> sint (0::u32)"
    using assms(2,4,5) by simp_all
  obtain vs where vs: "copy_range buf [sint (0::u32)..sint len - 1] (array_data a) = Inr vs"
    "length vs = length (array_data a)"
    and nth: "\<And>j. j < length (array_data a) \<Longrightarrow>
       vs ! j = (if sint (0::u32) \<le> int j \<and> int j < sint len then buf ! j else array_data a ! j)"
    using region_copy [OF le(3,1) assms(3)] by blast
  have data: "vs = buf @ drop (nat (sint len)) (array_data a)"
    using vs(2) nth assms(2-4) by (intro nth_equalityI) (auto simp: nth_append)
  define s' where "s' = put_array r (a\<lparr>array_data := vs\<rparr>) s"
  have set': "set_array_region_generic T r 0 len buf s = Inr s'"
    unfolding set_array_region_generic_def assms(1) s'_def by (simp only: and_then_Inr vs(1))
  have ar': "deref_array_of T r s' = Inr (a\<lparr>array_data := vs\<rparr>)"
    using ar by (simp add: deref_array_of_def s'_def jni_simps)
  have "sint len \<le> int (length (array_data (a\<lparr>array_data := vs\<rparr>)))"
    using vs(2) assms(3) by simp
  then obtain ws where ws: "get_array_region_generic T r 0 len out s' = Inr ws"
    "length ws = length out"
    "\<And>j. j < length out \<Longrightarrow> ws ! j = (if sint (0::u32) \<le> int j \<and> int j < sint len
        then array_data (a\<lparr>array_data := vs\<rparr>) ! j else out ! j)"
    using get_region [OF ar' le(3) _ le(2)] by blast
  have "ws = buf"
    using ws(2,3) assms(2,4,5) by (intro nth_equalityI) (auto simp: data nth_append)
  then show ?thesis using set' ar' ws(1) data by simp
qed

theorem array_region_round_trip_witness:
  "\<exists>s' a'. set_array_region_generic JInt 3 0 2 [VInt 8, VInt 9] demo_array_state = Inr s' \<and>
     get_array_region_generic JInt 3 0 2 [VInt 0, VInt 0] s' = Inr [VInt 8, VInt 9] \<and>
     deref_array_of JInt 3 s' = Inr a' \<and> array_size a' = 4 \<and>
     array_data a' = [VInt 8, VInt 9, VInt 3, VInt 4]"
proof -
  have two: "nat (sint (2 :: u32)) = 2" "sint (2 :: u32) = 2" by simp_all
  show ?thesis
    using array_region_round_trip [OF demo_array_state_array, of 2 "[VInt 8, VInt 9]" "[VInt 0, VInt 0]"]
    unfolding two by simp
qed

text \<open>
  The \<^verbatim>\<open>byte[]\<close> that \<^verbatim>\<open>String.getBytes\<close> returns holds every byte of the string, but
  \<^verbatim>\<open>GetArrayLength\<close> reports 0 for it, whatever the string; an array made by \<^verbatim>\<open>New<Type>Array\<close>
  reports the length it has.
\<close>

theorem array_length_reported:
  "(deref_string str s = Inr x \<longrightarrow>
      (\<exists>r s'. String_getBytes_body str s = Inr (VObject r, s') \<and>
         get_array_elements_generic JByte r s' = Inr (map (\<lambda>c. VByte (of_char c)) x, False) \<and>
         GetArrayLength r s' = Inr 0)) \<and>
   new_array_generic T n s =
     (if sint n < 0 then Inl Length_error
      else Inr (new_object (array_object T n (replicate (nat (sint n)) (variant_zero T))) s)) \<and>
   (new_array_generic T n s = Inr (r, s') \<longrightarrow>
      GetArrayLength r s' = Inr n \<and>
      (\<exists>vs. get_array_elements_generic T r s' = Inr (vs, False) \<and> length vs = nat (sint n)))"
proof (intro conjI impI)
  assume x: "deref_string str s = Inr x"
  show "\<exists>r s'. String_getBytes_body str s = Inr (VObject r, s') \<and>
         get_array_elements_generic JByte r s' = Inr (map (\<lambda>c. VByte (of_char c)) x, False) \<and>
         GetArrayLength r s' = Inr 0"
    by (simp add: x String_getBytes_body_def new_object_def get_array_elements_generic_def
        deref_array_of_def deref_array_def deref_def array_object_def GetArrayLength_def)
next
  assume new: "new_array_generic T n s = Inr (r, s')"
  have arr: "deref_array r s' = Inr \<lparr>array_size = n, array_type = T,
      array_data = replicate (nat (sint n)) (variant_zero T)\<rparr>"
    using new by (auto simp: new_array_generic_def new_filled_array_def new_object_def deref_array_def
        deref_def array_object_def split: if_splits)
  then show "GetArrayLength r s' = Inr n" by (simp add: GetArrayLength_def)
  show "\<exists>vs. get_array_elements_generic T r s' = Inr (vs, False) \<and> length vs = nat (sint n)"
    using arr by (simp add: get_array_elements_generic_def deref_array_of_def)
qed (simp add: new_array_generic_def new_filled_array_def)

theorem array_length_reported_witness:
  "deref_string 3 (snd (create_string ''ab'' demo_jni_state)) = Inr ''ab'' \<and>
   (\<exists>r s'. String_getBytes_body 3 (snd (create_string ''ab'' demo_jni_state)) = Inr (VObject r, s') \<and>
      get_array_elements_generic JByte r s' = Inr ([VByte 97, VByte 98], False) \<and>
      GetArrayLength r s' = Inr 0) \<and>
   (\<exists>r s'. new_array_generic JInt 5 demo_jni_state = Inr (r, s') \<and> GetArrayLength r s' = Inr 5)"
proof -
  let ?s = "snd (create_string ''ab'' demo_jni_state)"
  have str: "deref_string 3 ?s = Inr ''ab''"
    by (simp add: deref_string_def deref_def create_string_def new_object_def demo_jni_state_def c_str_def)
  moreover have "map (\<lambda>c. VByte (of_char c)) ''ab'' = [VByte 97, VByte 98]"
    by (simp add: of_char_def)
  moreover obtain r s' where "new_array_generic JInt 5 demo_jni_state = Inr (r, s')"
    by (simp add: new_array_generic_def new_filled_array_def new_object_def)
  ultimately show ?thesis
    using array_length_reported [of 3 ?s "''ab''" JInt 5 r s']
      array_length_reported [of 0 demo_jni_state "[]" JInt 5 r s'] by auto
qed

end
