(* ===== verification/Jni_Tables.thy ===== *)
theory Jni_Tables
  imports Jni_Operations
begin

text \<open>
  The function tables of \<^verbatim>\<open>src/src/jni.hpp\<close>: the declared signatures, the order of the slots, the
  functions that are only assertion failures, and the tables a new virtual machine gets.  The
  addresses of the host functions are the argument \<open>addr\<close>.
\<close>

section \<open>Signatures\<close>

text \<open>Name, result type, parameter types, and whether the parameter list ends in an ellipsis.\<close>

type_synonym jni_signature = "string \<times> cxx_type \<times> cxx_type list \<times> bool"

definition invocation_signatures :: "jni_signature list" where
  "invocation_signatures =
    [(''GetEnv'', CInt, [CPointer, CPointer, CInt], False),
     (''DestroyJavaVM'', CInt, [CPointer], False),
     (''AttachCurrentThread'', CInt, [CPointer, CPointer, CPointer], False),
     (''DetachCurrentThread'', CInt, [CPointer], False),
     (''AttachCurrentAsDaemon'', CInt, [CPointer, CPointer, CPointer], False)]"

definition jni_signatures_objects :: "jni_signature list" where
  "jni_signatures_objects =
    [(''GetVersion'', CInt, [CPointer], False),
     (''DefineClass'', CPointer, [CPointer, CPointer, CPointer, CPointer, CInt], False),
     (''FindClass'', CPointer, [CPointer, CPointer], False),
     (''FromReflectedMethod'', CPointer, [CPointer, CPointer], False),
     (''FromReflectedField'', CPointer, [CPointer, CPointer], False),
     (''ToReflectedMethod'', CPointer, [CPointer, CPointer, CPointer, CUnsignedChar], False),
     (''GetSuperclass'', CPointer, [CPointer, CPointer], False),
     (''IsAssignableFrom'', CUnsignedChar, [CPointer, CPointer, CPointer], False),
     (''ToReflectedField'', CPointer, [CPointer, CPointer, CPointer, CUnsignedChar], False),
     (''Throw'', CInt, [CPointer, CPointer], False),
     (''ThrowNew'', CInt, [CPointer, CPointer, CPointer], False),
     (''ExceptionOccurred'', CPointer, [CPointer], False),
     (''ExceptionDescribe'', CVoid, [CPointer], False),
     (''ExceptionClear'', CVoid, [CPointer], False),
     (''FatalError'', CVoid, [CPointer, CPointer], False),
     (''PushLocalFrame'', CInt, [CPointer, CInt], False),
     (''PopLocalFrame'', CPointer, [CPointer, CPointer], False),
     (''NewGlobalRef'', CPointer, [CPointer, CPointer], False),
     (''DeleteGlobalRef'', CVoid, [CPointer, CPointer], False),
     (''DeleteLocalRef'', CVoid, [CPointer, CPointer], False),
     (''IsSameObject'', CUnsignedChar, [CPointer, CPointer, CPointer], False),
     (''NewLocalRef'', CPointer, [CPointer, CPointer], False),
     (''EnsureLocalCapacity'', CInt, [CPointer, CInt], False),
     (''AllocObject'', CPointer, [CPointer, CPointer], False),
     (''NewObject'', CPointer, [CPointer, CPointer, CPointer], True),
     (''NewObjectV'', CPointer, [CPointer, CPointer, CPointer, CVaList], False),
     (''NewObjectA'', CPointer, [CPointer, CPointer, CPointer, CPointer], False),
     (''GetObjectClass'', CPointer, [CPointer, CPointer], False),
     (''IsInstanceOf'', CUnsignedChar, [CPointer, CPointer, CPointer], False),
     (''GetMethodID'', CPointer, [CPointer, CPointer, CPointer, CPointer], False),
     (''CallObjectMethod'', CPointer, [CPointer, CPointer, CPointer], True),
     (''CallObjectMethodV'', CPointer, [CPointer, CPointer, CPointer, CVaList], False),
     (''CallObjectMethodA'', CPointer, [CPointer, CPointer, CPointer, CPointer], False),
     (''CallBooleanMethod'', CUnsignedChar, [CPointer, CPointer, CPointer], True),
     (''CallBooleanMethodV'', CUnsignedChar, [CPointer, CPointer, CPointer, CVaList], False),
     (''CallBooleanMethodA'', CUnsignedChar, [CPointer, CPointer, CPointer, CPointer], False),
     (''CallByteMethod'', CSignedChar, [CPointer, CPointer, CPointer], True),
     (''CallByteMethodV'', CSignedChar, [CPointer, CPointer, CPointer, CVaList], False),
     (''CallByteMethodA'', CSignedChar, [CPointer, CPointer, CPointer, CPointer], False),
     (''CallCharMethod'', CUnsignedShort, [CPointer, CPointer, CPointer], True),
     (''CallCharMethodV'', CUnsignedShort, [CPointer, CPointer, CPointer, CVaList], False),
     (''CallCharMethodA'', CUnsignedShort, [CPointer, CPointer, CPointer, CPointer], False),
     (''CallShortMethod'', CShort, [CPointer, CPointer, CPointer], True),
     (''CallShortMethodV'', CShort, [CPointer, CPointer, CPointer, CVaList], False),
     (''CallShortMethodA'', CShort, [CPointer, CPointer, CPointer, CPointer], False),
     (''CallIntMethod'', CInt, [CPointer, CPointer, CPointer], True),
     (''CallIntMethodV'', CInt, [CPointer, CPointer, CPointer, CVaList], False),
     (''CallIntMethodA'', CInt, [CPointer, CPointer, CPointer, CPointer], False),
     (''CallLongMethod'', CLong, [CPointer, CPointer, CPointer], True),
     (''CallLongMethodV'', CLong, [CPointer, CPointer, CPointer, CVaList], False),
     (''CallLongMethodA'', CLong, [CPointer, CPointer, CPointer, CPointer], False),
     (''CallFloatMethod'', CFloat, [CPointer, CPointer, CPointer], True),
     (''CallFloatMethodV'', CFloat, [CPointer, CPointer, CPointer, CVaList], False),
     (''CallFloatMethodA'', CFloat, [CPointer, CPointer, CPointer, CPointer], False),
     (''CallDoubleMethod'', CDouble, [CPointer, CPointer, CPointer], True),
     (''CallDoubleMethodV'', CDouble, [CPointer, CPointer, CPointer, CVaList], False),
     (''CallDoubleMethodA'', CDouble, [CPointer, CPointer, CPointer, CPointer], False),
     (''CallVoidMethod'', CVoid, [CPointer, CPointer, CPointer], True),
     (''CallVoidMethodV'', CVoid, [CPointer, CPointer, CPointer, CVaList], False),
     (''CallVoidMethodA'', CVoid, [CPointer, CPointer, CPointer, CPointer], False)]"

definition jni_signatures_nonvirtual :: "jni_signature list" where
  "jni_signatures_nonvirtual =
    [(''CallNonvirtualObjectMethod'', CPointer, [CPointer, CPointer, CPointer, CPointer], True),
     (''CallNonvirtualObjectMethodV'', CPointer, [CPointer, CPointer, CPointer, CPointer, CVaList], False),
     (''CallNonvirtualObjectMethodA'', CPointer, [CPointer, CPointer, CPointer, CPointer, CPointer], False),
     (''CallNonvirtualBooleanMethod'', CUnsignedChar, [CPointer, CPointer, CPointer, CPointer], True),
     (''CallNonvirtualBooleanMethodV'', CUnsignedChar, [CPointer, CPointer, CPointer, CPointer, CVaList], False),
     (''CallNonvirtualBooleanMethodA'', CUnsignedChar, [CPointer, CPointer, CPointer, CPointer, CPointer], False),
     (''CallNonvirtualByteMethod'', CSignedChar, [CPointer, CPointer, CPointer, CPointer], True),
     (''CallNonvirtualByteMethodV'', CSignedChar, [CPointer, CPointer, CPointer, CPointer, CVaList], False),
     (''CallNonvirtualByteMethodA'', CSignedChar, [CPointer, CPointer, CPointer, CPointer, CPointer], False),
     (''CallNonvirtualCharMethod'', CUnsignedShort, [CPointer, CPointer, CPointer, CPointer], True),
     (''CallNonvirtualCharMethodV'', CUnsignedShort, [CPointer, CPointer, CPointer, CPointer, CVaList], False),
     (''CallNonvirtualCharMethodA'', CUnsignedShort, [CPointer, CPointer, CPointer, CPointer, CPointer], False),
     (''CallNonvirtualShortMethod'', CShort, [CPointer, CPointer, CPointer, CPointer], True),
     (''CallNonvirtualShortMethodV'', CShort, [CPointer, CPointer, CPointer, CPointer, CVaList], False),
     (''CallNonvirtualShortMethodA'', CShort, [CPointer, CPointer, CPointer, CPointer, CPointer], False),
     (''CallNonvirtualIntMethod'', CInt, [CPointer, CPointer, CPointer, CPointer], True),
     (''CallNonvirtualIntMethodV'', CInt, [CPointer, CPointer, CPointer, CPointer, CVaList], False),
     (''CallNonvirtualIntMethodA'', CInt, [CPointer, CPointer, CPointer, CPointer, CPointer], False),
     (''CallNonvirtualLongMethod'', CLong, [CPointer, CPointer, CPointer, CPointer], True),
     (''CallNonvirtualLongMethodV'', CLong, [CPointer, CPointer, CPointer, CPointer, CVaList], False),
     (''CallNonvirtualLongMethodA'', CLong, [CPointer, CPointer, CPointer, CPointer, CPointer], False),
     (''CallNonvirtualFloatMethod'', CFloat, [CPointer, CPointer, CPointer, CPointer], True),
     (''CallNonvirtualFloatMethodV'', CFloat, [CPointer, CPointer, CPointer, CPointer, CVaList], False),
     (''CallNonvirtualFloatMethodA'', CFloat, [CPointer, CPointer, CPointer, CPointer, CPointer], False),
     (''CallNonvirtualDoubleMethod'', CDouble, [CPointer, CPointer, CPointer, CPointer], True),
     (''CallNonvirtualDoubleMethodV'', CDouble, [CPointer, CPointer, CPointer, CPointer, CVaList], False),
     (''CallNonvirtualDoubleMethodA'', CDouble, [CPointer, CPointer, CPointer, CPointer, CPointer], False),
     (''CallNonvirtualVoidMethod'', CVoid, [CPointer, CPointer, CPointer, CPointer], True),
     (''CallNonvirtualVoidMethodV'', CVoid, [CPointer, CPointer, CPointer, CPointer, CVaList], False),
     (''CallNonvirtualVoidMethodA'', CVoid, [CPointer, CPointer, CPointer, CPointer, CPointer], False),
     (''GetFieldID'', CPointer, [CPointer, CPointer, CPointer, CPointer], False),
     (''GetObjectField'', CPointer, [CPointer, CPointer, CPointer], False),
     (''GetBooleanField'', CUnsignedChar, [CPointer, CPointer, CPointer], False),
     (''GetByteField'', CSignedChar, [CPointer, CPointer, CPointer], False),
     (''GetCharField'', CUnsignedShort, [CPointer, CPointer, CPointer], False),
     (''GetShortField'', CShort, [CPointer, CPointer, CPointer], False),
     (''GetIntField'', CInt, [CPointer, CPointer, CPointer], False),
     (''GetLongField'', CLong, [CPointer, CPointer, CPointer], False),
     (''GetFloatField'', CFloat, [CPointer, CPointer, CPointer], False),
     (''GetDoubleField'', CDouble, [CPointer, CPointer, CPointer], False),
     (''SetObjectField'', CVoid, [CPointer, CPointer, CPointer, CPointer], False),
     (''SetBooleanField'', CVoid, [CPointer, CPointer, CPointer, CUnsignedChar], False),
     (''SetByteField'', CVoid, [CPointer, CPointer, CPointer, CSignedChar], False),
     (''SetCharField'', CVoid, [CPointer, CPointer, CPointer, CUnsignedShort], False),
     (''SetShortField'', CVoid, [CPointer, CPointer, CPointer, CShort], False),
     (''SetIntField'', CVoid, [CPointer, CPointer, CPointer, CInt], False),
     (''SetLongField'', CVoid, [CPointer, CPointer, CPointer, CLong], False),
     (''SetFloatField'', CVoid, [CPointer, CPointer, CPointer, CFloat], False),
     (''SetDoubleField'', CVoid, [CPointer, CPointer, CPointer, CDouble], False)]"

definition jni_signatures_static :: "jni_signature list" where
  "jni_signatures_static =
    [(''GetStaticMethodID'', CPointer, [CPointer, CPointer, CPointer, CPointer], False),
     (''CallStaticObjectMethod'', CPointer, [CPointer, CPointer, CPointer], True),
     (''CallStaticObjectMethodV'', CPointer, [CPointer, CPointer, CPointer, CVaList], False),
     (''CallStaticObjectMethodA'', CPointer, [CPointer, CPointer, CPointer, CPointer], False),
     (''CallStaticBooleanMethod'', CUnsignedChar, [CPointer, CPointer, CPointer], True),
     (''CallStaticBooleanMethodV'', CUnsignedChar, [CPointer, CPointer, CPointer, CVaList], False),
     (''CallStaticBooleanMethodA'', CUnsignedChar, [CPointer, CPointer, CPointer, CPointer], False),
     (''CallStaticByteMethod'', CSignedChar, [CPointer, CPointer, CPointer], True),
     (''CallStaticByteMethodV'', CSignedChar, [CPointer, CPointer, CPointer, CVaList], False),
     (''CallStaticByteMethodA'', CSignedChar, [CPointer, CPointer, CPointer, CPointer], False),
     (''CallStaticCharMethod'', CUnsignedShort, [CPointer, CPointer, CPointer], True),
     (''CallStaticCharMethodV'', CUnsignedShort, [CPointer, CPointer, CPointer, CVaList], False),
     (''CallStaticCharMethodA'', CUnsignedShort, [CPointer, CPointer, CPointer, CPointer], False),
     (''CallStaticShortMethod'', CShort, [CPointer, CPointer, CPointer], True),
     (''CallStaticShortMethodV'', CShort, [CPointer, CPointer, CPointer, CVaList], False),
     (''CallStaticShortMethodA'', CShort, [CPointer, CPointer, CPointer, CPointer], False),
     (''CallStaticIntMethod'', CInt, [CPointer, CPointer, CPointer], True),
     (''CallStaticIntMethodV'', CInt, [CPointer, CPointer, CPointer, CVaList], False),
     (''CallStaticIntMethodA'', CInt, [CPointer, CPointer, CPointer, CPointer], False),
     (''CallStaticLongMethod'', CLong, [CPointer, CPointer, CPointer], True),
     (''CallStaticLongMethodV'', CLong, [CPointer, CPointer, CPointer, CVaList], False),
     (''CallStaticLongMethodA'', CLong, [CPointer, CPointer, CPointer, CPointer], False),
     (''CallStaticFloatMethod'', CFloat, [CPointer, CPointer, CPointer], True),
     (''CallStaticFloatMethodV'', CFloat, [CPointer, CPointer, CPointer, CVaList], False),
     (''CallStaticFloatMethodA'', CFloat, [CPointer, CPointer, CPointer, CPointer], False),
     (''CallStaticDoubleMethod'', CDouble, [CPointer, CPointer, CPointer], True),
     (''CallStaticDoubleMethodV'', CDouble, [CPointer, CPointer, CPointer, CVaList], False),
     (''CallStaticDoubleMethodA'', CDouble, [CPointer, CPointer, CPointer, CPointer], False),
     (''CallStaticVoidMethod'', CVoid, [CPointer, CPointer, CPointer], True),
     (''CallStaticVoidMethodV'', CVoid, [CPointer, CPointer, CPointer, CVaList], False),
     (''CallStaticVoidMethodA'', CVoid, [CPointer, CPointer, CPointer, CPointer], False),
     (''GetStaticFieldID'', CPointer, [CPointer, CPointer, CPointer, CPointer], False),
     (''GetStaticObjectField'', CPointer, [CPointer, CPointer, CPointer], False),
     (''GetStaticBooleanField'', CUnsignedChar, [CPointer, CPointer, CPointer], False),
     (''GetStaticByteField'', CSignedChar, [CPointer, CPointer, CPointer], False),
     (''GetStaticCharField'', CUnsignedShort, [CPointer, CPointer, CPointer], False),
     (''GetStaticShortField'', CShort, [CPointer, CPointer, CPointer], False),
     (''GetStaticIntField'', CInt, [CPointer, CPointer, CPointer], False),
     (''GetStaticLongField'', CLong, [CPointer, CPointer, CPointer], False),
     (''GetStaticFloatField'', CFloat, [CPointer, CPointer, CPointer], False),
     (''GetStaticDoubleField'', CDouble, [CPointer, CPointer, CPointer], False),
     (''SetStaticObjectField'', CVoid, [CPointer, CPointer, CPointer, CPointer], False),
     (''SetStaticBooleanField'', CVoid, [CPointer, CPointer, CPointer, CUnsignedChar], False),
     (''SetStaticByteField'', CVoid, [CPointer, CPointer, CPointer, CSignedChar], False),
     (''SetStaticCharField'', CVoid, [CPointer, CPointer, CPointer, CUnsignedShort], False),
     (''SetStaticShortField'', CVoid, [CPointer, CPointer, CPointer, CShort], False),
     (''SetStaticIntField'', CVoid, [CPointer, CPointer, CPointer, CInt], False),
     (''SetStaticLongField'', CVoid, [CPointer, CPointer, CPointer, CLong], False),
     (''SetStaticFloatField'', CVoid, [CPointer, CPointer, CPointer, CFloat], False),
     (''SetStaticDoubleField'', CVoid, [CPointer, CPointer, CPointer, CDouble], False)]"

definition jni_signatures_data :: "jni_signature list" where
  "jni_signatures_data =
    [(''NewString'', CPointer, [CPointer, CPointer, CInt], False),
     (''GetStringLength'', CInt, [CPointer, CPointer], False),
     (''GetStringChars'', CPointer, [CPointer, CPointer, CPointer], False),
     (''ReleaseStringChars'', CVoid, [CPointer, CPointer, CPointer], False),
     (''NewStringUTF'', CPointer, [CPointer, CPointer], False),
     (''GetStringUTFLength'', CInt, [CPointer, CPointer], False),
     (''GetStringUTFChars'', CPointer, [CPointer, CPointer, CPointer], False),
     (''ReleaseStringUTFChars'', CVoid, [CPointer, CPointer, CPointer], False),
     (''GetArrayLength'', CInt, [CPointer, CPointer], False),
     (''NewObjectArray'', CPointer, [CPointer, CInt, CPointer, CPointer], False),
     (''GetObjectArrayElement'', CPointer, [CPointer, CPointer, CInt], False),
     (''SetObjectArrayElement'', CVoid, [CPointer, CPointer, CInt, CPointer], False),
     (''NewBooleanArray'', CPointer, [CPointer, CInt], False),
     (''NewByteArray'', CPointer, [CPointer, CInt], False),
     (''NewCharArray'', CPointer, [CPointer, CInt], False),
     (''NewShortArray'', CPointer, [CPointer, CInt], False),
     (''NewIntArray'', CPointer, [CPointer, CInt], False),
     (''NewLongArray'', CPointer, [CPointer, CInt], False),
     (''NewFloatArray'', CPointer, [CPointer, CInt], False),
     (''NewDoubleArray'', CPointer, [CPointer, CInt], False),
     (''GetBooleanArrayElements'', CPointer, [CPointer, CPointer, CPointer], False),
     (''GetByteArrayElements'', CPointer, [CPointer, CPointer, CPointer], False),
     (''GetCharArrayElements'', CPointer, [CPointer, CPointer, CPointer], False),
     (''GetShortArrayElements'', CPointer, [CPointer, CPointer, CPointer], False),
     (''GetIntArrayElements'', CPointer, [CPointer, CPointer, CPointer], False),
     (''GetLongArrayElements'', CPointer, [CPointer, CPointer, CPointer], False),
     (''GetFloatArrayElements'', CPointer, [CPointer, CPointer, CPointer], False),
     (''GetDoubleArrayElements'', CPointer, [CPointer, CPointer, CPointer], False),
     (''ReleaseBooleanArrayElements'', CVoid, [CPointer, CPointer, CPointer, CInt], False),
     (''ReleaseByteArrayElements'', CVoid, [CPointer, CPointer, CPointer, CInt], False),
     (''ReleaseCharArrayElements'', CVoid, [CPointer, CPointer, CPointer, CInt], False),
     (''ReleaseShortArrayElements'', CVoid, [CPointer, CPointer, CPointer, CInt], False),
     (''ReleaseIntArrayElements'', CVoid, [CPointer, CPointer, CPointer, CInt], False),
     (''ReleaseLongArrayElements'', CVoid, [CPointer, CPointer, CPointer, CInt], False),
     (''ReleaseFloatArrayElements'', CVoid, [CPointer, CPointer, CPointer, CInt], False),
     (''ReleaseDoubleArrayElements'', CVoid, [CPointer, CPointer, CPointer, CInt], False),
     (''GetBooleanArrayRegion'', CVoid, [CPointer, CPointer, CInt, CInt, CPointer], False),
     (''GetByteArrayRegion'', CVoid, [CPointer, CPointer, CInt, CInt, CPointer], False),
     (''GetCharArrayRegion'', CVoid, [CPointer, CPointer, CInt, CInt, CPointer], False),
     (''GetShortArrayRegion'', CVoid, [CPointer, CPointer, CInt, CInt, CPointer], False),
     (''GetIntArrayRegion'', CVoid, [CPointer, CPointer, CInt, CInt, CPointer], False),
     (''GetLongArrayRegion'', CVoid, [CPointer, CPointer, CInt, CInt, CPointer], False),
     (''GetFloatArrayRegion'', CVoid, [CPointer, CPointer, CInt, CInt, CPointer], False),
     (''GetDoubleArrayRegion'', CVoid, [CPointer, CPointer, CInt, CInt, CPointer], False),
     (''SetBooleanArrayRegion'', CVoid, [CPointer, CPointer, CInt, CInt, CPointer], False),
     (''SetByteArrayRegion'', CVoid, [CPointer, CPointer, CInt, CInt, CPointer], False),
     (''SetCharArrayRegion'', CVoid, [CPointer, CPointer, CInt, CInt, CPointer], False),
     (''SetShortArrayRegion'', CVoid, [CPointer, CPointer, CInt, CInt, CPointer], False),
     (''SetIntArrayRegion'', CVoid, [CPointer, CPointer, CInt, CInt, CPointer], False),
     (''SetLongArrayRegion'', CVoid, [CPointer, CPointer, CInt, CInt, CPointer], False),
     (''SetFloatArrayRegion'', CVoid, [CPointer, CPointer, CInt, CInt, CPointer], False),
     (''SetDoubleArrayRegion'', CVoid, [CPointer, CPointer, CInt, CInt, CPointer], False),
     (''RegisterNatives'', CInt, [CPointer, CPointer, CPointer, CInt], False),
     (''UnregisterNatives'', CInt, [CPointer, CPointer], False),
     (''MonitorEnter'', CInt, [CPointer, CPointer], False),
     (''MonitorExit'', CInt, [CPointer, CPointer], False),
     (''GetJavaVM'', CInt, [CPointer, CPointer], False),
     (''GetStringRegion'', CVoid, [CPointer, CPointer, CInt, CInt, CPointer], False),
     (''GetStringUTFRegion'', CVoid, [CPointer, CPointer, CInt, CInt, CPointer], False),
     (''GetPrimitiveArrayCritical'', CPointer, [CPointer, CPointer, CPointer], False),
     (''ReleasePrimitiveArrayCritical'', CVoid, [CPointer, CPointer, CPointer, CInt], False),
     (''GetStringCritical'', CPointer, [CPointer, CPointer, CPointer], False),
     (''ReleaseStringCritical'', CVoid, [CPointer, CPointer, CPointer], False),
     (''NewWeakGlobalRef'', CPointer, [CPointer, CPointer], False),
     (''DeleteWeakGlobalRef'', CVoid, [CPointer, CPointer], False),
     (''ExceptionCheck'', CUnsignedChar, [CPointer], False),
     (''NewDirectByteBuffer'', CPointer, [CPointer, CPointer, CLong], False),
     (''GetDirectBufferAddress'', CPointer, [CPointer, CPointer], False),
     (''GetDirectBufferCapacity'', CLong, [CPointer, CPointer], False)]"

definition jni_signatures :: "jni_signature list" where
  "jni_signatures = jni_signatures_objects @ jni_signatures_nonvirtual @ jni_signatures_static @
     jni_signatures_data"

text \<open>The names of the slots, in the order of the initialiser lists.\<close>

definition jni_env_names_instance :: "string list" where
  "jni_env_names_instance =
    [''unused0'', ''unused1'', ''unused2'', ''unused3'', ''GetVersion'', ''DefineClass'',
     ''FindClass'', ''FromReflectedMethod'', ''FromReflectedField'',
     ''ToReflectedMethod'', ''GetSuperclass'', ''IsAssignableFrom'', ''ToReflectedField'',
     ''Throw'', ''ThrowNew'', ''ExceptionOccurred'', ''ExceptionDescribe'',
     ''ExceptionClear'', ''FatalError'', ''PushLocalFrame'', ''PopLocalFrame'',
     ''NewGlobalRef'', ''DeleteGlobalRef'', ''DeleteLocalRef'', ''IsSameObject'',
     ''NewLocalRef'', ''EnsureLocalCapacity'', ''AllocObject'', ''NewObject'',
     ''NewObjectV'', ''NewObjectA'', ''GetObjectClass'', ''IsInstanceOf'',
     ''GetMethodID'', ''CallObjectMethod'', ''CallObjectMethodV'', ''CallObjectMethodA'',
     ''CallBooleanMethod'', ''CallBooleanMethodV'', ''CallBooleanMethodA'',
     ''CallByteMethod'', ''CallByteMethodV'', ''CallByteMethodA'', ''CallCharMethod'',
     ''CallCharMethodV'', ''CallCharMethodA'', ''CallShortMethod'', ''CallShortMethodV'',
     ''CallShortMethodA'', ''CallIntMethod'', ''CallIntMethodV'', ''CallIntMethodA'',
     ''CallLongMethod'', ''CallLongMethodV'', ''CallLongMethodA'', ''CallFloatMethod'',
     ''CallFloatMethodV'', ''CallFloatMethodA'', ''CallDoubleMethod'',
     ''CallDoubleMethodV'', ''CallDoubleMethodA'', ''CallVoidMethod'',
     ''CallVoidMethodV'', ''CallVoidMethodA'', ''CallNonvirtualObjectMethod'',
     ''CallNonvirtualObjectMethodV'', ''CallNonvirtualObjectMethodA'',
     ''CallNonvirtualBooleanMethod'', ''CallNonvirtualBooleanMethodV'',
     ''CallNonvirtualBooleanMethodA'', ''CallNonvirtualByteMethod'',
     ''CallNonvirtualByteMethodV'', ''CallNonvirtualByteMethodA'',
     ''CallNonvirtualCharMethod'', ''CallNonvirtualCharMethodV'',
     ''CallNonvirtualCharMethodA'', ''CallNonvirtualShortMethod'',
     ''CallNonvirtualShortMethodV'', ''CallNonvirtualShortMethodA'',
     ''CallNonvirtualIntMethod'', ''CallNonvirtualIntMethodV'',
     ''CallNonvirtualIntMethodA'', ''CallNonvirtualLongMethod'',
     ''CallNonvirtualLongMethodV'', ''CallNonvirtualLongMethodA'',
     ''CallNonvirtualFloatMethod'', ''CallNonvirtualFloatMethodV'',
     ''CallNonvirtualFloatMethodA'', ''CallNonvirtualDoubleMethod'',
     ''CallNonvirtualDoubleMethodV'', ''CallNonvirtualDoubleMethodA'',
     ''CallNonvirtualVoidMethod'', ''CallNonvirtualVoidMethodV'',
     ''CallNonvirtualVoidMethodA'', ''GetFieldID'', ''GetObjectField'',
     ''GetBooleanField'', ''GetByteField'', ''GetCharField'', ''GetShortField'',
     ''GetIntField'', ''GetLongField'', ''GetFloatField'', ''GetDoubleField'',
     ''SetObjectField'', ''SetBooleanField'', ''SetByteField'', ''SetCharField'',
     ''SetShortField'', ''SetIntField'', ''SetLongField'', ''SetFloatField'',
     ''SetDoubleField'', ''GetStaticMethodID'']"

definition jni_env_names_static :: "string list" where
  "jni_env_names_static =
    [''CallStaticObjectMethod'', ''CallStaticObjectMethodV'', ''CallStaticObjectMethodA'',
     ''CallStaticBooleanMethod'', ''CallStaticBooleanMethodV'',
     ''CallStaticBooleanMethodA'', ''CallStaticByteMethod'', ''CallStaticByteMethodV'',
     ''CallStaticByteMethodA'', ''CallStaticCharMethod'', ''CallStaticCharMethodV'',
     ''CallStaticCharMethodA'', ''CallStaticShortMethod'', ''CallStaticShortMethodV'',
     ''CallStaticShortMethodA'', ''CallStaticIntMethod'', ''CallStaticIntMethodV'',
     ''CallStaticIntMethodA'', ''CallStaticLongMethod'', ''CallStaticLongMethodV'',
     ''CallStaticLongMethodA'', ''CallStaticFloatMethod'', ''CallStaticFloatMethodV'',
     ''CallStaticFloatMethodA'', ''CallStaticDoubleMethod'', ''CallStaticDoubleMethodV'',
     ''CallStaticDoubleMethodA'', ''CallStaticVoidMethod'', ''CallStaticVoidMethodV'',
     ''CallStaticVoidMethodA'', ''GetStaticFieldID'', ''GetStaticObjectField'',
     ''GetStaticBooleanField'', ''GetStaticByteField'', ''GetStaticCharField'',
     ''GetStaticShortField'', ''GetStaticIntField'', ''GetStaticLongField'',
     ''GetStaticFloatField'', ''GetStaticDoubleField'', ''SetStaticObjectField'',
     ''SetStaticBooleanField'', ''SetStaticByteField'', ''SetStaticCharField'',
     ''SetStaticShortField'', ''SetStaticIntField'', ''SetStaticLongField'',
     ''SetStaticFloatField'', ''SetStaticDoubleField'', ''NewString'',
     ''GetStringLength'', ''GetStringChars'', ''ReleaseStringChars'', ''NewStringUTF'',
     ''GetStringUTFLength'', ''GetStringUTFChars'', ''ReleaseStringUTFChars'',
     ''GetArrayLength'', ''NewObjectArray'', ''GetObjectArrayElement'',
     ''SetObjectArrayElement'', ''NewBooleanArray'', ''NewByteArray'', ''NewCharArray'',
     ''NewShortArray'', ''NewIntArray'', ''NewLongArray'', ''NewFloatArray'',
     ''NewDoubleArray'', ''GetBooleanArrayElements'', ''GetByteArrayElements'',
     ''GetCharArrayElements'', ''GetShortArrayElements'', ''GetIntArrayElements'',
     ''GetLongArrayElements'', ''GetFloatArrayElements'', ''GetDoubleArrayElements'',
     ''ReleaseBooleanArrayElements'', ''ReleaseByteArrayElements'',
     ''ReleaseCharArrayElements'', ''ReleaseShortArrayElements'',
     ''ReleaseIntArrayElements'', ''ReleaseLongArrayElements'',
     ''ReleaseFloatArrayElements'', ''ReleaseDoubleArrayElements'',
     ''GetBooleanArrayRegion'', ''GetByteArrayRegion'', ''GetCharArrayRegion'',
     ''GetShortArrayRegion'', ''GetIntArrayRegion'', ''GetLongArrayRegion'',
     ''GetFloatArrayRegion'', ''GetDoubleArrayRegion'', ''SetBooleanArrayRegion'',
     ''SetByteArrayRegion'', ''SetCharArrayRegion'', ''SetShortArrayRegion'',
     ''SetIntArrayRegion'', ''SetLongArrayRegion'', ''SetFloatArrayRegion'',
     ''SetDoubleArrayRegion'', ''RegisterNatives'', ''UnregisterNatives'',
     ''MonitorEnter'', ''MonitorExit'', ''GetJavaVM'', ''GetStringRegion'',
     ''GetStringUTFRegion'', ''GetPrimitiveArrayCritical'',
     ''ReleasePrimitiveArrayCritical'', ''GetStringCritical'', ''ReleaseStringCritical'',
     ''NewWeakGlobalRef'', ''DeleteWeakGlobalRef'', ''ExceptionCheck'',
     ''NewDirectByteBuffer'', ''GetDirectBufferAddress'', ''GetDirectBufferCapacity'']"

definition jni_invocation_names :: "string list" where
  "jni_invocation_names =
    [''unused0'', ''unused1'', ''unused2'', ''DestroyJavaVM'', ''AttachCurrentThread'',
     ''DetachCurrentThread'', ''GetEnv'', ''AttachCurrentAsDaemon'']"

definition jni_env_names :: "string list" where
  "jni_env_names = jni_env_names_instance @ jni_env_names_static"

text \<open>
  The constructor of \<^verbatim>\<open>dynamic_symbol\<close> that a table entry selects: the data constructor for the
  reserved null slots, the (ellipsis) function constructor otherwise.  The declarations come in
  the order of the slots (\<open>jni_slots_declared\<close> below), so slots and signatures are paired by position.
\<close>

definition jni_symbol :: "(string \<Rightarrow> u64) \<Rightarrow> string \<times> jni_signature option \<Rightarrow> dynamic_symbol" where
  "jni_symbol addr slot =
     (case slot of
        (name, None) \<Rightarrow> dynamic_symbol_data name 0
      | (name, Some (_, ret, params, ell)) \<Rightarrow>
          (if ell then dynamic_symbol_ellipsis name (addr name) ret params
           else dynamic_symbol_function name (addr name) ret params))"

definition jni_env_slots :: "(string \<times> jni_signature option) list" where
  "jni_env_slots = zip jni_env_names (replicate 4 None @ map Some jni_signatures)"

definition jni_env_syms :: "(string \<Rightarrow> u64) \<Rightarrow> dynamic_symbol list" where
  "jni_env_syms addr = map (jni_symbol addr) jni_env_slots"

definition jni_invocation_slots :: "(string \<times> jni_signature option) list" where
  "jni_invocation_slots =
     map (\<lambda>n. (n, find (\<lambda>sig. fst sig = n) invocation_signatures)) jni_invocation_names"

definition jni_invocation_interface_syms :: "(string \<Rightarrow> u64) \<Rightarrow> dynamic_symbol list" where
  "jni_invocation_interface_syms addr = map (jni_symbol addr) jni_invocation_slots"

section \<open>Unimplemented functions\<close>

text \<open>Functions whose body is a failing assertion, with its text.\<close>

definition unimplemented_objects :: "(string \<times> string) list" where
  "unimplemented_objects =
    [(''DestroyJavaVM'', ''UNIMPLEMENTED DestroyJavaVM''),
     (''AttachCurrentAsDaemon'', ''UNIMPLEMENTED AttachCurrentAsDaemon''),
     (''DefineClass'', ''UNIMPLEMENTED DefineClass''),
     (''FromReflectedMethod'', ''UNIMPLEMENTED FromReflectedMethod''),
     (''FromReflectedField'', ''UNIMPLEMENTED FromReflectedField''),
     (''ToReflectedMethod'', ''UNIMPLEMENTED ToReflectedMethod''),
     (''GetSuperclass'', ''UNIMPLEMENTED GetSuperclass''),
     (''IsAssignableFrom'', ''UNIMPLEMENTED IsAssignableFrom''),
     (''ToReflectedField'', ''UNIMPLEMENTED ToReflectedField''),
     (''Throw'', ''UNIMPLEMENTED Throw''),
     (''ThrowNew'', ''UNIMPLEMENTED ThrowNew''),
     (''FatalError'', ''UNIMPLEMENTED FatalError''),
     (''PushLocalFrame'', ''UNIMPLEMENTED PushLocalFrame''),
     (''PopLocalFrame'', ''UNIMPLEMENTED PopLocalFrame''),
     (''IsSameObject'', ''UNIMPLEMENTED IsSameObject''),
     (''NewLocalRef'', ''UNIMPLEMENTED NewLocalRef''),
     (''EnsureLocalCapacity'', ''UNIMPLEMENTED EnsureLocalCapacity''),
     (''AllocObject'', ''UNIMPLEMENTED AllocObject''),
     (''NewObject'', ''UNIMPLEMENTED NewObject''),
     (''NewObjectA'', ''UNIMPLEMENTED NewObjectA''),
     (''IsInstanceOf'', ''UNIMPLEMENTED IsInstanceOf''),
     (''SetObjectField'', ''UNIMPLEMENTED SetObjectField''),
     (''SetBooleanField'', ''UNIMPLEMENTED SetBooleanField''),
     (''SetByteField'', ''UNIMPLEMENTED SetByteField''),
     (''SetCharField'', ''UNIMPLEMENTED SetCharField''),
     (''SetShortField'', ''UNIMPLEMENTED SetShortField''),
     (''SetIntField'', ''UNIMPLEMENTED SetIntField''),
     (''SetLongField'', ''UNIMPLEMENTED SetLongField''),
     (''SetFloatField'', ''UNIMPLEMENTED SetFloatField''),
     (''SetDoubleField'', ''UNIMPLEMENTED SetDoubleField'')]"

definition unimplemented_data :: "(string \<times> string) list" where
  "unimplemented_data =
    [(''SetStaticObjectField'', ''UNIMPLEMENTED SetStaticObjectField''),
     (''SetStaticBooleanField'', ''UNIMPLEMENTED SetStaticBooleanField''),
     (''SetStaticByteField'', ''UNIMPLEMENTED SetStaticByteField''),
     (''SetStaticCharField'', ''UNIMPLEMENTED SetStaticCharField''),
     (''SetStaticShortField'', ''UNIMPLEMENTED SetStaticShortField''),
     (''SetStaticIntField'', ''UNIMPLEMENTED SetStaticIntField''),
     (''SetStaticLongField'', ''UNIMPLEMENTED SetStaticLongField''),
     (''SetStaticFloatField'', ''UNIMPLEMENTED SetStaticFloatField''),
     (''SetStaticDoubleField'', ''UNIMPLEMENTED SetStaticDoubleField''),
     (''NewString'', ''UNIMPLEMENTED NewString''),
     (''GetStringLength'', ''UNIMPLEMENTED GetStringLength''),
     (''GetStringChars'', ''UNIMPLEMENTED jchar''),
     (''ReleaseStringChars'', ''UNIMPLEMENTED ReleaseStringChars''),
     (''RegisterNatives'', ''UNIMPLEMENTED RegisterNatives''),
     (''UnregisterNatives'', ''UNIMPLEMENTED UnregisterNatives''),
     (''MonitorEnter'', ''UNIMPLEMENTED MonitorEnter''),
     (''MonitorExit'', ''UNIMPLEMENTED MonitorExit''),
     (''GetJavaVM'', ''UNIMPLEMENTED GetJavaVM''),
     (''GetStringRegion'', ''UNIMPLEMENTED GetStringRegion''),
     (''GetStringUTFRegion'', ''UNIMPLEMENTED GetStringUTFRegion''),
     (''GetPrimitiveArrayCritical'', ''UNIMPLEMENTED void''),
     (''ReleasePrimitiveArrayCritical'', ''UNIMPLEMENTED ReleasePrimitiveArrayCritical''),
     (''GetStringCritical'', ''UNIMPLEMENTED jchar''),
     (''ReleaseStringCritical'', ''UNIMPLEMENTED ReleaseStringCritical''),
     (''NewDirectByteBuffer'', ''UNIMPLEMENTED NewDirectByteBuffer''),
     (''GetDirectBufferAddress'', ''UNIMPLEMENTED void''),
     (''GetDirectBufferCapacity'', ''UNIMPLEMENTED GetDirectBufferCapacity'')]"

definition jni_unimplemented :: "string \<Rightarrow> 'a result option" where
  "jni_unimplemented name =
     (case map_of (unimplemented_objects @ unimplemented_data) name of
        None \<Rightarrow> None
      | Some msg \<Rightarrow> Some (Inl (Assert_failure msg)))"

section \<open>The documented layout\<close>

text \<open>
  The interface function table of the JNI specification, generated from its regular structure:
  ten result types in three call forms for each of three dispatch kinds, nine field types, eight
  array types.
\<close>

definition spec_field_types :: "string list" where
  "spec_field_types = [''Object'', ''Boolean'', ''Byte'', ''Char'', ''Short'', ''Int'', ''Long'',
     ''Float'', ''Double'']"

definition spec_calls :: "string \<Rightarrow> string list" where
  "spec_calls kind =
     concat (map (\<lambda>ty. map (\<lambda>form. ''Call'' @ kind @ ty @ ''Method'' @ form) [[], ''V'', ''A''])
       (spec_field_types @ [''Void'']))"

definition spec_array_ops :: "string \<Rightarrow> string \<Rightarrow> string list" where
  "spec_array_ops pre post = map (\<lambda>ty. pre @ ty @ ''Array'' @ post) (tl spec_field_types)"

definition spec_fields :: "string \<Rightarrow> string list" where
  "spec_fields pre = map (\<lambda>ty. pre @ ty @ ''Field'') spec_field_types"

definition spec_interface_table :: "string list" where
  "spec_interface_table =
     [''unused0'', ''unused1'', ''unused2'', ''unused3'', ''GetVersion'', ''DefineClass'',
      ''FindClass'', ''FromReflectedMethod'', ''FromReflectedField'', ''ToReflectedMethod'',
      ''GetSuperclass'', ''IsAssignableFrom'', ''ToReflectedField'', ''Throw'', ''ThrowNew'',
      ''ExceptionOccurred'', ''ExceptionDescribe'', ''ExceptionClear'', ''FatalError'',
      ''PushLocalFrame'', ''PopLocalFrame'', ''NewGlobalRef'', ''DeleteGlobalRef'',
      ''DeleteLocalRef'', ''IsSameObject'', ''NewLocalRef'', ''EnsureLocalCapacity'',
      ''AllocObject'', ''NewObject'', ''NewObjectV'', ''NewObjectA'', ''GetObjectClass'',
      ''IsInstanceOf'', ''GetMethodID''] @
     spec_calls [] @ spec_calls ''Nonvirtual'' @
     [''GetFieldID''] @ spec_fields ''Get'' @ spec_fields ''Set'' @
     [''GetStaticMethodID''] @ spec_calls ''Static'' @
     [''GetStaticFieldID''] @ spec_fields ''GetStatic'' @ spec_fields ''SetStatic'' @
     [''NewString'', ''GetStringLength'', ''GetStringChars'', ''ReleaseStringChars'',
      ''NewStringUTF'', ''GetStringUTFLength'', ''GetStringUTFChars'', ''ReleaseStringUTFChars'',
      ''GetArrayLength'', ''NewObjectArray'', ''GetObjectArrayElement'',
      ''SetObjectArrayElement''] @
     spec_array_ops ''New'' [] @ spec_array_ops ''Get'' ''Elements'' @
     spec_array_ops ''Release'' ''Elements'' @ spec_array_ops ''Get'' ''Region'' @
     spec_array_ops ''Set'' ''Region'' @
     [''RegisterNatives'', ''UnregisterNatives'', ''MonitorEnter'', ''MonitorExit'',
      ''GetJavaVM'', ''GetStringRegion'', ''GetStringUTFRegion'', ''GetPrimitiveArrayCritical'',
      ''ReleasePrimitiveArrayCritical'', ''GetStringCritical'', ''ReleaseStringCritical'',
      ''NewWeakGlobalRef'', ''DeleteWeakGlobalRef'', ''ExceptionCheck'', ''NewDirectByteBuffer'',
      ''GetDirectBufferAddress'', ''GetDirectBufferCapacity'']"

section \<open>Slots and signatures\<close>

lemma jni_env_names_layout: "jni_env_names = spec_interface_table"
  by code_simp

lemma jni_slots_declared:
  "list_all (\<lambda>(n, sig). case sig of None \<Rightarrow> True | Some (m, _) \<Rightarrow> m = n)
     (jni_env_slots @ jni_invocation_slots)"
  by code_simp

lemma jni_slot_counts:
  "length jni_env_names = 232" "length jni_env_slots = 232" "length jni_invocation_slots = 8"
  "length (filter (\<lambda>(n, sig). sig \<noteq> None) jni_env_slots) = 228"
  "length (filter (\<lambda>(n, sig). sig \<noteq> None) jni_invocation_slots) = 5"
  by code_simp+

lemma jni_slot_names: "map fst jni_env_slots = jni_env_names"
  by (simp add: jni_env_slots_def jni_slot_counts(1)) code_simp

definition marshallable :: "FunctionArgumentType \<Rightarrow> bool" where
  "marshallable ty \<longleftrightarrow> is_int_class ty \<or> function_argument_is_float ty \<or> ty = variadic_list"

definition returnable :: "FunctionArgumentType \<Rightarrow> bool" where
  "returnable ty \<longleftrightarrow> ty = none \<or> is_int_class ty \<or> function_argument_is_float ty"

definition supported_signature :: "jni_signature \<Rightarrow> bool" where
  "supported_signature sig =
     (case sig of (n, ret, params, ell) \<Rightarrow>
        returnable (get_argument_type ret) \<and> list_all (\<lambda>p. marshallable (get_argument_type p)) params \<and>
        (CVaList \<in> set params \<longleftrightarrow> last n = CHR ''V'' \<and> last params = CVaList))"

lemma jni_signatures_supported: "list_all supported_signature (jni_signatures @ invocation_signatures)"
  by code_simp

lemma function_count_slots:
  "function_count (map (jni_symbol addr) slots) = length (filter (\<lambda>(n, sig). sig \<noteq> None) slots)"
  by (induction slots)
    (auto simp: jni_symbol_def is_function_symbol_def dynamic_symbol_data_def
      dynamic_symbol_ellipsis_def dynamic_symbol_function_def split: prod.splits option.splits)

lemma jni_function_count:
  "function_count (jni_env_syms addr) = 228" "function_count (jni_invocation_interface_syms addr) = 5"
  unfolding jni_env_syms_def jni_invocation_interface_syms_def function_count_slots
  by (rule jni_slot_counts)+

lemma jni_symbol_name: "sym_name (jni_symbol addr slot) = fst slot"
  by (auto simp: jni_symbol_def dynamic_symbol_data_def dynamic_symbol_ellipsis_def
      dynamic_symbol_function_def split: prod.splits option.splits)

lemma jni_symbol_function:
  "snd slot \<noteq> None \<Longrightarrow>
   is_function_symbol (jni_symbol addr slot) \<and> sym_value (jni_symbol addr slot) = addr (fst slot)"
  by (auto simp: jni_symbol_def is_function_symbol_def dynamic_symbol_ellipsis_def
      dynamic_symbol_function_def split: prod.splits option.splits)

lemma jni_env_slot:
  assumes "4 \<le> i" "i < 232"
  shows "fst (jni_env_slots ! i) = spec_interface_table ! i" "snd (jni_env_slots ! i) \<noteq> None"
proof -
  show "fst (jni_env_slots ! i) = spec_interface_table ! i"
    using assms(2) jni_slot_names jni_slot_counts(2) jni_env_names_layout by (metis nth_map)
  have len: "length jni_signatures = 228" by code_simp
  have "snd (jni_env_slots ! i) = (replicate 4 None @ map Some jni_signatures) ! i"
    using assms(2) len by (simp add: jni_env_slots_def jni_slot_counts(1))
  then show "snd (jni_env_slots ! i) \<noteq> None" using assms len by (simp add: nth_append)
qed

lemma slot_signature:
  assumes "(n, Some sig) \<in> set (jni_env_slots @ jni_invocation_slots)"
  shows "sig \<in> set (jni_signatures @ invocation_signatures) \<and> fst sig = n"
proof -
  have "case (n, Some sig) of (n, None) \<Rightarrow> True | (n, Some (m, _)) \<Rightarrow> m = n"
    using jni_slots_declared assms unfolding list_all_iff by (rule bspec)
  then have "fst sig = n" by (cases sig) simp
  moreover have "sig \<in> set jni_signatures" if "(n, Some sig) \<in> set jni_env_slots"
    using that by (auto simp: jni_env_slots_def dest: set_zip_rightD)
  moreover have "sig \<in> set invocation_signatures" if "(n, Some sig) \<in> set jni_invocation_slots"
    using that by (auto simp: jni_invocation_slots_def find_Some_iff2)
  ultimately show ?thesis using assms by auto
qed

text \<open>
  C38.  Every function of both JNI tables has a type the supervisor-call marshalling can handle:
  each parameter is an integer, a floating-point number or a \<^verbatim>\<open>va_list\<close>, the result is one of the
  former or nothing, and a \<^verbatim>\<open>va_list\<close> is taken exactly, as last parameter, by the functions whose
  name ends in \<open>V\<close>.
\<close>

theorem jni_table_types:
  "list_all (\<lambda>d. sym_arg_types d = [] \<or>
      (returnable (hd (sym_arg_types d)) \<and> list_all marshallable (tl (sym_arg_types d)) \<and>
       (variadic_list \<in> set (tl (sym_arg_types d)) \<longleftrightarrow>
          last (sym_name d) = CHR ''V'' \<and> last (sym_arg_types d) = variadic_list)))
    (jni_env_syms addr @ jni_invocation_interface_syms addr)"
proof -
  have "sym_arg_types (jni_symbol addr slot) = [] \<or>
      (returnable (hd (sym_arg_types (jni_symbol addr slot))) \<and>
       list_all marshallable (tl (sym_arg_types (jni_symbol addr slot))) \<and>
       (variadic_list \<in> set (tl (sym_arg_types (jni_symbol addr slot))) \<longleftrightarrow>
          last (sym_name (jni_symbol addr slot)) = CHR ''V'' \<and>
          last (sym_arg_types (jni_symbol addr slot)) = variadic_list))"
    if slot: "slot \<in> set (jni_env_slots @ jni_invocation_slots)" for slot
  proof (cases "snd slot")
    case None
    then show ?thesis
      by (cases slot) (simp add: jni_symbol_def dynamic_symbol_data_def)
  next
    case (Some sig)
    obtain n ret params ell where sig: "sig = (n, ret, params, ell)" by (cases sig)
    have n: "fst slot = n" "supported_signature sig"
      using slot_signature [of "fst slot" sig] slot Some sig jni_signatures_supported
      by (auto simp: list_all_iff simp del: set_append) (metis prod.collapse)+
    have va: "get_argument_type p = variadic_list \<longleftrightarrow> p = CVaList"
      "variadic_list = get_argument_type p \<longleftrightarrow> p = CVaList" for p
      by (cases p; auto)+
    have ty: "sym_arg_types (jni_symbol addr slot) = get_argument_type ret # map get_argument_type params"
      "sym_name (jni_symbol addr slot) = n"
      using Some sig n(1) by (cases slot; simp add: jni_symbol_def dynamic_symbol_ellipsis_def
          dynamic_symbol_function_def get_function_argument_types_def)+
    show ?thesis
      unfolding ty using n(2)
      by (auto simp: sig supported_signature_def list_all_iff last_map va image_iff
          returnable_def function_argument_is_float_def)
  qed
  then show ?thesis by (auto simp: jni_env_syms_def jni_invocation_interface_syms_def list_all_iff)
qed

section \<open>A new virtual machine\<close>

lemma java_vm_new_state:
  assumes "bind_symbols es ts = Inr (fs, ts1)" "bind_symbols is ts1 = Inr (gs, ts2)"
  shows "\<exists>s'. java_vm_new es is t (ts, initial_jni_state) = Inr (1, ts2, s') \<and>
    get_jni_env t s' = Some \<lparr>native_interface_functions = fs, env_vm = 1, has_exception = False\<rparr> \<and>
    FindClass t ''java/lang/String'' s' = Inr (string_class s') \<and>
    FindClass t ''java/util/List'' s' = Inr (list_class s') \<and>
    method_entry (string_class s') s' = [''getBytes'' \<mapsto> (Member, String_getBytes)] \<and>
    method_entry (list_class s') s' = [''get'' \<mapsto> (Member, List_get), ''size'' \<mapsto> (Member, List_size)]"
  using assms
  by (simp add: java_vm_new_def init_functions_def create_vm_def attach_thread_def create_class_def
      deref_vm_def initial_jni_state_def initial_thread_data_def new_object_def member_method_def
      class_add_method_def deref_class_def deref_def put_class_def set_class_part_def mk_Class_def
      get_jni_env_def FindClass_def method_entry_def fun_eq_iff Let_def)



end
