(* ===== verification/App_State.thy ===== *)
theory App_State
  imports Jni_Operations
begin

text \<open>
  \<^verbatim>\<open>src/src/app_state.cpp\<close> and the cookie handling of \<^verbatim>\<open>src/src/main.cpp\<close>: the directories of the
  program, the state of the user, and the cookie jar with its file format.  The environment
  (\<^verbatim>\<open>getenv\<close>) is an argument.
\<close>

section \<open>Paths\<close>

type_synonym path = string
type_synonym environment = "string \<Rightarrow> string option"

text \<open>
  \<^verbatim>\<open>operator/\<close> of \<^verbatim>\<open>std::filesystem::path\<close> on POSIX: an absolute right operand replaces the left
  one; otherwise a separator is added when the left operand ends in a file name.
\<close>

definition path_append :: "path \<Rightarrow> path \<Rightarrow> path" where
  "path_append a b =
     (if b \<noteq> [] \<and> hd b = CHR ''/'' then b
      else if a = [] \<or> last a = CHR ''/'' then a @ b
      else a @ ''/'' @ b)"

record UserState =
  user_id :: u64
  username :: string
  display_name :: string
  membership_type :: u32
  under_13 :: bool
  country_code :: string
  theme :: string

definition initial_user_state :: UserState where
  "initial_user_state =
     \<lparr>user_id = - 1, username = [], display_name = [], membership_type = 0, under_13 = False,
      country_code = [], theme = ''Dark''\<rparr>"

definition ANDROID_SDK_VERSION :: u32 where
  "ANDROID_SDK_VERSION = 26"

definition initial_user_agent :: string where
  "initial_user_agent = ''Roblox/WinInet''"

definition get_data_home :: "environment \<Rightarrow> path result" where
  "get_data_home env =
     (case env ''XDG_DATA_HOME'' of
        Some data_home \<Rightarrow> Inr (path_append data_home ''sober'')
      | None \<Rightarrow> (case env ''HOME'' of
            None \<Rightarrow> Inl (Terminate ''HOME env variable not set'')
          | Some home_dir \<Rightarrow>
              Inr (path_append (path_append (path_append home_dir ''.local'') ''share'') ''sober'')))"

definition get_cache_home :: "environment \<Rightarrow> path result" where
  "get_cache_home env =
     (case env ''XDG_CACHE_HOME'' of
        Some cache_home \<Rightarrow> Inr (path_append cache_home ''sober'')
      | None \<Rightarrow> (case env ''HOME'' of
            None \<Rightarrow> Inl (Terminate ''HOME env variable not set'')
          | Some home_dir \<Rightarrow> Inr (path_append (path_append home_dir ''.cache'') ''sober'')))"

definition get_cookies_path :: "environment \<Rightarrow> path option \<Rightarrow> path result" where
  "get_cookies_path env path_prefix =
     (case path_prefix of
        Some p \<Rightarrow> Inr (path_append p ''cookies'')
      | None \<Rightarrow> and_then (get_data_home env) (\<lambda>d. Inr (path_append d ''cookies'')))"

definition get_assets_dir :: "environment \<Rightarrow> path option \<Rightarrow> path result" where
  "get_assets_dir env path_prefix =
     (case path_prefix of
        Some p \<Rightarrow> Inr (path_append p ''assets/'')
      | None \<Rightarrow> and_then (get_data_home env) (\<lambda>d. Inr (path_append d ''assets/'')))"

definition get_files_dir :: "environment \<Rightarrow> path option \<Rightarrow> path result" where
  "get_files_dir env path_prefix =
     (case path_prefix of Some p \<Rightarrow> Inr (path_append p ''files/'') | None \<Rightarrow> get_data_home env)"

definition get_cache_dir :: "environment \<Rightarrow> path option \<Rightarrow> path result" where
  "get_cache_dir env path_prefix =
     (case path_prefix of Some p \<Rightarrow> Inr (path_append p ''cache/'') | None \<Rightarrow> get_cache_home env)"

definition get_core_lib_path :: "environment \<Rightarrow> path option \<Rightarrow> path result" where
  "get_core_lib_path env path_prefix =
     (case path_prefix of
        Some p \<Rightarrow> Inr (path_append p ''libroblox.so'')
      | None \<Rightarrow> and_then (get_data_home env) (\<lambda>d. Inr (path_append d ''libroblox.so'')))"

definition get_clientsettings_url :: string where
  "get_clientsettings_url =
     ''https://clientsettingscdn.roblox.com/v2/settings/application/GoogleAndroidApp''"

section \<open>Cookies\<close>

type_synonym cookie_jar = "string \<rightharpoonup> string"

text \<open>\<^verbatim>\<open>std::string::find\<close> of a character; \<open>None\<close> is \<^verbatim>\<open>npos\<close>.\<close>

fun str_find :: "char \<Rightarrow> string \<Rightarrow> nat option" where
  "str_find c [] = None"
| "str_find c (x # xs) = (if x = c then Some 0 else map_option Suc (str_find c xs))"

text \<open>
  \<^verbatim>\<open>substr(0, pos)\<close> and \<^verbatim>\<open>substr(pos + 1)\<close>: with \<^verbatim>\<open>pos = npos\<close> the first is the whole string, and
  the second as well, because \<^verbatim>\<open>npos + 1\<close> wraps to 0.
\<close>

definition split_cookie :: "string \<Rightarrow> string \<times> string" where
  "split_cookie cookie =
     (case str_find (CHR ''='') cookie of
        None \<Rightarrow> (cookie, cookie)
      | Some pos \<Rightarrow> (take pos cookie, drop (pos + 1) cookie))"

definition strip_attributes :: "string \<Rightarrow> string" where
  "strip_attributes header =
     (case str_find (CHR '';'') header of None \<Rightarrow> header | Some pos \<Rightarrow> take pos header)"

definition store_cookie :: "string \<Rightarrow> cookie_jar \<Rightarrow> cookie_jar" where
  "store_cookie cookie m = (case split_cookie cookie of (k, v) \<Rightarrow> m(k \<mapsto> v))"

definition set_cookies :: "string list \<Rightarrow> cookie_jar \<Rightarrow> cookie_jar" where
  "set_cookies headers m = fold (\<lambda>h. store_cookie (strip_attributes h)) headers m"

text \<open>
  The loop that writes the file over the iteration sequence of the map: the first element is
  dereferenced before the end is tested.
\<close>

fun cookie_file_text :: "(string \<times> string) list \<Rightarrow> string result" where
  "cookie_file_text [] = Inl Invalid_access"
| "cookie_file_text [(k, v)] = Inr (k @ ''='' @ v)"
| "cookie_file_text ((k, v) # kvs) =
     and_then (cookie_file_text kvs) (\<lambda>rest. Inr (k @ ''='' @ v @ ''; '' @ rest))"

text \<open>Successive \<^verbatim>\<open>std::getline\<close> calls with a delimiter.\<close>

function getlines :: "char \<Rightarrow> string \<Rightarrow> string list" where
  "getlines d [] = []"
| "getlines d (x # xs) =
     (let line = takeWhile (\<lambda>c. c \<noteq> d) (x # xs); rest = dropWhile (\<lambda>c. c \<noteq> d) (x # xs)
      in line # getlines d (tl rest))"
  by pat_completeness auto
termination
proof (relation "measure (\<lambda>(d, xs). length xs)")
  fix d x xs line rest
  assume "rest = dropWhile (\<lambda>c. c \<noteq> d) (x # xs)"
  then have "length rest \<le> length (x # xs)" by (simp only: length_dropWhile_le)
  then show "((d, tl rest), d, x # xs) \<in> measure (\<lambda>(d, xs). length xs)" by (cases rest) auto
qed simp

definition load_cookies :: "string \<Rightarrow> cookie_jar \<Rightarrow> cookie_jar" where
  "load_cookies contents m = fold store_cookie (getlines (CHR '';'') contents) m"

section \<open>Lemmas\<close>

lemma str_find_None: "c \<notin> set xs \<Longrightarrow> str_find c xs = None"
  by (induction xs) auto

lemma str_find_append: "c \<notin> set xs \<Longrightarrow> str_find c (xs @ c # ys) = Some (length xs)"
  by (induction xs) auto

lemma str_find_Some: "str_find c xs = Some i \<Longrightarrow> i < length xs \<and> xs ! i = c \<and> c \<notin> set (take i xs)"
  by (induction xs arbitrary: i) (auto split: if_splits)

lemma split_cookie_pair: "CHR ''='' \<notin> set k \<Longrightarrow> split_cookie (k @ ''='' @ v) = (k, v)"
  by (simp add: split_cookie_def str_find_append)

lemma takeWhile_delim: "d \<notin> set xs \<Longrightarrow> takeWhile (\<lambda>c. c \<noteq> d) (xs @ d # ys) = xs"
  by (induction xs) auto

lemma dropWhile_delim: "d \<notin> set xs \<Longrightarrow> dropWhile (\<lambda>c. c \<noteq> d) (xs @ d # ys) = d # ys"
  by (induction xs) auto

lemma no_delim: "d \<notin> set xs \<Longrightarrow> takeWhile (\<lambda>c. c \<noteq> d) xs = xs \<and> dropWhile (\<lambda>c. c \<noteq> d) xs = []"
  by (induction xs) auto

lemma getlines_unfold:
  "xs \<noteq> [] \<Longrightarrow> getlines d xs =
     takeWhile (\<lambda>c. c \<noteq> d) xs # getlines d (tl (dropWhile (\<lambda>c. c \<noteq> d) xs))"
  by (cases xs) (simp_all add: Let_def)

lemma getlines_last: "xs \<noteq> [] \<Longrightarrow> d \<notin> set xs \<Longrightarrow> getlines d xs = [xs]"
  unfolding getlines_unfold using no_delim [of d xs] by (metis getlines.simps(1) list.sel(2))

lemma getlines_append: "d \<notin> set xs \<Longrightarrow> getlines d (xs @ d # ys) = xs # getlines d ys"
  by (simp add: getlines_unfold takeWhile_delim dropWhile_delim)

text \<open>A cookie that survives the file: no separator in it, no equals sign in its name.\<close>

fun plain_cookie :: "string \<times> string \<Rightarrow> bool" where
  "plain_cookie (k, v) \<longleftrightarrow> CHR ''='' \<notin> set k \<and> CHR '';'' \<notin> set k \<and> CHR '';'' \<notin> set v"

fun with_space :: "string \<times> string \<Rightarrow> string \<times> string" where
  "with_space (k, v) = ('' '' @ k, v)"

definition update_all :: "(string \<times> string) list \<Rightarrow> cookie_jar \<Rightarrow> cookie_jar" where
  "update_all kvs m = fold (\<lambda>(k, v) m. m(k \<mapsto> v)) kvs m"

lemma cookie_line:
  "plain_cookie (k, v) \<Longrightarrow> CHR '';'' \<notin> set (k @ ''='' @ v) \<and> k @ ''='' @ v \<noteq> []"
  by simp

lemma cookie_lines:
  assumes "cookie_file_text (kv # kvs) = Inr contents" "list_all plain_cookie (kv # kvs)"
  shows "getlines (CHR '';'') contents =
           map (\<lambda>(k, v). k @ ''='' @ v) (kv # map with_space kvs)"
  using assms
proof (induction kvs arbitrary: kv contents)
  case Nil
  obtain k v where "kv = (k, v)" by (cases kv)
  then show ?case
    using Nil cookie_line [of k v] getlines_last [of "k @ ''='' @ v"] by auto
next
  case (Cons kv2 kvs)
  obtain k v k2 v2 where kv: "kv = (k, v)" "kv2 = (k2, v2)" by (cases kv; cases kv2)
  obtain rest where rest: "cookie_file_text (kv2 # kvs) = Inr rest"
    "contents = (k @ ''='' @ v) @ CHR '';'' # '' '' @ rest"
    using Cons.prems(1) kv by (auto simp: and_then_eq_Inr)
  have lines: "getlines (CHR '';'') rest = map (\<lambda>(k, v). k @ ''='' @ v) (kv2 # map with_space kvs)"
    using Cons.IH [OF rest(1)] Cons.prems(2) by simp
  have ne: "rest \<noteq> []" using lines kv by auto
  have "getlines (CHR '';'') ('' '' @ rest) =
      map (\<lambda>(k, v). k @ ''='' @ v) (with_space kv2 # map with_space kvs)"
    using lines ne kv
    by (cases rest) (auto simp: Let_def)
  moreover have "getlines (CHR '';'') contents = (k @ ''='' @ v) # getlines (CHR '';'') ('' '' @ rest)"
    unfolding rest(2) using Cons.prems(2) cookie_line [of k v] kv(1)
    by (intro getlines_append) simp
  ultimately show ?case using kv by simp
qed

lemma store_cookie_pair:
  "CHR ''='' \<notin> set k \<Longrightarrow> store_cookie (k @ ''='' @ v) m = m(k \<mapsto> v)"
  by (simp add: store_cookie_def split_cookie_pair [simplified])

lemma store_cookie_lines:
  "list_all (\<lambda>kv. CHR ''='' \<notin> set (fst kv)) kvs \<Longrightarrow>
   fold store_cookie (map (\<lambda>(k, v). k @ ''='' @ v) kvs) m = update_all kvs m"
  by (induction kvs arbitrary: m) (auto simp: update_all_def store_cookie_pair [simplified])

section \<open>Properties\<close>

text \<open>
  The directories.  With a path prefix every file of the program lies under it and the
  environment is not consulted.  Without one, an unset \<^verbatim>\<open>XDG_DATA_HOME\<close> (\<^verbatim>\<open>XDG_CACHE_HOME\<close>) falls
  back to the home directory, and with no home directory either the program terminates; a variable
  that is set but empty yields a path relative to the working directory.
\<close>

theorem program_paths:
  "get_cookies_path env (Some p) = Inr (path_append p ''cookies'') \<and>
   get_assets_dir env (Some p) = Inr (path_append p ''assets/'') \<and>
   get_files_dir env (Some p) = Inr (path_append p ''files/'') \<and>
   get_cache_dir env (Some p) = Inr (path_append p ''cache/'') \<and>
   get_core_lib_path env (Some p) = Inr (path_append p ''libroblox.so'') \<and>
   (env ''XDG_DATA_HOME'' = None \<and> env ''HOME'' = Some (h @ ''x'') \<longrightarrow>
      get_files_dir env None = Inr (h @ ''x/.local/share/sober'') \<and>
      get_core_lib_path env None = Inr (h @ ''x/.local/share/sober/libroblox.so'') \<and>
      get_assets_dir env None = Inr (h @ ''x/.local/share/sober/assets/'')) \<and>
   (env ''XDG_DATA_HOME'' = None \<and> env ''HOME'' = None \<longrightarrow>
      get_assets_dir env None = Inl (Terminate ''HOME env variable not set'')) \<and>
   (env ''XDG_DATA_HOME'' = Some [] \<longrightarrow> get_files_dir env None = Inr ''sober'')"
  by (auto simp: get_cookies_path_def get_assets_dir_def get_files_dir_def get_cache_dir_def
      get_core_lib_path_def get_data_home_def path_append_def)

theorem program_paths_witness:
  "get_files_dir (\<lambda>v. if v = ''HOME'' then Some ''/home/x'' else None) None
     = Inr ''/home/x/.local/share/sober'' \<and>
   get_files_dir (\<lambda>v. if v = ''XDG_DATA_HOME'' then Some [] else None) None = Inr ''sober''"
  using program_paths [of "\<lambda>v. if v = ''HOME'' then Some ''/home/x'' else None" "[]" "''/home/''"]
    program_paths [of "\<lambda>v. if v = ''XDG_DATA_HOME'' then Some [] else None" "[]" "[]"]
  by simp

text \<open>
  Reloading the cookie file does not give back the jar that was saved: the separator written
  between cookies is a semicolon and a space, the one looked for when reading is the semicolon
  alone, so every cookie but the first comes back under its name with a leading space.  Writing
  the file of an empty jar dereferences the end of the map.
\<close>

theorem cookies_reloaded_with_space:
  assumes "list_all plain_cookie (kv # kvs)"
  shows "\<exists>contents. cookie_file_text (kv # kvs) = Inr contents \<and>
           load_cookies contents m = update_all (kv # map with_space kvs) m \<and>
           cookie_file_text [] = Inl Invalid_access"
proof -
  have "\<exists>contents. cookie_file_text (kv # kvs) = Inr contents"
  proof (induction kvs arbitrary: kv)
    case Nil then show ?case by (cases kv) simp
  next
    case (Cons kv2 kvs)
    obtain c where "cookie_file_text (kv2 # kvs) = Inr c" using Cons.IH by blast
    then show ?case by (cases kv) simp
  qed
  then obtain contents where c: "cookie_file_text (kv # kvs) = Inr contents" by blast
  have "list_all (\<lambda>kv. CHR ''='' \<notin> set (fst kv)) (kv # map with_space kvs)"
    using assms by (cases kv) (auto simp: list_all_iff)
  then have "load_cookies contents m = update_all (kv # map with_space kvs) m"
    unfolding load_cookies_def cookie_lines [OF c assms] by (rule store_cookie_lines)
  then show ?thesis using c by simp
qed

theorem cookies_reloaded_with_space_witness:
  "list_all plain_cookie [(''a'', ''1''), (''b'', ''2'')] \<and>
   (\<exists>contents. cookie_file_text [(''a'', ''1''), (''b'', ''2'')] = Inr contents \<and>
      load_cookies contents Map.empty = [''a'' \<mapsto> ''1'', '' b'' \<mapsto> ''2''] \<and>
      load_cookies contents Map.empty ''b'' = None)"
  using cookies_reloaded_with_space [of "(''a'', ''1'')" "[(''b'', ''2'')]" Map.empty]
  by (auto simp: update_all_def)

text \<open>
  A \<^verbatim>\<open>Set-Cookie\<close> header \<open>name=value; attributes\<close> stores exactly the value under the name and
  keeps every other cookie; a header without an equals sign is stored under itself with itself as
  value.
\<close>

lemma set_cookie_stores:
  assumes "CHR ''='' \<notin> set k" and "CHR '';'' \<notin> set k" and "CHR '';'' \<notin> set v"
  shows "set_cookies [k @ ''='' @ v @ '';'' @ attributes] m = m(k \<mapsto> v) \<and>
         set_cookies [k @ ''='' @ v] m = m(k \<mapsto> v) \<and> set_cookies [k] m = m(k \<mapsto> k)"
proof -
  have "CHR '';'' \<notin> set (k @ ''='' @ v)" using assms by simp
  then have "strip_attributes ((k @ ''='' @ v) @ CHR '';'' # attributes) = k @ ''='' @ v"
    "strip_attributes (k @ ''='' @ v) = k @ ''='' @ v" "strip_attributes k = k"
    using assms(2) by (auto simp: strip_attributes_def str_find_None str_find_append simp del: append_assoc)
  moreover have "store_cookie (k @ ''='' @ v) m = m(k \<mapsto> v)" by (rule store_cookie_pair [OF assms(1)])
  moreover have "store_cookie k m = m(k \<mapsto> k)"
    using assms(1) by (simp add: store_cookie_def split_cookie_def str_find_None)
  ultimately show ?thesis by (simp add: set_cookies_def)
qed

end
