(* ===== verification/Keyboard.thy ===== *)
theory Keyboard
  imports Sober_Prelude
begin

text \<open>
  \<^verbatim>\<open>src/src/keyboard.cpp\<close>: translation of SDL scancodes to the kernel's key codes (a table) and to
  Android's key codes (a chain of ranges).  The constants \<^verbatim>\<open>KEY_*\<close> and \<^verbatim>\<open>AKEYCODE_*\<close> are those of the
  headers in the repository; the SDL scancodes are a parameter, documented by SDL to be the usage
  numbers of the USB keyboard page.
\<close>

section \<open>Constants\<close>

text \<open>Kernel key codes.\<close>

abbreviation (input) KEY_UNKNOWN :: int where "KEY_UNKNOWN \<equiv> 240"
abbreviation (input) KEY_A :: int where "KEY_A \<equiv> 30"
abbreviation (input) KEY_B :: int where "KEY_B \<equiv> 48"
abbreviation (input) KEY_C :: int where "KEY_C \<equiv> 46"
abbreviation (input) KEY_D :: int where "KEY_D \<equiv> 32"
abbreviation (input) KEY_E :: int where "KEY_E \<equiv> 18"
abbreviation (input) KEY_F :: int where "KEY_F \<equiv> 33"
abbreviation (input) KEY_G :: int where "KEY_G \<equiv> 34"
abbreviation (input) KEY_H :: int where "KEY_H \<equiv> 35"
abbreviation (input) KEY_I :: int where "KEY_I \<equiv> 23"
abbreviation (input) KEY_J :: int where "KEY_J \<equiv> 36"
abbreviation (input) KEY_K :: int where "KEY_K \<equiv> 37"
abbreviation (input) KEY_L :: int where "KEY_L \<equiv> 38"
abbreviation (input) KEY_M :: int where "KEY_M \<equiv> 50"
abbreviation (input) KEY_N :: int where "KEY_N \<equiv> 49"
abbreviation (input) KEY_O :: int where "KEY_O \<equiv> 24"
abbreviation (input) KEY_P :: int where "KEY_P \<equiv> 25"
abbreviation (input) KEY_Q :: int where "KEY_Q \<equiv> 16"
abbreviation (input) KEY_R :: int where "KEY_R \<equiv> 19"
abbreviation (input) KEY_S :: int where "KEY_S \<equiv> 31"
abbreviation (input) KEY_T :: int where "KEY_T \<equiv> 20"
abbreviation (input) KEY_U :: int where "KEY_U \<equiv> 22"
abbreviation (input) KEY_V :: int where "KEY_V \<equiv> 47"
abbreviation (input) KEY_W :: int where "KEY_W \<equiv> 17"
abbreviation (input) KEY_X :: int where "KEY_X \<equiv> 45"
abbreviation (input) KEY_Y :: int where "KEY_Y \<equiv> 21"
abbreviation (input) KEY_Z :: int where "KEY_Z \<equiv> 44"
abbreviation (input) KEY_1 :: int where "KEY_1 \<equiv> 2"
abbreviation (input) KEY_2 :: int where "KEY_2 \<equiv> 3"
abbreviation (input) KEY_3 :: int where "KEY_3 \<equiv> 4"
abbreviation (input) KEY_4 :: int where "KEY_4 \<equiv> 5"
abbreviation (input) KEY_5 :: int where "KEY_5 \<equiv> 6"
abbreviation (input) KEY_6 :: int where "KEY_6 \<equiv> 7"
abbreviation (input) KEY_7 :: int where "KEY_7 \<equiv> 8"
abbreviation (input) KEY_8 :: int where "KEY_8 \<equiv> 9"
abbreviation (input) KEY_9 :: int where "KEY_9 \<equiv> 10"
abbreviation (input) KEY_0 :: int where "KEY_0 \<equiv> 11"
abbreviation (input) KEY_ENTER :: int where "KEY_ENTER \<equiv> 28"
abbreviation (input) KEY_ESC :: int where "KEY_ESC \<equiv> 1"
abbreviation (input) KEY_BACKSPACE :: int where "KEY_BACKSPACE \<equiv> 14"
abbreviation (input) KEY_TAB :: int where "KEY_TAB \<equiv> 15"
abbreviation (input) KEY_SPACE :: int where "KEY_SPACE \<equiv> 57"
abbreviation (input) KEY_MINUS :: int where "KEY_MINUS \<equiv> 12"
abbreviation (input) KEY_EQUAL :: int where "KEY_EQUAL \<equiv> 13"
abbreviation (input) KEY_LEFTBRACE :: int where "KEY_LEFTBRACE \<equiv> 26"
abbreviation (input) KEY_RIGHTBRACE :: int where "KEY_RIGHTBRACE \<equiv> 27"
abbreviation (input) KEY_BACKSLASH :: int where "KEY_BACKSLASH \<equiv> 43"
abbreviation (input) KEY_SEMICOLON :: int where "KEY_SEMICOLON \<equiv> 39"
abbreviation (input) KEY_APOSTROPHE :: int where "KEY_APOSTROPHE \<equiv> 40"
abbreviation (input) KEY_GRAVE :: int where "KEY_GRAVE \<equiv> 41"
abbreviation (input) KEY_COMMA :: int where "KEY_COMMA \<equiv> 51"
abbreviation (input) KEY_DOT :: int where "KEY_DOT \<equiv> 52"
abbreviation (input) KEY_SLASH :: int where "KEY_SLASH \<equiv> 53"
abbreviation (input) KEY_CAPSLOCK :: int where "KEY_CAPSLOCK \<equiv> 58"
abbreviation (input) KEY_F1 :: int where "KEY_F1 \<equiv> 59"
abbreviation (input) KEY_F2 :: int where "KEY_F2 \<equiv> 60"
abbreviation (input) KEY_F3 :: int where "KEY_F3 \<equiv> 61"
abbreviation (input) KEY_F4 :: int where "KEY_F4 \<equiv> 62"
abbreviation (input) KEY_F5 :: int where "KEY_F5 \<equiv> 63"
abbreviation (input) KEY_F6 :: int where "KEY_F6 \<equiv> 64"
abbreviation (input) KEY_F7 :: int where "KEY_F7 \<equiv> 65"
abbreviation (input) KEY_F8 :: int where "KEY_F8 \<equiv> 66"
abbreviation (input) KEY_F9 :: int where "KEY_F9 \<equiv> 67"
abbreviation (input) KEY_F10 :: int where "KEY_F10 \<equiv> 68"
abbreviation (input) KEY_F11 :: int where "KEY_F11 \<equiv> 87"
abbreviation (input) KEY_F12 :: int where "KEY_F12 \<equiv> 88"
abbreviation (input) KEY_PRINT :: int where "KEY_PRINT \<equiv> 210"
abbreviation (input) KEY_SCROLLLOCK :: int where "KEY_SCROLLLOCK \<equiv> 70"
abbreviation (input) KEY_PAUSE :: int where "KEY_PAUSE \<equiv> 119"
abbreviation (input) KEY_INSERT :: int where "KEY_INSERT \<equiv> 110"
abbreviation (input) KEY_HOME :: int where "KEY_HOME \<equiv> 102"
abbreviation (input) KEY_PAGEUP :: int where "KEY_PAGEUP \<equiv> 104"
abbreviation (input) KEY_DELETE :: int where "KEY_DELETE \<equiv> 111"
abbreviation (input) KEY_END :: int where "KEY_END \<equiv> 107"
abbreviation (input) KEY_PAGEDOWN :: int where "KEY_PAGEDOWN \<equiv> 109"
abbreviation (input) KEY_RIGHT :: int where "KEY_RIGHT \<equiv> 106"
abbreviation (input) KEY_LEFT :: int where "KEY_LEFT \<equiv> 105"
abbreviation (input) KEY_DOWN :: int where "KEY_DOWN \<equiv> 108"
abbreviation (input) KEY_UP :: int where "KEY_UP \<equiv> 103"
abbreviation (input) KEY_NUMLOCK :: int where "KEY_NUMLOCK \<equiv> 69"
abbreviation (input) KEY_KPSLASH :: int where "KEY_KPSLASH \<equiv> 98"
abbreviation (input) KEY_KPASTERISK :: int where "KEY_KPASTERISK \<equiv> 55"
abbreviation (input) KEY_KPMINUS :: int where "KEY_KPMINUS \<equiv> 74"
abbreviation (input) KEY_KPPLUS :: int where "KEY_KPPLUS \<equiv> 78"
abbreviation (input) KEY_KPENTER :: int where "KEY_KPENTER \<equiv> 96"
abbreviation (input) KEY_KP1 :: int where "KEY_KP1 \<equiv> 79"
abbreviation (input) KEY_KP2 :: int where "KEY_KP2 \<equiv> 80"
abbreviation (input) KEY_KP3 :: int where "KEY_KP3 \<equiv> 81"
abbreviation (input) KEY_KP4 :: int where "KEY_KP4 \<equiv> 75"
abbreviation (input) KEY_KP5 :: int where "KEY_KP5 \<equiv> 76"
abbreviation (input) KEY_KP6 :: int where "KEY_KP6 \<equiv> 77"
abbreviation (input) KEY_KP7 :: int where "KEY_KP7 \<equiv> 71"
abbreviation (input) KEY_KP8 :: int where "KEY_KP8 \<equiv> 72"
abbreviation (input) KEY_KP9 :: int where "KEY_KP9 \<equiv> 73"
abbreviation (input) KEY_KP0 :: int where "KEY_KP0 \<equiv> 82"
abbreviation (input) KEY_KPDOT :: int where "KEY_KPDOT \<equiv> 83"
abbreviation (input) KEY_102ND :: int where "KEY_102ND \<equiv> 86"
abbreviation (input) KEY_COMPOSE :: int where "KEY_COMPOSE \<equiv> 127"
abbreviation (input) KEY_POWER :: int where "KEY_POWER \<equiv> 116"
abbreviation (input) KEY_KPEQUAL :: int where "KEY_KPEQUAL \<equiv> 117"
abbreviation (input) KEY_F13 :: int where "KEY_F13 \<equiv> 183"
abbreviation (input) KEY_F14 :: int where "KEY_F14 \<equiv> 184"
abbreviation (input) KEY_F15 :: int where "KEY_F15 \<equiv> 185"
abbreviation (input) KEY_F16 :: int where "KEY_F16 \<equiv> 186"
abbreviation (input) KEY_F17 :: int where "KEY_F17 \<equiv> 187"
abbreviation (input) KEY_F18 :: int where "KEY_F18 \<equiv> 188"
abbreviation (input) KEY_F19 :: int where "KEY_F19 \<equiv> 189"
abbreviation (input) KEY_F20 :: int where "KEY_F20 \<equiv> 190"
abbreviation (input) KEY_F21 :: int where "KEY_F21 \<equiv> 191"
abbreviation (input) KEY_F22 :: int where "KEY_F22 \<equiv> 192"
abbreviation (input) KEY_F23 :: int where "KEY_F23 \<equiv> 193"
abbreviation (input) KEY_F24 :: int where "KEY_F24 \<equiv> 194"
abbreviation (input) KEY_HELP :: int where "KEY_HELP \<equiv> 138"
abbreviation (input) KEY_MENU :: int where "KEY_MENU \<equiv> 139"
abbreviation (input) KEY_SELECT :: int where "KEY_SELECT \<equiv> 353"
abbreviation (input) KEY_STOP :: int where "KEY_STOP \<equiv> 128"
abbreviation (input) KEY_AGAIN :: int where "KEY_AGAIN \<equiv> 129"
abbreviation (input) KEY_UNDO :: int where "KEY_UNDO \<equiv> 131"
abbreviation (input) KEY_CUT :: int where "KEY_CUT \<equiv> 137"
abbreviation (input) KEY_COPY :: int where "KEY_COPY \<equiv> 133"
abbreviation (input) KEY_PASTE :: int where "KEY_PASTE \<equiv> 135"
abbreviation (input) KEY_FIND :: int where "KEY_FIND \<equiv> 136"
abbreviation (input) KEY_MUTE :: int where "KEY_MUTE \<equiv> 113"
abbreviation (input) KEY_VOLUMEUP :: int where "KEY_VOLUMEUP \<equiv> 115"
abbreviation (input) KEY_VOLUMEDOWN :: int where "KEY_VOLUMEDOWN \<equiv> 114"
abbreviation (input) KEY_KPCOMMA :: int where "KEY_KPCOMMA \<equiv> 121"
abbreviation (input) KEY_RO :: int where "KEY_RO \<equiv> 89"
abbreviation (input) KEY_KATAKANAHIRAGANA :: int where "KEY_KATAKANAHIRAGANA \<equiv> 93"
abbreviation (input) KEY_YEN :: int where "KEY_YEN \<equiv> 124"
abbreviation (input) KEY_HENKAN :: int where "KEY_HENKAN \<equiv> 92"
abbreviation (input) KEY_KPJPCOMMA :: int where "KEY_KPJPCOMMA \<equiv> 95"
abbreviation (input) KEY_HANGEUL :: int where "KEY_HANGEUL \<equiv> 122"
abbreviation (input) KEY_HANJA :: int where "KEY_HANJA \<equiv> 123"
abbreviation (input) KEY_KATAKANA :: int where "KEY_KATAKANA \<equiv> 90"
abbreviation (input) KEY_HIRAGANA :: int where "KEY_HIRAGANA \<equiv> 91"
abbreviation (input) KEY_ZENKAKUHANKAKU :: int where "KEY_ZENKAKUHANKAKU \<equiv> 85"
abbreviation (input) KEY_ALTERASE :: int where "KEY_ALTERASE \<equiv> 222"
abbreviation (input) KEY_SYSRQ :: int where "KEY_SYSRQ \<equiv> 99"
abbreviation (input) KEY_CANCEL :: int where "KEY_CANCEL \<equiv> 223"
abbreviation (input) KEY_CLEAR :: int where "KEY_CLEAR \<equiv> 355"
abbreviation (input) KEY_KPLEFTPAREN :: int where "KEY_KPLEFTPAREN \<equiv> 179"
abbreviation (input) KEY_KPRIGHTPAREN :: int where "KEY_KPRIGHTPAREN \<equiv> 180"
abbreviation (input) KEY_KPPLUSMINUS :: int where "KEY_KPPLUSMINUS \<equiv> 118"
abbreviation (input) KEY_LEFTCTRL :: int where "KEY_LEFTCTRL \<equiv> 29"
abbreviation (input) KEY_LEFTSHIFT :: int where "KEY_LEFTSHIFT \<equiv> 42"
abbreviation (input) KEY_LEFTALT :: int where "KEY_LEFTALT \<equiv> 56"
abbreviation (input) KEY_LEFTMETA :: int where "KEY_LEFTMETA \<equiv> 125"
abbreviation (input) KEY_RIGHTCTRL :: int where "KEY_RIGHTCTRL \<equiv> 97"
abbreviation (input) KEY_RIGHTSHIFT :: int where "KEY_RIGHTSHIFT \<equiv> 54"
abbreviation (input) KEY_RIGHTALT :: int where "KEY_RIGHTALT \<equiv> 100"
abbreviation (input) KEY_RIGHTMETA :: int where "KEY_RIGHTMETA \<equiv> 126"

text \<open>Android key codes.\<close>

abbreviation (input) AKEYCODE_A :: int where "AKEYCODE_A \<equiv> 29"
abbreviation (input) AKEYCODE_B :: int where "AKEYCODE_B \<equiv> 30"
abbreviation (input) AKEYCODE_C :: int where "AKEYCODE_C \<equiv> 31"
abbreviation (input) AKEYCODE_D :: int where "AKEYCODE_D \<equiv> 32"
abbreviation (input) AKEYCODE_E :: int where "AKEYCODE_E \<equiv> 33"
abbreviation (input) AKEYCODE_F :: int where "AKEYCODE_F \<equiv> 34"
abbreviation (input) AKEYCODE_G :: int where "AKEYCODE_G \<equiv> 35"
abbreviation (input) AKEYCODE_H :: int where "AKEYCODE_H \<equiv> 36"
abbreviation (input) AKEYCODE_I :: int where "AKEYCODE_I \<equiv> 37"
abbreviation (input) AKEYCODE_J :: int where "AKEYCODE_J \<equiv> 38"
abbreviation (input) AKEYCODE_K :: int where "AKEYCODE_K \<equiv> 39"
abbreviation (input) AKEYCODE_L :: int where "AKEYCODE_L \<equiv> 40"
abbreviation (input) AKEYCODE_M :: int where "AKEYCODE_M \<equiv> 41"
abbreviation (input) AKEYCODE_N :: int where "AKEYCODE_N \<equiv> 42"
abbreviation (input) AKEYCODE_O :: int where "AKEYCODE_O \<equiv> 43"
abbreviation (input) AKEYCODE_P :: int where "AKEYCODE_P \<equiv> 44"
abbreviation (input) AKEYCODE_Q :: int where "AKEYCODE_Q \<equiv> 45"
abbreviation (input) AKEYCODE_R :: int where "AKEYCODE_R \<equiv> 46"
abbreviation (input) AKEYCODE_S :: int where "AKEYCODE_S \<equiv> 47"
abbreviation (input) AKEYCODE_T :: int where "AKEYCODE_T \<equiv> 48"
abbreviation (input) AKEYCODE_U :: int where "AKEYCODE_U \<equiv> 49"
abbreviation (input) AKEYCODE_V :: int where "AKEYCODE_V \<equiv> 50"
abbreviation (input) AKEYCODE_W :: int where "AKEYCODE_W \<equiv> 51"
abbreviation (input) AKEYCODE_X :: int where "AKEYCODE_X \<equiv> 52"
abbreviation (input) AKEYCODE_Y :: int where "AKEYCODE_Y \<equiv> 53"
abbreviation (input) AKEYCODE_Z :: int where "AKEYCODE_Z \<equiv> 54"
abbreviation (input) AKEYCODE_0 :: int where "AKEYCODE_0 \<equiv> 7"
abbreviation (input) AKEYCODE_1 :: int where "AKEYCODE_1 \<equiv> 8"
abbreviation (input) AKEYCODE_2 :: int where "AKEYCODE_2 \<equiv> 9"
abbreviation (input) AKEYCODE_3 :: int where "AKEYCODE_3 \<equiv> 10"
abbreviation (input) AKEYCODE_4 :: int where "AKEYCODE_4 \<equiv> 11"
abbreviation (input) AKEYCODE_5 :: int where "AKEYCODE_5 \<equiv> 12"
abbreviation (input) AKEYCODE_6 :: int where "AKEYCODE_6 \<equiv> 13"
abbreviation (input) AKEYCODE_7 :: int where "AKEYCODE_7 \<equiv> 14"
abbreviation (input) AKEYCODE_8 :: int where "AKEYCODE_8 \<equiv> 15"
abbreviation (input) AKEYCODE_9 :: int where "AKEYCODE_9 \<equiv> 16"
abbreviation (input) AKEYCODE_F1 :: int where "AKEYCODE_F1 \<equiv> 131"
abbreviation (input) AKEYCODE_F2 :: int where "AKEYCODE_F2 \<equiv> 132"
abbreviation (input) AKEYCODE_F3 :: int where "AKEYCODE_F3 \<equiv> 133"
abbreviation (input) AKEYCODE_F4 :: int where "AKEYCODE_F4 \<equiv> 134"
abbreviation (input) AKEYCODE_F5 :: int where "AKEYCODE_F5 \<equiv> 135"
abbreviation (input) AKEYCODE_F6 :: int where "AKEYCODE_F6 \<equiv> 136"
abbreviation (input) AKEYCODE_F7 :: int where "AKEYCODE_F7 \<equiv> 137"
abbreviation (input) AKEYCODE_F8 :: int where "AKEYCODE_F8 \<equiv> 138"
abbreviation (input) AKEYCODE_F9 :: int where "AKEYCODE_F9 \<equiv> 139"
abbreviation (input) AKEYCODE_F10 :: int where "AKEYCODE_F10 \<equiv> 140"
abbreviation (input) AKEYCODE_F11 :: int where "AKEYCODE_F11 \<equiv> 141"
abbreviation (input) AKEYCODE_F12 :: int where "AKEYCODE_F12 \<equiv> 142"
abbreviation (input) AKEYCODE_CAPS_LOCK :: int where "AKEYCODE_CAPS_LOCK \<equiv> 115"
abbreviation (input) AKEYCODE_CTRL_LEFT :: int where "AKEYCODE_CTRL_LEFT \<equiv> 113"
abbreviation (input) AKEYCODE_CTRL_RIGHT :: int where "AKEYCODE_CTRL_RIGHT \<equiv> 114"
abbreviation (input) AKEYCODE_SHIFT_LEFT :: int where "AKEYCODE_SHIFT_LEFT \<equiv> 59"
abbreviation (input) AKEYCODE_SHIFT_RIGHT :: int where "AKEYCODE_SHIFT_RIGHT \<equiv> 60"
abbreviation (input) AKEYCODE_ALT_LEFT :: int where "AKEYCODE_ALT_LEFT \<equiv> 57"
abbreviation (input) AKEYCODE_ALT_RIGHT :: int where "AKEYCODE_ALT_RIGHT \<equiv> 58"
abbreviation (input) AKEYCODE_TAB :: int where "AKEYCODE_TAB \<equiv> 61"
abbreviation (input) AKEYCODE_SPACE :: int where "AKEYCODE_SPACE \<equiv> 62"
abbreviation (input) AKEYCODE_DEL :: int where "AKEYCODE_DEL \<equiv> 67"
abbreviation (input) AKEYCODE_ENTER :: int where "AKEYCODE_ENTER \<equiv> 66"
abbreviation (input) AKEYCODE_ESCAPE :: int where "AKEYCODE_ESCAPE \<equiv> 111"
abbreviation (input) AKEYCODE_DPAD_UP :: int where "AKEYCODE_DPAD_UP \<equiv> 19"
abbreviation (input) AKEYCODE_DPAD_DOWN :: int where "AKEYCODE_DPAD_DOWN \<equiv> 20"
abbreviation (input) AKEYCODE_DPAD_LEFT :: int where "AKEYCODE_DPAD_LEFT \<equiv> 21"
abbreviation (input) AKEYCODE_DPAD_RIGHT :: int where "AKEYCODE_DPAD_RIGHT \<equiv> 22"

text \<open>The scancodes of SDL the code names.\<close>

record SDL_Scancode =
  SDL_SCANCODE_A :: int
  SDL_SCANCODE_Z :: int
  SDL_SCANCODE_1 :: int
  SDL_SCANCODE_9 :: int
  SDL_SCANCODE_0 :: int
  SDL_SCANCODE_RETURN :: int
  SDL_SCANCODE_ESCAPE :: int
  SDL_SCANCODE_BACKSPACE :: int
  SDL_SCANCODE_TAB :: int
  SDL_SCANCODE_SPACE :: int
  SDL_SCANCODE_CAPSLOCK :: int
  SDL_SCANCODE_F1 :: int
  SDL_SCANCODE_F12 :: int
  SDL_SCANCODE_RIGHT :: int
  SDL_SCANCODE_LEFT :: int
  SDL_SCANCODE_DOWN :: int
  SDL_SCANCODE_UP :: int
  SDL_SCANCODE_LCTRL :: int
  SDL_SCANCODE_LSHIFT :: int
  SDL_SCANCODE_LALT :: int
  SDL_SCANCODE_RCTRL :: int
  SDL_SCANCODE_RSHIFT :: int
  SDL_SCANCODE_RALT :: int
  SDL_SCANCODE_F11 :: int
  SDL_SCANCODE_H :: int

definition usb_usage_scancodes :: SDL_Scancode where
  "usb_usage_scancodes =
    \<lparr>SDL_SCANCODE_A = 4,
     SDL_SCANCODE_Z = 29,
     SDL_SCANCODE_1 = 30,
     SDL_SCANCODE_9 = 38,
     SDL_SCANCODE_0 = 39,
     SDL_SCANCODE_RETURN = 40,
     SDL_SCANCODE_ESCAPE = 41,
     SDL_SCANCODE_BACKSPACE = 42,
     SDL_SCANCODE_TAB = 43,
     SDL_SCANCODE_SPACE = 44,
     SDL_SCANCODE_CAPSLOCK = 57,
     SDL_SCANCODE_F1 = 58,
     SDL_SCANCODE_F12 = 69,
     SDL_SCANCODE_RIGHT = 79,
     SDL_SCANCODE_LEFT = 80,
     SDL_SCANCODE_DOWN = 81,
     SDL_SCANCODE_UP = 82,
     SDL_SCANCODE_LCTRL = 224,
     SDL_SCANCODE_LSHIFT = 225,
     SDL_SCANCODE_LALT = 226,
     SDL_SCANCODE_RCTRL = 228,
     SDL_SCANCODE_RSHIFT = 229,
     SDL_SCANCODE_RALT = 230,
     SDL_SCANCODE_F11 = 68,
     SDL_SCANCODE_H = 11\<rparr>"

section \<open>The translations\<close>

text \<open>Rows 0 to 115 and 116 to 231 of the table.\<close>

definition linux_keycode_rows_low :: "int list" where
  "linux_keycode_rows_low =
    [KEY_UNKNOWN, KEY_UNKNOWN, KEY_UNKNOWN, KEY_UNKNOWN, KEY_A, KEY_B, KEY_C, KEY_D,
     KEY_E, KEY_F, KEY_G, KEY_H, KEY_I, KEY_J, KEY_K, KEY_L, KEY_M, KEY_N, KEY_O, KEY_P,
     KEY_Q, KEY_R, KEY_S, KEY_T, KEY_U, KEY_V, KEY_W, KEY_X, KEY_Y, KEY_Z, KEY_1, KEY_2,
     KEY_3, KEY_4, KEY_5, KEY_6, KEY_7, KEY_8, KEY_9, KEY_0, KEY_ENTER, KEY_ESC,
     KEY_BACKSPACE, KEY_TAB, KEY_SPACE, KEY_MINUS, KEY_EQUAL, KEY_LEFTBRACE,
     KEY_RIGHTBRACE, KEY_BACKSLASH, KEY_BACKSLASH, KEY_SEMICOLON, KEY_APOSTROPHE,
     KEY_GRAVE, KEY_COMMA, KEY_DOT, KEY_SLASH, KEY_CAPSLOCK, KEY_F1, KEY_F2, KEY_F3,
     KEY_F4, KEY_F5, KEY_F6, KEY_F7, KEY_F8, KEY_F9, KEY_F10, KEY_F11, KEY_F12, KEY_PRINT,
     KEY_SCROLLLOCK, KEY_PAUSE, KEY_INSERT, KEY_HOME, KEY_PAGEUP, KEY_DELETE, KEY_END,
     KEY_PAGEDOWN, KEY_RIGHT, KEY_LEFT, KEY_DOWN, KEY_UP, KEY_NUMLOCK, KEY_KPSLASH,
     KEY_KPASTERISK, KEY_KPMINUS, KEY_KPPLUS, KEY_KPENTER, KEY_KP1, KEY_KP2, KEY_KP3,
     KEY_KP4, KEY_KP5, KEY_KP6, KEY_KP7, KEY_KP8, KEY_KP9, KEY_KP0, KEY_KPDOT, KEY_102ND,
     KEY_COMPOSE, KEY_POWER, KEY_KPEQUAL, KEY_F13, KEY_F14, KEY_F15, KEY_F16, KEY_F17,
     KEY_F18, KEY_F19, KEY_F20, KEY_F21, KEY_F22, KEY_F23, KEY_F24]"

definition linux_keycode_rows_high :: "int list" where
  "linux_keycode_rows_high =
    [KEY_UNKNOWN, KEY_HELP, KEY_MENU, KEY_SELECT, KEY_STOP, KEY_AGAIN, KEY_UNDO, KEY_CUT,
     KEY_COPY, KEY_PASTE, KEY_FIND, KEY_MUTE, KEY_VOLUMEUP, KEY_VOLUMEDOWN, KEY_UNKNOWN,
     KEY_UNKNOWN, KEY_UNKNOWN, KEY_KPCOMMA, KEY_UNKNOWN, KEY_RO, KEY_KATAKANAHIRAGANA,
     KEY_YEN, KEY_HENKAN, KEY_KPJPCOMMA, KEY_UNKNOWN, KEY_UNKNOWN, KEY_UNKNOWN,
     KEY_UNKNOWN, KEY_HANGEUL, KEY_HANJA, KEY_KATAKANA, KEY_HIRAGANA, KEY_ZENKAKUHANKAKU,
     KEY_UNKNOWN, KEY_UNKNOWN, KEY_UNKNOWN, KEY_UNKNOWN, KEY_ALTERASE, KEY_SYSRQ,
     KEY_CANCEL, KEY_CLEAR, KEY_UNKNOWN, KEY_UNKNOWN, KEY_UNKNOWN, KEY_UNKNOWN,
     KEY_UNKNOWN, KEY_UNKNOWN, KEY_UNKNOWN, KEY_UNKNOWN, KEY_UNKNOWN, KEY_UNKNOWN,
     KEY_UNKNOWN, KEY_UNKNOWN, KEY_UNKNOWN, KEY_UNKNOWN, KEY_UNKNOWN, KEY_UNKNOWN,
     KEY_UNKNOWN, KEY_UNKNOWN, KEY_UNKNOWN, KEY_UNKNOWN, KEY_UNKNOWN, KEY_UNKNOWN,
     KEY_UNKNOWN, KEY_UNKNOWN, KEY_UNKNOWN, KEY_KPLEFTPAREN, KEY_KPRIGHTPAREN,
     KEY_UNKNOWN, KEY_UNKNOWN, KEY_UNKNOWN, KEY_UNKNOWN, KEY_UNKNOWN, KEY_UNKNOWN,
     KEY_UNKNOWN, KEY_UNKNOWN, KEY_UNKNOWN, KEY_UNKNOWN, KEY_UNKNOWN, KEY_UNKNOWN,
     KEY_UNKNOWN, KEY_UNKNOWN, KEY_UNKNOWN, KEY_UNKNOWN, KEY_UNKNOWN, KEY_UNKNOWN,
     KEY_UNKNOWN, KEY_UNKNOWN, KEY_UNKNOWN, KEY_UNKNOWN, KEY_UNKNOWN, KEY_UNKNOWN,
     KEY_UNKNOWN, KEY_UNKNOWN, KEY_UNKNOWN, KEY_UNKNOWN, KEY_UNKNOWN, KEY_UNKNOWN,
     KEY_UNKNOWN, KEY_KPPLUSMINUS, KEY_UNKNOWN, KEY_UNKNOWN, KEY_UNKNOWN, KEY_UNKNOWN,
     KEY_UNKNOWN, KEY_UNKNOWN, KEY_UNKNOWN, KEY_UNKNOWN, KEY_LEFTCTRL, KEY_LEFTSHIFT,
     KEY_LEFTALT, KEY_LEFTMETA, KEY_RIGHTCTRL, KEY_RIGHTSHIFT, KEY_RIGHTALT, KEY_RIGHTMETA]"

definition sdl_scancode_to_linux_keycode_table :: "int list" where
  "sdl_scancode_to_linux_keycode_table = linux_keycode_rows_low @ linux_keycode_rows_high"

definition sdl_scancode_to_linux_keycode_table_length :: int where
  "sdl_scancode_to_linux_keycode_table_length = int (length sdl_scancode_to_linux_keycode_table)"

definition sdl_scancode_to_android_keycode :: "SDL_Scancode \<Rightarrow> int \<Rightarrow> int" where
  "sdl_scancode_to_android_keycode c s =
     (if SDL_SCANCODE_A c \<le> s \<and> s \<le> SDL_SCANCODE_Z c then s + 25
      else if SDL_SCANCODE_1 c \<le> s \<and> s \<le> SDL_SCANCODE_9 c then s - 22
      else if s = SDL_SCANCODE_0 c then 7
      else if s = SDL_SCANCODE_CAPSLOCK c then 115
      else if SDL_SCANCODE_F1 c \<le> s \<and> s \<le> SDL_SCANCODE_F12 c then s + 73
      else if s = SDL_SCANCODE_LCTRL c then 113
      else if s = SDL_SCANCODE_RCTRL c then 114
      else if s = SDL_SCANCODE_LSHIFT c then 59
      else if s = SDL_SCANCODE_RSHIFT c then 60
      else if s = SDL_SCANCODE_LALT c then 57
      else if s = SDL_SCANCODE_RALT c then 58
      else if s = SDL_SCANCODE_TAB c then 61
      else if s = SDL_SCANCODE_SPACE c then 62
      else if s = SDL_SCANCODE_BACKSPACE c then 67
      else if s = SDL_SCANCODE_RETURN c then 66
      else if s = SDL_SCANCODE_ESCAPE c then 111
      else if s = SDL_SCANCODE_UP c then 19
      else if s = SDL_SCANCODE_DOWN c then 20
      else if s = SDL_SCANCODE_LEFT c then 21
      else if s = SDL_SCANCODE_RIGHT c then 22
      else 0)"

section \<open>Properties\<close>

text \<open>The pairs of constants that name the same key in both headers.\<close>

definition same_key :: "(int \<times> int) list" where
  "same_key =
    [(KEY_A, AKEYCODE_A),
     (KEY_B, AKEYCODE_B),
     (KEY_C, AKEYCODE_C),
     (KEY_D, AKEYCODE_D),
     (KEY_E, AKEYCODE_E),
     (KEY_F, AKEYCODE_F),
     (KEY_G, AKEYCODE_G),
     (KEY_H, AKEYCODE_H),
     (KEY_I, AKEYCODE_I),
     (KEY_J, AKEYCODE_J),
     (KEY_K, AKEYCODE_K),
     (KEY_L, AKEYCODE_L),
     (KEY_M, AKEYCODE_M),
     (KEY_N, AKEYCODE_N),
     (KEY_O, AKEYCODE_O),
     (KEY_P, AKEYCODE_P),
     (KEY_Q, AKEYCODE_Q),
     (KEY_R, AKEYCODE_R),
     (KEY_S, AKEYCODE_S),
     (KEY_T, AKEYCODE_T),
     (KEY_U, AKEYCODE_U),
     (KEY_V, AKEYCODE_V),
     (KEY_W, AKEYCODE_W),
     (KEY_X, AKEYCODE_X),
     (KEY_Y, AKEYCODE_Y),
     (KEY_Z, AKEYCODE_Z),
     (KEY_0, AKEYCODE_0),
     (KEY_1, AKEYCODE_1),
     (KEY_2, AKEYCODE_2),
     (KEY_3, AKEYCODE_3),
     (KEY_4, AKEYCODE_4),
     (KEY_5, AKEYCODE_5),
     (KEY_6, AKEYCODE_6),
     (KEY_7, AKEYCODE_7),
     (KEY_8, AKEYCODE_8),
     (KEY_9, AKEYCODE_9),
     (KEY_F1, AKEYCODE_F1),
     (KEY_F2, AKEYCODE_F2),
     (KEY_F3, AKEYCODE_F3),
     (KEY_F4, AKEYCODE_F4),
     (KEY_F5, AKEYCODE_F5),
     (KEY_F6, AKEYCODE_F6),
     (KEY_F7, AKEYCODE_F7),
     (KEY_F8, AKEYCODE_F8),
     (KEY_F9, AKEYCODE_F9),
     (KEY_F10, AKEYCODE_F10),
     (KEY_F11, AKEYCODE_F11),
     (KEY_F12, AKEYCODE_F12),
     (KEY_CAPSLOCK, AKEYCODE_CAPS_LOCK),
     (KEY_LEFTCTRL, AKEYCODE_CTRL_LEFT),
     (KEY_RIGHTCTRL, AKEYCODE_CTRL_RIGHT),
     (KEY_LEFTSHIFT, AKEYCODE_SHIFT_LEFT),
     (KEY_RIGHTSHIFT, AKEYCODE_SHIFT_RIGHT),
     (KEY_LEFTALT, AKEYCODE_ALT_LEFT),
     (KEY_RIGHTALT, AKEYCODE_ALT_RIGHT),
     (KEY_TAB, AKEYCODE_TAB),
     (KEY_SPACE, AKEYCODE_SPACE),
     (KEY_BACKSPACE, AKEYCODE_DEL),
     (KEY_ENTER, AKEYCODE_ENTER),
     (KEY_ESC, AKEYCODE_ESCAPE),
     (KEY_UP, AKEYCODE_DPAD_UP),
     (KEY_DOWN, AKEYCODE_DPAD_DOWN),
     (KEY_LEFT, AKEYCODE_DPAD_LEFT),
     (KEY_RIGHT, AKEYCODE_DPAD_RIGHT)]"

text \<open>The loop bound of the exhaustive comparison.\<close>

lemma table_length: "length sdl_scancode_to_linux_keycode_table = 232"
  by (simp add: sdl_scancode_to_linux_keycode_table_def linux_keycode_rows_low_def
      linux_keycode_rows_high_def)

definition keys_agree :: "SDL_Scancode \<Rightarrow> bool" where
  "keys_agree c \<longleftrightarrow>
     list_all (\<lambda>(s, k). sdl_scancode_to_android_keycode c s = 0 \<or>
         (k, sdl_scancode_to_android_keycode c s) \<in> set same_key)
       (zip [0..231] sdl_scancode_to_linux_keycode_table)"

lemma usb_keys_agree: "keys_agree usb_usage_scancodes"
  by code_simp

lemma usb_translated_count:
  "length (filter (\<lambda>s. sdl_scancode_to_android_keycode usb_usage_scancodes s \<noteq> 0) [0..231])
     = length same_key"
  by code_simp

lemma android_zero_outside:
  "s < 0 \<or> 232 \<le> s \<Longrightarrow> sdl_scancode_to_android_keycode usb_usage_scancodes s = 0"
  by (auto simp: sdl_scancode_to_android_keycode_def usb_usage_scancodes_def)

text \<open>
  C39.  The two translations agree: with SDL's documented scancodes, whenever a scancode has an
  Android key code, the table gives the kernel code of the same key; exactly the keys of the
  reference list are translated; and every scancode the assertion before the table lets through
  is a valid index.
\<close>

theorem key_translations_agree:
  assumes "c = usb_usage_scancodes"
  shows "(0 \<le> s \<and> s < sdl_scancode_to_linux_keycode_table_length \<longrightarrow>
            nat s < length sdl_scancode_to_linux_keycode_table) \<and>
         (sdl_scancode_to_android_keycode c s \<noteq> 0 \<longrightarrow>
            0 \<le> s \<and> s < sdl_scancode_to_linux_keycode_table_length \<and>
            (sdl_scancode_to_linux_keycode_table ! nat s, sdl_scancode_to_android_keycode c s)
              \<in> set same_key) \<and>
         length (filter (\<lambda>s. sdl_scancode_to_android_keycode c s \<noteq> 0) [0..231])
           = length same_key"
proof -
  have "(sdl_scancode_to_linux_keycode_table ! nat s, sdl_scancode_to_android_keycode c s)
      \<in> set same_key" if "sdl_scancode_to_android_keycode c s \<noteq> 0" "0 \<le> s" "s < 232"
  proof -
    have "(s, sdl_scancode_to_linux_keycode_table ! nat s)
        \<in> set (zip [0..231] sdl_scancode_to_linux_keycode_table)"
      using that by (auto simp: in_set_zip table_length intro!: exI [of _ "nat s"])
    then show ?thesis
      using usb_keys_agree that(1) unfolding keys_agree_def list_all_iff assms by fastforce
  qed
  moreover have "0 \<le> s \<and> s < 232" if "sdl_scancode_to_android_keycode c s \<noteq> 0"
    using that android_zero_outside [of s] assms by force
  ultimately show ?thesis
    using usb_translated_count assms
    by (auto simp: sdl_scancode_to_linux_keycode_table_length_def table_length)
qed

theorem key_translations_agree_witness:
  "sdl_scancode_to_android_keycode usb_usage_scancodes 4 = AKEYCODE_A \<and>
   (sdl_scancode_to_linux_keycode_table ! 4, sdl_scancode_to_android_keycode usb_usage_scancodes 4)
     \<in> set same_key"
proof -
  have "sdl_scancode_to_android_keycode usb_usage_scancodes 4 = AKEYCODE_A"
    by (simp add: sdl_scancode_to_android_keycode_def usb_usage_scancodes_def)
  then show ?thesis
    using key_translations_agree [OF refl, of 4] by (simp add:)
qed

end
