(* ===== verification/Java_Classes.thy ===== *)
theory Java_Classes
  imports App_State
begin

text \<open>
  \<^verbatim>\<open>src/src/class/*.cpp\<close>: the Java classes the program offers to the guest, their methods and
  fields, and the parameter objects.  A global variable of the source is looked up by its name in
  a map; the closures are named by \<open>java_body\<close> and given their meaning by \<open>run_java_body\<close>.
\<close>

section \<open>State\<close>

text \<open>
  The closures, by what they do: \<open>Return v\<close> returns a constant, \<open>Return_string\<close> a new string,
  \<open>Stub\<close> fails an assertion, \<open>Return_object g\<close> returns the object pointer in the global \<open>g\<close>; the
  others are named after the value or the operation.
\<close>

datatype java_body =
    Return ValueVariant
  | Return_string string
  | Stub string
  | Return_object string
  | Return_new_object
  | Device_params | Platform_params
  | User_agent | Files_dir | App_version
  | User_id | Is_under_13 | Username | Display_name | Membership_type | Theme
  | Locale_string
  | Place_id | Game_user_id | Join_request_type
  | Integer_intValue | Integer_floatValue | Boolean_booleanValue | Float_floatValue | Long_longValue
  | Audio_init | Audio_write
  | Data_model_notification | Text_box_changed
  | On_set_cookie
  | Show_keyboard | Hide_keyboard
  | Message_bus_run

type_synonym java = "java_body jni_body"

text \<open>Events the closures push to the SDL queue, and calls they make to the audio device.\<close>

datatype CustomEvent = APP_STARTUP | START_GAME | REPORT_BATTERY_STATUS

text \<open>Arguments of calls to guest routines.\<close>

datatype garg =
    Env_arg
  | Vm_arg ref
  | Ref_arg ref
  | Int_arg u32
  | Long_arg u64
  | Bool_arg bool
  | Float_arg u32

record app = "java jni_state" +
  class_global :: "string \<Rightarrow> ref"
  field_global :: "string \<rightharpoonup> jfieldID"
  object_global :: "string \<Rightarrow> ref"
  current_place_id :: u64
  current_user_id :: u64
  current_join_request_type :: u32
  roblox_version :: string
  user_agent :: string
  roblox_locale :: string
  path_prefix :: "path option"
  cookies :: cookie_jar
  cookie_file :: "string option"
  display_width :: u64
  display_height :: u64
  device_memory_mb :: u64
  user_state :: UserState
  pushed_events :: "CustomEvent list"
  audio_device_paused :: bool
  audio_buffer :: "u8 list"
  app_methods :: "string \<Rightarrow> u64"
  current_text_box_id :: u64

definition initial_app :: app where
  "initial_app = jni_state.extend initial_jni_state
     (app.fields (\<lambda>_. 0) Map.empty (\<lambda>_. 0) (- 1) (- 1) (- 1) [] initial_user_agent ''en_us'' None
       Map.empty None 0 0 0 initial_user_state [] True (replicate 2048 0) (\<lambda>_. 0) 0)"

section \<open>Registration\<close>

text \<open>\<^verbatim>\<open>g = create_class(vm, name)\<close>\<close>

definition assign_class :: "ref \<Rightarrow> string \<Rightarrow> string \<Rightarrow> app \<Rightarrow> (ref \<times> app) result" where
  "assign_class vm g name s =
     and_then (create_class vm name s) (\<lambda>(c, s'). Inr (c, s'\<lparr>class_global := (class_global s')(g := c)\<rparr>))"

text \<open>\<^verbatim>\<open>g = c->field(name)\<close>\<close>

definition assign_field :: "ref \<Rightarrow> string \<Rightarrow> string \<Rightarrow> app \<Rightarrow> app result" where
  "assign_field c g name s =
     and_then (class_field c name s) (\<lambda>(fid, s'). Inr (s'\<lparr>field_global := (field_global s')(g \<mapsto> fid)\<rparr>))"

text \<open>\<^verbatim>\<open>c->static_field(name, create_string(x))\<close> and \<^verbatim>\<open>c->static_field(name, n)\<close>\<close>

datatype static_value = StrV string | IntV u32

fun init_static_field :: "ref \<Rightarrow> string \<Rightarrow> static_value \<Rightarrow> app \<Rightarrow> app result" where
  "init_static_field c name (StrV x) s =
     (let (r, s') = create_string x s in and_then (static_field c name (VObject r) s') (\<lambda>(_, s''). Inr s''))"
| "init_static_field c name (IntV n) s = and_then (static_field c name (VInt n) s) (\<lambda>(_, s'). Inr s')"

text \<open>A description of one class: its variable, its name, its fields and its methods, in order.\<close>

record class_desc =
  cd_global :: string
  cd_name :: string
  cd_static_fields :: "(string \<times> static_value) list"
  cd_fields :: "(string \<times> string) list"
  cd_methods :: "(string \<times> (MethodType \<times> java_body)) list"

definition register_methods :: "ref \<Rightarrow> (string \<times> (MethodType \<times> java_body)) list \<Rightarrow> app \<Rightarrow> app result" where
  "register_methods c ms s =
     register_entries (add_method c) (map (\<lambda>(n, ty, b). (n, ty, Body b)) ms) s"

definition build_class :: "ref \<Rightarrow> class_desc \<Rightarrow> app \<Rightarrow> app result" where
  "build_class vm d s =
     and_then (assign_class vm (cd_global d) (cd_name d) s) (\<lambda>(c, s1).
     and_then (register_entries (init_static_field c) (cd_static_fields d) s1) (\<lambda>s2.
     and_then (register_entries (assign_field c) (cd_fields d) s2) (\<lambda>s3.
     register_methods c (cd_methods d) s3)))"

fun build_classes :: "ref \<Rightarrow> class_desc list \<Rightarrow> app \<Rightarrow> app result" where
  "build_classes vm [] s = Inr s"
| "build_classes vm (d # ds) s = and_then (build_class vm d s) (build_classes vm ds)"

definition simple_class :: "string \<Rightarrow> string \<Rightarrow> (string \<times> (MethodType \<times> java_body)) list \<Rightarrow> class_desc" where
  "simple_class g name ms =
     \<lparr>cd_global = g, cd_name = name, cd_static_fields = [], cd_fields = [], cd_methods = ms\<rparr>"

abbreviation VFalse :: ValueVariant where "VFalse \<equiv> VBoolean 0"
abbreviation VTrue :: ValueVariant where "VTrue \<equiv> VBoolean 1"

section \<open>The classes\<close>

definition android_classes :: "class_desc list" where
  "android_classes =
    [simple_class ''surface_class'' ''android/view/Surface'' [],
     \<lparr>cd_global = ''build_class'', cd_name = ''android/os/Build'',
      cd_static_fields = map (\<lambda>n. (n, StrV []))
        [''PRODUCT'', ''DEVICE'', ''BOARD'', ''MANUFACTURER'', ''BRAND'', ''MODEL'', ''BOOTLOADER'',
         ''HARDWARE'', ''TYPE'', ''TAGS'', ''FINGERPRINT'', ''USER'', ''HOST''],
      cd_fields = [], cd_methods = []\<rparr>,
     simple_class ''debug_class'' ''android/os/Debug''
       [(''isDebuggerConnected'', Static, Return VFalse)],
     \<lparr>cd_global = ''build_version_class'', cd_name = ''android/os/Build$VERSION'',
      cd_static_fields = [(''SDK_INT'', IntV ANDROID_SDK_VERSION)], cd_fields = [], cd_methods = []\<rparr>,
     simple_class ''context_class'' ''android/content/Context''
       [(''getSharedPreferences'', Member, Return_object ''shared_preferences'')],
     simple_class ''shared_preferences_class'' ''android/content/SharedPreferences''
       [(''edit'', Member, Return_object ''shared_preferences_editor'')],
     simple_class ''shared_preferences_editor_class'' ''android/content/SharedPreferences$Editor''
       [(''putString'', Member, Return_object ''shared_preferences_editor''),
        (''apply'', Member, Return (VInt 0))],
     \<lparr>cd_global = ''display_metrics_class'', cd_name = ''android/util/DisplayMetrics'',
      cd_static_fields = [],
      cd_fields = [(''xdpi_field'', ''xdpi''), (''ydpi_field'', ''ydpi''),
        (''width_pixels_field'', ''widthPixels''), (''height_pixels_field'', ''heightPixels'')],
      cd_methods = []\<rparr>,
     simple_class ''resources_class'' ''android/content/res/Resources''
       [(''getDisplayMetrics'', Member, Return_object ''display_metrics'')],
     simple_class ''application_class'' ''android/app/Application''
       [(''getResources'', Member, Return_object ''resources'')],
     simple_class ''activity_thread_class'' ''android/app/ActivityThread''
       [(''currentActivityThread'', Static, Return_object ''activity_thread''),
        (''getApplication'', Member, Return_object ''application'')]]"

definition session_reporter_interface_class :: class_desc where
  "session_reporter_interface_class =
     simple_class ''session_reporter_interface_class''
       ''com/roblox/engine/jni/reporter/SessionReporterJavaInterface''
       [(''getFilesDir'', Static, Files_dir),
        (''setEventTrackingGoogleAnalytics'', Static, Return (VInt 0)),
        (''getAppVersion'', Static, App_version),
        (''getLastLoggedInUser'', Static, Return_string []),
        (''getLastLoggedInUserId'', Static, Return_string []),
        (''sendSessionReport'', Static, Return (VInt 0))]"

definition generic_stub :: java_body where
  "generic_stub = Stub ''JNI stub reached''"

definition native_gl_interface_classes :: "class_desc list" where
  "native_gl_interface_classes =
    [simple_class ''settings_interface_class'' ''com/roblox/engine/jni/NativeSettingsInterface'' [],
     simple_class ''app_bridge_interface_class'' ''com/roblox/engine/jni/NativeAppBridgeInterface'' [],
     simple_class ''cookie_protocol_class'' ''com/roblox/universalapp/cookie/JNICookieProtocol'' [],
     simple_class ''input_interface_class'' ''com/roblox/engine/jni/NativeInputInterface'' [],
     simple_class ''native_gl_interface_class'' ''com/roblox/engine/jni/NativeGLJavaInterface''
       [(''promptNativePurchase'', Static, generic_stub),
        (''promptNativePurchaseWithPayload'', Static, generic_stub),
        (''exitGameWithError'', Static, generic_stub),
        (''gameDidLeave'', Static, Return (VInt 0)),
        (''onAppShellReloadNeeded'', Static, generic_stub),
        (''listenToMotionEvents'', Static, generic_stub),
        (''screenOrientationChanged'', Static, Return (VInt 0)),
        (''openNativeOverlay'', Static, generic_stub),
        (''onDataModelNotificationCallback'', Static, Data_model_notification),
        (''gameLoadedCallback'', Static, Return (VInt 0)),
        (''onLuaTextBoxChangedCallback'', Static, Text_box_changed),
        (''onLuaTextBoxPropertyChangedCallback'', Static, Return (VInt 0)),
        (''onAppBridgeNotification'', Static, Return (VInt 0)),
        (''onExtendedAnalyticsRecvCallback'', Static, generic_stub),
        (''saveImageToAlbum'', Static, generic_stub),
        (''onVrSessionStateUpdate'', Static, generic_stub)]]"

definition user_java_interface_class :: class_desc where
  "user_java_interface_class =
     simple_class ''user_java_interface_class''
       ''com/roblox/engine/jni/user/NativeUserJavaInterface''
       [(''getUserId'', Static, User_id), (''getIsUnder13'', Static, Is_under_13),
        (''getUsername'', Static, Username), (''getDisplayName'', Static, Display_name),
        (''getAlternateName'', Static, Return_string []),
        (''getPlatformName'', Static, Return_string []),
        (''getMembershipType'', Static, Membership_type), (''getTheme'', Static, Theme)]"

definition platform_params_class :: class_desc where
  "platform_params_class =
     \<lparr>cd_global = ''platform_params_class'', cd_name = ''com/roblox/engine/jni/model/PlatformParams'',
      cd_static_fields = [],
      cd_fields = [(''asset_folder_path_field'', ''assetFolderPath''),
        (''dpi_scale_field'', ''dpiScale''), (''is_keyboard_device_field'', ''isKeyboardDevice''),
        (''is_mouse_device_field'', ''isMouseDevice''), (''is_touch_device_field'', ''isTouchDevice'')],
      cd_methods = []\<rparr>"

definition device_params_class :: class_desc where
  "device_params_class =
     \<lparr>cd_global = ''device_params_class'', cd_name = ''com/roblox/engine/jni/model/DeviceParams'',
      cd_static_fields = [],
      cd_fields = [(''app_build_variant_field'', ''appBuildVariant''),
        (''app_version_field'', ''appVersion''), (''country_field'', ''country''),
        (''device_name_field'', ''deviceName''),
        (''device_total_memory_mb_field'', ''deviceTotalMemoryMB''),
        (''display_resolution_field'', ''displayResolution''), (''is_chrome_field'', ''isChrome''),
        (''low_memory_killer_background_app_threshold_field'', ''lowMemoryKillerBackgroundAppThreshold''),
        (''low_memory_killer_foreground_app_threshold_field'', ''lowMemoryKillerForegroundAppThreshold''),
        (''manufacturer_field'', ''manufacturer''), (''network_type_field'', ''networkType''),
        (''os_version_field'', ''osVersion'')],
      cd_methods = []\<rparr>"

definition init_params_class :: class_desc where
  "init_params_class =
     simple_class ''init_params_class'' ''com/roblox/engine/jni/autovalue/InitParams''
       [(''baseURL'', Member, Return_string ''https://www.roblox.com/''),
        (''buildVariant'', Member, Return_string ''googleProdRelease''),
        (''deviceParams'', Member, Device_params), (''isTablet'', Member, Return VFalse),
        (''isVrDevice'', Member, Return VFalse), (''platformParams'', Member, Platform_params),
        (''userAgent'', Member, User_agent), (''vrContext'', Member, Return (VObject 0))]"

definition start_app_params_class :: class_desc where
  "start_app_params_class =
     simple_class ''start_app_params_class'' ''com/roblox/engine/jni/autovalue/StartAppParams''
       [(''appStarterPlace'', Member, Return_string ''rbxasset://places/Mobile.rbxl''),
        (''appStarterScript'', Member, Return_string ''LuaAppStarterScript''),
        (''appUserId'', Member, User_id), (''isUnder13'', Member, Is_under_13),
        (''membershipType'', Member, Membership_type), (''platformParams'', Member, Platform_params),
        (''selectedTheme'', Member, Theme), (''surface'', Member, Return_new_object),
        (''username'', Member, Username), (''vrContext'', Member, Return (VObject 0))]"

definition start_game_params_class :: class_desc where
  "start_game_params_class =
     simple_class ''start_game_params_class'' ''com/roblox/engine/jni/autovalue/StartGameParams''
       [(''accessCode'', Member, Return_string []), (''callId'', Member, Return_string []),
        (''conversationId'', Member, Return (VLong (- 1))), (''deviceParams'', Member, Device_params),
        (''gameId'', Member, Return_string []), (''isUnder13'', Member, Is_under_13),
        (''isoContext'', Member, Return_string []),
        (''joinAttemptId'', Member, Return_object ''current_join_attempt_id''),
        (''joinAttemptOrigin'', Member, Return_object ''current_join_attempt_origin''),
        (''joinRequestType'', Member, Join_request_type), (''launchData'', Member, Return_string []),
        (''linkCode'', Member, Return_string []), (''placeId'', Member, Place_id),
        (''platformParams'', Member, Platform_params),
        (''referralPage'', Member, Return_object ''current_referral_page''),
        (''reservedServerAccessCode'', Member, Return_string []),
        (''surface'', Member, Return_new_object), (''userId'', Member, Game_user_id),
        (''username'', Member, Return_string []), (''vrContext'', Member, Return (VObject 0))]"

definition native_locale_java_interface_class :: class_desc where
  "native_locale_java_interface_class =
     simple_class ''native_locale_java_interface_class''
       ''com/roblox/engine/jni/locale/NativeLocaleJavaInterface''
       [(''getLocale'', Static, Locale_string), (''getRobloxLocale'', Static, Locale_string),
        (''getGameLocale'', Static, Locale_string)]"

definition audio_interface_classes :: "class_desc list" where
  "audio_interface_classes =
    [simple_class ''fmod_class'' ''org/fmod/FMOD''
       [(''checkInit'', Static, Return VFalse), (''supportsLowLatency'', Static, Return VFalse),
        (''supportsAAudio'', Static, Return VFalse)],
     simple_class ''audio_device_class'' ''org/fmod/AudioDevice''
       [(''<init>'', Member, Return (VInt 0)), (''init'', Member, Audio_init),
        (''close'', Member, Return (VInt 0)), (''write'', Member, Audio_write)]]"

definition java_primitive_class :: "string \<Rightarrow> string \<Rightarrow> string \<Rightarrow> (string \<times> (MethodType \<times> java_body)) list \<Rightarrow> class_desc" where
  "java_primitive_class g name f ms =
     \<lparr>cd_global = g, cd_name = name, cd_static_fields = [], cd_fields = [(f, ''value'')],
      cd_methods = ms\<rparr>"

definition java_primitive_classes :: "class_desc list" where
  "java_primitive_classes =
    [java_primitive_class ''java_lang_integer_class'' ''java/lang/Integer'' ''java_lang_integer_value''
       [(''intValue'', Member, Integer_intValue), (''floatValue'', Member, Integer_floatValue)],
     java_primitive_class ''java_lang_boolean_class'' ''java/lang/Boolean'' ''java_lang_boolean_value''
       [(''booleanValue'', Member, Boolean_booleanValue)],
     java_primitive_class ''java_lang_float_class'' ''java/lang/Float'' ''java_lang_float_value''
       [(''floatValue'', Member, Float_floatValue)],
     java_primitive_class ''java_lang_long_class'' ''java/lang/Long'' ''java_lang_long_value''
       [(''longValue'', Member, Long_longValue)]]"

definition battery_status_class :: class_desc where
  "battery_status_class =
     \<lparr>cd_global = ''battery_status_class'', cd_name = ''com/roblox/engine/jni/model/BatteryStatus'',
      cd_static_fields = [],
      cd_fields = [(''battery_low_field'', ''batteryLow''),
        (''battery_percentage_field'', ''batteryPercentage''),
        (''charge_counter_field'', ''chargeCounter''), (''current_average_field'', ''currentAverage''),
        (''current_now_field'', ''currentNow''), (''energy_counter_field'', ''energyCounter''),
        (''health_field'', ''health''), (''plugged_field'', ''plugged''), (''power_field'', ''power''),
        (''present_field'', ''present''), (''status_field'', ''status''),
        (''temperature_field'', ''temperature''), (''voltage_field'', ''voltage'')],
      cd_methods = []\<rparr>"

section \<open>Objects\<close>

text \<open>A null field pointer is a key of its own.\<close>

definition the_field :: "string \<Rightarrow> app \<Rightarrow> jfieldID" where
  "the_field g s = (case field_global s g of Some fid \<Rightarrow> fid | None \<Rightarrow> (0, []))"

definition new_of_class :: "string \<Rightarrow> app \<Rightarrow> ref \<times> app" where
  "new_of_class g s = new_object (plain_object (class_global s g)) s"

type_synonym value_source = "app \<Rightarrow> (ValueVariant \<times> app) result"

text \<open>\<^verbatim>\<open>object->fields.emplace(g, value)\<close> for a sequence of fields.\<close>

fun emplace_all :: "ref \<Rightarrow> (string \<times> value_source) list \<Rightarrow> app \<Rightarrow> app result" where
  "emplace_all ob [] s = Inr s"
| "emplace_all ob ((g, src) # rest) s =
     and_then (src s) (\<lambda>(v, s1).
     and_then (emplace_field ob (the_field g s1) v s1) (emplace_all ob rest))"

definition const_value :: "ValueVariant \<Rightarrow> value_source" where
  "const_value v s = Inr (v, s)"

definition string_value :: "string \<Rightarrow> value_source" where
  "string_value x s = (let (r, s') = create_string x s in Inr (VObject r, s'))"

definition boxed :: "string \<Rightarrow> string \<Rightarrow> ValueVariant \<Rightarrow> value_source" where
  "boxed cls g v s =
     (let (r, s1) = new_of_class cls s
      in and_then (emplace_field r (the_field g s1) v s1) (\<lambda>s2. Inr (VObject r, s2)))"

definition create_java_lang_integer :: "u32 \<Rightarrow> value_source" where
  "create_java_lang_integer n = boxed ''java_lang_integer_class'' ''java_lang_integer_value'' (VInt n)"

definition create_java_lang_boolean :: "bool \<Rightarrow> value_source" where
  "create_java_lang_boolean b =
     boxed ''java_lang_boolean_class'' ''java_lang_boolean_value'' (VBoolean (of_bool b))"

definition create_java_lang_float :: "u32 \<Rightarrow> value_source" where
  "create_java_lang_float x = boxed ''java_lang_float_class'' ''java_lang_float_value'' (VFloat x)"

definition create_java_lang_long :: "u64 \<Rightarrow> value_source" where
  "create_java_lang_long n = boxed ''java_lang_long_class'' ''java_lang_long_value'' (VLong n)"

text \<open>\<^verbatim>\<open>std::to_string\<close> of an unsigned number.\<close>

fun to_string :: "nat \<Rightarrow> string" where
  "to_string n = (if n < 10 then [char_of (48 + n)]
                  else to_string (n div 10) @ [char_of (48 + n mod 10)])"

declare to_string.simps [simp del]

text \<open>\<^verbatim>\<open>g = new Object(c)\<close>\<close>

definition assign_object :: "string \<times> string \<Rightarrow> app \<Rightarrow> app" where
  "assign_object gc s =
     (let (r, s') = new_of_class (snd gc) s in s'\<lparr>object_global := (object_global s')(fst gc := r)\<rparr>)"

definition android_objects :: "(string \<times> string) list" where
  "android_objects =
     [(''shared_preferences_editor'', ''shared_preferences_editor_class''),
      (''shared_preferences'', ''shared_preferences_class''), (''resources'', ''resources_class''),
      (''application'', ''application_class''), (''activity_thread'', ''activity_thread_class''),
      (''display_metrics'', ''display_metrics_class'')]"

definition display_metrics_fields :: "app \<Rightarrow> (string \<times> value_source) list" where
  "display_metrics_fields s =
     [(''xdpi_field'', const_value (VFloat 0x3F800000)),
      (''ydpi_field'', const_value (VFloat 0x3F800000)),
      (''width_pixels_field'', const_value (VInt (ucast (display_width s)))),
      (''height_pixels_field'', const_value (VInt (ucast (display_height s))))]"

definition create_android_objects :: "app \<Rightarrow> app result" where
  "create_android_objects s =
     (let s1 = fold assign_object android_objects s
      in emplace_all (object_global s1 ''display_metrics'') (display_metrics_fields s1) s1)"

definition create_android_classes :: "ref \<Rightarrow> app \<Rightarrow> app result" where
  "create_android_classes vm s = and_then (build_classes vm android_classes s) create_android_objects"

definition init_classes :: "ref \<Rightarrow> app \<Rightarrow> app result" where
  "init_classes vm s =
     and_then (create_android_classes vm s) (\<lambda>s1.
     build_classes vm
       ([session_reporter_interface_class] @ native_gl_interface_classes @
        [user_java_interface_class, platform_params_class, device_params_class, init_params_class,
         start_app_params_class, start_game_params_class, native_locale_java_interface_class] @
        audio_interface_classes @ java_primitive_classes @ [battery_status_class]) s1)"

text \<open>
  The parameter objects are made on first use and kept in a global.  \<^verbatim>\<open>true\<close> and \<^verbatim>\<open>false\<close> convert to
  the \<^verbatim>\<open>jint\<close> alternative of the variant: among the alternatives a \<^verbatim>\<open>bool\<close> converts to without
  narrowing, only \<^verbatim>\<open>int\<close> is reached by a promotion.
\<close>

definition cached_object ::
    "string \<Rightarrow> string \<Rightarrow> (app \<Rightarrow> (string \<times> value_source) list) \<Rightarrow> app \<Rightarrow> (ref \<times> app) result" where
  "cached_object g cls fs s =
     (if object_global s g \<noteq> 0 then Inr (object_global s g, s)
      else (let (r, s1) = new_of_class cls s;
                s2 = s1\<lparr>object_global := (object_global s1)(g := r)\<rparr>
            in and_then (emplace_all r (fs s2) s2) (\<lambda>s3. Inr (r, s3))))"

definition device_params_fields :: "app \<Rightarrow> (string \<times> value_source) list" where
  "device_params_fields s =
     [(''app_build_variant_field'', string_value ''googleProdRelease''),
      (''app_version_field'', string_value (roblox_version s)),
      (''country_field'', string_value []), (''device_name_field'', string_value []),
      (''device_total_memory_mb_field'', const_value (VInt (ucast (device_memory_mb s)))),
      (''display_resolution_field'', string_value
         (to_string (unat (display_width s)) @ ''x'' @ to_string (unat (display_height s)))),
      (''is_chrome_field'', const_value VTrue),
      (''low_memory_killer_background_app_threshold_field'', const_value (VLong 10000)),
      (''low_memory_killer_foreground_app_threshold_field'', const_value (VLong 10000)),
      (''manufacturer_field'', string_value []), (''network_type_field'', string_value ''WiFi''),
      (''os_version_field'', string_value (to_string (unat ANDROID_SDK_VERSION)))]"

definition get_device_params :: "app \<Rightarrow> (ref \<times> app) result" where
  "get_device_params s = cached_object ''device_params'' ''device_params_class'' device_params_fields s"

definition platform_params_fields :: "environment \<Rightarrow> app \<Rightarrow> (string \<times> value_source) list" where
  "platform_params_fields env s =
     [(''asset_folder_path_field'', \<lambda>s. and_then (get_assets_dir env (path_prefix s)) (\<lambda>d.
         string_value (path_append d ''content/'') s)),
      (''dpi_scale_field'', const_value (VFloat 0x3F800000)),
      (''is_keyboard_device_field'', const_value (VInt 1)),
      (''is_mouse_device_field'', const_value (VInt 1)),
      (''is_touch_device_field'', const_value (VInt 0))]"

definition get_platform_params :: "environment \<Rightarrow> app \<Rightarrow> (ref \<times> app) result" where
  "get_platform_params env s =
     cached_object ''platform_params'' ''platform_params_class'' (platform_params_fields env) s"

text \<open>
  The local variable of \<^verbatim>\<open>get_battery_status\<close> shadows the global that its first line tests: the
  global is never assigned.
\<close>

definition battery_status_fields :: "(string \<times> value_source) list" where
  "battery_status_fields =
     [(''battery_low_field'', create_java_lang_boolean False),
      (''battery_percentage_field'', create_java_lang_integer 100),
      (''charge_counter_field'', create_java_lang_integer 3000000),
      (''current_average_field'', create_java_lang_integer 1000000),
      (''current_now_field'', create_java_lang_integer 1000000),
      (''energy_counter_field'', create_java_lang_long 36000000000),
      (''health_field'', create_java_lang_integer 2), (''plugged_field'', create_java_lang_integer 1),
      (''power_field'', create_java_lang_integer 12), (''present_field'', create_java_lang_boolean True),
      (''status_field'', create_java_lang_integer 2),
      (''temperature_field'', create_java_lang_integer 20),
      (''voltage_field'', create_java_lang_integer 12)]"

definition get_battery_status :: "app \<Rightarrow> (ref \<times> app) result" where
  "get_battery_status s =
     (if object_global s ''battery_status'' \<noteq> 0 then Inr (object_global s ''battery_status'', s)
      else (let (r, s1) = new_of_class ''battery_status_class'' s
            in and_then (emplace_all r battery_status_fields s1) (\<lambda>s2. Inr (r, s2))))"

definition assign_string :: "string \<times> string \<Rightarrow> app \<Rightarrow> app" where
  "assign_string gx s =
     (let (r, s') = create_string (snd gx) s in s'\<lparr>object_global := (object_global s')(fst gx := r)\<rparr>)"

definition set_start_game_params ::
    "u64 \<Rightarrow> u64 \<Rightarrow> u32 \<Rightarrow> string \<Rightarrow> string \<Rightarrow> string \<Rightarrow> app \<Rightarrow> app" where
  "set_start_game_params place_id uid join_request_type join_attempt_id join_attempt_origin
       referral_page s =
     fold assign_string
       [(''current_join_attempt_id'', join_attempt_id),
        (''current_join_attempt_origin'', join_attempt_origin),
        (''current_referral_page'', referral_page)]
       (s\<lparr>current_place_id := place_id, current_user_id := uid,
          current_join_request_type := join_request_type\<rparr>)"

section \<open>The closures\<close>

text \<open>
  What the closures use of the host: the environment, the conversion of integers to floats, the
  iteration order of the cookie map, the JSON parser, and the guest: running a guest routine at an
  address with arguments gives its result and a new state.
\<close>

datatype json_value = JSON_integer u64 | JSON_string string | JSON_other

record host =
  h_env :: environment
  h_int_to_float :: "u32 \<Rightarrow> u32"
  h_order :: "cookie_jar \<Rightarrow> (string \<times> string) list"
  h_json :: "string \<Rightarrow> (string \<rightharpoonup> json_value) result"
  h_guest :: "u64 \<Rightarrow> garg list \<Rightarrow> app \<Rightarrow> (u64 \<times> app) result"

text \<open>\<^verbatim>\<open>std::get<T>(object->fields.at(field).value)\<close>\<close>

definition boxed_value :: "jtype \<Rightarrow> string \<Rightarrow> ref \<Rightarrow> app \<Rightarrow> ValueVariant result" where
  "boxed_value T g object s =
     and_then (deref object s) (\<lambda>ob. case obj_fields ob (the_field g s) of
        None \<Rightarrow> Inl Out_of_range
      | Some v \<Rightarrow> variant_get T v)"

definition pure_value :: "ValueVariant result \<Rightarrow> app \<Rightarrow> (ValueVariant \<times> app) result" where
  "pure_value r s = and_then r (\<lambda>v. Inr (v, s))"

definition int_to_float_value :: "host \<Rightarrow> ValueVariant \<Rightarrow> ValueVariant" where
  "int_to_float_value h v = (case v of VInt n \<Rightarrow> VFloat (h_int_to_float h n) | _ \<Rightarrow> v)"

definition object_value :: "(ref \<times> app) result \<Rightarrow> (ValueVariant \<times> app) result" where
  "object_value r = and_then r (\<lambda>(ob, s). Inr (VObject ob, s))"

definition get_locale :: "app \<Rightarrow> (ValueVariant \<times> app) result" where
  "get_locale s =
     (if object_global s ''locale_string'' \<noteq> 0 then Inr (VObject (object_global s ''locale_string''), s)
      else (let (r, s') = create_string (roblox_locale s) s
            in Inr (VObject r, s'\<lparr>object_global := (object_global s')(''locale_string'' := r)\<rparr>)))"

text \<open>
  \<^verbatim>\<open>write\<close> copies exactly 2048 bytes from the array's storage; a shorter array is read out of
  bounds.  (It then waits for the audio thread.)
\<close>

fun byte_of :: "ValueVariant \<Rightarrow> u8" where
  "byte_of (VByte b) = b"
| "byte_of _ = 0"

definition audio_write :: "va_list \<Rightarrow> app \<Rightarrow> (ValueVariant \<times> app) result" where
  "audio_write args s =
     and_then (va_arg_ref args) (\<lambda>(data, rest).
     and_then (va_arg_jint rest) (\<lambda>(sz, _).
     and_then (assert_that (sz = 2048) ''size == 2048'') (\<lambda>_.
     and_then (deref_array_of JByte data s) (\<lambda>a.
     if length (array_data a) < 2048 then Inl Invalid_access
     else Inr (VInt 0, s\<lparr>audio_buffer := map byte_of (take 2048 (array_data a))\<rparr>)))))"

text \<open>The audio thread's callback: it needs a request of exactly the buffer's size.\<close>

definition audio_callback :: "u32 \<Rightarrow> app \<Rightarrow> u8 list result" where
  "audio_callback len s =
     and_then (assert_that (len = 2048) ''len == 2048'') (\<lambda>_. Inr (audio_buffer s))"

definition data_model_notification :: "va_list \<Rightarrow> app \<Rightarrow> (ValueVariant \<times> app) result" where
  "data_model_notification args s =
     and_then (va_arg_ref args) (\<lambda>(t, rest).
     and_then (deref_string t s) (\<lambda>type.
     and_then (va_arg_ref rest) (\<lambda>(i, _).
     and_then (deref_string i s) (\<lambda>info.
     Inr (VInt 0, if type = ''APP_READY'' \<and> info = ''Startup''
                  then s\<lparr>pushed_events := pushed_events s @ [APP_STARTUP]\<rparr> else s)))))"

fun deref_strings :: "ValueVariant list \<Rightarrow> app \<Rightarrow> string list result" where
  "deref_strings [] s = Inr []"
| "deref_strings (VObject r # vs) s =
     and_then (deref_string r s) (\<lambda>x. and_then (deref_strings vs s) (\<lambda>xs. Inr (x # xs)))"
| "deref_strings (_ # vs) s = Inl Invalid_access"

definition on_set_cookie :: "host \<Rightarrow> va_list \<Rightarrow> app \<Rightarrow> (ValueVariant \<times> app) result" where
  "on_set_cookie h args s =
     and_then (va_arg_ref args) (\<lambda>(arr, _).
     and_then (deref_array_of JObject arr s) (\<lambda>a.
     and_then (deref_strings (array_data a) s) (\<lambda>headers.
     let jar = set_cookies headers (cookies s) in
     and_then (get_cookies_path (h_env h) (path_prefix s)) (\<lambda>_.
     and_then (cookie_file_text (h_order h jar)) (\<lambda>contents.
     Inr (VInt 0, s\<lparr>cookies := jar, cookie_file := Some contents\<rparr>))))))"

text \<open>
  \<^verbatim>\<open>run(m.routine, args...)\<close>: the arguments are evaluated, then the guest routine runs on a callee
  fiber.
\<close>

type_synonym argument = "app \<Rightarrow> (garg \<times> app) result"

definition arg :: "garg \<Rightarrow> argument" where
  "arg a s = Inr (a, s)"

definition string_arg :: "string \<Rightarrow> argument" where
  "string_arg x s = (let (r, s') = create_string x s in Inr (Ref_arg r, s'))"

definition class_arg :: "string \<Rightarrow> argument" where
  "class_arg g s = Inr (Ref_arg (class_global s g), s)"

definition new_object_arg :: "string \<Rightarrow> argument" where
  "new_object_arg g s = (let (r, s') = new_of_class g s in Inr (Ref_arg r, s'))"

fun eval_args :: "argument list \<Rightarrow> app \<Rightarrow> (garg list \<times> app) result" where
  "eval_args [] s = Inr ([], s)"
| "eval_args (a # as) s =
     and_then (a s) (\<lambda>(v, s1). and_then (eval_args as s1) (\<lambda>(vs, s2). Inr (v # vs, s2)))"

definition run_with_return :: "host \<Rightarrow> string \<Rightarrow> argument list \<Rightarrow> app \<Rightarrow> (u64 \<times> app) result" where
  "run_with_return h routine as s =
     and_then (eval_args as s) (\<lambda>(vs, s1). h_guest h (app_methods s routine) vs s1)"

definition run_routine :: "host \<Rightarrow> string \<Rightarrow> argument list \<Rightarrow> app \<Rightarrow> app result" where
  "run_routine h routine as s = and_then (run_with_return h routine as s) (\<lambda>(_, s'). Inr s')"

text \<open>The closures that \<^verbatim>\<open>main\<close> adds: a text box is focused, filled with a fixed text and released.\<close>

definition show_keyboard :: "host \<Rightarrow> va_list \<Rightarrow> app \<Rightarrow> (ValueVariant \<times> app) result" where
  "show_keyboard h args s =
     and_then (va_arg_jlong args) (\<lambda>(box, r1).
     and_then (va_arg_jint r1) (\<lambda>(_, r2).
     and_then (va_arg_ref r2) (\<lambda>(raw_text, r3).
     and_then (va_arg_ref r3) (\<lambda>_.
     and_then (deref_array_of JByte raw_text s) (\<lambda>_.
     let gl = class_arg ''native_gl_interface_class'' in
     and_then (run_routine h ''syncTextboxTextAndCursorPosition2''
         [arg Env_arg, gl, string_arg [], arg (Int_arg 0)] (s\<lparr>current_text_box_id := box\<rparr>)) (\<lambda>s1.
     and_then (run_routine h ''nativePassText''
         [arg Env_arg, gl, arg (Long_arg (current_text_box_id s1)), string_arg [], arg (Bool_arg False),
          arg (Int_arg 0)] s1) (\<lambda>s2.
     and_then (run_routine h ''syncTextboxTextAndCursorPosition2''
         [arg Env_arg, gl, string_arg ''hello'', arg (Int_arg 5)] s2) (\<lambda>s3.
     and_then (run_routine h ''nativePassText''
         [arg Env_arg, gl, arg (Long_arg (current_text_box_id s3)), string_arg ''hello'',
          arg (Bool_arg False), arg (Int_arg 5)] s3) (\<lambda>s4.
     and_then (run_routine h ''nativeReturnPressedFromOnScreenKeyboard''
         [arg Env_arg, gl, arg (Long_arg (current_text_box_id s4))] s4) (\<lambda>s5.
     and_then (run_routine h ''nativeReleaseFocus''
         [arg Env_arg, gl, arg (Long_arg (current_text_box_id s5))] s5) (\<lambda>s6.
     Inr (VInt 0, s6))))))))))))"

definition hide_keyboard :: "host \<Rightarrow> app \<Rightarrow> (ValueVariant \<times> app) result" where
  "hide_keyboard h s =
     and_then (run_routine h ''nativeReleaseFocus''
         [arg Env_arg, class_arg ''native_gl_interface_class'', arg (Long_arg (current_text_box_id s))] s)
       (\<lambda>s'. Inr (VInt 0, s'\<lparr>current_text_box_id := 0\<rparr>))"

text \<open>\<^verbatim>\<open>json.value(key, default)\<close>: the default for a missing key, an exception for another type.\<close>

definition json_integer :: "(string \<rightharpoonup> json_value) \<Rightarrow> string \<Rightarrow> u64 \<Rightarrow> u64 result" where
  "json_integer j key d =
     (case j key of None \<Rightarrow> Inr d | Some (JSON_integer n) \<Rightarrow> Inr n
      | Some _ \<Rightarrow> Inl (Runtime_error ''type must be number''))"

definition json_string :: "(string \<rightharpoonup> json_value) \<Rightarrow> string \<Rightarrow> string \<Rightarrow> string result" where
  "json_string j key d =
     (case j key of None \<Rightarrow> Inr d | Some (JSON_string x) \<Rightarrow> Inr x
      | Some _ \<Rightarrow> Inl (Runtime_error ''type must be string''))"

definition message_bus_run :: "host \<Rightarrow> va_list \<Rightarrow> app \<Rightarrow> (ValueVariant \<times> app) result" where
  "message_bus_run h args s =
     and_then (va_arg_ref args) (\<lambda>(r, _).
     and_then (deref_string r s) (\<lambda>str.
     and_then (h_json h str) (\<lambda>json.
     and_then (json_integer json ''placeId'' 0) (\<lambda>place_id.
     and_then (json_integer json ''userId'' (- 1)) (\<lambda>uid.
     and_then (json_string json ''joinAttemptId'' []) (\<lambda>join_attempt_id.
     and_then (json_string json ''joinAttemptOrigin'' []) (\<lambda>join_attempt_origin.
     and_then (json_string json ''referralPage'' []) (\<lambda>referral_page.
     if place_id = 0 \<and> uid = - 1 then Inr (VInt 0, s)
     else (let join_request_type = (if place_id \<noteq> 0 \<and> uid = - 1 then 0 else 1);
               s' = set_start_game_params place_id uid join_request_type join_attempt_id
                      join_attempt_origin referral_page s
           in Inr (VInt 0, s'\<lparr>pushed_events := pushed_events s' @ [START_GAME]\<rparr>))))))))))"

fun run_java_body :: "host \<Rightarrow> java_body \<Rightarrow> ref \<Rightarrow> va_list \<Rightarrow> app \<Rightarrow> (ValueVariant \<times> app) result" where
  "run_java_body h (Return v) object args s = Inr (v, s)"
| "run_java_body h (Return_string x) object args s = string_value x s"
| "run_java_body h (Stub msg) object args s = Inl (Assert_failure msg)"
| "run_java_body h (Return_object g) object args s = Inr (VObject (object_global s g), s)"
| "run_java_body h Return_new_object object args s =
     (let (r, s') = new_object (plain_object 0) s in Inr (VObject r, s'))"
| "run_java_body h Device_params object args s = object_value (get_device_params s)"
| "run_java_body h Platform_params object args s = object_value (get_platform_params (h_env h) s)"
| "run_java_body h User_agent object args s = string_value (user_agent s) s"
| "run_java_body h Files_dir object args s =
     and_then (get_files_dir (h_env h) (path_prefix s)) (\<lambda>d. string_value d s)"
| "run_java_body h App_version object args s = string_value (roblox_version s) s"
| "run_java_body h User_id object args s = Inr (VLong (user_id (user_state s)), s)"
| "run_java_body h Is_under_13 object args s = Inr (VBoolean (of_bool (under_13 (user_state s))), s)"
| "run_java_body h Username object args s = string_value (username (user_state s)) s"
| "run_java_body h Display_name object args s = string_value (display_name (user_state s)) s"
| "run_java_body h Membership_type object args s = Inr (VInt (membership_type (user_state s)), s)"
| "run_java_body h Theme object args s = string_value (theme (user_state s)) s"
| "run_java_body h Locale_string object args s = get_locale s"
| "run_java_body h Place_id object args s = Inr (VLong (current_place_id s), s)"
| "run_java_body h Game_user_id object args s = Inr (VLong (current_user_id s), s)"
| "run_java_body h Join_request_type object args s = Inr (VInt (current_join_request_type s), s)"
| "run_java_body h Integer_intValue object args s =
     pure_value (boxed_value JInt ''java_lang_integer_value'' object s) s"
| "run_java_body h Integer_floatValue object args s =
     pure_value (and_then (boxed_value JInt ''java_lang_integer_value'' object s)
       (\<lambda>v. Inr (int_to_float_value h v))) s"
| "run_java_body h Boolean_booleanValue object args s =
     pure_value (boxed_value JBoolean ''java_lang_boolean_value'' object s) s"
| "run_java_body h Float_floatValue object args s =
     pure_value (boxed_value JFloat ''java_lang_float_value'' object s) s"
| "run_java_body h Long_longValue object args s =
     pure_value (boxed_value JLong ''java_lang_long_value'' object s) s"
| "run_java_body h Audio_init object args s = Inr (VTrue, s\<lparr>audio_device_paused := False\<rparr>)"
| "run_java_body h Audio_write object args s = audio_write args s"
| "run_java_body h Data_model_notification object args s = data_model_notification args s"
| "run_java_body h Text_box_changed object args s =
     and_then (va_arg_ref args) (\<lambda>(r, _). and_then (deref_string r s) (\<lambda>_. Inr (VInt 0, s)))"
| "run_java_body h On_set_cookie object args s = on_set_cookie h args s"
| "run_java_body h Show_keyboard object args s = show_keyboard h args s"
| "run_java_body h Hide_keyboard object args s = hide_keyboard h s"
| "run_java_body h Message_bus_run object args s = message_bus_run h args s"

definition run_java :: "host \<Rightarrow> java \<Rightarrow> ref \<Rightarrow> va_list \<Rightarrow> app \<Rightarrow> (ValueVariant \<times> app) result" where
  "run_java h = run_jni_body (run_java_body h)"

section \<open>The classes registered by main\<close>

definition create_java_vm_classes :: "class_desc list" where
  "create_java_vm_classes =
     map (\<lambda>n. simple_class n n [])
       [''com/roblox/engine/jni/model/ApplicationExitInfoCpp'', ''com/roblox/audio/AppRtcDeviceWrapper'',
        ''org/fmod/MediaCodec'', ''com/roblox/engine/jni/memstorage/Connection'',
        ''org/webrtc/voiceengine/BuildInfo'', ''org/webrtc/voiceengine/WebRtcAudioManager'',
        ''org/webrtc/voiceengine/WebRtcAudioRecord'', ''org/webrtc/voiceengine/WebRtcAudioTrack''] @
     [simple_class ''codec_info_utils'' ''com/roblox/engine/jni/video/MediaCodecInfoUtils''
        [(''getHardwareVideoDecoders'', Static, Stub ''Stub'')],
      simple_class ''network_utils'' ''com/roblox/engine/jni/util/NetworkUtils''
        [(''getPublicIPv4Addresseses'', Static, Return_string [])],
      simple_class ''messagebus_connection'' ''com/roblox/universalapp/messagebus/Connection''
        [(''<init>'', Member, Return (VInt 0))],
      simple_class ''cookie_handler_class'' ''com/roblox/universalapp/cookie/OnSetCookieHandlerImpl''
        [(''onSetCookie'', Member, On_set_cookie)],
      simple_class ''native_text_box_info'' ''com/roblox/engine/jni/model/NativeTextBoxInfo''
        [(''<init>'', Member, Return (VInt 0))]]"

definition create_java_vm ::
    "dynamic_symbol list \<Rightarrow> dynamic_symbol list \<Rightarrow> nat \<Rightarrow> trampoline_state \<times> app \<Rightarrow>
     (ref \<times> trampoline_state \<times> app) result" where
  "create_java_vm env_syms invocation_syms t st =
     and_then (java_vm_new env_syms invocation_syms t st) (\<lambda>(vm, ts, s).
     and_then (build_classes vm create_java_vm_classes s) (\<lambda>s'. Inr (vm, ts, s')))"

end
