(* ===== verification/Java_Objects.thy ===== *)
theory Java_Objects
  imports Java_Classes Jni_Tables
begin

text \<open>
  Properties of the Java classes (\<^verbatim>\<open>src/src/class/*.cpp\<close>): every declared class and method is
  registered and reachable by name, and the parameter objects behave as their getters promise.
\<close>

section \<open>Frames\<close>

text \<open>
  What building one class leaves alone: the tables of the virtual machines and threads, the class
  variables, and every existing class but the one under construction (\<open>0\<close> for none).
\<close>

definition frame :: "ref \<Rightarrow> app \<Rightarrow> app \<Rightarrow> bool" where
  "frame c s s' \<longleftrightarrow>
     refs_wf s' \<and> next_ref s \<le> next_ref s' \<and> java_vms s' = java_vms s \<and>
     thread_data s' = thread_data s \<and> class_global s' = class_global s \<and>
     (\<forall>r. r < next_ref s \<and> r \<noteq> c \<longrightarrow> deref_class r s' = deref_class r s)"

lemma frame_refl: "refs_wf s \<Longrightarrow> frame c s s"
  by (simp add: frame_def)

lemma frame_trans: "frame c s s1 \<Longrightarrow> frame c s1 s2 \<Longrightarrow> frame c s s2"
  by (auto simp: frame_def)

lemma deref_class_null: "refs_wf s \<Longrightarrow> deref_class 0 s = Inl Invalid_access"
  by (cases "objects s 0") (auto simp: deref_class_def deref_def refs_wf_def)

lemma frame_mono: "frame 0 s s' \<Longrightarrow> refs_wf s \<Longrightarrow> frame c s s'"
  unfolding frame_def using deref_class_null by metis

lemma frame_new_object: "refs_wf s \<Longrightarrow> frame c s (snd (new_object ob s))"
  by (auto simp: frame_def refs_wf_def jni_simps deref_class_def deref_def new_object_def
      less_Suc_eq split: if_splits)

lemma frame_globals [simp]:
  "frame c s (s'\<lparr>field_global := x\<rparr>) = frame c s s'"
  "frame c s (s'\<lparr>object_global := y\<rparr>) = frame c s s'"
  by (simp_all add: frame_def refs_wf_def deref_class_def deref_def)

lemma frame_put_class:
  assumes "refs_wf s"
  shows "frame c s (put_class c cl s)"
  using assms unfolding frame_def
  by (auto simp: jni_simps refs_wf_def put_class_def deref_class_def deref_def split: option.splits if_splits)

lemma frame_emplace:
  assumes "refs_wf s" "emplace_field r fid v s = Inr s'"
  shows "frame c s s'"
proof -
  obtain ob where ob: "objects s r = Some ob"
    "s' = s\<lparr>objects := (objects s)(r \<mapsto> ob\<lparr>obj_fields := insert_new fid v (obj_fields ob)\<rparr>)\<rparr>"
    using assms(2) by (auto simp: emplace_field_def and_then_eq_Inr deref_def split: option.splits)
  have "deref_class k s' = deref_class k s" for k
    using ob by (simp add: deref_class_def deref_def)
  then show ?thesis using assms(1) ob by (auto simp: frame_def refs_wf_def)
qed

lemma frame_create_string: "refs_wf s \<Longrightarrow> create_string x s = (r, s') \<Longrightarrow> frame c s s'"
  using frame_new_object [of s c] by (metis create_string_def snd_conv)

lemma frame_add_method:
  "refs_wf s \<Longrightarrow> add_method c n tf s = Inr s' \<Longrightarrow> frame c s s'"
  by (auto simp: add_method_def class_add_method_def and_then_eq_Inr intro: frame_put_class)

lemma frame_static_field:
  "refs_wf s \<Longrightarrow> static_field c n v s = Inr (fid, s') \<Longrightarrow> frame c s s'"
  by (auto simp: static_field_def and_then_eq_Inr intro: frame_put_class)

lemma frame_assign_field:
  "refs_wf s \<Longrightarrow> assign_field c g n s = Inr s' \<Longrightarrow> frame c s s'"
  by (auto simp: assign_field_def class_field_eq and_then_eq_Inr dest: frame_static_field)

lemma frame_init_static_field:
  assumes "refs_wf s" "init_static_field c n v s = Inr s'"
  shows "frame c s s'"
proof (cases v)
  case (StrV x)
  obtain r s1 where s1: "create_string x s = (r, s1)" by force
  then obtain fid where "static_field c n (VObject r) s1 = Inr (fid, s')"
    using assms(2) StrV by (auto simp: and_then_eq_Inr)
  then show ?thesis
    using frame_create_string [OF assms(1) s1] frame_static_field frame_trans
    by (metis frame_def)
next
  case (IntV n)
  then show ?thesis
    using assms by (auto simp: and_then_eq_Inr dest: frame_static_field)
qed

lemma frame_register_entries:
  assumes "\<And>k v s s'. refs_wf s \<Longrightarrow> reg k v s = Inr s' \<Longrightarrow> frame c s s'"
  shows "refs_wf s \<Longrightarrow> register_entries reg kvs s = Inr s' \<Longrightarrow> frame c s s'"
proof (induction kvs arbitrary: s)
  case (Cons kv kvs)
  obtain k v where "kv = (k, v)" by (cases kv)
  then obtain s1 where s1: "reg k v s = Inr s1" "register_entries reg kvs s1 = Inr s'"
    using Cons.prems(2) by (auto simp: and_then_eq_Inr)
  have f: "frame c s s1" by (rule assms [OF Cons.prems(1) s1(1)])
  then show ?case
    using Cons.IH [OF _ s1(2)] frame_trans by (auto simp: frame_def)
qed (simp add: frame_refl)

section \<open>Building classes\<close>

lemma register_entries_total:
  assumes "\<And>k v s. P s \<Longrightarrow> \<exists>s'. reg k v s = Inr s' \<and> P s'"
  shows "P s \<Longrightarrow> \<exists>s'. register_entries reg kvs s = Inr s' \<and> P s'"
proof (induction kvs arbitrary: s)
  case (Cons kv kvs)
  obtain k v where kv: "kv = (k, v)" by (cases kv)
  obtain s1 where "reg k v s = Inr s1" "P s1" using assms [OF Cons.prems] by blast
  then show ?case using Cons.IH [of s1] kv by auto
qed simp

text \<open>The class \<open>c\<close> is under construction with the methods \<open>M\<close>.\<close>

definition building :: "ref \<Rightarrow> (string \<rightharpoonup> MethodType \<times> java) \<Rightarrow> app \<Rightarrow> bool" where
  "building c M s \<longleftrightarrow> refs_wf s \<and> c < next_ref s \<and> is_class c s \<and> method_entry c s = M"

lemma method_entry_cong: "deref_class c s' = deref_class c s \<Longrightarrow> method_entry c s' = method_entry c s"
  by (simp add: method_entry_def fun_eq_iff)

lemma is_class_cong: "deref_class c s' = deref_class c s \<Longrightarrow> is_class c s' = is_class c s"
  by (simp add: is_class_def)

lemma building_static_field:
  assumes "building c M s"
  shows "\<exists>fid s'. static_field c n v s = Inr (fid, s') \<and> building c M s'"
proof -
  obtain cl where cl: "deref_class c s = Inr cl" using assms by (auto simp: building_def is_class_iff)
  define s' where "s' = put_class c (cl\<lparr>class_fields := insert_new n v (class_fields cl)\<rparr>) s"
  have step: "static_field c n v s = Inr ((c, n), s')" using cl by (simp add: static_field_def s'_def)
  have "deref_class c s' = Inr (cl\<lparr>class_fields := insert_new n v (class_fields cl)\<rparr>)"
    using cl by (simp add: s'_def jni_simps)
  then have "is_class c s'" "method_entry c s' = method_entry c s"
    using cl by (auto simp: is_class_iff method_entry_def fun_eq_iff)
  moreover have "frame c s s'"
    using assms step frame_static_field by (auto simp: building_def)
  ultimately have "building c M s'" using assms by (auto simp: building_def frame_def)
  then show ?thesis using step by blast
qed

lemma building_assign_field:
  "building c M s \<Longrightarrow> \<exists>s'. assign_field c g n s = Inr s' \<and> building c M s'"
  using building_static_field [of c M s n "VObject 0"]
  by (auto simp: assign_field_def class_field_eq building_def refs_wf_def is_class_def
      deref_class_def deref_def method_entry_def fun_eq_iff)

lemma building_create_string:
  assumes "building c M s" "create_string x s = (r, s')"
  shows "building c M s'"
proof -
  have "frame 0 s s'" using frame_create_string assms by (auto simp: building_def)
  moreover have "c \<noteq> 0"
    using assms(1) deref_class_null [of s] by (cases "c = 0") (auto simp: building_def is_class_def)
  ultimately show ?thesis
    using assms(1) is_class_cong [of c s' s] method_entry_cong [of c s' s]
    by (auto simp: building_def frame_def)
qed

lemma building_init_static_field:
  assumes "building c M s"
  shows "\<exists>s'. init_static_field c n v s = Inr s' \<and> building c M s'"
proof (cases v)
  case (StrV x)
  obtain r s1 where s1: "create_string x s = (r, s1)" by force
  then show ?thesis
    using building_static_field [OF building_create_string [OF assms s1], of n "VObject r"] StrV by auto
next
  case (IntV k)
  then show ?thesis using building_static_field [OF assms, of n "VInt k"] by auto
qed

lemma assign_class_new:
  assumes "refs_wf s" "java_vms s vm = Some v" "name_to_class v name = None"
  shows "\<exists>s'. assign_class vm g name s = Inr (next_ref s, s') \<and>
     building (next_ref s) Map.empty s' \<and> thread_data s' = thread_data s \<and>
     class_global s' = (class_global s)(g := next_ref s) \<and>
     java_vms s' = (java_vms s)(vm \<mapsto> v\<lparr>name_to_class := (name_to_class v)(name \<mapsto> next_ref s)\<rparr>) \<and>
     (\<forall>r<next_ref s. deref_class r s' = deref_class r s)"
  using assms
  by (auto simp: assign_class_def create_class_def deref_vm_def new_object_def building_def refs_wf_def
      is_class_def deref_class_def deref_def method_entry_def mk_Class_def fun_eq_iff less_Suc_eq
      split: if_splits)

definition desc_methods :: "class_desc \<Rightarrow> (string \<rightharpoonup> MethodType \<times> java)" where
  "desc_methods d = map_of (map (\<lambda>(n, ty, b). (n, ty, Body b)) (cd_methods d))"

lemma frame_register_methods:
  "refs_wf s \<Longrightarrow> register_methods c ms s = Inr s' \<Longrightarrow> frame c s s'"
  unfolding register_methods_def
  by (rule frame_register_entries [where reg = "add_method c"]) (auto intro: frame_add_method)

lemma register_methods_correct:
  assumes "building c Map.empty s"
  shows "\<exists>s'. register_methods c ms s = Inr s' \<and>
           building c (map_of (map (\<lambda>(n, ty, b). (n, ty, Body b)) ms)) s'"
proof -
  obtain s' where s': "register_methods c ms s = Inr s'" "is_class c s'"
    "method_entry c s' = map_of (map (\<lambda>(n, ty, b). (n, ty, Body b)) ms) ++ method_entry c s"
    using methods.register_entries_correct [of c s "map (\<lambda>(n, ty, b). (n, ty, Body b)) ms"] assms
    by (auto simp: register_methods_def building_def)
  then show ?thesis
    using frame_register_methods [OF _ s'(1)] assms by (auto simp: building_def frame_def)
qed

lemma build_class_correct:
  assumes "refs_wf s" "java_vms s vm = Some v" "name_to_class v (cd_name d) = None"
  shows "\<exists>s'. build_class vm d s = Inr s' \<and>
     building (next_ref s) (desc_methods d) s' \<and> thread_data s' = thread_data s \<and>
     class_global s' = (class_global s)(cd_global d := next_ref s) \<and>
     java_vms s' = (java_vms s)(vm \<mapsto> v\<lparr>name_to_class := (name_to_class v)(cd_name d \<mapsto> next_ref s)\<rparr>) \<and>
     (\<forall>r<next_ref s. deref_class r s' = deref_class r s)"
proof -
  let ?c = "next_ref s"
  obtain s1 where 1: "assign_class vm (cd_global d) (cd_name d) s = Inr (?c, s1)"
    "building ?c Map.empty s1" "thread_data s1 = thread_data s"
    "class_global s1 = (class_global s)(cd_global d := ?c)"
    "java_vms s1 = (java_vms s)(vm \<mapsto> v\<lparr>name_to_class := (name_to_class v)(cd_name d \<mapsto> ?c)\<rparr>)"
    "\<forall>r<?c. deref_class r s1 = deref_class r s"
    using assign_class_new [OF assms] by blast
  obtain s2 where 2: "register_entries (init_static_field ?c) (cd_static_fields d) s1 = Inr s2"
    "building ?c Map.empty s2"
    using register_entries_total [where reg = "init_static_field ?c" and P = "building ?c Map.empty",
        OF building_init_static_field 1(2)] by blast
  obtain s3 where 3: "register_entries (assign_field ?c) (cd_fields d) s2 = Inr s3"
    "building ?c Map.empty s3"
    using register_entries_total [where reg = "assign_field ?c" and P = "building ?c Map.empty",
        OF building_assign_field 2(2)] by blast
  obtain s4 where 4: "register_methods ?c (cd_methods d) s3 = Inr s4" "building ?c (desc_methods d) s4"
    using register_methods_correct [OF 3(2)] by (auto simp: desc_methods_def)
  have wf: "refs_wf s1" "refs_wf s2" "refs_wf s3" using 1(2) 2(2) 3(2) by (simp_all add: building_def)
  have "frame ?c s1 s2"
    using frame_register_entries [where reg = "init_static_field ?c", OF frame_init_static_field wf(1) 2(1)] .
  moreover have "frame ?c s2 s3"
    using frame_register_entries [where reg = "assign_field ?c", OF frame_assign_field wf(2) 3(1)] .
  moreover have "frame ?c s3 s4" by (rule frame_register_methods [OF wf(3) 4(1)])
  ultimately have f: "frame ?c s1 s4" by (blast intro: frame_trans)
  have le: "next_ref s < next_ref s1" using 1(2) by (simp add: building_def)
  have "build_class vm d s = Inr s4" using 1(1) 2(1) 3(1) 4(1) by (simp add: build_class_def)
  then show ?thesis
    using 4(2) f 1(3-6) le by (auto simp: frame_def)
qed

text \<open>A class is registered with the methods of its description.\<close>

definition registered :: "ref \<Rightarrow> class_desc \<Rightarrow> app \<Rightarrow> bool" where
  "registered vm d s \<longleftrightarrow>
     (\<exists>v c. java_vms s vm = Some v \<and> name_to_class v (cd_name d) = Some c \<and> is_class c s \<and>
            c < next_ref s \<and> method_entry c s = desc_methods d)"

text \<open>A later state keeps the classes and the names of an earlier one.\<close>

definition keeps_classes :: "ref \<Rightarrow> app \<Rightarrow> app \<Rightarrow> bool" where
  "keeps_classes vm s s' \<longleftrightarrow>
     refs_wf s' \<and> next_ref s \<le> next_ref s' \<and> thread_data s' = thread_data s \<and>
     (\<forall>r<next_ref s. deref_class r s' = deref_class r s) \<and>
     (\<forall>v. java_vms s vm = Some v \<longrightarrow>
        (\<exists>v'. java_vms s' vm = Some v' \<and> name_to_class v \<subseteq>\<^sub>m name_to_class v'))"

lemma registered_kept:
  assumes "keeps_classes vm s s'" "registered vm d s"
  shows "registered vm d s'"
proof -
  obtain v c where vc: "java_vms s vm = Some v" "name_to_class v (cd_name d) = Some c" "is_class c s"
    "c < next_ref s" "method_entry c s = desc_methods d"
    using assms(2) by (auto simp: registered_def)
  obtain v' where v': "java_vms s' vm = Some v'" "name_to_class v \<subseteq>\<^sub>m name_to_class v'"
    using assms(1) vc(1) by (auto simp: keeps_classes_def)
  have "deref_class c s' = deref_class c s" "c < next_ref s'"
    using assms(1) vc(4) by (auto simp: keeps_classes_def)
  then show ?thesis
    using vc v' map_leD [OF v'(2) vc(2)] is_class_cong [of c s' s] method_entry_cong [of c s' s]
    by (auto simp: registered_def)
qed

lemma keeps_classes_trans:
  assumes "keeps_classes vm a b" "keeps_classes vm b c"
  shows "keeps_classes vm a c"
proof -
  have "\<exists>v'. java_vms c vm = Some v' \<and> name_to_class v \<subseteq>\<^sub>m name_to_class v'"
    if v: "java_vms a vm = Some v" for v
  proof -
    obtain v1 where v1: "java_vms b vm = Some v1" "name_to_class v \<subseteq>\<^sub>m name_to_class v1"
      using assms(1) v by (auto simp: keeps_classes_def)
    obtain v2 where "java_vms c vm = Some v2" "name_to_class v1 \<subseteq>\<^sub>m name_to_class v2"
      using assms(2) v1(1) by (auto simp: keeps_classes_def)
    then show ?thesis using map_le_trans [OF v1(2)] by blast
  qed
  then show ?thesis using assms by (auto simp: keeps_classes_def)
qed

lemma frame_keeps_classes:
  assumes "frame 0 s s'" "refs_wf s"
  shows "keeps_classes vm s s'"
proof -
  have "deref_class r s' = deref_class r s" if "r < next_ref s" for r
    using assms that deref_class_null [of s] deref_class_null [of s']
    by (cases "r = 0") (auto simp: frame_def)
  then show ?thesis using assms(1) by (auto simp: frame_def keeps_classes_def)
qed

lemma build_classes_correct:
  assumes "refs_wf s" "java_vms s vm = Some v" "distinct (map cd_name ds)"
    and "\<forall>d\<in>set ds. name_to_class v (cd_name d) = None"
  shows "\<exists>s' v'. build_classes vm ds s = Inr s' \<and> keeps_classes vm s s' \<and>
           java_vms s' vm = Some v' \<and>
           dom (name_to_class v') = dom (name_to_class v) \<union> set (map cd_name ds) \<and>
           list_all (\<lambda>d. registered vm d s') ds"
  using assms
proof (induction ds arbitrary: s v)
  case Nil
  then show ?case by (auto simp: keeps_classes_def)
next
  case (Cons d ds)
  let ?v = "v\<lparr>name_to_class := (name_to_class v)(cd_name d \<mapsto> next_ref s)\<rparr>"
  obtain s1 where 1: "build_class vm d s = Inr s1" "building (next_ref s) (desc_methods d) s1"
    "thread_data s1 = thread_data s" "java_vms s1 = (java_vms s)(vm \<mapsto> ?v)"
    "\<forall>r<next_ref s. deref_class r s1 = deref_class r s"
    using build_class_correct [OF Cons.prems(1,2), of d] Cons.prems(4) by auto
  have none: "name_to_class v (cd_name d) = None" using Cons.prems(4) by simp
  have k1: "keeps_classes vm s s1"
    using 1 none Cons.prems(2) by (auto simp: keeps_classes_def building_def map_le_def)
  have r1: "registered vm d s1" using 1 by (auto simp: registered_def building_def)
  have "refs_wf s1" "java_vms s1 vm = Some ?v" "distinct (map cd_name ds)"
    using 1 Cons.prems(3) by (auto simp: building_def)
  moreover have "\<forall>d\<in>set ds. name_to_class ?v (cd_name d) = None"
    using Cons.prems(3,4) by (auto simp: image_iff)
  ultimately obtain s' v' where 2: "build_classes vm ds s1 = Inr s'" "keeps_classes vm s1 s'"
    "java_vms s' vm = Some v'"
    "dom (name_to_class v') = dom (name_to_class ?v) \<union> set (map cd_name ds)"
    "list_all (\<lambda>d. registered vm d s') ds"
    using Cons.IH [of s1 ?v] by blast
  then show ?case
    using 1(1) registered_kept [OF 2(2) r1] keeps_classes_trans [OF k1 2(2)] by auto
qed

section \<open>Building objects\<close>

text \<open>A change that only adds objects.\<close>

definition adds_objects :: "app \<Rightarrow> app \<Rightarrow> bool" where
  "adds_objects s s' \<longleftrightarrow>
     refs_wf s' \<and> next_ref s \<le> next_ref s' \<and> (\<forall>r<next_ref s. objects s' r = objects s r) \<and>
     java_vms s' = java_vms s \<and> thread_data s' = thread_data s \<and> class_global s' = class_global s \<and>
     object_global s' = object_global s \<and> field_global s' = field_global s"

definition good_source :: "value_source \<Rightarrow> bool" where
  "good_source src \<longleftrightarrow> (\<forall>s. refs_wf s \<longrightarrow> (\<exists>v s'. src s = Inr (v, s') \<and> adds_objects s s'))"

lemma adds_objects_refl: "refs_wf s \<Longrightarrow> adds_objects s s"
  by (simp add: adds_objects_def)

lemma adds_objects_trans: "adds_objects a b \<Longrightarrow> adds_objects b c \<Longrightarrow> adds_objects a c"
  by (auto simp: adds_objects_def)

lemma adds_objects_frame: "adds_objects s s' \<Longrightarrow> frame c s s'"
  by (auto simp: adds_objects_def frame_def deref_class_def deref_def)

lemma adds_objects_new: "refs_wf s \<Longrightarrow> adds_objects s (snd (new_object ob s))"
  by (auto simp: adds_objects_def refs_wf_def new_object_def less_Suc_eq split: if_splits)

lemma good_const_value [simp]: "good_source (const_value v)"
  by (auto simp: good_source_def const_value_def intro: adds_objects_refl)

lemma good_string_value [simp]: "good_source (string_value x)"
  unfolding good_source_def string_value_def create_string_def
  using adds_objects_new by (auto simp: split_beta)

lemma good_boxed [simp]: "good_source (boxed cls g v)"
proof -
  have "\<exists>w s'. boxed cls g v s = Inr (w, s') \<and> adds_objects s s'" if wf: "refs_wf s" for s
    using wf by (auto simp: boxed_def new_of_class_def new_object_def emplace_field_def deref_def
        adds_objects_def refs_wf_def less_Suc_eq plain_object_def split: if_splits)
  then show ?thesis by (simp add: good_source_def)
qed

lemma good_integer [simp]: "good_source (create_java_lang_integer n)"
  and good_boolean [simp]: "good_source (create_java_lang_boolean b)"
  and good_float [simp]: "good_source (create_java_lang_float x)"
  and good_long [simp]: "good_source (create_java_lang_long k)"
  by (simp_all add: create_java_lang_integer_def create_java_lang_boolean_def
      create_java_lang_float_def create_java_lang_long_def)

text \<open>Filling an object: the other objects stay, and each constant lands in its field.\<close>

lemma emplace_all_correct:
  assumes "refs_wf s" "ob < next_ref s" "objects s ob = Some x"
    and "list_all (good_source \<circ> snd) gs"
    and "distinct (map (\<lambda>(g, _). the_field g s) gs)"
    and "\<forall>(g, _)\<in>set gs. obj_fields x (the_field g s) = None"
  shows "\<exists>s' F. emplace_all ob gs s = Inr s' \<and> refs_wf s' \<and> next_ref s \<le> next_ref s' \<and>
     (\<forall>r<next_ref s. r \<noteq> ob \<longrightarrow> objects s' r = objects s r) \<and>
     objects s' ob = Some (x\<lparr>obj_fields := F\<rparr>) \<and> obj_fields x \<subseteq>\<^sub>m F \<and>
     java_vms s' = java_vms s \<and> thread_data s' = thread_data s \<and> class_global s' = class_global s \<and>
     object_global s' = object_global s \<and> field_global s' = field_global s \<and>
     (\<forall>g v. (g, const_value v) \<in> set gs \<longrightarrow> F (the_field g s) = Some v)"
  using assms
proof (induction gs arbitrary: s x)
  case Nil
  then show ?case by (auto intro!: exI [of _ "obj_fields x"])
next
  case (Cons gsrc gs)
  obtain g src where gsrc: "gsrc = (g, src)" by (cases gsrc)
  obtain v s1 where src: "src s = Inr (v, s1)" "adds_objects s s1"
    using Cons.prems(1,4) gsrc by (auto simp: good_source_def)
  have field: "the_field h s1 = the_field h s" for h
    using src(2) by (simp add: the_field_def adds_objects_def)
  let ?x = "x\<lparr>obj_fields := (obj_fields x)(the_field g s \<mapsto> v)\<rparr>"
  define s2 where "s2 = s1\<lparr>objects := (objects s1)(ob \<mapsto> ?x)\<rparr>"
  have obx: "objects s1 ob = Some x" using src(2) Cons.prems(2,3) by (simp add: adds_objects_def)
  have "obj_fields x (the_field g s) = None" using Cons.prems(6) gsrc by auto
  then have step: "emplace_field ob (the_field g s1) v s1 = Inr s2"
    using obx by (simp add: emplace_field_def deref_def field s2_def)
  have wf2: "refs_wf s2" "next_ref s2 = next_ref s1" "next_ref s \<le> next_ref s2" "ob < next_ref s2"
    using src(2) obx Cons.prems(2) by (auto simp: s2_def adds_objects_def refs_wf_def)
  have field2: "the_field h s2 = the_field h s" for h
    using field by (simp add: the_field_def s2_def)
  have d: "distinct (map (\<lambda>(g, _). the_field g s2) gs)"
    "\<forall>(h, _)\<in>set gs. obj_fields ?x (the_field h s2) = None"
    using Cons.prems(5,6) gsrc field2 by (auto simp: image_iff split: prod.splits)
  have ob2: "objects s2 ob = Some ?x" by (simp add: s2_def)
  have gs: "list_all (good_source \<circ> snd) gs" using Cons.prems(4) by (simp add: comp_def)
  obtain s' F where s': "emplace_all ob gs s2 = Inr s'" "refs_wf s'" "next_ref s2 \<le> next_ref s'"
    "\<forall>r<next_ref s2. r \<noteq> ob \<longrightarrow> objects s' r = objects s2 r"
    "objects s' ob = Some (?x\<lparr>obj_fields := F\<rparr>)" "obj_fields ?x \<subseteq>\<^sub>m F"
    "java_vms s' = java_vms s2 \<and> thread_data s' = thread_data s2 \<and> class_global s' = class_global s2"
    "object_global s' = object_global s2 \<and> field_global s' = field_global s2"
    "\<forall>g v. (g, const_value v) \<in> set gs \<longrightarrow> F (the_field g s2) = Some v"
    using Cons.IH [OF wf2(1,4) ob2 gs d] by blast
  have all: "emplace_all ob (gsrc # gs) s = Inr s'" using src(1) step s'(1) gsrc by simp
  have le: "obj_fields x \<subseteq>\<^sub>m F"
    using s'(6) \<open>obj_fields x (the_field g s) = None\<close> by (simp add: map_le_def) (metis domIff)
  have "F (the_field g s) = Some v" using s'(6) by (auto simp: map_le_def)
  then have vals: "\<forall>h w. (h, const_value w) \<in> set (gsrc # gs) \<longrightarrow> F (the_field h s) = Some w"
    using s'(9) field2 gsrc src(1) by (auto simp: const_value_def)
  have old: "\<forall>r<next_ref s. r \<noteq> ob \<longrightarrow> objects s' r = objects s r"
    using s'(4) wf2(3) src(2) by (auto simp: s2_def adds_objects_def)
  show ?case
    using all s'(2,3,5,7,8) wf2(3) old le vals src(2) by (auto simp: s2_def adds_objects_def)
qed

lemma frame_assign_object: "refs_wf s \<Longrightarrow> frame 0 s (assign_object gc s)"
  using frame_new_object [of s 0] by (simp add: assign_object_def new_of_class_def split_beta)

lemma frame_assign_objects: "refs_wf s \<Longrightarrow> frame 0 s (fold assign_object gcs s)"
proof (induction gcs arbitrary: s)
  case (Cons gc gcs)
  have f: "frame 0 s (assign_object gc s)" by (rule frame_assign_object [OF Cons.prems])
  then show ?case using Cons.IH [of "assign_object gc s"] frame_trans [OF f] by (simp add: frame_def)
qed (simp add: frame_refl)

lemma frame_emplace_consts:
  assumes "refs_wf s" "objects s ob \<noteq> None" "list_all (\<lambda>(g, src). \<exists>v. src = const_value v) gs"
  shows "\<exists>s'. emplace_all ob gs s = Inr s' \<and> frame 0 s s'"
  using assms
proof (induction gs arbitrary: s)
  case (Cons gsrc gs)
  obtain g v where g: "gsrc = (g, const_value v)" using Cons.prems(3) by (cases gsrc) auto
  obtain x where x: "objects s ob = Some x" using Cons.prems(2) by blast
  obtain s1 where s1: "emplace_field ob (the_field g s) v s = Inr s1" "objects s1 ob \<noteq> None"
    using x by (simp add: emplace_field_def deref_def)
  have f: "frame 0 s s1" by (rule frame_emplace [OF Cons.prems(1) s1(1)])
  obtain s' where "emplace_all ob gs s1 = Inr s'" "frame 0 s1 s'"
    using Cons.IH [of s1] f s1(2) Cons.prems(3) by (auto simp: frame_def)
  then show ?case using s1(1) g frame_trans [OF f] by (auto simp: const_value_def)
qed (simp add: frame_refl)

lemma create_android_objects_frame:
  assumes "refs_wf s"
  shows "\<exists>s'. create_android_objects s = Inr s' \<and> frame 0 s s'"
proof -
  define s1 where "s1 = fold assign_object android_objects s"
  have f: "frame 0 s s1" unfolding s1_def by (rule frame_assign_objects [OF assms])
  have wf1: "refs_wf s1" using f by (simp add: frame_def)
  have "objects s1 (object_global s1 ''display_metrics'') \<noteq> None"
    by (simp add: s1_def android_objects_def assign_object_def new_of_class_def new_object_def)
  moreover have "list_all (\<lambda>(g, src). \<exists>v. src = const_value v) (display_metrics_fields s1)"
    by (auto simp: display_metrics_fields_def)
  ultimately obtain s' where "emplace_all (object_global s1 ''display_metrics'')
      (display_metrics_fields s1) s1 = Inr s'" "frame 0 s1 s'"
    using frame_emplace_consts [OF wf1] by blast
  then show ?thesis
    using frame_trans [OF f] by (auto simp: create_android_objects_def s1_def Let_def)
qed

section \<open>All classes\<close>

definition guest_classes :: "class_desc list" where
  "guest_classes =
     create_java_vm_classes @ android_classes @ [session_reporter_interface_class] @
     native_gl_interface_classes @
     [user_java_interface_class, platform_params_class, device_params_class, init_params_class,
      start_app_params_class, start_game_params_class, native_locale_java_interface_class] @
     audio_interface_classes @ java_primitive_classes @ [battery_status_class]"

lemma guest_class_names:
  "distinct (''java/lang/String'' # ''java/util/List'' # map cd_name guest_classes)"
  by code_simp

lemma init_classes_correct:
  assumes "refs_wf s" "java_vms s vm = Some v"
    and "dom (name_to_class v) \<subseteq> {''java/lang/String'', ''java/util/List''}"
  shows "\<exists>s0 s'. build_classes vm create_java_vm_classes s = Inr s0 \<and> init_classes vm s0 = Inr s' \<and>
           keeps_classes vm s s' \<and> list_all (\<lambda>d. registered vm d s') guest_classes"
proof -
  define rest where "rest = [session_reporter_interface_class] @ native_gl_interface_classes @
     [user_java_interface_class, platform_params_class, device_params_class, init_params_class,
      start_app_params_class, start_game_params_class, native_locale_java_interface_class] @
     audio_interface_classes @ java_primitive_classes @ [battery_status_class]"
  have all: "guest_classes = create_java_vm_classes @ android_classes @ rest"
    by (simp add: guest_classes_def rest_def)
  note names = guest_class_names [unfolded all]
  have fresh: "\<forall>d\<in>set ds. name_to_class w (cd_name d) = None"
    if "dom (name_to_class w) \<subseteq> A" "A \<inter> cd_name ` set ds = {}" for w ds A
    using that by fastforce
  have n0: "\<forall>d\<in>set create_java_vm_classes. name_to_class v (cd_name d) = None"
    by (rule fresh [OF assms(3)]) (use names in auto)
  obtain s0 v0 where 0: "build_classes vm create_java_vm_classes s = Inr s0" "keeps_classes vm s s0"
    "java_vms s0 vm = Some v0"
    "dom (name_to_class v0) = dom (name_to_class v) \<union> set (map cd_name create_java_vm_classes)"
    "list_all (\<lambda>d. registered vm d s0) create_java_vm_classes"
    using build_classes_correct [OF assms(1,2) _ n0] names by auto
  have wf0: "refs_wf s0" using 0(2) by (simp add: keeps_classes_def)
  have d0: "dom (name_to_class v0) \<subseteq>
      {''java/lang/String'', ''java/util/List''} \<union> cd_name ` set create_java_vm_classes"
    unfolding 0(4) set_map by (rule Un_mono [OF assms(3) order_refl])
  have n1: "\<forall>d\<in>set android_classes. name_to_class v0 (cd_name d) = None"
    by (rule fresh [OF d0]) (use names in auto)
  obtain s1 v1 where 1: "build_classes vm android_classes s0 = Inr s1" "keeps_classes vm s0 s1"
    "java_vms s1 vm = Some v1"
    "dom (name_to_class v1) = dom (name_to_class v0) \<union> set (map cd_name android_classes)"
    "list_all (\<lambda>d. registered vm d s1) android_classes"
    using build_classes_correct [OF wf0 0(3) _ n1] names by auto
  have wf1: "refs_wf s1" using 1(2) by (simp add: keeps_classes_def)
  obtain s2 where 2: "create_android_objects s1 = Inr s2" "frame 0 s1 s2"
    using create_android_objects_frame [OF wf1] by blast
  have k2: "keeps_classes vm s1 s2" by (rule frame_keeps_classes [OF 2(2) wf1])
  have vm2: "java_vms s2 vm = Some v1" "refs_wf s2"
    using 2(2) 1(3) by (simp_all add: frame_def)
  have d1: "dom (name_to_class v1) \<subseteq> ({''java/lang/String'', ''java/util/List''} \<union>
      cd_name ` set create_java_vm_classes) \<union> cd_name ` set android_classes"
    unfolding 1(4) set_map by (rule Un_mono [OF d0 order_refl])
  have n3: "\<forall>d\<in>set rest. name_to_class v1 (cd_name d) = None"
    by (rule fresh [OF d1]) (use names in auto)
  obtain s3 where 3: "build_classes vm rest s2 = Inr s3" "keeps_classes vm s2 s3"
    "list_all (\<lambda>d. registered vm d s3) rest"
    using build_classes_correct [OF vm2(2,1) _ n3] names by auto
  have k: "keeps_classes vm s1 s3" "keeps_classes vm s0 s3" "keeps_classes vm s s3"
    by (rule keeps_classes_trans [OF k2 3(2)]
        keeps_classes_trans [OF 1(2) keeps_classes_trans [OF k2 3(2)]]
        keeps_classes_trans [OF 0(2) keeps_classes_trans [OF 1(2) keeps_classes_trans [OF k2 3(2)]]])+
  have "list_all (\<lambda>d. registered vm d s3) guest_classes"
    using 0(5) 1(5) 3(3) registered_kept [OF k(1)] registered_kept [OF k(2)]
    by (auto simp: all list_all_iff)
  moreover have "init_classes vm s0 = Inr s3"
    using 1(1) 2(1) 3(1) by (simp add: init_classes_def create_android_classes_def rest_def)
  ultimately show ?thesis using 0(1) k(3) by blast
qed

section \<open>The parameter objects\<close>

text \<open>Filling a newly allocated object, its global assigned (or not) in between.\<close>

lemma emplace_fresh:
  assumes "refs_wf s" "list_all (good_source \<circ> snd) gs"
    and "distinct (map (\<lambda>(g, _). the_field g s) gs)"
  shows "\<exists>s2 F. emplace_all (next_ref s) gs ((snd (new_of_class cls s))\<lparr>object_global := G\<rparr>) = Inr s2 \<and>
     refs_wf s2 \<and> next_ref s < next_ref s2 \<and> field_global s2 = field_global s \<and> object_global s2 = G \<and>
     objects s2 (next_ref s) = Some ((plain_object (class_global s cls))\<lparr>obj_fields := F\<rparr>) \<and>
     (\<forall>g v. (g, const_value v) \<in> set gs \<longrightarrow> F (the_field g s) = Some v)"
proof -
  let ?s1 = "(snd (new_of_class cls s))\<lparr>object_global := G\<rparr>"
  have f: "the_field g ?s1 = the_field g s" for g
    by (simp add: the_field_def new_of_class_def new_object_def)
  have "refs_wf ?s1" using assms(1) by (auto simp: new_of_class_def new_object_def refs_wf_def less_Suc_eq)
  moreover have "next_ref s < next_ref ?s1"
    "objects ?s1 (next_ref s) = Some (plain_object (class_global s cls))"
    "field_global ?s1 = field_global s"
    by (simp_all add: new_of_class_def new_object_def)
  moreover have "distinct (map (\<lambda>(g, _). the_field g ?s1) gs)" using assms(3) f by simp
  moreover have "\<forall>(g, _)\<in>set gs. obj_fields (plain_object (class_global s cls)) (the_field g ?s1) = None"
    by (auto simp: plain_object_def)
  ultimately show ?thesis
    using emplace_all_correct [of ?s1 "next_ref s" _ gs] assms(2) f by force
qed

lemma cached_object_built:
  assumes "refs_wf s" "object_global s g = 0"
    and "\<And>s1. s1 = (snd (new_of_class cls s))\<lparr>object_global := (object_global s)(g := next_ref s)\<rparr> \<Longrightarrow>
           emplace_all (next_ref s) (fs s1) s1 = emplace_all (next_ref s) gs s1"
    and "list_all (good_source \<circ> snd) gs" "distinct (map (\<lambda>(g, _). the_field g s) gs)"
  shows "\<exists>s2 F. cached_object g cls fs s = Inr (next_ref s, s2) \<and>
     object_global s2 = (object_global s)(g := next_ref s) \<and> field_global s2 = field_global s \<and>
     objects s2 (next_ref s) = Some ((plain_object (class_global s cls))\<lparr>obj_fields := F\<rparr>) \<and>
     (\<forall>g v. (g, const_value v) \<in> set gs \<longrightarrow> F (the_field g s) = Some v) \<and>
     cached_object g cls fs' s2 = Inr (next_ref s, s2)"
proof -
  let ?s1 = "(snd (new_of_class cls s))\<lparr>object_global := (object_global s)(g := next_ref s)\<rparr>"
  obtain s2 F where 2: "emplace_all (next_ref s) gs ?s1 = Inr s2"
    "field_global s2 = field_global s" "object_global s2 = (object_global s)(g := next_ref s)"
    "objects s2 (next_ref s) = Some ((plain_object (class_global s cls))\<lparr>obj_fields := F\<rparr>)"
    "\<forall>g v. (g, const_value v) \<in> set gs \<longrightarrow> F (the_field g s) = Some v"
    using emplace_fresh [OF assms(1,4,5)] by blast
  have new: "new_of_class cls s = (next_ref s, snd (new_of_class cls s))"
    "object_global (snd (new_of_class cls s)) = object_global s"
    by (simp_all add: new_of_class_def new_object_def)
  have "emplace_all (next_ref s) (fs ?s1) ?s1 = Inr s2" using assms(3) [OF refl] 2(1) by simp
  then have "cached_object g cls fs s = Inr (next_ref s, s2)"
    using assms(2) by (subst cached_object_def, subst new(1)) (simp add: new(2) Let_def)
  moreover have "cached_object g cls fs' s2 = Inr (next_ref s, s2)"
    using 2(3) assms(1) by (simp add: cached_object_def refs_wf_def)
  ultimately show ?thesis using 2(2-5) by blast
qed

lemma device_params_built:
  assumes "refs_wf s" "object_global s ''device_params'' = 0"
    and "distinct (map (\<lambda>(g, _). the_field g s) (device_params_fields s))"
  shows "\<exists>s2. get_device_params s = Inr (next_ref s, s2) \<and> get_device_params s2 = Inr (next_ref s, s2)"
  using cached_object_built [OF assms(1,2), of "''device_params_class''" device_params_fields
      "device_params_fields s" device_params_fields] assms(3)
  by (auto simp: get_device_params_def device_params_fields_def new_of_class_def new_object_def)

definition platform_sources :: "path \<Rightarrow> (string \<times> value_source) list" where
  "platform_sources dir =
     [(''asset_folder_path_field'', string_value (path_append dir ''content/'')),
      (''dpi_scale_field'', const_value (VFloat 0x3F800000)),
      (''is_keyboard_device_field'', const_value (VInt 1)),
      (''is_mouse_device_field'', const_value (VInt 1)),
      (''is_touch_device_field'', const_value (VInt 0))]"

lemma platform_params_built:
  assumes "refs_wf s" "object_global s ''platform_params'' = 0"
    and "get_assets_dir env (path_prefix s) = Inr dir"
    and "distinct (map (\<lambda>(g, _). the_field g s) (platform_params_fields env s))"
  shows "\<exists>s2 F. get_platform_params env s = Inr (next_ref s, s2) \<and>
     object_global s2 = (object_global s)(''platform_params'' := next_ref s) \<and>
     field_global s2 = field_global s \<and>
     objects s2 (next_ref s) =
       Some ((plain_object (class_global s ''platform_params_class''))\<lparr>obj_fields := F\<rparr>) \<and>
     (\<forall>g v. (g, const_value v) \<in> set (platform_sources dir) \<longrightarrow> F (the_field g s) = Some v) \<and>
     get_platform_params env s2 = Inr (next_ref s, s2)"
  unfolding get_platform_params_def
  by (rule cached_object_built [OF assms(1,2)])
     (use assms(3,4) in \<open>simp_all add: platform_sources_def platform_params_fields_def new_of_class_def
        new_object_def\<close>)

lemma battery_status_built:
  assumes "refs_wf s" "object_global s ''battery_status'' = 0"
    and "distinct (map (\<lambda>(g, _). the_field g s) battery_status_fields)"
  shows "\<exists>s2. get_battery_status s = Inr (next_ref s, s2) \<and> refs_wf s2 \<and> next_ref s < next_ref s2 \<and>
     object_global s2 = object_global s \<and> field_global s2 = field_global s"
proof -
  have good: "list_all (good_source \<circ> snd) battery_status_fields" by (simp add: battery_status_fields_def)
  let ?s1 = "snd (new_of_class ''battery_status_class'' s)"
  have new: "new_of_class ''battery_status_class'' s = (next_ref s, ?s1)"
    "?s1\<lparr>object_global := object_global s\<rparr> = ?s1"
    by (simp_all add: new_of_class_def new_object_def)
  obtain s2 where 2: "emplace_all (next_ref s) battery_status_fields ?s1 = Inr s2"
    "refs_wf s2" "next_ref s < next_ref s2" "object_global s2 = object_global s"
    "field_global s2 = field_global s"
    using emplace_fresh [OF assms(1) good assms(3), where cls = "''battery_status_class''" and G = "object_global s"] new(2)
    by auto
  have "get_battery_status s = Inr (next_ref s, s2)"
    using assms(2) 2(1) by (subst get_battery_status_def, subst new(1)) simp
  then show ?thesis using 2(2-5) by blast
qed

section \<open>A concrete state\<close>

text \<open>A virtual machine with no class, the main thread attached to it.\<close>

definition demo_app :: app where
  "demo_app = initial_app\<lparr>
     java_vms := [1 \<mapsto> \<lparr>vm_invocation = [], vm_native_interface_functions = [],
                        name_to_class = Map.empty\<rparr>],
     next_ref := 2,
     thread_data := (\<lambda>_. \<lparr>td_initialized = True,
       td_env = \<lparr>native_interface_functions = [], env_vm = 1, has_exception = False\<rparr>\<rparr>),
     field_global := (\<lambda>g. Some (1, g)), path_prefix := Some ''/tmp/''\<rparr>"

section \<open>Properties\<close>

lemma registered_call:
  assumes "method_entry c s n = Some (ty, Body b)" "c \<noteq> 0"
  shows "GetMethodID c n s = Inr (c, n) \<and>
    method_call_generic (run_java h) T (c, n) c obj args s =
      (if ty = Member \<and> obj = 0 then Inl (Assert_failure ''object != nullptr'')
       else and_then (run_java_body h b (if ty = Static then c else obj) args s) (returned_as T))"
proof -
  obtain cl me where me: "deref_class c s = Inr cl" "class_methods cl n = Some me"
    "m_type me = ty" "m_function me = Body b"
    using assms(1) by (auto simp: method_entry_def split: sum.splits)
  then show ?thesis
    using assms(2)
    by (cases ty) (auto simp: GetMethodID_def find_method_generic_def method_call_generic_def
        deref_method_def run_java_def)
qed



text \<open>
  The parameter objects: \<^verbatim>\<open>get_device_params\<close> and \<^verbatim>\<open>get_platform_params\<close> build their object once
  and hand out the same one afterwards, while \<^verbatim>\<open>get_battery_status\<close> makes a new object on every call,
  since its local variable shadows the global it tests.
\<close>

theorem parameter_objects_cached:
  assumes "refs_wf s" and "get_assets_dir env (path_prefix s) = Inr dir"
    and "object_global s ''device_params'' = 0" and "object_global s ''platform_params'' = 0"
    and "object_global s ''battery_status'' = 0"
    and "distinct (map (\<lambda>(g, _). the_field g s) (device_params_fields s))"
    and "distinct (map (\<lambda>(g, _). the_field g s) (platform_params_fields env s))"
    and "distinct (map (\<lambda>(g, _). the_field g s) battery_status_fields)"
  shows "(\<exists>ob s1. get_device_params s = Inr (ob, s1) \<and> ob \<noteq> 0 \<and> objects s ob = None \<and>
            get_device_params s1 = Inr (ob, s1)) \<and>
         (\<exists>ob s1. get_platform_params env s = Inr (ob, s1) \<and> ob \<noteq> 0 \<and> objects s ob = None \<and>
            get_platform_params env s1 = Inr (ob, s1)) \<and>
         (\<exists>ob1 s1 ob2 s2. get_battery_status s = Inr (ob1, s1) \<and> get_battery_status s1 = Inr (ob2, s2) \<and>
            ob1 \<noteq> ob2)"
proof -
  have new: "next_ref s \<noteq> 0" "objects s (next_ref s) = None" using assms(1) by (auto simp: refs_wf_def)
  obtain s1 where b1: "get_battery_status s = Inr (next_ref s, s1)" "refs_wf s1" "next_ref s < next_ref s1"
    "object_global s1 = object_global s" "field_global s1 = field_global s"
    using battery_status_built [OF assms(1,5,8)] by blast
  have "the_field g s1 = the_field g s" for g using b1(5) by (simp add: the_field_def)
  then obtain s2 where "get_battery_status s1 = Inr (next_ref s1, s2)"
    using battery_status_built [OF b1(2)] b1(4) assms(5,8) by auto
  then have "\<exists>ob1 s1 ob2 s2. get_battery_status s = Inr (ob1, s1) \<and>
      get_battery_status s1 = Inr (ob2, s2) \<and> ob1 \<noteq> ob2"
    using b1(1) less_imp_neq [OF b1(3)] by blast
  then show ?thesis
    using device_params_built [OF assms(1,3,6)] platform_params_built [OF assms(1,4,2,7)] new by blast
qed

theorem parameter_objects_cached_witness:
  "(\<exists>ob s1. get_platform_params Map.empty demo_app = Inr (ob, s1) \<and>
      get_platform_params Map.empty s1 = Inr (ob, s1)) \<and>
   (\<exists>ob1 s1 ob2 s2. get_battery_status demo_app = Inr (ob1, s1) \<and>
      get_battery_status s1 = Inr (ob2, s2) \<and> ob1 \<noteq> ob2)"
proof -
  have "the_field g demo_app = (1, g)" for g by (simp add: the_field_def demo_app_def)
  then have "distinct (map (\<lambda>(g, _). the_field g demo_app) (device_params_fields demo_app))"
    "distinct (map (\<lambda>(g, _). the_field g demo_app) (platform_params_fields Map.empty demo_app))"
    "distinct (map (\<lambda>(g, _). the_field g demo_app) battery_status_fields)"
    by (simp_all add: device_params_fields_def platform_params_fields_def battery_status_fields_def)
  moreover have "get_assets_dir Map.empty (path_prefix demo_app) = Inr ''/tmp/assets/''"
    by (simp add: demo_app_def get_assets_dir_def path_append_def)
  moreover have "refs_wf demo_app" "object_global demo_app g = 0" for g
    by (simp_all add: demo_app_def initial_app_def initial_jni_state_def jni_state.defs app.defs refs_wf_def)
  ultimately show ?thesis using parameter_objects_cached [of demo_app Map.empty] by blast
qed

text \<open>
  The three device flags of the platform parameters are stored as \<^verbatim>\<open>jint\<close>: the guest finds the
  values it expects with \<^verbatim>\<open>GetIntField\<close>, and \<^verbatim>\<open>GetBooleanField\<close> fails on them.
\<close>

theorem platform_flags_are_ints:
  assumes "refs_wf s" and "get_assets_dir env (path_prefix s) = Inr dir"
    and "object_global s ''platform_params'' = 0"
    and "distinct (map (\<lambda>(g, _). the_field g s) (platform_params_fields env s))"
  shows "\<exists>ob s1. get_platform_params env s = Inr (ob, s1) \<and>
     (\<forall>(g, n) \<in> {(''is_keyboard_device_field'', 1), (''is_mouse_device_field'', 1),
                 (''is_touch_device_field'', 0)}.
        field_get_generic JInt ob (the_field g s1) s1 = Inr (VInt n) \<and>
        field_get_generic JBoolean ob (the_field g s1) s1 = Inl Bad_variant_access)"
proof -
  obtain s2 F where "get_platform_params env s = Inr (next_ref s, s2)" "field_global s2 = field_global s"
    "objects s2 (next_ref s) =
       Some ((plain_object (class_global s ''platform_params_class''))\<lparr>obj_fields := F\<rparr>)"
    "\<forall>g v. (g, const_value v) \<in> set (platform_sources dir) \<longrightarrow> F (the_field g s) = Some v"
    using platform_params_built [OF assms(1,3,2,4)] by blast
  moreover from this(2) have "the_field g s2 = the_field g s" for g by (simp add: the_field_def)
  ultimately show ?thesis
    by (intro exI [of _ "next_ref s"] exI [of _ s2])
       (simp add: platform_sources_def field_get_generic_def deref_def variant_get_def)
qed

theorem platform_flags_are_ints_witness:
  "\<exists>ob s1. get_platform_params Map.empty demo_app = Inr (ob, s1) \<and>
     field_get_generic JInt ob (the_field ''is_mouse_device_field'' s1) s1 = Inr (VInt 1) \<and>
     field_get_generic JBoolean ob (the_field ''is_mouse_device_field'' s1) s1 = Inl Bad_variant_access"
proof -
  have "the_field g demo_app = (1, g)" for g by (simp add: the_field_def demo_app_def)
  then have "distinct (map (\<lambda>(g, _). the_field g demo_app) (platform_params_fields Map.empty demo_app))"
    by (simp add: platform_params_fields_def)
  moreover have "get_assets_dir Map.empty (path_prefix demo_app) = Inr ''/tmp/assets/''"
    by (simp add: demo_app_def get_assets_dir_def path_append_def)
  moreover have "refs_wf demo_app" "object_global demo_app ''platform_params'' = 0"
    by (simp_all add: demo_app_def initial_app_def initial_jni_state_def jni_state.defs app.defs refs_wf_def)
  ultimately show ?thesis using platform_flags_are_ints [of demo_app Map.empty] by fastforce
qed

end
