(* ===== verification/Main_Loop.thy ===== *)
theory Main_Loop
  imports Java_Objects Keyboard
begin

text \<open>
  \<^verbatim>\<open>src/src/main.cpp\<close>, \<^verbatim>\<open>src/src/app_methods.cpp\<close> and \<^verbatim>\<open>src/src/window.cpp\<close>: the guest routines the
  program looks up, the window, the start-up sequence, the event loop and the shutdown.  The
  guest library, SDL, curl and the file system are parameters; the calls the main thread makes to
  guest routines are recorded in order.
\<close>

section \<open>The guest routines\<close>

definition native_symbol :: "string \<Rightarrow> string \<Rightarrow> string \<times> string" where
  "native_symbol class_path n = (n, ''Java_com_roblox_'' @ class_path @ ''_'' @ n)"

definition app_symbols :: "(string \<times> string) list" where
  "app_symbols =
     [(''JNI_OnLoad'', ''JNI_OnLoad'')] @
     map (native_symbol ''engine_jni_NativeSettingsInterface'')
       [''nativeSetDefaultAppPolicyFile'', ''nativeSetExceptionReasonFilename'', ''nativeSetBaseUrl'',
        ''nativeSetRobloxChannel'', ''nativeSetCacheDirectory'', ''nativeSetFilesDirectory'',
        ''nativeInitFastLog'', ''nativeSetRobloxVersion'', ''nativeSetPlatformHeadersWithIdfa'',
        ''nativeSetCookiesForDomain'', ''nativeSetHttpClientProxy'', ''nativeSetPreferencesFile'',
        ''nativeSetDeviceInfo''] @
     map (native_symbol ''engine_jni_NativeGLInterface'')
       [''nativeGameGlobalInit'', ''nativeUpdateAdapterInit'', ''nativeInitClientSettings'',
        ''nativePostClientSettingsLoadedInitialization3'', ''nativeAppBridgeV2InitWithParams'',
        ''nativeAppBridgeV2StartAppWithParams'', ''nativeAppBridgeV2StartGameWithParam'',
        ''nativeAppBridgeV2UpdateSurfaceApp'', ''nativeAppBridgeStartLuaAppDM'', ''nativePassKeyEvent'',
        ''reportBatteryStateChanged'', ''reportBatteryStatus'', ''reportThermalStateChanged'',
        ''syncTextboxTextAndCursorPosition2'', ''nativePassText'', ''nativeReleaseFocus'',
        ''nativeReturnPressedFromOnScreenKeyboard'', ''nativeAppBridgeV2DestroyApp''] @
     [(''nativeAppBridgeAppStart'', ''Java_com_roblox_engine_jni_NativeAppBridgeInterface_'' @
         ''nativeAppBridgeAppStart__Ljava_lang_String_2Ljava_lang_String_2Z'' @
         ''Ljava_lang_String_2Ljava_lang_String_2''),
      native_symbol ''universalapp_cookie_JNICookieProtocol'' ''updateOnSetCookieHandler'',
      native_symbol ''universalapp_experience_JNIExperienceProtocol'' ''getLaunchId''] @
     map (native_symbol ''engine_jni_NativeInputInterface'')
       [''nativePassMouseMove'', ''nativePassMouseButton'', ''nativePassMouseWheel''] @
     [native_symbol ''universalapp_messagebus_MessageBus'' ''doSubscribeRaw'']"

definition find_symbol :: "(string \<Rightarrow> u64) \<Rightarrow> string \<Rightarrow> u64 result" where
  "find_symbol dlsym symbol =
     (if dlsym symbol = 0
      then Inl (Runtime_error ''try_get_symbol could not locate required symbol'')
      else Inr (dlsym symbol))"

text \<open>The lookups up to the first that fails; the members assigned before it stay assigned.\<close>

fun find_symbols ::
    "(string \<Rightarrow> u64) \<Rightarrow> (string \<times> string) list \<Rightarrow> (string \<Rightarrow> u64) \<Rightarrow> bool \<times> (string \<Rightarrow> u64)" where
  "find_symbols dlsym [] m = (True, m)"
| "find_symbols dlsym ((n, symbol) # rest) m =
     (case find_symbol dlsym symbol of
        Inl _ \<Rightarrow> (False, m)
      | Inr p \<Rightarrow> find_symbols dlsym rest (m(n := p)))"

definition AppMethods_init :: "u64 \<Rightarrow> (string \<Rightarrow> u64) \<Rightarrow> app \<Rightarrow> (int \<times> app) result" where
  "AppMethods_init l dlsym s =
     and_then (assert_that (l \<noteq> 0) ''l'') (\<lambda>_.
       case find_symbols dlsym app_symbols (app_methods s) of
         (found, m) \<Rightarrow> Inr (if found then 0 else - 1, s\<lparr>app_methods := m\<rparr>))"

section \<open>The window\<close>

text \<open>What SDL answers to the requests of the start-up code.\<close>

datatype wm_info = SDL_SYSWM_X11 u64 | SDL_SYSWM_WAYLAND u64 | SDL_SYSWM_OTHER

record sdl_host =
  sdl_init_ok :: bool
  desktop_display_mode :: "(u32 \<times> u32) option"
  registered_event :: u32
  created_window :: u64
  wm_of_window :: wm_info
  opened_audio_device :: u32

record sdl =
  custom_event :: u32
  global_window :: u64
  egl_window :: u64
  audio_device :: u32
  cursor_shown :: bool
  relative_mouse_mode :: bool
  window_fullscreen :: bool
  window_display_mode :: "(u32 \<times> u32) option"
  warped_to :: "(u32 \<times> u32) list"
  timers :: "u32 list"
  window_destroyed :: bool
  sdl_running :: bool

definition initial_sdl :: sdl where
  "initial_sdl =
     \<lparr>custom_event = - 1, global_window = 0, egl_window = 0, audio_device = 0, cursor_shown = True,
      relative_mouse_mode = False, window_fullscreen = False, window_display_mode = None,
      warped_to = [], timers = [], window_destroyed = False, sdl_running = False\<rparr>"

definition audio_interface_init :: "sdl_host \<Rightarrow> sdl \<Rightarrow> int \<times> sdl" where
  "audio_interface_init e d =
     (if opened_audio_device e = 0 then (- 1, d\<lparr>audio_device := 0\<rparr>)
      else (0, d\<lparr>audio_device := opened_audio_device e\<rparr>))"

definition audio_interface_close :: "sdl \<Rightarrow> sdl" where
  "audio_interface_close d = (if audio_device d = 0 then d else d\<lparr>audio_device := 0\<rparr>)"

definition get_window :: "sdl \<Rightarrow> u64 result" where
  "get_window d =
     (if global_window d = 0 then Inl (Terminate ''global_window is null'') else Inr (global_window d))"

definition get_sdl_custom_event :: "sdl \<Rightarrow> u32 result" where
  "get_sdl_custom_event d =
     (if custom_event d = - 1 then Inl (Terminate ''custom_event is undefined'')
      else Inr (custom_event d))"

definition get_egl_window :: "sdl \<Rightarrow> u64 result" where
  "get_egl_window d =
     (if egl_window d = 0 then Inl (Terminate ''egl_window is null'') else Inr (egl_window d))"

definition global_window_init :: "sdl_host \<Rightarrow> sdl \<Rightarrow> sdl result" where
  "global_window_init e d =
     (if registered_event e = - 1 then Inl (Terminate ''Failed to register SDL event'')
      else if created_window e = 0 then Inl (Terminate ''SDL_CreateWindow failed'')
      else let d1 = d\<lparr>custom_event := registered_event e, global_window := created_window e\<rparr> in
        and_then (get_window d1) (\<lambda>_.
        and_then (case wm_of_window e of
                    SDL_SYSWM_X11 w \<Rightarrow> Inr w | SDL_SYSWM_WAYLAND w \<Rightarrow> Inr w
                  | SDL_SYSWM_OTHER \<Rightarrow> Inl (Terminate ''Unknown SDL subsystem'')) (\<lambda>w.
        let (r, d2) = audio_interface_init e (d1\<lparr>egl_window := w, cursor_shown := False\<rparr>)
        in if r < 0 then Inl (Terminate ''Failed to initialize audio interface'') else Inr d2)))"

definition global_window_destroy :: "sdl \<Rightarrow> sdl" where
  "global_window_destroy d =
     (if global_window d = 0 then d else (audio_interface_close d)\<lparr>window_destroyed := True\<rparr>)"

section \<open>The state of main\<close>

record main_state =
  the_app :: app
  the_sdl :: sdl
  the_vm :: ref
  surface :: ref
  display_mode :: "u32 \<times> u32"
  guest_calls :: "(string \<times> u64 \<times> garg list) list"
  is_fullscreen :: bool
  is_running :: bool
  window_presented :: bool
  cursor_grabbed :: bool
  cursor_locked :: bool
  startup_task :: bool
  game_start_task :: bool
  resize_task :: bool
  mouse_motion_task :: bool
  mouse_x :: u32
  mouse_y :: u32
  frame_del_x :: u32
  frame_del_y :: u32

text \<open>\<^verbatim>\<open>run\<close> and \<^verbatim>\<open>run_with_return\<close> from the main thread.\<close>

definition call_with_return ::
    "host \<Rightarrow> string \<Rightarrow> argument list \<Rightarrow> main_state \<Rightarrow> (u64 \<times> main_state) result" where
  "call_with_return h routine as s =
     and_then (eval_args as (the_app s)) (\<lambda>(vs, a1).
       let p = app_methods (the_app s) routine in
       and_then (h_guest h p vs a1) (\<lambda>(v, a2).
         Inr (v, s\<lparr>the_app := a2, guest_calls := guest_calls s @ [(routine, p, vs)]\<rparr>)))"

definition call :: "host \<Rightarrow> string \<Rightarrow> argument list \<Rightarrow> main_state \<Rightarrow> main_state result" where
  "call h routine as s = and_then (call_with_return h routine as s) (\<lambda>(_, s'). Inr s')"

fun call_all :: "host \<Rightarrow> (string \<times> argument list) list \<Rightarrow> main_state \<Rightarrow> main_state result" where
  "call_all h [] s = Inr s"
| "call_all h ((r, as) # cs) s = and_then (call h r as s) (call_all h cs)"

definition on_sdl :: "(sdl \<Rightarrow> sdl) \<Rightarrow> main_state \<Rightarrow> main_state" where
  "on_sdl f s = s\<lparr>the_sdl := f (the_sdl s)\<rparr>"

abbreviation gl_class :: argument where
  "gl_class \<equiv> class_arg ''native_gl_interface_class''"

abbreviation settings_class :: argument where
  "settings_class \<equiv> class_arg ''settings_interface_class''"

abbreviation input_class :: argument where
  "input_class \<equiv> class_arg ''input_interface_class''"

section \<open>Events\<close>

datatype mouse_button = SDL_BUTTON_LEFT | SDL_BUTTON_MIDDLE | SDL_BUTTON_RIGHT | SDL_BUTTON_OTHER

datatype window_event = SDL_WINDOWEVENT_SHOWN | SDL_WINDOWEVENT_RESIZED | SDL_WINDOWEVENT_OTHER

datatype SDL_Event =
    SDL_QUIT
  | SDL_KEYDOWN int u8
  | SDL_KEYUP int u8
  | SDL_MOUSEBUTTON mouse_button u8
  | SDL_MOUSEMOTION u32 u32 u32 u32
  | SDL_MOUSEWHEEL u32
  | SDL_WINDOWEVENT window_event
  | SDL_EVENT_OTHER u32 u32

definition set_relative_mouse_mode :: "bool \<Rightarrow> main_state \<Rightarrow> main_state" where
  "set_relative_mouse_mode b = on_sdl (\<lambda>d. d\<lparr>relative_mouse_mode := b\<rparr>)"

definition toggle_fullscreen :: "main_state \<Rightarrow> main_state result" where
  "toggle_fullscreen s =
     and_then (get_window (the_sdl s)) (\<lambda>_.
       let s1 = s\<lparr>is_fullscreen := \<not> is_fullscreen s\<rparr> in
       Inr (if is_fullscreen s1
            then set_relative_mouse_mode True
                   ((on_sdl (\<lambda>d. d\<lparr>window_fullscreen := True,
                                  window_display_mode := Some (display_mode s)\<rparr>) s1)
                    \<lparr>cursor_grabbed := True\<rparr>)
            else on_sdl (\<lambda>d. d\<lparr>window_fullscreen := False\<rparr>) s1))"

definition release_cursor :: "main_state \<Rightarrow> main_state" where
  "release_cursor s = set_relative_mouse_mode False (s\<lparr>cursor_grabbed := False\<rparr>)"

definition pass_key_event :: "host \<Rightarrow> SDL_Scancode \<Rightarrow> bool \<Rightarrow> int \<Rightarrow> bool \<Rightarrow> main_state \<Rightarrow> main_state result" where
  "pass_key_event h c down scancode rep s =
     (if scancode < 0 then Inl Invalid_access
      else call h ''nativePassKeyEvent''
             [arg Env_arg, gl_class, arg (Bool_arg down),
              arg (Int_arg (word_of_int (sdl_scancode_to_linux_keycode_table ! nat scancode))),
              arg (Int_arg (word_of_int (sdl_scancode_to_android_keycode c scancode))),
              arg (Bool_arg rep)] s)"

definition key_event :: "host \<Rightarrow> SDL_Scancode \<Rightarrow> bool \<Rightarrow> int \<Rightarrow> u8 \<Rightarrow> main_state \<Rightarrow> main_state result" where
  "key_event h c down scancode repeated s =
     and_then (assert_that (scancode < sdl_scancode_to_linux_keycode_table_length)
                 ''event.key.keysym.scancode < sdl_scancode_to_linux_keycode_table_length'') (\<lambda>_.
       pass_key_event h c down scancode (0 < repeated) s)"

definition key_down :: "host \<Rightarrow> SDL_Scancode \<Rightarrow> int \<Rightarrow> u8 \<Rightarrow> main_state \<Rightarrow> main_state result" where
  "key_down h c scancode repeated s =
     and_then (if scancode = SDL_SCANCODE_F11 c then toggle_fullscreen s else Inr s) (\<lambda>s1.
       key_event h c True scancode repeated
         (if scancode = SDL_SCANCODE_ESCAPE c then release_cursor s1 else s1))"

definition button_number :: "mouse_button \<Rightarrow> u32" where
  "button_number b =
     (case b of SDL_BUTTON_LEFT \<Rightarrow> 1 | SDL_BUTTON_RIGHT \<Rightarrow> 2 | SDL_BUTTON_MIDDLE \<Rightarrow> 4
      | SDL_BUTTON_OTHER \<Rightarrow> 0)"

definition mouse_button_event :: "host \<Rightarrow> mouse_button \<Rightarrow> u8 \<Rightarrow> main_state \<Rightarrow> main_state result" where
  "mouse_button_event h b state s =
     and_then (call h ''nativePassMouseButton''
        [arg Env_arg, input_class, arg (Float_arg (h_int_to_float h (mouse_x s))),
         arg (Float_arg (h_int_to_float h (mouse_y s))), arg (Int_arg (ucast state)),
         arg (Int_arg (button_number b - 1))] s) (\<lambda>s1.
       let s2 = (if cursor_grabbed s1 then s1
                 else set_relative_mouse_mode True (s1\<lparr>cursor_grabbed := True\<rparr>))
       in Inr (if b = SDL_BUTTON_RIGHT then s2\<lparr>cursor_locked := state \<noteq> 0\<rparr> else s2))"

definition mouse_motion_event :: "u32 \<Rightarrow> u32 \<Rightarrow> u32 \<Rightarrow> u32 \<Rightarrow> main_state \<Rightarrow> main_state result" where
  "mouse_motion_event x y xrel yrel s =
     (let s1 = s\<lparr>frame_del_x := frame_del_x s + xrel, frame_del_y := frame_del_y s + yrel\<rparr> in
      if cursor_locked s1
      then and_then (get_window (the_sdl s1)) (\<lambda>_.
             Inr ((on_sdl (\<lambda>d. d\<lparr>warped_to := warped_to d @ [(mouse_x s1, mouse_y s1)]\<rparr>) s1)
                  \<lparr>mouse_motion_task := True\<rparr>))
      else Inr (s1\<lparr>mouse_x := x, mouse_y := y, mouse_motion_task := True\<rparr>))"

definition custom_event_code :: "CustomEvent \<Rightarrow> u32" where
  "custom_event_code e = (case e of APP_STARTUP \<Rightarrow> 1 | START_GAME \<Rightarrow> 2 | REPORT_BATTERY_STATUS \<Rightarrow> 3)"

definition object_arg :: "(app \<Rightarrow> (ref \<times> app) result) \<Rightarrow> argument" where
  "object_arg f a = and_then (f a) (\<lambda>(r, a'). Inr (Ref_arg r, a'))"

definition custom_event_received :: "host \<Rightarrow> u32 \<Rightarrow> u32 \<Rightarrow> main_state \<Rightarrow> main_state result" where
  "custom_event_received h type code s =
     and_then (get_sdl_custom_event (the_sdl s)) (\<lambda>ce.
       if type \<noteq> ce then Inr s
       else if code = custom_event_code APP_STARTUP then Inr (s\<lparr>startup_task := True\<rparr>)
       else if code = custom_event_code START_GAME then Inr (s\<lparr>game_start_task := True\<rparr>)
       else if code = custom_event_code REPORT_BATTERY_STATUS
       then call h ''reportBatteryStatus'' [arg Env_arg, gl_class, object_arg get_battery_status] s
       else Inr s)"

fun handle_event :: "host \<Rightarrow> SDL_Scancode \<Rightarrow> SDL_Event \<Rightarrow> main_state \<Rightarrow> main_state result" where
  "handle_event h c SDL_QUIT s = Inr (s\<lparr>is_running := False\<rparr>)"
| "handle_event h c (SDL_KEYDOWN scancode repeated) s = key_down h c scancode repeated s"
| "handle_event h c (SDL_KEYUP scancode repeated) s = key_event h c False scancode repeated s"
| "handle_event h c (SDL_MOUSEBUTTON b state) s = mouse_button_event h b state s"
| "handle_event h c (SDL_MOUSEMOTION x y xrel yrel) s = mouse_motion_event x y xrel yrel s"
| "handle_event h c (SDL_MOUSEWHEEL precise_y) s =
     call h ''nativePassMouseWheel''
       [arg Env_arg, input_class, arg (Float_arg (h_int_to_float h (mouse_x s))),
        arg (Float_arg (h_int_to_float h (mouse_y s))), arg (Float_arg precise_y)] s"
| "handle_event h c (SDL_WINDOWEVENT e) s =
     Inr (case e of SDL_WINDOWEVENT_RESIZED \<Rightarrow> s\<lparr>resize_task := True\<rparr>
          | SDL_WINDOWEVENT_SHOWN \<Rightarrow> s\<lparr>window_presented := True\<rparr>
          | SDL_WINDOWEVENT_OTHER \<Rightarrow> s)"
| "handle_event h c (SDL_EVENT_OTHER type code) s = custom_event_received h type code s"

fun handle_events :: "host \<Rightarrow> SDL_Scancode \<Rightarrow> SDL_Event list \<Rightarrow> main_state \<Rightarrow> main_state result" where
  "handle_events h c [] s = Inr s"
| "handle_events h c (e # es) s = and_then (handle_event h c e s) (handle_events h c es)"

section \<open>The tasks of a frame\<close>

definition resize_step :: "host \<Rightarrow> main_state \<Rightarrow> main_state result" where
  "resize_step h s =
     (if resize_task s
      then call h ''nativeAppBridgeV2UpdateSurfaceApp''
             [arg Env_arg, gl_class, arg (Ref_arg (surface s)), arg (Float_arg 0x3F800000)]
             (s\<lparr>resize_task := False\<rparr>)
      else Inr s)"

text \<open>The objects made for the message bus: two classes, the callback class and its instance.\<close>

definition create_message_bus :: "ref \<Rightarrow> app \<Rightarrow> (ref \<times> ref \<times> ref \<times> app) result" where
  "create_message_bus vm a =
     and_then (create_class vm ''com/roblox/universalapp/experience/JNIExperienceProtocol'' a)
       (\<lambda>(experience_protocol_class, a1).
     and_then (create_class vm ''com/roblox/universalapp/messagebus/MessageBus'' a1)
       (\<lambda>(message_bus_class, a2).
     and_then (create_class vm ''MessageBusCallback'' a2) (\<lambda>(callback_class, a3).
     and_then (member_method callback_class ''run'' (Body Message_bus_run) a3) (\<lambda>(_, a4).
     let (callback_object, a5) = new_object (plain_object callback_class) a4
     in Inr (experience_protocol_class, message_bus_class, callback_object, a5)))))"

definition startup_step :: "host \<Rightarrow> main_state \<Rightarrow> main_state result" where
  "startup_step h s =
     (if startup_task s \<and> window_presented s
      then and_then (call h ''nativeAppBridgeV2StartAppWithParams''
               [arg Env_arg, gl_class, new_object_arg ''start_app_params_class'']
               (s\<lparr>startup_task := False\<rparr>)) (\<lambda>s1.
           and_then (create_message_bus (the_vm s1) (the_app s1)) (\<lambda>(protocol, bus, callback, a).
           and_then (call_with_return h ''getLaunchId'' [arg Env_arg, arg (Ref_arg protocol)]
               (s1\<lparr>the_app := a\<rparr>)) (\<lambda>(launch_id, s2).
           and_then (call h ''doSubscribeRaw''
               [arg Env_arg, arg (Ref_arg bus), arg (Ref_arg (unat launch_id)), arg (Ref_arg callback),
                arg (Bool_arg False)] s2) (\<lambda>s3.
           and_then (get_sdl_custom_event (the_sdl s3)) (\<lambda>_.
           Inr (on_sdl (\<lambda>d. d\<lparr>timers := timers d @ [30000]\<rparr>) s3))))))
      else Inr s)"

definition game_start_step :: "host \<Rightarrow> SDL_Scancode \<Rightarrow> main_state \<Rightarrow> main_state result" where
  "game_start_step h c s =
     (if game_start_task s
      then and_then (call_all h
             [(''nativeAppBridgeV2StartGameWithParam'',
               [arg Env_arg, gl_class, new_object_arg ''start_game_params_class'']),
              (''reportBatteryStateChanged'', [arg Env_arg, gl_class, arg (Int_arg 100), arg (Int_arg 5)]),
              (''reportThermalStateChanged'', [arg Env_arg, gl_class, arg (Int_arg 0)])]
             (s\<lparr>game_start_task := False\<rparr>)) (\<lambda>s1.
           and_then (pass_key_event h c True (SDL_SCANCODE_H c) False s1)
             (pass_key_event h c False (SDL_SCANCODE_H c) False))
      else Inr s)"

definition mouse_move_step :: "host \<Rightarrow> main_state \<Rightarrow> main_state result" where
  "mouse_move_step h s =
     (if mouse_motion_task s
      then call h ''nativePassMouseMove''
             [arg Env_arg, input_class, arg (Float_arg (h_int_to_float h (mouse_x s))),
              arg (Float_arg (h_int_to_float h (mouse_y s))),
              arg (Float_arg (h_int_to_float h (frame_del_x s))),
              arg (Float_arg (h_int_to_float h (frame_del_y s)))]
             (s\<lparr>mouse_motion_task := False\<rparr>)
      else Inr s)"

definition run_frame :: "host \<Rightarrow> SDL_Scancode \<Rightarrow> SDL_Event list \<Rightarrow> main_state \<Rightarrow> main_state result" where
  "run_frame h c events s =
     and_then (handle_events h c events
       (s\<lparr>frame_del_x := 0, frame_del_y := 0, mouse_motion_task := False\<rparr>)) (\<lambda>s1.
     and_then (resize_step h s1) (\<lambda>s2.
     and_then (startup_step h s2) (\<lambda>s3.
     and_then (game_start_step h c s3) (\<lambda>s4.
     mouse_move_step h s4))))"

text \<open>
  The loop; \<open>frames i\<close> are the events that \<^verbatim>\<open>SDL_PollEvent\<close> delivers in iteration \<open>i\<close>.  A run that
  never ends has the value \<open>None\<close>.
\<close>

partial_function (option) event_loop ::
    "host \<Rightarrow> SDL_Scancode \<Rightarrow> (nat \<Rightarrow> SDL_Event list) \<Rightarrow> nat \<Rightarrow> main_state \<Rightarrow> main_state result option" where
  [code]: "event_loop h c frames i s =
     (if \<not> is_running s then Some (Inr s)
      else case run_frame h c (frames i) s of
             Inl e \<Rightarrow> Some (Inl e)
           | Inr s' \<Rightarrow> event_loop h c frames (Suc i) s')"

definition shutdown :: "host \<Rightarrow> main_state \<Rightarrow> main_state result" where
  "shutdown h s =
     and_then (call h ''nativeAppBridgeV2DestroyApp'' [] s) (\<lambda>s1.
       Inr (on_sdl (\<lambda>d. (global_window_destroy d)\<lparr>sdl_running := False\<rparr>) s1))"

section \<open>Start-up\<close>

text \<open>What the start-up code asks of the system.\<close>

record start_env =
  argv1 :: "path option"
  is_directory :: "path \<Rightarrow> bool"
  path_exists :: "path \<Rightarrow> bool"
  is_regular_file :: "path \<Rightarrow> bool"
  cookie_contents :: "path \<Rightarrow> string"
  fetch_url :: "string \<Rightarrow> string option"
  memory_mb :: u64
  main_library :: u64
  guest_symbol :: "string \<Rightarrow> u64"

definition set_path_prefix :: "path \<Rightarrow> app \<Rightarrow> app" where
  "set_path_prefix p a = a\<lparr>path_prefix := Some p\<rparr>"

definition check_files :: "host \<Rightarrow> start_env \<Rightarrow> app \<Rightarrow> unit result" where
  "check_files h e a =
     and_then (get_assets_dir (h_env h) (path_prefix a)) (\<lambda>assets.
     if \<not> is_directory e assets then Inl (Exit (- 1))
     else and_then (get_core_lib_path (h_env h) (path_prefix a)) (\<lambda>core_lib.
     if \<not> path_exists e core_lib then Inl (Exit (- 1))
     else if \<not> is_regular_file e (path_append (path_append assets ''ssl'') ''cacert.pem'')
     then Inl (Exit (- 1)) else Inr ()))"

definition open_display :: "sdl_host \<Rightarrow> start_env \<Rightarrow> main_state \<Rightarrow> main_state result" where
  "open_display d e s =
     (if \<not> sdl_init_ok d then Inl (Exit (- 1))
      else case desktop_display_mode d of
        None \<Rightarrow> Inl (Terminate ''SDL_GetDesktopDisplayMode failed'')
      | Some (w, h) \<Rightarrow>
          (let s1 = s\<lparr>display_mode := (w, h),
                      the_app := (the_app s)\<lparr>display_width := scast w, display_height := scast h,
                                             device_memory_mb := memory_mb e\<rparr>\<rparr>
           in and_then (global_window_init d ((the_sdl s1)\<lparr>sdl_running := True\<rparr>))
                (\<lambda>d'. Inr (s1\<lparr>the_sdl := d'\<rparr>))))"

definition load_main_library :: "start_env \<Rightarrow> main_state \<Rightarrow> main_state result" where
  "load_main_library e s =
     (if main_library e = 0 then Inl (Terminate ''failed to load main shared object'')
      else and_then (AppMethods_init (main_library e) (guest_symbol e) (the_app s)) (\<lambda>(r, a).
        if r < 0 then Inl (Terminate ''failed to load main shared object symbols'')
        else Inr (s\<lparr>the_app := a\<rparr>)))"

text \<open>The instances on the stack of \<^verbatim>\<open>main\<close>, and the closures it adds to the graphics interface.\<close>

definition start_java ::
    "dynamic_symbol list \<Rightarrow> dynamic_symbol list \<Rightarrow> trampoline_state \<times> main_state \<Rightarrow>
     (ref \<times> ref \<times> trampoline_state \<times> main_state) result" where
  "start_java env_syms invocation_syms st =
     and_then (create_java_vm env_syms invocation_syms 0 (fst st, the_app (snd st))) (\<lambda>(vm, ts, a0).
     and_then (init_classes vm a0) (\<lambda>a1.
     let (handler, a2) = new_of_class ''cookie_handler_class'' a1;
         (protocol, a3) = new_of_class ''cookie_protocol_class'' a2;
         (surf, a4) = new_of_class ''surface_class'' a3;
         gl = class_global a4 ''native_gl_interface_class''
     in and_then (static_method gl ''showKeyboard'' (Body Show_keyboard) (a4\<lparr>current_text_box_id := 0\<rparr>))
          (\<lambda>(_, a5).
        and_then (static_method gl ''hideKeyboard'' (Body Hide_keyboard) a5) (\<lambda>(_, a6).
        Inr (handler, protocol, ts, (snd st)\<lparr>the_app := a6, the_vm := vm, surface := surf\<rparr>)))))"

definition path_arg :: "(app \<Rightarrow> path result) \<Rightarrow> argument" where
  "path_arg f a = and_then (f a) (\<lambda>p. string_arg p a)"

definition settings_calls :: "host \<Rightarrow> main_state \<Rightarrow> (string \<times> argument list) list" where
  "settings_calls h s =
     [(''JNI_OnLoad'', [arg (Vm_arg (the_vm s)), arg (Int_arg 0)]),
      (''nativeSetDefaultAppPolicyFile'', [arg Env_arg, settings_class, path_arg (\<lambda>a.
         and_then (get_assets_dir (h_env h) (path_prefix a)) (\<lambda>d.
         Inr (path_append d ''content/guac/defaultConfigs/GuacDefaultPolicy-GlobalDist.json'')))]),
      (''nativeSetExceptionReasonFilename'',
         [arg Env_arg, settings_class, string_arg ''exception_reason.txt'']),
      (''nativeSetBaseUrl'', [arg Env_arg, settings_class, string_arg ''https://www.roblox.com/'',
         string_arg ''https://api.roblox.com/'']),
      (''nativeSetRobloxChannel'', [arg Env_arg, settings_class, string_arg []]),
      (''nativeSetCacheDirectory'', [arg Env_arg, settings_class,
         path_arg (\<lambda>a. get_cache_dir (h_env h) (path_prefix a))]),
      (''nativeSetFilesDirectory'', [arg Env_arg, settings_class,
         path_arg (\<lambda>a. get_files_dir (h_env h) (path_prefix a))]),
      (''nativeInitFastLog'', [arg Env_arg, settings_class]),
      (''nativeSetRobloxVersion'', [arg Env_arg, settings_class,
         \<lambda>a. string_arg (roblox_version a) a]),
      (''nativeSetPlatformHeadersWithIdfa'', [arg Env_arg, settings_class, string_arg [],
         string_arg ''googleplay'', string_arg []])]"

definition load_cookie_file :: "host \<Rightarrow> start_env \<Rightarrow> main_state \<Rightarrow> main_state result" where
  "load_cookie_file h e s =
     and_then (get_cookies_path (h_env h) (path_prefix (the_app s))) (\<lambda>p.
       let contents = cookie_contents e p in
       call h ''nativeSetCookiesForDomain''
         [arg Env_arg, settings_class, string_arg ''.roblox.com'',
          string_arg contents]
         (s\<lparr>the_app := (the_app s)\<lparr>cookies := load_cookies contents (cookies (the_app s))\<rparr>\<rparr>))"

definition init_calls :: "ref \<Rightarrow> ref \<Rightarrow> (string \<times> argument list) list" where
  "init_calls handler protocol =
     [(''nativeGameGlobalInit'', [arg Env_arg, gl_class]),
      (''nativeSetHttpClientProxy'', [arg Env_arg, settings_class, string_arg [], arg (Int_arg 0)]),
      (''nativeUpdateAdapterInit'', [arg Env_arg, gl_class]),
      (''updateOnSetCookieHandler'',
         [arg Env_arg, arg (Ref_arg protocol), arg (Ref_arg handler)])]"

definition fetch_client_settings :: "host \<Rightarrow> start_env \<Rightarrow> main_state \<Rightarrow> main_state result" where
  "fetch_client_settings h e s =
     (case fetch_url e get_clientsettings_url of
        None \<Rightarrow> Inl (Exit (- 1))
      | Some buffer \<Rightarrow>
          call h ''nativeInitClientSettings''
            [arg Env_arg, gl_class, string_arg buffer, arg (Ref_arg 0), string_arg ''GoogleAndroidApp''] s)"

definition new_empty_list :: "app \<Rightarrow> (ref \<times> app) result" where
  "new_empty_list a = Inr (new_object ((array_object JObject 0 [])\<lparr>obj_super := list_class a\<rparr>) a)"

definition app_start_calls :: "(string \<times> argument list) list" where
  "app_start_calls =
     [(''nativePostClientSettingsLoadedInitialization3'',
         [arg Env_arg, gl_class, object_arg new_empty_list]),
      (''nativeSetPreferencesFile'', [arg Env_arg, settings_class, string_arg ''prefs'']),
      (''nativeSetDeviceInfo'', [arg Env_arg, settings_class, object_arg get_device_params]),
      (''nativeAppBridgeAppStart'', [arg Env_arg, class_arg ''app_bridge_interface_class'',
         string_arg ''https://www.roblox.com/'', \<lambda>a. string_arg (user_agent a) a, arg (Bool_arg False),
         string_arg [], string_arg ''AppAndroidV'']),
      (''nativeAppBridgeV2InitWithParams'', [arg Env_arg, gl_class, new_object_arg ''init_params_class'']),
      (''nativeAppBridgeStartLuaAppDM'', [arg Env_arg, gl_class])]"

definition start_application :: "host \<Rightarrow> start_env \<Rightarrow> ref \<Rightarrow> ref \<Rightarrow> main_state \<Rightarrow> main_state result" where
  "start_application h e handler protocol s =
     and_then (call_all h (settings_calls h s) s) (\<lambda>s1.
     and_then (load_cookie_file h e s1) (\<lambda>s2.
     and_then (call_all h (init_calls handler protocol) s2) (\<lambda>s3.
     and_then (fetch_client_settings h e s3) (\<lambda>s4.
     call_all h app_start_calls s4))))"

definition initial_main_state :: main_state where
  "initial_main_state =
     \<lparr>the_app = initial_app, the_sdl = initial_sdl, the_vm = 0, surface = 0, display_mode = (0, 0),
      guest_calls = [], is_fullscreen = False, is_running = True, window_presented = False,
      cursor_grabbed = False, cursor_locked = False, startup_task = False, game_start_task = False,
      resize_task = False, mouse_motion_task = False, mouse_x = - 1, mouse_y = - 1, frame_del_x = 0,
      frame_del_y = 0\<rparr>"

definition start_main ::
    "host \<Rightarrow> sdl_host \<Rightarrow> start_env \<Rightarrow> dynamic_symbol list \<Rightarrow> dynamic_symbol list \<Rightarrow> trampoline_state \<Rightarrow>
     main_state result" where
  "start_main h d e env_syms invocation_syms ts =
     (let a = (case argv1 e of Some p \<Rightarrow> set_path_prefix p initial_app | None \<Rightarrow> initial_app) in
      and_then (check_files h e a) (\<lambda>_.
      and_then (open_display d e (initial_main_state\<lparr>the_app := a\<rparr>)) (\<lambda>s1.
      and_then (load_main_library e s1) (\<lambda>s2.
      and_then (start_java env_syms invocation_syms (ts, s2)) (\<lambda>(handler, protocol, _, s3).
      start_application h e handler protocol s3)))))"

definition main_program ::
    "host \<Rightarrow> sdl_host \<Rightarrow> start_env \<Rightarrow> dynamic_symbol list \<Rightarrow> dynamic_symbol list \<Rightarrow> trampoline_state \<Rightarrow>
     SDL_Scancode \<Rightarrow> (nat \<Rightarrow> SDL_Event list) \<Rightarrow> main_state result option" where
  "main_program h d e env_syms invocation_syms ts c frames =
     (case start_main h d e env_syms invocation_syms ts of
        Inl err \<Rightarrow> Some (Inl err)
      | Inr s \<Rightarrow> (case event_loop h c frames 0 s of
            None \<Rightarrow> None
          | Some r \<Rightarrow> Some (and_then r (shutdown h))))"

end
