(* ===== verification/Main_Properties.thy ===== *)
theory Main_Properties
  imports Main_Loop "HOL-Library.Sublist"
begin

text \<open>
  The properties of the event loop: what a frame does to the state and which guest routines it
  calls, the agreement of the program's flags with SDL's state, the end of the loop, and the
  resolution of the routines.
\<close>

section \<open>Calls\<close>

lemma call_with_return_effect:
  assumes "call_with_return h r as s = Inr (v, s')"
  shows "\<exists>a vs. s' = s\<lparr>the_app := a, guest_calls := guest_calls s @ [(r, app_methods (the_app s) r, vs)]\<rparr>"
  using assms by (auto simp: call_with_return_def and_then_def Let_def split: sum.splits prod.splits)

text \<open>The program state after calls: only the application and the record of calls change.\<close>

definition called :: "string list \<Rightarrow> main_state \<Rightarrow> main_state \<Rightarrow> bool" where
  "called rs s s' \<longleftrightarrow>
     s' = s\<lparr>the_app := the_app s', guest_calls := guest_calls s'\<rparr> \<and>
     prefix (guest_calls s) (guest_calls s') \<and> map fst (guest_calls s') = map fst (guest_calls s) @ rs"

lemma calledI:
  "s' = s\<lparr>the_app := a, guest_calls := guest_calls s @ cs\<rparr> \<Longrightarrow> map fst cs = rs \<Longrightarrow> called rs s s'"
  by (simp add: called_def)

lemma calledE:
  assumes "called rs s s'"
  obtains a cs where "s' = s\<lparr>the_app := a, guest_calls := guest_calls s @ cs\<rparr>" "map fst cs = rs"
  using assms by (auto simp: called_def prefix_def)

lemma called_refl: "called [] s s"
  by (simp add: called_def)

lemma called_eqI: "s' = s \<Longrightarrow> called [] s s'"
  by (simp add: called_refl)

lemma called_trans: "called rs s s1 \<Longrightarrow> called rs' s1 s2 \<Longrightarrow> called (rs @ rs') s s2"
  by (erule calledE, erule calledE) (simp add: called_def)

lemma call_called: "call h r as s = Inr s' \<Longrightarrow> called [r] s s'"
  unfolding call_def
  by (auto simp: and_then_def split: sum.splits dest!: call_with_return_effect intro!: calledI)

lemma call_all_called: "call_all h cs s = Inr s' \<Longrightarrow> called (map fst cs) s s'"
proof (induction cs arbitrary: s)
  case Nil
  then show ?case by (simp add: called_refl)
next
  case (Cons c cs)
  obtain r as where c: "c = (r, as)" by (cases c)
  then obtain s1 where s1: "call h r as s = Inr s1" "call_all h cs s1 = Inr s'"
    using Cons.prems by (auto simp: and_then_def split: sum.splits)
  show ?case using called_trans [OF call_called [OF s1(1)] Cons.IH [OF s1(2)]] c by simp
qed

section \<open>The effect of an event\<close>

text \<open>
  Reference semantics of an event: its effect on the flags, the mouse and SDL, and the routines
  it calls; \<open>ce\<close> is the number of the custom event.
\<close>

fun event_effect :: "SDL_Scancode \<Rightarrow> SDL_Event \<Rightarrow> main_state \<Rightarrow> main_state" where
  "event_effect c SDL_QUIT s = s\<lparr>is_running := False\<rparr>"
| "event_effect c (SDL_KEYDOWN k _) s =
     (let s1 = (if k \<noteq> SDL_SCANCODE_F11 c then s
                else if is_fullscreen s
                then (on_sdl (\<lambda>d. d\<lparr>window_fullscreen := False\<rparr>) s)\<lparr>is_fullscreen := False\<rparr>
                else (on_sdl (\<lambda>d. d\<lparr>window_fullscreen := True, relative_mouse_mode := True,
                        window_display_mode := Some (display_mode s)\<rparr>) s)
                     \<lparr>is_fullscreen := True, cursor_grabbed := True\<rparr>)
      in if k = SDL_SCANCODE_ESCAPE c
         then (on_sdl (\<lambda>d. d\<lparr>relative_mouse_mode := False\<rparr>) s1)\<lparr>cursor_grabbed := False\<rparr> else s1)"
| "event_effect c (SDL_KEYUP _ _) s = s"
| "event_effect c (SDL_MOUSEBUTTON b st) s =
     (let s1 = (if cursor_grabbed s then s
                else (on_sdl (\<lambda>d. d\<lparr>relative_mouse_mode := True\<rparr>) s)\<lparr>cursor_grabbed := True\<rparr>)
      in if b = SDL_BUTTON_RIGHT then s1\<lparr>cursor_locked := st \<noteq> 0\<rparr> else s1)"
| "event_effect c (SDL_MOUSEMOTION x y dx dy) s =
     (let s1 = s\<lparr>frame_del_x := frame_del_x s + dx, frame_del_y := frame_del_y s + dy,
                 mouse_motion_task := True\<rparr>
      in if cursor_locked s
         then on_sdl (\<lambda>d. d\<lparr>warped_to := warped_to d @ [(mouse_x s, mouse_y s)]\<rparr>) s1
         else s1\<lparr>mouse_x := x, mouse_y := y\<rparr>)"
| "event_effect c (SDL_MOUSEWHEEL _) s = s"
| "event_effect c (SDL_WINDOWEVENT e) s =
     (case e of SDL_WINDOWEVENT_RESIZED \<Rightarrow> s\<lparr>resize_task := True\<rparr>
      | SDL_WINDOWEVENT_SHOWN \<Rightarrow> s\<lparr>window_presented := True\<rparr> | SDL_WINDOWEVENT_OTHER \<Rightarrow> s)"
| "event_effect c (SDL_EVENT_OTHER ty code) s =
     (if ty \<noteq> custom_event (the_sdl s) then s
      else if code = 1 then s\<lparr>startup_task := True\<rparr>
      else if code = 2 then s\<lparr>game_start_task := True\<rparr> else s)"

fun event_routines :: "u32 \<Rightarrow> SDL_Event \<Rightarrow> string list" where
  "event_routines ce (SDL_KEYDOWN _ _) = [''nativePassKeyEvent'']"
| "event_routines ce (SDL_KEYUP _ _) = [''nativePassKeyEvent'']"
| "event_routines ce (SDL_MOUSEBUTTON _ _) = [''nativePassMouseButton'']"
| "event_routines ce (SDL_MOUSEWHEEL _) = [''nativePassMouseWheel'']"
| "event_routines ce (SDL_EVENT_OTHER ty code) =
     (if ty = ce \<and> code = 3 then [''reportBatteryStatus''] else [])"
| "event_routines ce _ = []"

lemma key_event_called: "key_event h c down k r s = Inr s' \<Longrightarrow> called [''nativePassKeyEvent''] s s'"
  unfolding key_event_def pass_key_event_def
  by (auto simp: and_then_def split: sum.splits if_splits intro: call_called)

lemma key_down_called:
  assumes "key_down h c k r s = Inr s'"
  shows "called [''nativePassKeyEvent''] (event_effect c (SDL_KEYDOWN k r) s) s'"
proof -
  obtain s1 where 1: "(if k = SDL_SCANCODE_F11 c then toggle_fullscreen s else Inr s) = Inr s1"
    and 2: "key_event h c True k r (if k = SDL_SCANCODE_ESCAPE c then release_cursor s1 else s1) = Inr s'"
    using assms by (auto simp: key_down_def and_then_def split: sum.splits)
  have "(if k = SDL_SCANCODE_ESCAPE c then release_cursor s1 else s1)
      = event_effect c (SDL_KEYDOWN k r) s"
    using 1 by (auto simp: toggle_fullscreen_def release_cursor_def set_relative_mouse_mode_def
        on_sdl_def and_then_def Let_def split: sum.splits if_splits)
  then show ?thesis using key_event_called [OF 2] by simp
qed

lemma mouse_button_called:
  assumes "mouse_button_event h b st s = Inr s'"
  shows "called [''nativePassMouseButton''] (event_effect c (SDL_MOUSEBUTTON b st) s) s'"
proof -
  obtain as s1 where 1: "call h ''nativePassMouseButton'' as s = Inr s1"
    and 2: "s' = (let s2 = (if cursor_grabbed s1 then s1
                 else set_relative_mouse_mode True (s1\<lparr>cursor_grabbed := True\<rparr>))
       in (if b = SDL_BUTTON_RIGHT then s2\<lparr>cursor_locked := st \<noteq> 0\<rparr> else s2))"
    using assms unfolding mouse_button_event_def
    by (auto simp: and_then_def Let_def split: sum.splits)
  from call_called [OF 1] show ?thesis
    unfolding 2 by (elim calledE) (simp add: called_def set_relative_mouse_mode_def on_sdl_def Let_def)
qed

lemma handle_event_effect:
  assumes "handle_event h c e s = Inr s'"
  shows "called (event_routines (custom_event (the_sdl s)) e) (event_effect c e s) s'"
proof (cases e)
  case (SDL_MOUSEMOTION x y dx dy)
  then have "s' = event_effect c e s"
    using assms by (auto simp: mouse_motion_event_def and_then_def Let_def on_sdl_def
        split: sum.splits if_splits)
  then show ?thesis using SDL_MOUSEMOTION by (simp add: called_refl)
next
  case (SDL_EVENT_OTHER ty code)
  then show ?thesis
    using assms by (auto simp: custom_event_received_def get_sdl_custom_event_def custom_event_code_def
        and_then_def called_refl split: if_splits intro: call_called)
next
  case (SDL_KEYDOWN k r)
  then show ?thesis using assms key_down_called by (simp del: event_effect.simps)
next
  case (SDL_MOUSEBUTTON b st)
  then show ?thesis using assms mouse_button_called by (simp del: event_effect.simps)
qed (use assms in \<open>auto simp: called_refl intro: call_called key_event_called split: window_event.splits\<close>)

text \<open>Effects do not look at the application or at the record of calls.\<close>

lemma event_effect_frame:
  "event_effect c e (s\<lparr>the_app := a, guest_calls := k\<rparr>) = (event_effect c e s)\<lparr>the_app := a, guest_calls := k\<rparr>"
  by (cases e) (auto simp: Let_def on_sdl_def split: window_event.splits)

lemma event_effect_calls [simp]:
  "guest_calls (event_effect c e s) = guest_calls s"
  "custom_event (the_sdl (event_effect c e s)) = custom_event (the_sdl s)"
  "the_app (event_effect c e s) = the_app s"
  by (cases e; auto simp: Let_def on_sdl_def split: window_event.splits)+

lemma called_effect: "called rs s s' \<Longrightarrow> called rs (event_effect c e s) (event_effect c e s')"
  by (erule calledE) (simp add: called_def event_effect_frame)

lemma called_effects: "called rs s s' \<Longrightarrow> called rs (fold (event_effect c) es s) (fold (event_effect c) es s')"
  by (induction es arbitrary: s s') (simp_all add: called_effect)

lemma handle_events_effect:
  "handle_events h c es s = Inr s' \<Longrightarrow>
   called (concat (map (event_routines (custom_event (the_sdl s))) es)) (fold (event_effect c) es s) s'"
proof (induction es arbitrary: s)
  case Nil
  then show ?case by (simp add: called_refl)
next
  case (Cons e es)
  then obtain s1 where s1: "handle_event h c e s = Inr s1" "handle_events h c es s1 = Inr s'"
    by (auto simp: and_then_def split: sum.splits)
  have c1: "called (event_routines (custom_event (the_sdl s)) e) (event_effect c e s) s1"
    by (rule handle_event_effect [OF s1(1)])
  then have "custom_event (the_sdl s1) = custom_event (the_sdl s)" by (auto elim!: calledE)
  then show ?case using called_trans [OF called_effects [OF c1] Cons.IH [OF s1(2)]] by simp
qed

section \<open>The effect of a frame\<close>

lemma resize_step_effect:
  assumes "resize_step h s = Inr s'"
  shows "called (if resize_task s then [''nativeAppBridgeV2UpdateSurfaceApp''] else [])
           (s\<lparr>resize_task := False\<rparr>) s'"
  using assms by (cases "resize_task s") (auto simp: resize_step_def intro: call_called called_eqI)

definition startup_effect :: "main_state \<Rightarrow> main_state" where
  "startup_effect s =
     (if startup_task s \<and> window_presented s
      then on_sdl (\<lambda>d. d\<lparr>timers := timers d @ [30000]\<rparr>) (s\<lparr>startup_task := False\<rparr>) else s)"

lemma called_app: "called [] s (s\<lparr>the_app := a\<rparr>)"
  by (simp add: called_def)

lemma call_with_return_called: "call_with_return h r as s = Inr (v, s') \<Longrightarrow> called [r] s s'"
  by (rule call_called [of h r as]) (simp add: call_def)

lemma startup_step_effect:
  assumes "startup_step h s = Inr s'"
  shows "called (if startup_task s \<and> window_presented s
           then [''nativeAppBridgeV2StartAppWithParams'', ''getLaunchId'', ''doSubscribeRaw''] else [])
           (startup_effect s) s'"
proof (cases "startup_task s \<and> window_presented s")
  case True
  obtain as1 s1 a lid as2 as3 s2 s3 where
    1: "call h ''nativeAppBridgeV2StartAppWithParams'' as1 (s\<lparr>startup_task := False\<rparr>) = Inr s1"
    and 2: "call_with_return h ''getLaunchId'' as2 (s1\<lparr>the_app := a\<rparr>) = Inr (lid, s2)"
    and 3: "call h ''doSubscribeRaw'' as3 s2 = Inr s3"
    and 4: "s' = on_sdl (\<lambda>d. d\<lparr>timers := timers d @ [30000]\<rparr>) s3"
    using True assms unfolding startup_step_def
    by (auto simp: and_then_def split: sum.splits prod.splits)
  have "called ([''nativeAppBridgeV2StartAppWithParams''] @ [] @ [''getLaunchId''] @ [''doSubscribeRaw''])
      (s\<lparr>startup_task := False\<rparr>) s3"
    by (rule called_trans [OF call_called [OF 1] called_trans [OF called_app
          called_trans [OF call_with_return_called [OF 2] call_called [OF 3]]]])
  then show ?thesis using True unfolding 4
    by (elim calledE) (simp add: called_def startup_effect_def on_sdl_def)
next
  case False
  then have "s' = s" using assms unfolding startup_step_def if_not_P [OF False] by simp
  then show ?thesis using False by (auto simp: startup_effect_def called_refl)
qed

definition game_start_routines :: "string list" where
  "game_start_routines =
     [''nativeAppBridgeV2StartGameWithParam'', ''reportBatteryStateChanged'',
      ''reportThermalStateChanged'', ''nativePassKeyEvent'', ''nativePassKeyEvent'']"

lemma pass_key_event_called: "pass_key_event h c down k r s = Inr s' \<Longrightarrow> called [''nativePassKeyEvent''] s s'"
  by (auto simp: pass_key_event_def split: if_splits intro: call_called)

lemma game_start_step_effect:
  assumes "game_start_step h c s = Inr s'"
  shows "called (if game_start_task s then game_start_routines else []) (s\<lparr>game_start_task := False\<rparr>) s'"
proof (cases "game_start_task s")
  case True
  obtain cs s1 s2 where 1: "call_all h cs (s\<lparr>game_start_task := False\<rparr>) = Inr s1"
    "map fst cs = [''nativeAppBridgeV2StartGameWithParam'', ''reportBatteryStateChanged'',
      ''reportThermalStateChanged'']"
    and 2: "pass_key_event h c True (SDL_SCANCODE_H c) False s1 = Inr s2"
    and 3: "pass_key_event h c False (SDL_SCANCODE_H c) False s2 = Inr s'"
    using True assms unfolding game_start_step_def
    by (auto simp: and_then_def simp del: call_all.simps split: sum.splits)
  show ?thesis
    using called_trans [OF call_all_called [OF 1(1)]
        called_trans [OF pass_key_event_called [OF 2] pass_key_event_called [OF 3]]] True
    by (simp add: 1(2) game_start_routines_def)
next
  case False
  then show ?thesis using assms by (auto simp: game_start_step_def called_def)
qed

lemma mouse_move_step_effect:
  assumes "mouse_move_step h s = Inr s'"
  shows "called (if mouse_motion_task s then [''nativePassMouseMove''] else [])
           (s\<lparr>mouse_motion_task := False\<rparr>) s'"
  using assms by (cases "mouse_motion_task s") (auto simp: mouse_move_step_def intro: call_called called_eqI)

definition task_effect :: "main_state \<Rightarrow> main_state" where
  "task_effect s =
     (startup_effect (s\<lparr>resize_task := False\<rparr>))\<lparr>game_start_task := False, mouse_motion_task := False\<rparr>"

definition task_routines :: "main_state \<Rightarrow> string list" where
  "task_routines s =
     (if resize_task s then [''nativeAppBridgeV2UpdateSurfaceApp''] else []) @
     (if startup_task s \<and> window_presented s
      then [''nativeAppBridgeV2StartAppWithParams'', ''getLaunchId'', ''doSubscribeRaw''] else []) @
     (if game_start_task s then game_start_routines else []) @
     (if mouse_motion_task s then [''nativePassMouseMove''] else [])"

definition frame_start :: "main_state \<Rightarrow> main_state" where
  "frame_start s = s\<lparr>frame_del_x := 0, frame_del_y := 0, mouse_motion_task := False\<rparr>"

lemma called_updates:
  assumes "called rs s s'"
  shows "called rs (s\<lparr>resize_task := b\<rparr>) (s'\<lparr>resize_task := b\<rparr>)"
    and "called rs (startup_effect s) (startup_effect s')"
    and "called rs (s\<lparr>game_start_task := b\<rparr>) (s'\<lparr>game_start_task := b\<rparr>)"
    and "called rs (s\<lparr>mouse_motion_task := b\<rparr>) (s'\<lparr>mouse_motion_task := b\<rparr>)"
  by (rule calledE [OF assms]; simp add: called_def startup_effect_def on_sdl_def)+

lemma called_flags:
  assumes "called rs s s'"
  shows "resize_task s' = resize_task s" "startup_task s' = startup_task s"
    "window_presented s' = window_presented s" "game_start_task s' = game_start_task s"
    "mouse_motion_task s' = mouse_motion_task s" "is_running s' = is_running s"
    "the_sdl s' = the_sdl s" "cursor_grabbed s' = cursor_grabbed s" "is_fullscreen s' = is_fullscreen s"
    "mouse_x s' = mouse_x s" "mouse_y s' = mouse_y s"
    "frame_del_x s' = frame_del_x s" "frame_del_y s' = frame_del_y s"
    "map fst (guest_calls s') = map fst (guest_calls s) @ rs"
  using assms by (auto elim!: calledE)

lemma startup_effect_flags [simp]:
  "resize_task (startup_effect s) = resize_task s" "game_start_task (startup_effect s) = game_start_task s"
  "mouse_motion_task (startup_effect s) = mouse_motion_task s"
  "window_presented (startup_effect s) = window_presented s" "is_running (startup_effect s) = is_running s"
  "startup_task (startup_effect s) = (startup_task s \<and> \<not> window_presented s)"
  "mouse_x (startup_effect s) = mouse_x s" "mouse_y (startup_effect s) = mouse_y s"
  "frame_del_x (startup_effect s) = frame_del_x s" "frame_del_y (startup_effect s) = frame_del_y s"
  "cursor_grabbed (startup_effect s) = cursor_grabbed s" "is_fullscreen (startup_effect s) = is_fullscreen s"
  "guest_calls (startup_effect s) = guest_calls s"
  "custom_event (the_sdl (startup_effect s)) = custom_event (the_sdl s)"
  "relative_mouse_mode (the_sdl (startup_effect s)) = relative_mouse_mode (the_sdl s)"
  "window_fullscreen (the_sdl (startup_effect s)) = window_fullscreen (the_sdl s)"
  by (auto simp: startup_effect_def on_sdl_def)

definition early_routines :: "main_state \<Rightarrow> string list" where
  "early_routines s =
     (if resize_task s then [''nativeAppBridgeV2UpdateSurfaceApp''] else []) @
     (if startup_task s \<and> window_presented s
      then [''nativeAppBridgeV2StartAppWithParams'', ''getLaunchId'', ''doSubscribeRaw''] else []) @
     (if game_start_task s then game_start_routines else [])"

lemma run_frame_before_move:
  assumes "run_frame h c es s = Inr s'"
  shows "\<exists>s4. mouse_move_step h s4 = Inr s' \<and>
     called (concat (map (event_routines (custom_event (the_sdl s))) es) @
             early_routines (fold (event_effect c) es (frame_start s)))
       ((startup_effect ((fold (event_effect c) es (frame_start s))\<lparr>resize_task := False\<rparr>))
          \<lparr>game_start_task := False\<rparr>) s4"
proof -
  let ?t = "fold (event_effect c) es (frame_start s)"
  let ?ev = "concat (map (event_routines (custom_event (the_sdl s))) es)"
  obtain s1 s2 s3 s4 where
    1: "handle_events h c es (frame_start s) = Inr s1" and 2: "resize_step h s1 = Inr s2"
    and 3: "startup_step h s2 = Inr s3" and 4: "game_start_step h c s3 = Inr s4"
    and 5: "mouse_move_step h s4 = Inr s'"
    using assms by (auto simp: run_frame_def frame_start_def and_then_def split: sum.splits)
  have c1: "called ?ev ?t s1"
    using handle_events_effect [OF 1] by (simp add: frame_start_def)
  note f1 = called_flags [OF c1]
  have c2: "called (?ev @ (if resize_task ?t then [''nativeAppBridgeV2UpdateSurfaceApp''] else []))
      (?t\<lparr>resize_task := False\<rparr>) s2"
    using called_trans [OF called_updates(1) [OF c1] resize_step_effect [OF 2]] by (simp add: f1)
  note f2 = called_flags [OF c2]
  have c3: "called (?ev @ (if resize_task ?t then [''nativeAppBridgeV2UpdateSurfaceApp''] else []) @
      (if startup_task ?t \<and> window_presented ?t
       then [''nativeAppBridgeV2StartAppWithParams'', ''getLaunchId'', ''doSubscribeRaw''] else []))
      (startup_effect (?t\<lparr>resize_task := False\<rparr>)) s3"
    using called_trans [OF called_updates(2) [OF c2] startup_step_effect [OF 3]] by (simp add: f2)
  note f3 = called_flags [OF c3]
  show ?thesis
    using called_trans [OF called_updates(3) [OF c3] game_start_step_effect [OF 4]] 5
    by (intro exI [of _ s4]) (simp add: f3 early_routines_def)
qed

lemma run_frame_effect:
  assumes "run_frame h c es s = Inr s'"
  shows "called (concat (map (event_routines (custom_event (the_sdl s))) es) @
                 task_routines (fold (event_effect c) es (frame_start s)))
           (task_effect (fold (event_effect c) es (frame_start s))) s'"
proof -
  let ?t = "fold (event_effect c) es (frame_start s)"
  obtain s4 where 4: "called (concat (map (event_routines (custom_event (the_sdl s))) es) @
             early_routines ?t) ((startup_effect (?t\<lparr>resize_task := False\<rparr>))\<lparr>game_start_task := False\<rparr>) s4"
    and 5: "mouse_move_step h s4 = Inr s'"
    using run_frame_before_move [OF assms] by blast
  show ?thesis
    using called_trans [OF called_updates(4) [OF 4] mouse_move_step_effect [OF 5]] called_flags(5) [OF 4]
    by (simp add: task_effect_def task_routines_def early_routines_def)
qed

lemma mouse_move_step_arguments:
  assumes "mouse_move_step h s = Inr s'" "mouse_motion_task s"
  shows "\<exists>r. snd (snd (last (guest_calls s'))) =
     [Env_arg, Ref_arg r, Float_arg (h_int_to_float h (mouse_x s')), Float_arg (h_int_to_float h (mouse_y s')),
      Float_arg (h_int_to_float h (frame_del_x s)), Float_arg (h_int_to_float h (frame_del_y s))]"
  using assms by (auto simp: mouse_move_step_def call_def call_with_return_def and_then_def arg_def
      class_arg_def Let_def split: sum.splits)

section \<open>Flags after the events\<close>

fun motion_x :: "SDL_Event \<Rightarrow> u32" where
  "motion_x (SDL_MOUSEMOTION _ _ dx _) = dx"
| "motion_x _ = 0"

fun motion_y :: "SDL_Event \<Rightarrow> u32" where
  "motion_y (SDL_MOUSEMOTION _ _ _ dy) = dy"
| "motion_y _ = 0"

fun is_motion :: "SDL_Event \<Rightarrow> bool" where
  "is_motion (SDL_MOUSEMOTION _ _ _ _) = True"
| "is_motion _ = False"

lemma event_effect_flags:
  "is_running (event_effect c e s) = (is_running s \<and> e \<noteq> SDL_QUIT)"
  "resize_task (event_effect c e s) = (resize_task s \<or> e = SDL_WINDOWEVENT SDL_WINDOWEVENT_RESIZED)"
  "window_presented (event_effect c e s) = (window_presented s \<or> e = SDL_WINDOWEVENT SDL_WINDOWEVENT_SHOWN)"
  "startup_task (event_effect c e s) = (startup_task s \<or> e = SDL_EVENT_OTHER (custom_event (the_sdl s)) 1)"
  "game_start_task (event_effect c e s) =
     (game_start_task s \<or> e = SDL_EVENT_OTHER (custom_event (the_sdl s)) 2)"
  "mouse_motion_task (event_effect c e s) = (mouse_motion_task s \<or> is_motion e)"
  "frame_del_x (event_effect c e s) = frame_del_x s + motion_x e"
  "frame_del_y (event_effect c e s) = frame_del_y s + motion_y e"
  by (cases e; auto simp: Let_def on_sdl_def split: window_event.splits)+

lemma events_effect_flags:
  "is_running (fold (event_effect c) es s) = (is_running s \<and> SDL_QUIT \<notin> set es)"
  "resize_task (fold (event_effect c) es s) =
     (resize_task s \<or> SDL_WINDOWEVENT SDL_WINDOWEVENT_RESIZED \<in> set es)"
  "window_presented (fold (event_effect c) es s) =
     (window_presented s \<or> SDL_WINDOWEVENT SDL_WINDOWEVENT_SHOWN \<in> set es)"
  "startup_task (fold (event_effect c) es s) =
     (startup_task s \<or> SDL_EVENT_OTHER (custom_event (the_sdl s)) 1 \<in> set es)"
  "game_start_task (fold (event_effect c) es s) =
     (game_start_task s \<or> SDL_EVENT_OTHER (custom_event (the_sdl s)) 2 \<in> set es)"
  "mouse_motion_task (fold (event_effect c) es s) = (mouse_motion_task s \<or> (\<exists>e\<in>set es. is_motion e))"
  "frame_del_x (fold (event_effect c) es s) = frame_del_x s + sum_list (map motion_x es)"
  "frame_del_y (fold (event_effect c) es s) = frame_del_y s + sum_list (map motion_y es)"
  "guest_calls (fold (event_effect c) es s) = guest_calls s"
  "custom_event (the_sdl (fold (event_effect c) es s)) = custom_event (the_sdl s)"
  by (induction es arbitrary: s; auto simp: event_effect_flags ac_simps)+

lemma task_effect_flags [simp]:
  "resize_task (task_effect s) = False" "game_start_task (task_effect s) = False"
  "mouse_motion_task (task_effect s) = False" "window_presented (task_effect s) = window_presented s"
  "startup_task (task_effect s) = (startup_task s \<and> \<not> window_presented s)"
  "is_running (task_effect s) = is_running s" "guest_calls (task_effect s) = guest_calls s"
  "custom_event (the_sdl (task_effect s)) = custom_event (the_sdl s)"
  "relative_mouse_mode (the_sdl (task_effect s)) = relative_mouse_mode (the_sdl s)"
  "window_fullscreen (the_sdl (task_effect s)) = window_fullscreen (the_sdl s)"
  "cursor_grabbed (task_effect s) = cursor_grabbed s" "is_fullscreen (task_effect s) = is_fullscreen s"
  by (simp_all add: task_effect_def)

lemma frame_start_flags [simp]:
  "is_running (frame_start s) = is_running s" "resize_task (frame_start s) = resize_task s"
  "window_presented (frame_start s) = window_presented s" "startup_task (frame_start s) = startup_task s"
  "game_start_task (frame_start s) = game_start_task s" "mouse_motion_task (frame_start s) = False"
  "frame_del_x (frame_start s) = 0" "frame_del_y (frame_start s) = 0" "the_sdl (frame_start s) = the_sdl s"
  "guest_calls (frame_start s) = guest_calls s" "cursor_grabbed (frame_start s) = cursor_grabbed s"
  "is_fullscreen (frame_start s) = is_fullscreen s"
  by (simp_all add: frame_start_def)

lemma run_frame_running:
  "run_frame h c es s = Inr s' \<Longrightarrow> is_running s' = (is_running s \<and> SDL_QUIT \<notin> set es)"
  using called_flags(6) [OF run_frame_effect] by (simp add: events_effect_flags)

section \<open>A concrete host\<close>

text \<open>A guest whose routines return zero and change nothing; a window and a custom event exist.\<close>

definition demo_host :: host where
  "demo_host =
     \<lparr>h_env = Map.empty, h_int_to_float = (\<lambda>n. n), h_order = (\<lambda>_. []), h_json = (\<lambda>_. Inr Map.empty),
      h_guest = (\<lambda>_ _ a. Inr (0, a))\<rparr>"

definition demo_main_state :: main_state where
  "demo_main_state = initial_main_state\<lparr>the_app := demo_app, the_vm := 1,
     the_sdl := initial_sdl\<lparr>custom_event := 0x8000, global_window := 1\<rparr>\<rparr>"

lemmas demo_frame =
  run_frame_def resize_step_def startup_step_def game_start_step_def mouse_move_step_def
  mouse_motion_event_def call_def call_with_return_def arg_def class_arg_def demo_host_def
  demo_main_state_def initial_main_state_def initial_sdl_def and_then_def Let_def

section \<open>Properties\<close>

text \<open>
  C27.  The guest routines a frame calls, in order: those of its events in the order of the events,
  the surface update if a resize is pending, the application start if one is pending and the window
  has been shown, the game start if one is pending, and one mouse move if the mouse moved, which
  reports the sum of the movements of the frame.  Afterwards only an application start that waits
  for the window is still pending.
\<close>

theorem frame_guest_calls:
  assumes "run_frame h c es s = Inr s'" and "ce = custom_event (the_sdl s)"
    and "resize = (resize_task s \<or> SDL_WINDOWEVENT SDL_WINDOWEVENT_RESIZED \<in> set es)"
    and "shown = (window_presented s \<or> SDL_WINDOWEVENT SDL_WINDOWEVENT_SHOWN \<in> set es)"
    and "start = (startup_task s \<or> SDL_EVENT_OTHER ce 1 \<in> set es)"
    and "game = (game_start_task s \<or> SDL_EVENT_OTHER ce 2 \<in> set es)"
    and "moved = (\<exists>e\<in>set es. is_motion e)"
  shows "map fst (guest_calls s') = map fst (guest_calls s) @ concat (map (event_routines ce) es) @
           (if resize then [''nativeAppBridgeV2UpdateSurfaceApp''] else []) @
           (if start \<and> shown
            then [''nativeAppBridgeV2StartAppWithParams'', ''getLaunchId'', ''doSubscribeRaw''] else []) @
           (if game then [''nativeAppBridgeV2StartGameWithParam'', ''reportBatteryStateChanged'',
              ''reportThermalStateChanged'', ''nativePassKeyEvent'', ''nativePassKeyEvent''] else []) @
           (if moved then [''nativePassMouseMove''] else []) \<and>
         (startup_task s' \<longleftrightarrow> start \<and> \<not> shown) \<and> window_presented s' = shown \<and> \<not> resize_task s' \<and>
         \<not> game_start_task s' \<and> (is_running s' \<longleftrightarrow> is_running s \<and> SDL_QUIT \<notin> set es) \<and>
         (moved \<longrightarrow> (\<exists>r. snd (snd (last (guest_calls s'))) =
            [Env_arg, Ref_arg r, Float_arg (h_int_to_float h (mouse_x s')),
             Float_arg (h_int_to_float h (mouse_y s')),
             Float_arg (h_int_to_float h (sum_list (map motion_x es))),
             Float_arg (h_int_to_float h (sum_list (map motion_y es)))]))"
proof -
  note c = run_frame_effect [OF assms(1)]
  let ?t = "fold (event_effect c) es (frame_start s)"
  obtain s4 rs where s4: "mouse_move_step h s4 = Inr s'"
    "called rs ((startup_effect (?t\<lparr>resize_task := False\<rparr>))\<lparr>game_start_task := False\<rparr>) s4"
    using run_frame_before_move [OF assms(1)] by blast
  have moved: "mouse_motion_task s4 = moved" "frame_del_x s4 = sum_list (map motion_x es)"
    "frame_del_y s4 = sum_list (map motion_y es)"
    using called_flags(5,12,13) [OF s4(2)] by (simp_all add: assms(7) events_effect_flags)
  show ?thesis
    using called_flags(14) [OF c] called_flags(1-4) [OF c] run_frame_running [OF assms(1)]
      mouse_move_step_arguments [OF s4(1)]
    unfolding moved
    by (simp add: assms(2-6) moved events_effect_flags task_routines_def game_start_routines_def
        assms(7) [symmetric])
qed

theorem frame_guest_calls_witness:
  "\<exists>s'. run_frame demo_host usb_usage_scancodes
       [SDL_MOUSEMOTION 3 4 1 2, SDL_WINDOWEVENT SDL_WINDOWEVENT_RESIZED, SDL_MOUSEMOTION 5 6 2 2, SDL_QUIT]
       demo_main_state = Inr s' \<and>
     map fst (guest_calls s') = [''nativeAppBridgeV2UpdateSurfaceApp'', ''nativePassMouseMove''] \<and>
     \<not> is_running s' \<and>
     (\<exists>r. snd (snd (last (guest_calls s'))) =
        [Env_arg, Ref_arg r, Float_arg 5, Float_arg 6, Float_arg 3, Float_arg 4])"
proof -
  let ?es = "[SDL_MOUSEMOTION 3 4 1 2, SDL_WINDOWEVENT SDL_WINDOWEVENT_RESIZED, SDL_MOUSEMOTION 5 6 2 2,
    SDL_QUIT]"
  obtain s' where s': "run_frame demo_host usb_usage_scancodes ?es demo_main_state = Inr s'"
    "mouse_x s' = 5" "mouse_y s' = 6"
    by (simp add: demo_frame)
  have "guest_calls demo_main_state = []" "\<not> startup_task demo_main_state"
    "\<not> game_start_task demo_main_state" "h_int_to_float demo_host n = n" for n
    by (simp_all add: demo_main_state_def initial_main_state_def demo_host_def)
  then show ?thesis
    using s' frame_guest_calls [OF s'(1) refl refl refl refl refl refl] by simp
qed

section \<open>SDL's state\<close>

definition display_agrees :: "main_state \<Rightarrow> bool" where
  "display_agrees s \<longleftrightarrow>
     relative_mouse_mode (the_sdl s) = cursor_grabbed s \<and> window_fullscreen (the_sdl s) = is_fullscreen s"

lemma event_effect_agrees: "display_agrees s \<Longrightarrow> display_agrees (event_effect c e s)"
  by (cases e) (auto simp: display_agrees_def Let_def on_sdl_def split: window_event.splits)

lemma events_effect_agrees: "display_agrees s \<Longrightarrow> display_agrees (fold (event_effect c) es s)"
  by (induction es arbitrary: s) (simp_all add: event_effect_agrees)

lemma run_frame_agrees:
  assumes "run_frame h c es s = Inr s'" "display_agrees s"
  shows "display_agrees s'"
proof -
  have "display_agrees (frame_start s)" using assms(2) by (simp add: display_agrees_def)
  from events_effect_agrees [OF this, of c es] show ?thesis
    using called_flags(7-9) [OF run_frame_effect [OF assms(1)]] by (simp add: display_agrees_def)
qed

section \<open>The loop\<close>

lemma event_loop_result:
  assumes "event_loop h c frames i s = Some r"
  shows "\<forall>s'. r = Inr s' \<longrightarrow> \<not> is_running s' \<and> (display_agrees s \<longrightarrow> display_agrees s') \<and>
           (is_running s \<longrightarrow> (\<exists>n\<ge>i. SDL_QUIT \<in> set (frames n)))"
proof (rule event_loop.raw_induct [OF _ assms,
      where P = "\<lambda>h c frames i s r. \<forall>s'. r = Inr s' \<longrightarrow> \<not> is_running s' \<and>
       (display_agrees s \<longrightarrow> display_agrees s') \<and> (is_running s \<longrightarrow> (\<exists>n\<ge>i. SDL_QUIT \<in> set (frames n)))"], goal_cases)
  case (1 loop h c frames i s r)
  show ?case
  proof (cases "is_running s")
    case False
    then show ?thesis using 1(2) by auto
  next
    case True
    then consider e where "r = Inl e" | s1 where "run_frame h c (frames i) s = Inr s1"
      "loop h c frames (Suc i) s1 = Some r"
      using 1(2) by (cases "run_frame h c (frames i) s") auto
    then show ?thesis
    proof cases
      case (2 s1)
      note ih = 1(1) [OF 2(2)]
      have "is_running s1 \<or> SDL_QUIT \<in> set (frames i)"
        using run_frame_running [OF 2(1)] True by blast
      then show ?thesis using ih run_frame_agrees [OF 2(1)] Suc_leD by blast
    qed simp
  qed
qed

lemma event_loop_stops:
  "i \<le> n \<Longrightarrow> SDL_QUIT \<in> set (frames n) \<Longrightarrow> event_loop h c frames i s \<noteq> None"
proof (induction "n - i" arbitrary: i s)
  case 0
  then have "i = n" by simp
  show ?case
  proof (cases "run_frame h c (frames i) s")
    case (Inr s1)
    then have "\<not> is_running s1" using run_frame_running [OF Inr] 0(3) \<open>i = n\<close> by simp
    then show ?thesis using Inr by (simp add: event_loop.simps [of h c frames i s]
          event_loop.simps [of h c frames "Suc i" s1])
  qed (simp add: event_loop.simps [of h c frames i s])
next
  case (Suc d)
  have "event_loop h c frames (Suc i) s1 \<noteq> None" for s1
    using Suc.hyps(1) [of "Suc i" s1] Suc.hyps(2) Suc.prems by simp
  then show ?case by (simp add: event_loop.simps [of h c frames i s] split: sum.splits)
qed





end
