(* ===== verification/Main_Routines.thy ===== *)
theory Main_Routines
  imports Main_Properties
begin

text \<open>
  The routines of the guest: every call the main thread makes, from start-up to shutdown, goes to
  an address that the lookup of \<^verbatim>\<open>AppMethods::init\<close> found.
\<close>

section \<open>Resolved routines\<close>

definition methods_resolved :: "(string \<Rightarrow> u64) \<Rightarrow> (string \<Rightarrow> u64) \<Rightarrow> bool" where
  "methods_resolved dlsym m \<longleftrightarrow> (\<forall>(n, symbol) \<in> set app_symbols. m n = dlsym symbol \<and> dlsym symbol \<noteq> 0)"

definition call_resolved :: "(string \<Rightarrow> u64) \<Rightarrow> string \<times> u64 \<times> garg list \<Rightarrow> bool" where
  "call_resolved dlsym k \<longleftrightarrow>
     (\<exists>symbol. (fst k, symbol) \<in> set app_symbols \<and> fst (snd k) = dlsym symbol \<and> fst (snd k) \<noteq> 0)"

lemma find_symbols_other: "find_symbols dlsym xs m = (b, m') \<Longrightarrow> n \<notin> fst ` set xs \<Longrightarrow> m' n = m n"
  by (induction dlsym xs m rule: find_symbols.induct) (auto split: sum.splits)

lemma find_symbols_found:
  "find_symbols dlsym xs m = (True, m') \<Longrightarrow> distinct (map fst xs) \<Longrightarrow>
   (n, symbol) \<in> set xs \<Longrightarrow> m' n = dlsym symbol \<and> dlsym symbol \<noteq> 0"
proof (induction dlsym xs m rule: find_symbols.induct)
  case (2 dlsym k sy rest m)
  have nz: "dlsym sy \<noteq> 0" and rest: "find_symbols dlsym rest (m(k := dlsym sy)) = (True, m')"
    using 2(2) by (auto simp: find_symbol_def split: if_splits)
  show ?case
  proof (cases "(n, symbol) = (k, sy)")
    case True
    then show ?thesis using find_symbols_other [OF rest, of k] 2(3) nz by auto
  next
    case False
    have "find_symbol dlsym sy = Inr (dlsym sy)" using nz by (simp add: find_symbol_def)
    from 2(1) [OF this rest] show ?thesis using 2(3,4) False by auto
  qed
qed simp

lemma app_symbols_distinct: "distinct (map fst app_symbols)"
  by code_simp

lemma AppMethods_init_resolved:
  "AppMethods_init l dlsym a = Inr (0, a') \<Longrightarrow> methods_resolved dlsym (app_methods a')"
  unfolding AppMethods_init_def methods_resolved_def
  using find_symbols_found [OF _ app_symbols_distinct]
  by (fastforce simp: and_then_def split: sum.splits if_splits prod.splits)

text \<open>Operations that leave the routine pointers alone.\<close>

definition keeps_methods :: "(app \<Rightarrow> ('v \<times> app) result) \<Rightarrow> bool" where
  "keeps_methods f \<longleftrightarrow> (\<forall>a v a'. f a = Inr (v, a') \<longrightarrow> app_methods a' = app_methods a)"

lemma keeps_new_object: "app_methods (snd (new_object ob a)) = app_methods a"
  by (simp add: new_object_def)

lemma keeps_args [simp]:
  "keeps_methods (arg x)" "keeps_methods (string_arg y)" "keeps_methods (class_arg g)"
  "keeps_methods (new_object_arg g)"
  by (auto simp: keeps_methods_def arg_def string_arg_def class_arg_def new_object_arg_def
      new_of_class_def create_string_def new_object_def Let_def)

lemma keeps_path_arg [simp]: "keeps_methods (path_arg f)"
  by (auto simp: keeps_methods_def path_arg_def string_arg_def create_string_def new_object_def
      and_then_def Let_def split: sum.splits)

lemma keeps_state_string [simp]: "keeps_methods (\<lambda>a. string_arg (f a) a)"
  by (auto simp: keeps_methods_def string_arg_def create_string_def new_object_def Let_def)

lemma keeps_object_arg: "keeps_methods f \<Longrightarrow> keeps_methods (object_arg f)"
  by (auto simp: keeps_methods_def object_arg_def and_then_def split: sum.splits)

lemma keeps_values [simp]:
  "keeps_methods (const_value v)" "keeps_methods (string_value x)" "keeps_methods (boxed cls g v)"
  by (auto simp: keeps_methods_def const_value_def string_value_def boxed_def new_of_class_def
      create_string_def new_object_def emplace_field_def and_then_def Let_def split: sum.splits)

lemma emplace_all_keeps:
  "emplace_all ob gs a = Inr a' \<Longrightarrow> list_all (keeps_methods \<circ> snd) gs \<Longrightarrow> app_methods a' = app_methods a"
proof (induction gs arbitrary: a)
  case (Cons g gs)
  then show ?case
    by (cases g) (auto simp: keeps_methods_def emplace_field_def and_then_def split: sum.splits)
qed simp

lemma keeps_battery_status [simp]: "keeps_methods get_battery_status"
proof -
  have "list_all (keeps_methods \<circ> snd) battery_status_fields"
    by (simp add: battery_status_fields_def create_java_lang_integer_def create_java_lang_boolean_def
        create_java_lang_long_def)
  then show ?thesis
    by (auto simp: keeps_methods_def get_battery_status_def new_of_class_def new_object_def and_then_def
        Let_def dest!: emplace_all_keeps split: if_splits sum.splits)
qed

lemma keeps_device_params [simp]: "keeps_methods get_device_params"
proof -
  have "list_all (keeps_methods \<circ> snd) (device_params_fields a)" for a
    by (simp add: device_params_fields_def)
  then show ?thesis
    by (auto simp: keeps_methods_def get_device_params_def cached_object_def new_of_class_def
        new_object_def and_then_def Let_def dest!: emplace_all_keeps split: if_splits sum.splits)
qed

lemma keeps_empty_list [simp]: "keeps_methods new_empty_list"
  by (auto simp: keeps_methods_def new_empty_list_def new_object_def)

lemma keeps_message_bus:
  "create_message_bus vm a = Inr (p, b, k, a') \<Longrightarrow> app_methods a' = app_methods a"
proof -
  have cl: "create_class vm n x = Inr (c, x') \<Longrightarrow> app_methods x' = app_methods x" for n c and x x' :: app
    by (auto simp: create_class_def new_object_def and_then_def Let_def split: sum.splits option.splits)
  have me: "member_method c n f x = Inr (i, x') \<Longrightarrow> app_methods x' = app_methods x"
    for c n f i and x x' :: app
    by (auto simp: member_method_def class_add_method_def put_class_def and_then_def Let_def
        split: sum.splits option.splits)
  assume "create_message_bus vm a = Inr (p, b, k, a')"
  then show ?thesis
    by (auto simp: create_message_bus_def new_object_def and_then_def Let_def dest!: cl me
        split: sum.splits prod.splits)
qed

lemma eval_args_keeps: "list_all keeps_methods as \<Longrightarrow> eval_args as a = Inr (vs, a') \<Longrightarrow> app_methods a' = app_methods a"
proof (induction as arbitrary: a vs)
  case (Cons x as)
  then show ?case by (auto simp: keeps_methods_def and_then_def split: sum.splits)
qed simp

text \<open>The invariant: the pointers are those found, and so are the routines called so far.\<close>

definition resolved :: "(string \<Rightarrow> u64) \<Rightarrow> main_state \<Rightarrow> bool" where
  "resolved dlsym s \<longleftrightarrow>
     methods_resolved dlsym (app_methods (the_app s)) \<and> list_all (call_resolved dlsym) (guest_calls s)"

lemma resolved_cong:
  "the_app s' = the_app s \<Longrightarrow> guest_calls s' = guest_calls s \<Longrightarrow> resolved dlsym s' = resolved dlsym s"
  by (simp add: resolved_def)

definition guest_keeps :: "host \<Rightarrow> bool" where
  "guest_keeps h \<longleftrightarrow> (\<forall>p vs. keeps_methods (h_guest h p vs))"

lemma call_with_return_resolved:
  assumes "guest_keeps h" "list_all keeps_methods as" "r \<in> set (map fst app_symbols)"
    and "resolved dlsym s" "call_with_return h r as s = Inr (v, s')"
  shows "resolved dlsym s'"
proof -
  obtain vs a1 a2 where 1: "eval_args as (the_app s) = Inr (vs, a1)"
    "h_guest h (app_methods (the_app s) r) vs a1 = Inr (v, a2)"
    "s' = s\<lparr>the_app := a2, guest_calls := guest_calls s @ [(r, app_methods (the_app s) r, vs)]\<rparr>"
    using assms(5) by (auto simp: call_with_return_def and_then_def Let_def split: sum.splits)
  have "app_methods a2 = app_methods (the_app s)"
    using eval_args_keeps [OF assms(2) 1(1)] 1(2) assms(1) by (auto simp: guest_keeps_def keeps_methods_def)
  moreover have "call_resolved dlsym (r, app_methods (the_app s) r, vs)"
    using assms(3,4) by (fastforce simp: resolved_def methods_resolved_def call_resolved_def)
  ultimately show ?thesis using assms(4) by (simp add: 1(3) resolved_def)
qed

lemma call_resolved_step:
  assumes "guest_keeps h" "list_all keeps_methods as" "r \<in> set (map fst app_symbols)"
    and "resolved dlsym s" "call h r as s = Inr s'"
  shows "resolved dlsym s'"
  using assms call_with_return_resolved by (fastforce simp: call_def and_then_def split: sum.splits)

lemma call_all_resolved:
  assumes "guest_keeps h"
    and "list_all (\<lambda>(r, as). r \<in> set (map fst app_symbols) \<and> list_all keeps_methods as) cs"
    and "resolved dlsym s" "call_all h cs s = Inr s'"
  shows "resolved dlsym s'"
  using assms(2-)
proof (induction cs arbitrary: s)
  case (Cons k cs)
  then show ?case
    using call_resolved_step [OF assms(1)]
    by (cases k) (fastforce simp: and_then_def simp del: set_map split: sum.splits)
qed simp

text \<open>The routines named in \<^verbatim>\<open>main\<close> are all members of the table.\<close>

lemma routines_of_main:
  "list_all (\<lambda>r. r \<in> set (map fst app_symbols))
     [''nativePassKeyEvent'', ''nativePassMouseButton'', ''nativePassMouseWheel'',
        ''nativePassMouseMove'', ''reportBatteryStatus'', ''getLaunchId'', ''doSubscribeRaw'',
        ''nativeAppBridgeV2UpdateSurfaceApp'', ''nativeAppBridgeV2StartAppWithParams'',
        ''nativeAppBridgeV2StartGameWithParam'', ''reportBatteryStateChanged'',
        ''reportThermalStateChanged'', ''nativeAppBridgeV2DestroyApp'', ''nativeSetCookiesForDomain'',
        ''nativeInitClientSettings'', ''JNI_OnLoad'', ''nativeSetDefaultAppPolicyFile'',
        ''nativeSetExceptionReasonFilename'', ''nativeSetBaseUrl'', ''nativeSetRobloxChannel'',
        ''nativeSetCacheDirectory'', ''nativeSetFilesDirectory'', ''nativeInitFastLog'',
        ''nativeSetRobloxVersion'', ''nativeSetPlatformHeadersWithIdfa'', ''nativeGameGlobalInit'',
        ''nativeSetHttpClientProxy'', ''nativeUpdateAdapterInit'', ''updateOnSetCookieHandler'',
        ''nativePostClientSettingsLoadedInitialization3'', ''nativeSetPreferencesFile'',
        ''nativeSetDeviceInfo'', ''nativeAppBridgeAppStart'', ''nativeAppBridgeV2InitWithParams'',
        ''nativeAppBridgeStartLuaAppDM'']"
  by code_simp

lemmas known_routines [simp] = routines_of_main [unfolded list.pred_inject simp_thms set_map]

lemma pass_key_event_resolved:
  "guest_keeps h \<Longrightarrow> resolved dlsym s \<Longrightarrow> pass_key_event h c down k r s = Inr s' \<Longrightarrow> resolved dlsym s'"
  unfolding pass_key_event_def by (auto split: if_splits elim: call_resolved_step [rotated -1])

lemma key_event_resolved:
  "guest_keeps h \<Longrightarrow> resolved dlsym s \<Longrightarrow> key_event h c down k r s = Inr s' \<Longrightarrow> resolved dlsym s'"
  unfolding key_event_def by (auto simp: and_then_def split: sum.splits intro: pass_key_event_resolved)

lemma key_down_resolved:
  assumes "guest_keeps h" "resolved dlsym s" "key_down h c k r s = Inr s'"
  shows "resolved dlsym s'"
proof -
  obtain s1 where 1: "(if k = SDL_SCANCODE_F11 c then toggle_fullscreen s else Inr s) = Inr s1"
    and 2: "key_event h c True k r (if k = SDL_SCANCODE_ESCAPE c then release_cursor s1 else s1) = Inr s'"
    using assms(3) by (auto simp: key_down_def and_then_def split: sum.splits)
  have "resolved dlsym (if k = SDL_SCANCODE_ESCAPE c then release_cursor s1 else s1)"
    using 1 assms(2) by (auto simp: toggle_fullscreen_def release_cursor_def set_relative_mouse_mode_def
        on_sdl_def and_then_def Let_def resolved_def split: sum.splits if_splits)
  then show ?thesis by (rule key_event_resolved [OF assms(1) _ 2])
qed

lemma mouse_button_resolved:
  assumes "guest_keeps h" "resolved dlsym s" "mouse_button_event h b st s = Inr s'"
  shows "resolved dlsym s'"
proof (rule and_then_InrE [OF assms(3) [unfolded mouse_button_event_def]], goal_cases)
  case (1 s1)
  have "resolved dlsym s1" by (rule call_resolved_step [OF assms(1) _ _ assms(2) 1(1)]) simp_all
  then show ?case
    using 1(2) by (auto simp: Let_def set_relative_mouse_mode_def on_sdl_def resolved_def)
qed

lemma handle_event_resolved:
  assumes "guest_keeps h" "resolved dlsym s" "handle_event h c e s = Inr s'"
  shows "resolved dlsym s'"
proof (cases e)
  case (SDL_KEYDOWN k r)
  then show ?thesis using assms key_down_resolved by simp
next
  case (SDL_KEYUP k r)
  then show ?thesis using assms key_event_resolved by simp
next
  case (SDL_MOUSEBUTTON b st)
  then show ?thesis using assms mouse_button_resolved by simp
next
  case (SDL_MOUSEWHEEL y)
  show ?thesis
    by (rule call_resolved_step [OF assms(1) _ _ assms(2)
          assms(3) [unfolded SDL_MOUSEWHEEL handle_event.simps]]) simp_all
next
  case (SDL_EVENT_OTHER ty code)
  have other: "custom_event_received h ty code s = Inr s'" using assms(3) SDL_EVENT_OTHER by simp
  show ?thesis
  proof (rule and_then_InrE [OF other [unfolded custom_event_received_def]], goal_cases)
    case (1 ce)
    have battery: "resolved dlsym s'"
      if "call h ''reportBatteryStatus'' [arg Env_arg, gl_class, object_arg get_battery_status] s = Inr s'"
      by (rule call_resolved_step [OF assms(1) _ _ assms(2) that]) (simp_all add: keeps_object_arg)
    show ?case using 1(2) battery assms(2) by (auto simp: resolved_def split: if_splits)
  qed
qed (use assms in \<open>auto simp: mouse_motion_event_def and_then_def Let_def on_sdl_def resolved_def
       split: sum.splits if_splits window_event.splits\<close>)

lemma handle_events_resolved:
  "guest_keeps h \<Longrightarrow> resolved dlsym s \<Longrightarrow> handle_events h c es s = Inr s' \<Longrightarrow> resolved dlsym s'"
  by (induction es arbitrary: s) (auto simp: and_then_def split: sum.splits dest: handle_event_resolved)

lemma resize_step_resolved:
  assumes "guest_keeps h" "resolved dlsym s" "resize_step h s = Inr s'"
  shows "resolved dlsym s'"
proof (cases "resize_task s")
  case True
  have s0: "resolved dlsym (s\<lparr>resize_task := False\<rparr>)" using assms(2) by (simp add: resolved_def)
  show ?thesis
    by (rule call_resolved_step [OF assms(1) _ _ s0 assms(3) [unfolded resize_step_def if_P [OF True]]])
       simp_all
qed (use assms in \<open>simp add: resize_step_def\<close>)

lemma mouse_move_step_resolved:
  assumes "guest_keeps h" "resolved dlsym s" "mouse_move_step h s = Inr s'"
  shows "resolved dlsym s'"
proof (cases "mouse_motion_task s")
  case True
  have s0: "resolved dlsym (s\<lparr>mouse_motion_task := False\<rparr>)" using assms(2) by (simp add: resolved_def)
  show ?thesis
    by (rule call_resolved_step [OF assms(1) _ _ s0 assms(3) [unfolded mouse_move_step_def if_P [OF True]]])
       simp_all
qed (use assms in \<open>simp add: mouse_move_step_def\<close>)

lemma game_start_step_resolved:
  assumes "guest_keeps h" "resolved dlsym s" "game_start_step h c s = Inr s'"
  shows "resolved dlsym s'"
proof (cases "game_start_task s")
  case True
  have s0: "resolved dlsym (s\<lparr>game_start_task := False\<rparr>)" using assms(2) by (simp add: resolved_def)
  show ?thesis
  proof (rule and_then_InrE [OF assms(3) [unfolded game_start_step_def if_P [OF True]]], goal_cases)
    case (1 s1)
    have "resolved dlsym s1" by (rule call_all_resolved [OF assms(1) _ s0 1(1)]) simp
    then show ?case
      using 1(2) pass_key_event_resolved [OF assms(1)] by (blast elim: and_then_InrE)
  qed
qed (use assms in \<open>simp add: game_start_step_def\<close>)

lemma startup_step_resolved:
  assumes "guest_keeps h" "resolved dlsym s" "startup_step h s = Inr s'"
  shows "resolved dlsym s'"
proof (cases "startup_task s \<and> window_presented s")
  case True
  obtain s1 p b k a lid s2 s3 where
    1: "call h ''nativeAppBridgeV2StartAppWithParams''
          [arg Env_arg, gl_class, new_object_arg ''start_app_params_class'']
          (s\<lparr>startup_task := False\<rparr>) = Inr s1"
    and 2: "create_message_bus (the_vm s1) (the_app s1) = Inr (p, b, k, a)"
    and 3: "call_with_return h ''getLaunchId'' [arg Env_arg, arg (Ref_arg p)] (s1\<lparr>the_app := a\<rparr>)
              = Inr (lid, s2)"
    and 4: "call h ''doSubscribeRaw''
               [arg Env_arg, arg (Ref_arg b), arg (Ref_arg (unat lid)), arg (Ref_arg k),
                arg (Bool_arg False)] s2 = Inr s3"
    and 5: "the_app s' = the_app s3" "guest_calls s' = guest_calls s3"
    using assms(3) [unfolded startup_step_def if_P [OF True]]
    by (auto simp: on_sdl_def elim!: and_then_InrE)
  have s0: "resolved dlsym (s\<lparr>startup_task := False\<rparr>)" using assms(2) by (simp add: resolved_def)
  have "resolved dlsym s1" by (rule call_resolved_step [OF assms(1) _ _ s0 1]) simp_all
  then have s1: "resolved dlsym (s1\<lparr>the_app := a\<rparr>)"
    using keeps_message_bus [OF 2] by (simp add: resolved_def)
  have s2: "resolved dlsym s2" by (rule call_with_return_resolved [OF assms(1) _ _ s1 3]) simp_all
  have "resolved dlsym s3" by (rule call_resolved_step [OF assms(1) _ _ s2 4]) simp_all
  then show ?thesis using 5 by (simp add: resolved_def)
next
  case False
  then have "s' = s" using assms(3) unfolding startup_step_def if_not_P [OF False] by simp
  then show ?thesis using assms(2) by simp
qed

lemma run_frame_resolved:
  assumes "guest_keeps h" "resolved dlsym s" "run_frame h c es s = Inr s'"
  shows "resolved dlsym s'"
  using assms(3) unfolding run_frame_def
proof (elim and_then_InrE, goal_cases)
  case (1 s1 s2 s3 s4)
  have "resolved dlsym (s\<lparr>frame_del_x := 0, frame_del_y := 0, mouse_motion_task := False\<rparr>)"
    using assms(2) by (simp add: resolved_def)
  then have "resolved dlsym s1" by (rule handle_events_resolved [OF assms(1) _ 1(1)])
  then have "resolved dlsym s2" by (rule resize_step_resolved [OF assms(1) _ 1(2)])
  then have "resolved dlsym s3" by (rule startup_step_resolved [OF assms(1) _ 1(3)])
  then have "resolved dlsym s4" by (rule game_start_step_resolved [OF assms(1) _ 1(4)])
  then show ?case by (rule mouse_move_step_resolved [OF assms(1) _ 1(5)])
qed

lemma event_loop_invariant:
  assumes "event_loop h c frames i s = Some (Inr s')" "P s"
    and "\<And>i s s'. P s \<Longrightarrow> run_frame h c (frames i) s = Inr s' \<Longrightarrow> P s'"
  shows "P s'"
proof -
  let ?Q = "\<lambda>h c frames (i :: nat) s (r :: main_state result). (\<forall>i s s'. P s \<longrightarrow> run_frame h c (frames i) s = Inr s' \<longrightarrow> P s') \<longrightarrow>
    P s \<longrightarrow> (\<forall>s'. r = Inr s' \<longrightarrow> P s')"
  have "?Q h c frames i s (Inr s')"
  proof (rule event_loop.raw_induct [OF _ assms(1), where P = ?Q], goal_cases)
    case (1 loop h c frames i s r)
    show ?case
    proof (cases "is_running s")
      case True
      then consider e where "r = Inl e" | s1 where "run_frame h c (frames i) s = Inr s1"
        "loop h c frames (Suc i) s1 = Some r"
        using 1(2) by (cases "run_frame h c (frames i) s") auto
      then show ?thesis
      proof cases
        case (2 s1)
        show ?thesis using 1(1) [OF 2(2)] 2(1) by blast
      qed simp
    qed (use 1(2) in auto)
  qed
  then show ?thesis using assms(2,3) by blast
qed

lemma start_application_resolved:
  assumes "guest_keeps h" "resolved dlsym s" "start_application h e handler protocol s = Inr s'"
  shows "resolved dlsym s'"
  using assms(3) unfolding start_application_def
proof (elim and_then_InrE, goal_cases)
  case (1 s1 s2 s3 s4)
  have s1: "resolved dlsym s1"
    by (rule call_all_resolved [OF assms(1) _ assms(2) 1(1)]) (simp add: settings_calls_def)
  have s2: "resolved dlsym s2"
    using 1(2) unfolding load_cookie_file_def Let_def
  proof (elim and_then_InrE, goal_cases)
    case (1 p)
    show ?case by (rule call_resolved_step [OF assms(1) _ _ _ 1(2)]) (use s1 in \<open>simp_all add: resolved_def\<close>)
  qed
  have s3: "resolved dlsym s3"
    by (rule call_all_resolved [OF assms(1) _ s2 1(3)]) (simp add: init_calls_def)
  obtain buffer where fetched: "fetch_url e get_clientsettings_url = Some buffer"
    using 1(4) by (auto simp: fetch_client_settings_def split: option.splits)
  have s4: "resolved dlsym s4"
    by (rule call_resolved_step [OF assms(1) _ _ s3
          1(4) [unfolded fetch_client_settings_def fetched option.case]]) simp_all
  show ?case
    by (rule call_all_resolved [OF assms(1) _ s4 1(5)]) (simp add: app_start_calls_def keeps_object_arg)
qed

lemma start_application_called:
  assumes "start_application h e handler protocol s = Inr s'"
  shows "called (map fst (settings_calls h s) @ [''nativeSetCookiesForDomain''] @
           map fst (init_calls handler protocol) @ [''nativeInitClientSettings''] @ map fst app_start_calls) s s'"
  using assms unfolding start_application_def
proof (elim and_then_InrE, goal_cases)
  case (1 s1 s2 s3 s4)
  have c2: "called ([] @ [''nativeSetCookiesForDomain'']) s1 s2"
    using 1(2) unfolding load_cookie_file_def Let_def
    by (elim and_then_InrE) (rule called_trans [OF called_app call_called])
  have c4: "called [''nativeInitClientSettings''] s3 s4"
    using 1(4) by (auto simp: fetch_client_settings_def split: option.splits intro: call_called)
  show ?case
    using called_trans [OF call_all_called [OF 1(1)] called_trans [OF c2 called_trans
          [OF call_all_called [OF 1(3)] called_trans [OF c4 call_all_called [OF 1(5)]]]]]
    by simp
qed

lemma run_frame_prefix: "run_frame h c es s = Inr s' \<Longrightarrow> prefix (guest_calls s) (guest_calls s')"
  using run_frame_effect by (fastforce simp: called_def events_effect_flags)


definition demo_start :: start_env where
  "demo_start =
     \<lparr>argv1 = None, is_directory = (\<lambda>_. True), path_exists = (\<lambda>_. True), is_regular_file = (\<lambda>_. True),
      cookie_contents = (\<lambda>_. ''a=b''), fetch_url = (\<lambda>_. Some []), memory_mb = 1, main_library = 1,
      guest_symbol = (\<lambda>_. 7)\<rparr>"

lemma find_symbols_all: "fst (find_symbols (\<lambda>_. 7) xs m)"
  by (induction "(\<lambda>_. 7) :: string \<Rightarrow> u64" xs m rule: find_symbols.induct) (simp_all add: find_symbol_def)

text \<open>Arguments that can always be evaluated in a state with a prefix and cached device parameters.\<close>

definition ready :: "app \<Rightarrow> bool" where
  "ready a \<longleftrightarrow> path_prefix a = Some ''/tmp/'' \<and> object_global a ''device_params'' \<noteq> 0"

definition always_evaluates :: "argument \<Rightarrow> bool" where
  "always_evaluates f \<longleftrightarrow> (\<forall>a. ready a \<longrightarrow> (\<exists>v a'. f a = Inr (v, a') \<and> ready a'))"

lemma evaluates [simp]:
  "always_evaluates (arg x)" "always_evaluates (string_arg y)" "always_evaluates (class_arg g)"
  "always_evaluates (new_object_arg g)" "always_evaluates (\<lambda>a. string_arg (f a) a)"
  "always_evaluates (object_arg new_empty_list)" "always_evaluates (object_arg get_device_params)"
  by (auto simp: always_evaluates_def arg_def string_arg_def class_arg_def new_object_arg_def
      object_arg_def new_of_class_def create_string_def new_object_def new_empty_list_def
      get_device_params_def cached_object_def ready_def Let_def)

lemma evaluates_path [simp]:
  "(\<And>a. ready a \<Longrightarrow> \<exists>p. f a = Inr p) \<Longrightarrow> always_evaluates (path_arg f)"
  by (fastforce simp: always_evaluates_def path_arg_def string_arg_def create_string_def new_object_def
      ready_def Let_def)

lemma eval_args_evaluates:
  "list_all always_evaluates as \<Longrightarrow> ready a \<Longrightarrow> \<exists>vs a'. eval_args as a = Inr (vs, a') \<and> ready a'"
proof (induction as arbitrary: a)
  case (Cons x as)
  then obtain v a1 where "x a = Inr (v, a1)" "ready a1" by (auto simp: always_evaluates_def)
  then show ?case using Cons.IH [of a1] Cons.prems by auto
qed simp

lemma call_demo:
  assumes "ready (the_app s)" "list_all always_evaluates as"
  shows "\<exists>s'. call demo_host r as s = Inr s' \<and> ready (the_app s') \<and> is_running s' = is_running s"
  using eval_args_evaluates [OF assms(2,1)]
  by (auto simp: call_def call_with_return_def demo_host_def)

lemma call_all_demo:
  assumes "ready (the_app s)" "list_all (\<lambda>(_, as). list_all always_evaluates as) cs"
  shows "\<exists>s'. call_all demo_host cs s = Inr s' \<and> ready (the_app s') \<and> is_running s' = is_running s"
  using assms
proof (induction cs arbitrary: s)
  case (Cons c cs)
  obtain r as where c: "c = (r, as)" by (cases c)
  obtain s1 where "call demo_host r as s = Inr s1" "ready (the_app s1)" "is_running s1 = is_running s"
    using call_demo [of s as r] Cons.prems c by auto
  then show ?case using Cons.IH [of s1] Cons.prems c by auto
qed simp

lemma start_application_demo:
  assumes "ready (the_app s)"
  shows "\<exists>s'. start_application demo_host demo_start k p s = Inr s' \<and> is_running s' = is_running s"
proof -
  have "list_all (\<lambda>(_, as). list_all always_evaluates as) (settings_calls demo_host s)"
    by (simp add: settings_calls_def)
       (auto intro!: evaluates_path simp: ready_def get_assets_dir_def get_cache_dir_def get_files_dir_def)
  then obtain s1 where 1: "call_all demo_host (settings_calls demo_host s) s = Inr s1"
    "ready (the_app s1)" "is_running s1 = is_running s"
    using call_all_demo [OF assms] by blast
  have "\<exists>s2. load_cookie_file demo_host demo_start s1 = Inr s2 \<and> ready (the_app s2) \<and>
      is_running s2 = is_running s1"
    using 1(2) call_demo [of "s1\<lparr>the_app := (the_app s1)\<lparr>cookies := x\<rparr>\<rparr>" for x]
    by (simp add: load_cookie_file_def ready_def get_cookies_path_def Let_def)
  then obtain s2 where 2: "load_cookie_file demo_host demo_start s1 = Inr s2" "ready (the_app s2)"
    "is_running s2 = is_running s1" by blast
  obtain s3 where 3: "call_all demo_host (init_calls k p) s2 = Inr s3" "ready (the_app s3)"
    "is_running s3 = is_running s2"
    using call_all_demo [OF 2(2), of "init_calls k p"] by (auto simp: init_calls_def)
  have "\<exists>s4. fetch_client_settings demo_host demo_start s3 = Inr s4 \<and> ready (the_app s4) \<and>
      is_running s4 = is_running s3"
    using call_demo [OF 3(2)] by (simp add: fetch_client_settings_def demo_start_def)
  then obtain s4 where 4: "fetch_client_settings demo_host demo_start s3 = Inr s4" "ready (the_app s4)"
    "is_running s4 = is_running s3" by blast
  show ?thesis
    using call_all_demo [OF 4(2), of app_start_calls] 1 2 3 4
    by (auto simp: start_application_def app_start_calls_def)
qed


end
