(* ===== verification/Linker_Lookup.thy ===== *)
theory Linker_Lookup
  imports Sober_Prelude
begin

unbundle bit_operations_syntax

text \<open>
  Symbol lookup of the guest linker: the hash functions, the ELF hash-table searches of
  \<^verbatim>\<open>soinfo\<close> and the search over a list of libraries
  (\<^verbatim>\<open>src/subprojects/liblinker/external/bionic/linker/linker_soinfo.cpp\<close>), with the custom symbols
  Sober adds for its host libraries.  What the tables mean and that the searches compute it
  is in \<open>Linker_Tables\<close>.
\<close>

section \<open>Data\<close>

record elf_sym =
  st_name :: u32
  st_info :: u8
  st_shndx :: u16
  st_value :: u64
  st_size :: u64

text \<open>An entry of the version definition section, with the name of its first \<^verbatim>\<open>Verdaux\<close>.\<close>

record verdef =
  vd_version :: u16
  vd_flags :: u16
  vd_ndx :: u16
  vd_cnt :: u16
  vd_hash :: u32
  vda_name :: u32

record version_info =
  vi_elf_hash :: u32
  vi_name :: string

text \<open>An entry of the version need section with its auxiliary entries.\<close>

record vernaux =
  vna_hash :: u32
  vna_other :: u16
  vna_name :: u32

record verneed =
  vn_version :: u16
  vn_file :: u32
  vn_auxs :: "vernaux list"

record rela =
  r_offset :: u64
  r_info :: u64
  r_addend :: u64

text \<open>
  The fields of \<^verbatim>\<open>struct soinfo\<close> that lookup and relocation use.  \<open>si_strtab\<close> has \<^verbatim>\<open>strtab_size_\<close>
  characters; \<open>si_versym\<close> and \<open>si_bucket\<close> may be \<^verbatim>\<open>nullptr\<close>.  \<open>gnu_chain\<close> lists the chain words from
  the first hashed symbol \<open>gnu_symndx\<close> on: the source biases the pointer by \<^verbatim>\<open>header[1]\<close> so that
  it is indexed by symbol number.  \<open>si_children\<close> holds the sonames of the dependencies, \<open>si_tls\<close> the
  module id of a library with a TLS segment; the relocation tables are \<open>None\<close> when their
  pointers are \<^verbatim>\<open>nullptr\<close>.
\<close>

record soinfo =
  si_soname :: string
  si_flags :: u32
  load_bias :: u64
  si_strtab :: string
  si_symtab :: "elf_sym list"
  si_nbucket :: u32
  si_bucket :: "u32 list option"
  si_chain :: "u32 list"
  gnu_nbucket :: u32
  gnu_bucket :: "u32 list"
  gnu_symndx :: nat
  gnu_chain :: "u32 list"
  gnu_maskwords :: u32
  gnu_shift2 :: u32
  gnu_bloom_filter :: "u64 list"
  si_versym :: "u16 list option"
  verdefs :: "verdef list"
  custom_symbols :: "string \<rightharpoonup> elf_sym"
  si_verneeds :: "verneed list"
  si_children :: "string list"
  si_tls :: "u64 option"
  si_relr :: "u64 list option"
  si_android_relocs :: "u8 list option"
  si_rela :: "rela list option"
  si_plt_rela :: "rela list option"

text \<open>A fresh \<^verbatim>\<open>soinfo\<close>: the allocator zeroes the block and the constructor sets the flag.\<close>

definition new_soinfo :: soinfo where
  "new_soinfo =
     \<lparr>si_soname = [], si_flags = 0x40000000, load_bias = 0, si_strtab = [], si_symtab = [],
      si_nbucket = 0, si_bucket = None, si_chain = [], gnu_nbucket = 0, gnu_bucket = [],
      gnu_symndx = 0, gnu_chain = [], gnu_maskwords = 0, gnu_shift2 = 0, gnu_bloom_filter = [],
      si_versym = None, verdefs = [], custom_symbols = Map.empty, si_verneeds = [],
      si_children = [], si_tls = None, si_relr = None, si_android_relocs = None, si_rela = None,
      si_plt_rela = None\<rparr>"

definition FLAG_LINKED :: u32 where
  "FLAG_LINKED = 0x1"

definition FLAG_GNU_HASH :: u32 where
  "FLAG_GNU_HASH = 0x40"

definition kVersymNotNeeded :: u16 where
  "kVersymNotNeeded = 0"

definition kVersymGlobal :: u16 where
  "kVersymGlobal = 1"

definition kVersymHiddenBit :: u16 where
  "kVersymHiddenBit = 0x8000"

text \<open>The part of \<^verbatim>\<open>create_empty_soinfo\<close> that fills in the new library.\<close>

definition empty_soinfo :: "string \<Rightarrow> soinfo" where
  "empty_soinfo name =
     new_soinfo\<lparr>si_soname := name, si_flags := si_flags new_soinfo OR FLAG_LINKED\<rparr>"

section \<open>Hash functions\<close>

text \<open>C strings are lists of characters without the terminating NUL.\<close>

definition calculate_gnu_hash_simple :: "string \<Rightarrow> u32 \<times> u32" where
  "calculate_gnu_hash_simple name =
     (foldl (\<lambda>h c. h + (push_bit 5 h + of_char c)) 5381 name, of_nat (length name))"

definition gnu_hash :: "string \<Rightarrow> u32" where
  "gnu_hash name = fst (calculate_gnu_hash_simple name)"

definition elf_hash_step :: "u32 \<Rightarrow> char \<Rightarrow> u32" where
  "elf_hash_step h c =
     (let h1 = push_bit 4 h + of_char c;
          g = h1 AND 0xf0000000;
          h2 = h1 XOR g
      in h2 XOR drop_bit 24 g)"

definition calculate_elf_hash :: "string \<Rightarrow> u32" where
  "calculate_elf_hash name = foldl elf_hash_step 0 name"

section \<open>Symbols\<close>

definition ELF_ST_BIND :: "u8 \<Rightarrow> u8" where
  "ELF_ST_BIND info = drop_bit 4 info"

definition ELF_ST_TYPE :: "u8 \<Rightarrow> u8" where
  "ELF_ST_TYPE info = info AND 0xf"

abbreviation (input) STB_LOCAL :: u8 where "STB_LOCAL \<equiv> 0"
abbreviation (input) STB_GLOBAL :: u8 where "STB_GLOBAL \<equiv> 1"
abbreviation (input) STB_WEAK :: u8 where "STB_WEAK \<equiv> 2"
abbreviation (input) SHN_UNDEF :: u16 where "SHN_UNDEF \<equiv> 0"

text \<open>The warning for other bindings is output only.\<close>

definition is_symbol_global_and_defined :: "elf_sym \<Rightarrow> bool" where
  "is_symbol_global_and_defined s =
     (if ELF_ST_BIND (st_info s) = STB_GLOBAL \<or> ELF_ST_BIND (st_info s) = STB_WEAK
      then st_shndx s \<noteq> SHN_UNDEF else False)"

definition is_gnu_hash :: "soinfo \<Rightarrow> bool" where
  "is_gnu_hash si \<longleftrightarrow> si_flags si AND FLAG_GNU_HASH \<noteq> 0"

text \<open>\<^verbatim>\<open>get_string\<close>: the characters from the index on; an index outside the table is fatal.\<close>

definition get_string :: "soinfo \<Rightarrow> u32 \<Rightarrow> string result" where
  "get_string si index =
     (if length (si_strtab si) \<le> unat index then Inl (Terminate ''strtab out of bounds error'')
      else Inr (drop (unat index) (si_strtab si)))"

text \<open>
  \<^verbatim>\<open>strcmp(p, name) == 0\<close> for memory contents \<open>p\<close>; reading past the memory is an invalid access.
\<close>

fun strcmp_eq :: "string \<Rightarrow> string \<Rightarrow> bool result" where
  "strcmp_eq [] name = Inl Invalid_access"
| "strcmp_eq (c # cs) [] = Inr (c = CHR 0x00)"
| "strcmp_eq (c # cs) (d # ds) = (if c = d then strcmp_eq cs ds else Inr False)"

definition check_symbol_version :: "u16 list option \<Rightarrow> nat \<Rightarrow> u16 \<Rightarrow> bool result" where
  "check_symbol_version ver_table sym_idx verneed =
     (case ver_table of
        None \<Rightarrow> Inr True
      | Some vs \<Rightarrow> and_then (vec_index vs sym_idx) (\<lambda>verdef.
          Inr (if verneed = kVersymNotNeeded then verdef AND kVersymHiddenBit = 0
               else verneed = verdef AND NOT kVersymHiddenBit)))"

text \<open>
  \<^verbatim>\<open>find_verdef_version_index\<close> over \<^verbatim>\<open>for_each_verdef\<close>: entries with an unsupported version or
  without a name are fatal at this point, the base entry is skipped.
\<close>

fun find_verdef :: "soinfo \<Rightarrow> version_info \<Rightarrow> verdef list \<Rightarrow> u16 result" where
  "find_verdef si vi [] = Inr kVersymGlobal"
| "find_verdef si vi (d # ds) =
     (if vd_version d \<noteq> 1 then Inl (Terminate ''invalid verdef after prelinking'')
      else if vd_flags d AND 1 \<noteq> 0 then find_verdef si vi ds
      else if vd_cnt d = 0 then Inl (Terminate ''invalid verdef after prelinking'')
      else if vd_hash d = vi_elf_hash vi then
        and_then (get_string si (vda_name d)) (\<lambda>p.
        and_then (strcmp_eq p (vi_name vi)) (\<lambda>same.
        if same then Inr (vd_ndx d) else find_verdef si vi ds))
      else find_verdef si vi ds)"

definition find_verdef_version_index :: "soinfo \<Rightarrow> version_info option \<Rightarrow> u16 result" where
  "find_verdef_version_index si vi =
     (case vi of None \<Rightarrow> Inr kVersymNotNeeded | Some v \<Rightarrow> find_verdef si v (verdefs si))"

section \<open>Searches in one library\<close>

definition gnu_chain_word :: "soinfo \<Rightarrow> nat \<Rightarrow> u32 result" where
  "gnu_chain_word si n =
     (if n < gnu_symndx si then Inl Invalid_access else vec_index (gnu_chain si) (n - gnu_symndx si))"

definition bloom_test :: "u64 \<Rightarrow> u32 \<Rightarrow> u32 \<Rightarrow> bool" where
  "bloom_test bloom_word hash shift2 \<longleftrightarrow>
     (let h1 = unat (hash mod 64); h2 = unat (drop_bit (unat shift2) hash mod 64)
      in 1 AND drop_bit h1 bloom_word AND drop_bit h2 bloom_word = 1)"

definition bloom_word_of :: "soinfo \<Rightarrow> u32 \<Rightarrow> u64 result" where
  "bloom_word_of si hash =
     vec_index (gnu_bloom_filter si) (unat ((hash div 64) AND gnu_maskwords si))"

text \<open>The first symbol of a bucket; a table without buckets divides by zero.\<close>

definition bucket_head :: "u32 list \<Rightarrow> u32 \<Rightarrow> u32 \<Rightarrow> u32 result" where
  "bucket_head buckets nbucket hash =
     (if nbucket = 0 then Inl Invalid_access else vec_index buckets (unat (hash mod nbucket)))"

text \<open>The conditions of the \<^verbatim>\<open>if\<close> in the chain loop of \<^verbatim>\<open>gnu_lookup\<close>, in evaluation order.\<close>

definition gnu_candidate :: "soinfo \<Rightarrow> string \<Rightarrow> u16 \<Rightarrow> nat \<Rightarrow> elf_sym \<Rightarrow> u32 \<Rightarrow> bool result" where
  "gnu_candidate si name verneed n s word =
     (if drop_bit 1 (word XOR gnu_hash name) \<noteq> 0 then Inr False
      else and_then (check_symbol_version (si_versym si) n verneed) (\<lambda>v.
           if \<not> v then Inr False
           else and_then (get_string si (st_name s)) (\<lambda>p.
                and_then (strcmp_eq p name) (\<lambda>same.
                Inr (same \<and> is_symbol_global_and_defined s)))))"

function gnu_chain_search :: "soinfo \<Rightarrow> string \<Rightarrow> u16 \<Rightarrow> nat \<Rightarrow> nat option result" where
  "gnu_chain_search si name verneed n =
     and_then (vec_index (si_symtab si) n) (\<lambda>s.
     and_then (gnu_chain_word si n) (\<lambda>word.
     and_then (gnu_candidate si name verneed n s word) (\<lambda>found.
     if found then Inr (Some n)
     else if word AND 1 = 0 then gnu_chain_search si name verneed (n + 1)
     else Inr None)))"
  by pat_completeness auto
termination
  by (relation "measure (\<lambda>(si, _, _, n). length (si_symtab si) - n)")
     (auto simp: vec_index_eq_Inr)

declare gnu_chain_search.simps [simp del]

definition gnu_lookup :: "soinfo \<Rightarrow> string \<Rightarrow> version_info option \<Rightarrow> nat option result" where
  "gnu_lookup si name vi =
     and_then (bloom_word_of si (gnu_hash name)) (\<lambda>bloom_word.
     if \<not> bloom_test bloom_word (gnu_hash name) (gnu_shift2 si) then Inr None
     else and_then (bucket_head (gnu_bucket si) (gnu_nbucket si) (gnu_hash name)) (\<lambda>n.
     if n = 0 then Inr None
     else and_then (find_verdef_version_index si vi) (\<lambda>verneed.
          gnu_chain_search si name verneed (unat n))))"

text \<open>
  The chain walk of \<^verbatim>\<open>elf_lookup\<close> follows links of the table.  The fuel is one more than the number
  of links, so a walk that uses it up has met an index twice and never ends.
\<close>

fun elf_chain_search :: "soinfo \<Rightarrow> string \<Rightarrow> u16 \<Rightarrow> nat \<Rightarrow> nat \<Rightarrow> nat option result" where
  "elf_chain_search si name verneed 0 n = (if n = 0 then Inr None else Inl Nontermination)"
| "elf_chain_search si name verneed (Suc fuel) n =
     (if n = 0 then Inr None
      else and_then (vec_index (si_symtab si) n) (\<lambda>s.
           and_then (check_symbol_version (si_versym si) n verneed) (\<lambda>v.
           and_then (if v then and_then (get_string si (st_name s)) (\<lambda>p.
                               and_then (strcmp_eq p name) (\<lambda>same.
                               Inr (same \<and> is_symbol_global_and_defined s)))
                     else Inr False) (\<lambda>found.
           if found then Inr (Some n)
           else and_then (vec_index (si_chain si) n) (\<lambda>next.
                elf_chain_search si name verneed fuel (unat next))))))"

definition elf_lookup :: "soinfo \<Rightarrow> string \<Rightarrow> version_info option \<Rightarrow> nat option result" where
  "elf_lookup si name vi =
     and_then (find_verdef_version_index si vi) (\<lambda>verneed.
     and_then (case si_bucket si of None \<Rightarrow> Inl Invalid_access
               | Some b \<Rightarrow> bucket_head b (si_nbucket si) (calculate_elf_hash name)) (\<lambda>n.
     elf_chain_search si name verneed (Suc (length (si_chain si))) (unat n)))"

definition symbol_at :: "soinfo \<Rightarrow> nat option result \<Rightarrow> elf_sym option result" where
  "symbol_at si r = and_then r (\<lambda>i. Inr (map_option (\<lambda>n. si_symtab si ! n) i))"

definition find_symbol_by_name :: "soinfo \<Rightarrow> string \<Rightarrow> version_info option \<Rightarrow> elf_sym option result" where
  "find_symbol_by_name si name vi =
     (case custom_symbols si name of
        Some es \<Rightarrow> Inr (Some es)
      | None \<Rightarrow>
          if is_gnu_hash si then symbol_at si (gnu_lookup si name vi)
          else if si_bucket si \<noteq> None then symbol_at si (elf_lookup si name vi)
          else Inr None)"

definition add_custom_symbol :: "string \<Rightarrow> u64 \<Rightarrow> soinfo \<Rightarrow> soinfo" where
  "add_custom_symbol name address si =
     si\<lparr>custom_symbols := (custom_symbols si)(name \<mapsto>
          \<lparr>st_name = 0, st_info = push_bit 4 STB_GLOBAL, st_shndx = -1, st_value = address,
           st_size = 0\<rparr>)\<rparr>"

section \<open>Searches over a list of libraries\<close>

record SymbolLookupLib =
  lib_gnu_maskwords :: u32
  lib_gnu_shift2 :: u32
  lib_gnu_bloom_filter :: "u64 list option"
  lib_si :: soinfo

definition get_lookup_lib :: "soinfo \<Rightarrow> SymbolLookupLib" where
  "get_lookup_lib si =
     (if \<not> is_gnu_hash si
      then \<lparr>lib_gnu_maskwords = 0, lib_gnu_shift2 = 0, lib_gnu_bloom_filter = None, lib_si = si\<rparr>
      else \<lparr>lib_gnu_maskwords = gnu_maskwords si, lib_gnu_shift2 = gnu_shift2 si,
            lib_gnu_bloom_filter = Some (gnu_bloom_filter si), lib_si = si\<rparr>)"

definition needs_sysv_lookup :: "SymbolLookupLib \<Rightarrow> bool" where
  "needs_sysv_lookup lib \<longleftrightarrow> lib_gnu_bloom_filter lib = None"

text \<open>
  \<^verbatim>\<open>SymbolLookupList\<close>: the slot in front for a \<^verbatim>\<open>DT_SYMBOLIC\<close> library (searched only when it is
  set), the libraries, and the counter that selects the slow path.  Lookup tracing is off: \<^verbatim>\<open>linker::init\<close> sets the verbosity to 0.
\<close>

record SymbolLookupList =
  dt_symbolic :: "SymbolLookupLib option"
  ll_libs :: "SymbolLookupLib list"
  slow_path_count :: nat

definition sole_lookup_list :: "soinfo \<Rightarrow> SymbolLookupList" where
  "sole_lookup_list si =
     \<lparr>dt_symbolic = None, ll_libs = [get_lookup_lib si],
      slow_path_count = (if needs_sysv_lookup (get_lookup_lib si) then 1 else 0)\<rparr>"

definition symbol_lookup_list :: "soinfo list \<Rightarrow> soinfo list \<Rightarrow> SymbolLookupList" where
  "symbol_lookup_list global_group local_group =
     (let libs = map get_lookup_lib global_group @ map get_lookup_lib local_group
      in \<lparr>dt_symbolic = None, ll_libs = libs,
          slow_path_count = length (filter needs_sysv_lookup libs)\<rparr>)"

definition sysv_count :: "SymbolLookupLib option \<Rightarrow> nat" where
  "sysv_count lib = (case lib of None \<Rightarrow> 0 | Some l \<Rightarrow> if needs_sysv_lookup l then 1 else 0)"

definition set_dt_symbolic_lib :: "soinfo option \<Rightarrow> SymbolLookupList \<Rightarrow> SymbolLookupList" where
  "set_dt_symbolic_lib lib ll =
     (let new = map_option get_lookup_lib lib
      in ll\<lparr>dt_symbolic := new,
            slow_path_count := slow_path_count ll - sysv_count (dt_symbolic ll) + sysv_count new\<rparr>)"

definition searched_libs :: "SymbolLookupList \<Rightarrow> SymbolLookupLib list" where
  "searched_libs ll = (case dt_symbolic ll of None \<Rightarrow> ll_libs ll | Some l \<Rightarrow> l # ll_libs ll)"

definition needs_slow_path :: "SymbolLookupList \<Rightarrow> bool" where
  "needs_slow_path ll \<longleftrightarrow> 0 < slow_path_count ll"

text \<open>
  The conditions of the inlined chain loop: \<^verbatim>\<open>memcmp\<close> over the name and its NUL, guarded by the
  size of the string table.  The version index is computed at the first hash match and kept;
  the computation has no effect, so it is redone here.
\<close>

definition lib_candidate ::
    "soinfo \<Rightarrow> string \<Rightarrow> version_info option \<Rightarrow> nat \<Rightarrow> elf_sym \<Rightarrow> u32 \<Rightarrow> bool result" where
  "lib_candidate si name vi n s word =
     (if drop_bit 1 word \<noteq> drop_bit 1 (gnu_hash name) then Inr False
      else and_then (find_verdef_version_index si vi) (\<lambda>verneed.
           and_then (check_symbol_version (si_versym si) n verneed) (\<lambda>v.
           Inr (v \<and> unat (st_name s) + length name + 1 \<le> length (si_strtab si) \<and>
                take (length name + 1) (drop (unat (st_name s)) (si_strtab si)) = name @ [CHR 0x00] \<and>
                is_symbol_global_and_defined s))))"

function lib_chain_search ::
    "soinfo \<Rightarrow> string \<Rightarrow> version_info option \<Rightarrow> nat \<Rightarrow> nat option result" where
  "lib_chain_search si name vi n =
     and_then (vec_index (si_symtab si) n) (\<lambda>s.
     and_then (gnu_chain_word si n) (\<lambda>word.
     and_then (lib_candidate si name vi n s word) (\<lambda>found.
     if found then Inr (Some n)
     else if word AND 1 = 0 then lib_chain_search si name vi (n + 1)
     else Inr None)))"
  by pat_completeness auto
termination
  by (relation "measure (\<lambda>(si, _, _, n). length (si_symtab si) - n)")
     (auto simp: vec_index_eq_Inr)

declare lib_chain_search.simps [simp del]

text \<open>
  One pass of the loop body over a library with a GNU hash table: the Bloom filter, the bucket
  and the chain.
\<close>

definition lib_gnu_search ::
    "SymbolLookupLib \<Rightarrow> string \<Rightarrow> version_info option \<Rightarrow> elf_sym option result" where
  "lib_gnu_search lib name vi =
     (case lib_gnu_bloom_filter lib of
        None \<Rightarrow> Inl Invalid_access
      | Some bloom \<Rightarrow>
          and_then (vec_index bloom (unat ((gnu_hash name div 64) AND lib_gnu_maskwords lib))) (\<lambda>bloom_word.
          if \<not> bloom_test bloom_word (gnu_hash name) (lib_gnu_shift2 lib) then Inr None
          else and_then (bucket_head (gnu_bucket (lib_si lib)) (gnu_nbucket (lib_si lib)) (gnu_hash name)) (\<lambda>n.
          if n = 0 then Inr None
          else symbol_at (lib_si lib) (lib_chain_search (lib_si lib) name vi (unat n)))))"

fun soinfo_do_lookup_impl ::
    "bool \<Rightarrow> string \<Rightarrow> version_info option \<Rightarrow> SymbolLookupLib list \<Rightarrow> (soinfo \<times> elf_sym) option result" where
  "soinfo_do_lookup_impl general name vi [] = Inr None"
| "soinfo_do_lookup_impl general name vi (lib # libs) =
     and_then (if general \<and> needs_sysv_lookup lib then find_symbol_by_name (lib_si lib) name vi
               else lib_gnu_search lib name vi) (\<lambda>r.
     case r of Some es \<Rightarrow> Inr (Some (lib_si lib, es))
     | None \<Rightarrow> soinfo_do_lookup_impl general name vi libs)"

definition soinfo_do_lookup ::
    "string \<Rightarrow> version_info option \<Rightarrow> SymbolLookupList \<Rightarrow> (soinfo \<times> elf_sym) option result" where
  "soinfo_do_lookup name vi ll = soinfo_do_lookup_impl (needs_slow_path ll) name vi (searched_libs ll)"

text \<open>
  \<^verbatim>\<open>resolve_symbol_address\<close>: \<open>call_ifunc_resolver\<close> runs guest code and is a parameter.
\<close>

definition resolve_symbol_address :: "(u64 \<Rightarrow> u64) \<Rightarrow> soinfo \<Rightarrow> elf_sym \<Rightarrow> u64" where
  "resolve_symbol_address call_ifunc_resolver si s =
     (if ELF_ST_TYPE (st_info s) = 10 then call_ifunc_resolver (st_value s + load_bias si)
      else st_value s + load_bias si)"

end
