(* ===== verification/Linker_Tables.thy ===== *)
theory Linker_Tables
  imports Linker_Lookup
begin

unbundle bit_operations_syntax

text \<open>
  What the hash tables of an ELF library mean and that the searches of the linker compute it:
  executable well-formedness predicates for the GNU and the System V tables, the symbol a
  name stands for in a table, and the correctness of both searches, of the inlined search
  and of the search over a list of libraries.
\<close>

section \<open>Strings\<close>

definition symbol_string :: "soinfo \<Rightarrow> elf_sym \<Rightarrow> string" where
  "symbol_string si s = takeWhile (\<lambda>c. c \<noteq> CHR 0x00) (drop (unat (st_name s)) (si_strtab si))"

definition string_ok :: "soinfo \<Rightarrow> u32 \<Rightarrow> bool" where
  "string_ok si i \<longleftrightarrow> list_ex (\<lambda>c. c = CHR 0x00) (drop (unat i) (si_strtab si))"

definition c_string :: "string \<Rightarrow> bool" where
  "c_string name \<longleftrightarrow> list_all (\<lambda>c. c \<noteq> CHR 0x00) name"

lemma strcmp_eq_takeWhile:
  "list_ex (\<lambda>c. c = CHR 0x00) p \<Longrightarrow> c_string name \<Longrightarrow>
   strcmp_eq p name = Inr (takeWhile (\<lambda>c. c \<noteq> CHR 0x00) p = name)"
  by (induction p name rule: strcmp_eq.induct) (auto simp: c_string_def)

lemma memcmp_takeWhile:
  "list_ex (\<lambda>c. c = CHR 0x00) p \<Longrightarrow> c_string name \<Longrightarrow>
   (length name + 1 \<le> length p \<and> take (length name + 1) p = name @ [CHR 0x00]) \<longleftrightarrow>
   takeWhile (\<lambda>c. c \<noteq> CHR 0x00) p = name"
proof (induction name arbitrary: p)
  case Nil
  then show ?case by (cases p) auto
next
  case (Cons d ds)
  then show ?case by (cases p) (auto simp: c_string_def)
qed

lemma string_ok_bound: "string_ok si i \<Longrightarrow> unat i < length (si_strtab si)"
  by (auto simp: string_ok_def intro: ccontr)

lemma get_string_strcmp:
  assumes "string_ok si (st_name s)" "c_string name"
  shows "and_then (get_string si (st_name s)) (\<lambda>p. and_then (strcmp_eq p name) (\<lambda>same. f same)) =
         f (symbol_string si s = name)"
  using assms string_ok_bound [OF assms(1)]
  by (simp add: get_string_def string_ok_def symbol_string_def strcmp_eq_takeWhile not_le)

lemma unat_mod_less: "0 < (m :: u32) \<Longrightarrow> unat (h mod m) < unat m"
  by (simp add: unat_mod_distrib word_gt_0 unat_gt_0)

lemma find_append_case:
  "find P (xs @ ys) = (case find P xs of None \<Rightarrow> find P ys | Some x \<Rightarrow> Some x)"
  by (induction xs) auto

section \<open>Version requirements\<close>

definition version_matches :: "soinfo \<Rightarrow> u16 \<Rightarrow> nat \<Rightarrow> bool" where
  "version_matches si verneed i =
     (case si_versym si of None \<Rightarrow> True
      | Some vs \<Rightarrow> if verneed = kVersymNotNeeded then vs ! i AND kVersymHiddenBit = 0
                   else verneed = vs ! i AND NOT kVersymHiddenBit)"

definition versym_covers :: "soinfo \<Rightarrow> bool" where
  "versym_covers si = (case si_versym si of None \<Rightarrow> True | Some vs \<Rightarrow> length vs = length (si_symtab si))"

lemma check_symbol_version_matches:
  "versym_covers si \<Longrightarrow> i < length (si_symtab si) \<Longrightarrow>
   check_symbol_version (si_versym si) i verneed = Inr (version_matches si verneed i)"
  by (auto simp: versym_covers_def version_matches_def check_symbol_version_def split: option.splits)

text \<open>The symbols a lookup may return, by index.\<close>

definition matching :: "soinfo \<Rightarrow> string \<Rightarrow> u16 \<Rightarrow> nat \<Rightarrow> bool" where
  "matching si name verneed i \<longleftrightarrow>
     symbol_string si (si_symtab si ! i) = name \<and> version_matches si verneed i \<and>
     is_symbol_global_and_defined (si_symtab si ! i)"

section \<open>The GNU hash table\<close>

definition hash_at :: "soinfo \<Rightarrow> nat \<Rightarrow> u32" where
  "hash_at si i = gnu_hash (symbol_string si (si_symtab si ! i))"

definition bucket_at :: "soinfo \<Rightarrow> nat \<Rightarrow> nat" where
  "bucket_at si i = unat (hash_at si i mod gnu_nbucket si)"

definition hashed :: "soinfo \<Rightarrow> nat list" where
  "hashed si = [gnu_symndx si..<length (si_symtab si)]"

definition bloom_admits :: "soinfo \<Rightarrow> u32 \<Rightarrow> bool" where
  "bloom_admits si h =
     bloom_test (gnu_bloom_filter si ! unat ((h div 64) AND gnu_maskwords si)) h (gnu_shift2 si)"

text \<open>
  The chain word of a hashed symbol holds its hash with the low bit replaced by the mark of
  the last symbol of its bucket.
\<close>

definition chain_entry_ok :: "soinfo \<Rightarrow> nat \<Rightarrow> bool" where
  "chain_entry_ok si i \<longleftrightarrow>
     (let w = gnu_chain si ! (i - gnu_symndx si)
      in string_ok si (st_name (si_symtab si ! i)) \<and>
         drop_bit 1 w = drop_bit 1 (hash_at si i) \<and>
         (w AND 1 \<noteq> 0 \<longleftrightarrow> Suc i = length (si_symtab si) \<or> bucket_at si (Suc i) \<noteq> bucket_at si i) \<and>
         bloom_admits si (hash_at si i))"

definition bucket_ok :: "soinfo \<Rightarrow> nat \<Rightarrow> bool" where
  "bucket_ok si b \<longleftrightarrow>
     unat (gnu_bucket si ! b) =
       (case find (\<lambda>i. bucket_at si i = b) (hashed si) of None \<Rightarrow> 0 | Some i \<Rightarrow> i)"

definition gnu_table_wf :: "soinfo \<Rightarrow> bool" where
  "gnu_table_wf si \<longleftrightarrow>
     0 < gnu_nbucket si \<and> length (gnu_bucket si) = unat (gnu_nbucket si) \<and>
     0 < gnu_symndx si \<and> gnu_symndx si \<le> length (si_symtab si) \<and>
     length (gnu_chain si) = length (si_symtab si) - gnu_symndx si \<and>
     unat (gnu_maskwords si) < length (gnu_bloom_filter si) \<and> versym_covers si \<and>
     list_all (chain_entry_ok si) (hashed si) \<and>
     list_all (bucket_ok si) [0..<unat (gnu_nbucket si)] \<and>
     sorted (map (bucket_at si) (hashed si))"

text \<open>The symbol a name stands for: the first matching one among the hashed symbols.\<close>

definition gnu_symbol_of :: "soinfo \<Rightarrow> string \<Rightarrow> u16 \<Rightarrow> nat option" where
  "gnu_symbol_of si name verneed = find (matching si name verneed) (hashed si)"

lemma hashed_mem [simp]: "i \<in> set (hashed si) \<longleftrightarrow> gnu_symndx si \<le> i \<and> i < length (si_symtab si)"
  by (auto simp: hashed_def)

lemma gnu_entry_ok:
  "gnu_table_wf si \<Longrightarrow> gnu_symndx si \<le> i \<Longrightarrow> i < length (si_symtab si) \<Longrightarrow> chain_entry_ok si i"
  by (auto simp: gnu_table_wf_def list_all_iff)

lemma bucket_mono:
  assumes "gnu_table_wf si" "gnu_symndx si \<le> i" "i \<le> j" "j < length (si_symtab si)"
  shows "bucket_at si i \<le> bucket_at si j"
proof -
  have "sorted (map (bucket_at si) (hashed si))"
    using assms(1) by (simp add: gnu_table_wf_def)
  then have "map (bucket_at si) (hashed si) ! (i - gnu_symndx si) \<le>
             map (bucket_at si) (hashed si) ! (j - gnu_symndx si)"
    using assms by (intro sorted_nth_mono) (auto simp: hashed_def)
  then show ?thesis using assms by (simp add: hashed_def)
qed

lemma matching_bucket: "matching si name v i \<Longrightarrow> bucket_at si i = unat (gnu_hash name mod gnu_nbucket si)"
  by (simp add: matching_def bucket_at_def hash_at_def)

lemma xor_drop_bit_zero: "drop_bit n (a XOR b) = 0 \<longleftrightarrow> drop_bit n a = drop_bit n (b :: u32)"
  by (auto simp: bit_eq_iff bit_simps)

lemma gnu_candidate_matching:
  assumes "gnu_table_wf si" "gnu_symndx si \<le> i" "i < length (si_symtab si)" "c_string name"
  shows "gnu_candidate si name v i (si_symtab si ! i) (gnu_chain si ! (i - gnu_symndx si)) =
         Inr (matching si name v i)"
proof -
  have ok: "chain_entry_ok si i" and vs: "versym_covers si"
    using assms gnu_entry_ok by (auto simp: gnu_table_wf_def)
  then have s: "string_ok si (st_name (si_symtab si ! i))"
    and d: "drop_bit 1 (gnu_chain si ! (i - gnu_symndx si)) = drop_bit 1 (hash_at si i)"
    by (auto simp: chain_entry_ok_def Let_def)
  show ?thesis
    unfolding gnu_candidate_def xor_drop_bit_zero d
    using assms(3,4) vs s
    by (auto simp: check_symbol_version_matches matching_def hash_at_def get_string_strcmp)
qed

lemma lib_candidate_matching:
  assumes "gnu_table_wf si" "gnu_symndx si \<le> i" "i < length (si_symtab si)" "c_string name"
    "find_verdef_version_index si vi = Inr v"
  shows "lib_candidate si name vi i (si_symtab si ! i) (gnu_chain si ! (i - gnu_symndx si)) =
         Inr (matching si name v i)"
proof -
  have ok: "chain_entry_ok si i" and vs: "versym_covers si"
    using assms gnu_entry_ok by (auto simp: gnu_table_wf_def)
  then have s: "string_ok si (st_name (si_symtab si ! i))"
    and d: "drop_bit 1 (gnu_chain si ! (i - gnu_symndx si)) = drop_bit 1 (hash_at si i)"
    by (auto simp: chain_entry_ok_def Let_def)
  have m: "unat (st_name (si_symtab si ! i)) + length name + 1 \<le> length (si_strtab si) \<and>
        take (length name + 1) (drop (unat (st_name (si_symtab si ! i))) (si_strtab si)) = name @ [CHR 0x00] \<longleftrightarrow>
        symbol_string si (si_symtab si ! i) = name"
    using memcmp_takeWhile [of "drop (unat (st_name (si_symtab si ! i))) (si_strtab si)" name]
      s assms(4) string_ok_bound [OF s]
    by (auto simp: string_ok_def symbol_string_def)
  show ?thesis
    unfolding lib_candidate_def d using assms(3,5) vs m
    by (auto simp: check_symbol_version_matches matching_def hash_at_def)
qed

lemma chain_word_at:
  "gnu_table_wf si \<Longrightarrow> gnu_symndx si \<le> i \<Longrightarrow> i < length (si_symtab si) \<Longrightarrow>
   gnu_chain_word si i = Inr (gnu_chain si ! (i - gnu_symndx si))"
  by (auto simp: gnu_chain_word_def gnu_table_wf_def)

lemma no_match_after_run:
  assumes wf: "gnu_table_wf si" and i: "gnu_symndx si \<le> i" "i < length (si_symtab si)"
    and b: "bucket_at si i = unat (gnu_hash name mod gnu_nbucket si)"
    and last: "gnu_chain si ! (i - gnu_symndx si) AND 1 \<noteq> 0"
  shows "find (matching si name v) [Suc i..<length (si_symtab si)] = None"
proof -
  have e: "Suc i = length (si_symtab si) \<or> bucket_at si (Suc i) \<noteq> bucket_at si i"
    using gnu_entry_ok [OF wf i] last by (auto simp: chain_entry_ok_def Let_def)
  have "\<not> matching si name v j" if j: "Suc i \<le> j" "j < length (si_symtab si)" for j
  proof
    assume "matching si name v j"
    then have "bucket_at si j = bucket_at si i" using b matching_bucket by simp
    moreover have "bucket_at si i \<le> bucket_at si (Suc i)" "bucket_at si (Suc i) \<le> bucket_at si j"
      using bucket_mono [OF wf] i j by auto
    ultimately show False using e j by auto
  qed
  then show ?thesis by (auto simp: find_None_iff)
qed

lemma gnu_chain_search_correct:
  assumes wf: "gnu_table_wf si" and name: "c_string name"
    and "gnu_symndx si \<le> i" "i < length (si_symtab si)"
    and "bucket_at si i = unat (gnu_hash name mod gnu_nbucket si)"
  shows "gnu_chain_search si name v i = Inr (find (matching si name v) [i..<length (si_symtab si)])"
  using assms(3-5)
proof (induction "length (si_symtab si) - i" arbitrary: i)
  case (Suc k)
  let ?w = "gnu_chain si ! (i - gnu_symndx si)"
  have step: "gnu_chain_search si name v i =
      (if matching si name v i then Inr (Some i)
       else if ?w AND 1 = 0 then gnu_chain_search si name v (i + 1) else Inr None)"
    using Suc.prems chain_word_at [OF wf, of i] gnu_candidate_matching [OF wf _ _ name, of i v]
    by (subst gnu_chain_search.simps) simp
  have upt: "[i..<length (si_symtab si)] = i # [Suc i..<length (si_symtab si)]"
    using Suc.prems by (simp add: upt_conv_Cons)
  show ?case
  proof (cases "?w AND 1 = 0")
    case True
    then have "Suc i < length (si_symtab si)" "bucket_at si (Suc i) = bucket_at si i"
      using gnu_entry_ok [OF wf, of i] Suc.prems by (auto simp: chain_entry_ok_def Let_def)
    then show ?thesis using Suc.hyps(1) [of "Suc i"] Suc.hyps(2) Suc.prems step upt True by simp
  next
    case False
    then show ?thesis using no_match_after_run [OF wf _ _ _ False] Suc.prems step upt by simp
  qed
qed simp

lemma lib_chain_search_eq:
  assumes wf: "gnu_table_wf si" and name: "c_string name"
    and v: "find_verdef_version_index si vi = Inr v"
    and "gnu_symndx si \<le> i"
  shows "lib_chain_search si name vi i = gnu_chain_search si name v i"
  using assms(4)
proof (induction "length (si_symtab si) - i" arbitrary: i)
  case 0
  then show ?case
    by (simp add: lib_chain_search.simps [of si name vi i] gnu_chain_search.simps [of si name v i]
        vec_index_def)
next
  case (Suc k)
  then have "gnu_symndx si \<le> i" "i < length (si_symtab si)" by auto
  then show ?case
    using Suc.hyps(1) [of "Suc i"] Suc.hyps(2) chain_word_at [OF wf, of i]
      gnu_candidate_matching [OF wf _ _ name, of i v] lib_candidate_matching [OF wf _ _ name v, of i]
    by (simp add: lib_chain_search.simps [of si name vi i] gnu_chain_search.simps [of si name v i])
qed

lemma bloom_index_bound:
  assumes "gnu_table_wf si"
  shows "unat ((h div 64) AND gnu_maskwords si) < length (gnu_bloom_filter si)"
proof -
  have "(h div 64) AND gnu_maskwords si \<le> gnu_maskwords si" by (rule word_and_le1)
  then have "unat ((h div 64) AND gnu_maskwords si) \<le> unat (gnu_maskwords si)"
    by (simp add: word_le_nat_alt)
  then show ?thesis using assms by (simp add: gnu_table_wf_def)
qed

lemma matching_admitted:
  assumes "gnu_table_wf si" "matching si name v i" "i \<in> set (hashed si)"
  shows "bloom_admits si (gnu_hash name)"
  using gnu_entry_ok [OF assms(1), of i] assms(2,3)
  by (auto simp: chain_entry_ok_def Let_def hash_at_def matching_def)

lemma gnu_bucket_start:
  assumes "gnu_table_wf si"
  shows "bucket_head (gnu_bucket si) (gnu_nbucket si) h =
           Inr (gnu_bucket si ! (unat (h mod gnu_nbucket si))) \<and>
         bucket_ok si (unat (h mod gnu_nbucket si))"
  using assms by (auto simp: bucket_head_def gnu_table_wf_def list_all_iff unat_mod_less word_gt_0)

text \<open>The search from the head of the bucket finds the symbol the name stands for.\<close>

lemma bucket_search_correct:
  assumes wf: "gnu_table_wf si" and name: "c_string name"
    and head: "n = gnu_bucket si ! (unat (gnu_hash name mod gnu_nbucket si))"
  shows "n = 0 \<Longrightarrow> gnu_symbol_of si name v = None"
    and "n \<noteq> 0 \<Longrightarrow> gnu_symndx si \<le> unat n \<and>
           gnu_chain_search si name v (unat n) = Inr (gnu_symbol_of si name v)"
proof -
  let ?b = "unat (gnu_hash name mod gnu_nbucket si)"
  let ?P = "\<lambda>i. bucket_at si i = ?b"
  have n: "unat n = (case find ?P (hashed si) of None \<Rightarrow> 0 | Some i \<Rightarrow> i)"
    using gnu_bucket_start [OF wf, of "gnu_hash name"] head by (simp add: bucket_ok_def)
  show "gnu_symbol_of si name v = None" if "n = 0"
  proof -
    have "find ?P (hashed si) = None"
    proof (cases "find ?P (hashed si)")
      case (Some i)
      then have "i \<in> set (hashed si)" by (auto simp: find_Some_iff hashed_def)
      then show ?thesis using n that Some wf by (auto simp: gnu_table_wf_def)
    qed simp
    then show ?thesis
      unfolding gnu_symbol_of_def find_None_iff using matching_bucket by blast
  qed
  show "gnu_symndx si \<le> unat n \<and> gnu_chain_search si name v (unat n) = Inr (gnu_symbol_of si name v)"
    if "n \<noteq> 0"
  proof -
    have "unat n \<noteq> 0" using that by (simp add: unat_eq_0)
    then have f: "find ?P (hashed si) = Some (unat n)" using n by (auto split: option.splits)
    then obtain k where k: "k < length (hashed si)" "?P (hashed si ! k)" "unat n = hashed si ! k"
      "\<forall>j<k. \<not> ?P (hashed si ! j)"
      by (auto simp: find_Some_iff hashed_def)
    then have r: "gnu_symndx si \<le> unat n" "unat n < length (si_symtab si)" "?P (unat n)"
      "k = unat n - gnu_symndx si"
      by (auto simp: hashed_def)
    have "\<not> matching si name v j" if "gnu_symndx si \<le> j" "j < unat n" for j
    proof -
      have "hashed si ! (j - gnu_symndx si) = j" using that r by (simp add: hashed_def)
      then have "\<not> ?P j" using k(4) that r(4) by (metis diff_less_mono)
      then show ?thesis using matching_bucket by blast
    qed
    then have none: "find (matching si name v) [gnu_symndx si..<unat n] = None"
      by (auto simp: find_None_iff)
    have "hashed si = [gnu_symndx si..<unat n] @ [unat n..<length (si_symtab si)]"
      using r unfolding hashed_def by (metis le_add_diff_inverse less_imp_le upt_add_eq_append)
    then have "gnu_symbol_of si name v = find (matching si name v) [unat n..<length (si_symtab si)]"
      using none by (simp add: gnu_symbol_of_def find_append_case)
    then show ?thesis using gnu_chain_search_correct [OF wf name r(1,2) r(3)] r(1) by simp
  qed
qed

lemma gnu_lookup_correct:
  assumes wf: "gnu_table_wf si" and name: "c_string name"
    and v: "find_verdef_version_index si vi = Inr v"
  shows "gnu_lookup si name vi = Inr (gnu_symbol_of si name v)"
proof (cases "bloom_admits si (gnu_hash name)")
  case False
  then have "gnu_symbol_of si name v = None"
    unfolding gnu_symbol_of_def find_None_iff using matching_admitted [OF wf] by blast
  then show ?thesis
    using False bloom_index_bound [OF wf]
    by (simp add: gnu_lookup_def bloom_word_of_def bloom_admits_def)
next
  case True
  then show ?thesis
    using bloom_index_bound [OF wf] gnu_bucket_start [OF wf, of "gnu_hash name"] v
      bucket_search_correct [OF wf name refl, of v]
    by (simp add: gnu_lookup_def bloom_word_of_def bloom_admits_def)
qed

lemma lib_gnu_search_correct:
  assumes wf: "gnu_table_wf si" and name: "c_string name"
    and v: "find_verdef_version_index si vi = Inr v" and gnu: "is_gnu_hash si"
  shows "lib_gnu_search (get_lookup_lib si) name vi = symbol_at si (gnu_lookup si name vi)"
proof -
  have eq: "lib_chain_search si name vi (unat n) = gnu_chain_search si name v (unat n)"
    if "n = gnu_bucket si ! (unat (gnu_hash name mod gnu_nbucket si))" "n \<noteq> 0" for n
    using lib_chain_search_eq [OF wf name v] bucket_search_correct(2) [OF wf name that(1)] that(2)
    by simp
  show ?thesis
    using bloom_index_bound [OF wf, of "gnu_hash name"] gnu_bucket_start [OF wf, of "gnu_hash name"]
      gnu v eq [OF refl]
    by (simp add: lib_gnu_search_def get_lookup_lib_def gnu_lookup_def bloom_word_of_def symbol_at_def)
qed

section \<open>The System V hash table\<close>

text \<open>The indices a chain visits, or \<open>None\<close> when it leaves the table or does not end.\<close>

fun chain_walk :: "u32 list \<Rightarrow> nat \<Rightarrow> nat \<Rightarrow> nat list option" where
  "chain_walk chain 0 n = (if n = 0 then Some [] else None)"
| "chain_walk chain (Suc fuel) n =
     (if n = 0 then Some []
      else if n < length chain then map_option ((#) n) (chain_walk chain fuel (unat (chain ! n)))
      else None)"

definition elf_path :: "soinfo \<Rightarrow> nat \<Rightarrow> nat list option" where
  "elf_path si b = chain_walk (si_chain si) (Suc (length (si_chain si))) (unat (the (si_bucket si) ! b))"

definition elf_bucket_at :: "soinfo \<Rightarrow> nat \<Rightarrow> nat" where
  "elf_bucket_at si i =
     unat (calculate_elf_hash (symbol_string si (si_symtab si ! i)) mod si_nbucket si)"

definition elf_table_wf :: "soinfo \<Rightarrow> bool" where
  "elf_table_wf si \<longleftrightarrow>
     si_bucket si \<noteq> None \<and> 0 < si_nbucket si \<and> length (the (si_bucket si)) = unat (si_nbucket si) \<and>
     length (si_chain si) = length (si_symtab si) \<and> versym_covers si \<and>
     list_all (\<lambda>s. string_ok si (st_name s)) (si_symtab si) \<and>
     list_all (\<lambda>b. elf_path si b \<noteq> None) [0..<unat (si_nbucket si)] \<and>
     list_all (\<lambda>i. i \<in> set (the (elf_path si (elf_bucket_at si i)))) [1..<length (si_symtab si)]"

definition elf_symbol_of :: "soinfo \<Rightarrow> string \<Rightarrow> u16 \<Rightarrow> nat option" where
  "elf_symbol_of si name verneed =
     find (matching si name verneed)
       (the (elf_path si (unat (calculate_elf_hash name mod si_nbucket si))))"

lemma elf_chain_search_walk:
  assumes "versym_covers si" "length (si_chain si) = length (si_symtab si)"
    "list_all (\<lambda>s. string_ok si (st_name s)) (si_symtab si)" "c_string name"
  shows "chain_walk (si_chain si) fuel n = Some ns \<Longrightarrow>
         elf_chain_search si name v fuel n = Inr (find (matching si name v) ns)"
proof (induction fuel arbitrary: n ns)
  case (Suc fuel)
  show ?case
  proof (cases "n = 0")
    case False
    then obtain ms where ms: "n < length (si_symtab si)" "ns = n # ms"
      "chain_walk (si_chain si) fuel (unat (si_chain si ! n)) = Some ms"
      using Suc.prems assms(2) by (auto split: if_splits)
    have s: "string_ok si (st_name (si_symtab si ! n))"
      using assms(3) ms(1) by (simp add: list_all_length)
    show ?thesis
      using False ms Suc.IH [OF ms(3)] assms(1,2,4)
      by (auto simp: check_symbol_version_matches get_string_strcmp [OF s assms(4)] matching_def)
  qed (use Suc.prems in simp)
qed (auto split: if_splits)

lemma elf_path_total:
  assumes "elf_table_wf si"
  obtains ns where "elf_path si (unat (h mod si_nbucket si)) = Some ns"
proof -
  have "unat (h mod si_nbucket si) \<in> set [0..<unat (si_nbucket si)]"
    using assms by (simp add: elf_table_wf_def unat_mod_less)
  then have "elf_path si (unat (h mod si_nbucket si)) \<noteq> None"
    using assms unfolding elf_table_wf_def list_all_iff by blast
  then show ?thesis using that by blast
qed

lemma elf_lookup_correct:
  assumes wf: "elf_table_wf si" and name: "c_string name"
    and v: "find_verdef_version_index si vi = Inr v"
  shows "elf_lookup si name vi = Inr (elf_symbol_of si name v)"
proof -
  let ?b = "unat (calculate_elf_hash name mod si_nbucket si)"
  obtain bs where bs: "si_bucket si = Some bs" "0 < si_nbucket si" "length bs = unat (si_nbucket si)"
    using wf by (auto simp: elf_table_wf_def)
  obtain ns where p: "elf_path si ?b = Some ns"
    by (rule elf_path_total [OF wf])
  then have ns: "chain_walk (si_chain si) (Suc (length (si_chain si))) (unat (bs ! ?b)) = Some ns"
    "elf_path si ?b = Some ns"
    using bs by (auto simp: elf_path_def simp del: chain_walk.simps)
  have "elf_chain_search si name v (Suc (length (si_chain si))) (unat (bs ! ?b)) =
        Inr (find (matching si name v) ns)"
    using wf name ns(1) by (intro elf_chain_search_walk) (auto simp: elf_table_wf_def)
  then show ?thesis
    using bs v ns(2)
    by (simp add: elf_lookup_def bucket_head_def elf_symbol_of_def unat_mod_less word_gt_0 del: elf_chain_search.simps)
qed

lemma elf_symbol_of_complete:
  assumes "elf_table_wf si"
  shows "elf_symbol_of si name v = None \<longleftrightarrow>
         (\<forall>i\<in>{1..<length (si_symtab si)}. \<not> matching si name v i)"
proof -
  let ?b = "unat (calculate_elf_hash name mod si_nbucket si)"
  have in_path: "i \<in> set (the (elf_path si ?b))"
    if "matching si name v i" "1 \<le> i" "i < length (si_symtab si)" for i
  proof -
    have "elf_bucket_at si i = ?b" using that by (simp add: elf_bucket_at_def matching_def)
    moreover have "i \<in> set (the (elf_path si (elf_bucket_at si i)))"
      using assms that by (simp add: elf_table_wf_def list_all_iff)
    ultimately show ?thesis by simp
  qed
  have range: "chain_walk (si_chain si) fuel n = Some ns \<Longrightarrow> i \<in> set ns \<Longrightarrow>
      1 \<le> i \<and> i < length (si_chain si)" for fuel n ns i
    by (induction fuel arbitrary: n ns) (auto split: if_splits)
  obtain ns where ns: "elf_path si ?b = Some ns"
    by (rule elf_path_total [OF assms])
  then have "1 \<le> i \<and> i < length (si_symtab si)" if "i \<in> set ns" for i
    using range [of "Suc (length (si_chain si))"] that assms
    by (fastforce simp: elf_path_def elf_table_wf_def simp del: chain_walk.simps)
  then show ?thesis
    using in_path ns by (simp add: elf_symbol_of_def find_None_iff) (meson atLeastLessThan_iff)
qed

section \<open>Version definitions\<close>

definition verdefs_ok :: "soinfo \<Rightarrow> bool" where
  "verdefs_ok si \<longleftrightarrow>
     list_all (\<lambda>d. vd_version d = 1 \<and> (vd_flags d AND 1 \<noteq> 0 \<or> vd_cnt d \<noteq> 0 \<and> string_ok si (vda_name d)))
       (verdefs si)"

definition version_request_ok :: "version_info option \<Rightarrow> bool" where
  "version_request_ok vi = (case vi of None \<Rightarrow> True | Some v \<Rightarrow> c_string (vi_name v))"

definition required_version :: "soinfo \<Rightarrow> version_info option \<Rightarrow> u16" where
  "required_version si vi = (case find_verdef_version_index si vi of Inr v \<Rightarrow> v | Inl _ \<Rightarrow> 0)"

lemma find_verdef_total:
  assumes "list_all (\<lambda>d. vd_version d = 1 \<and>
             (vd_flags d AND 1 \<noteq> 0 \<or> vd_cnt d \<noteq> 0 \<and> string_ok si (vda_name d))) ds"
    "c_string (vi_name vi)"
  shows "\<exists>v. find_verdef si vi ds = Inr v"
  using assms(1)
proof (induction ds)
  case (Cons d ds)
  show ?case
  proof (cases "string_ok si (vda_name d)")
    case True
    then have "get_string si (vda_name d) = Inr (drop (unat (vda_name d)) (si_strtab si))"
      using string_ok_bound by (simp add: get_string_def not_le)
    then show ?thesis
      using Cons True assms(2) by (auto simp: string_ok_def strcmp_eq_takeWhile)
  qed (use Cons in auto)
qed simp

lemma required_version_Inr:
  "verdefs_ok si \<Longrightarrow> version_request_ok vi \<Longrightarrow>
   find_verdef_version_index si vi = Inr (required_version si vi)"
  using find_verdef_total [of si "verdefs si" "the vi"]
  by (auto simp: required_version_def find_verdef_version_index_def verdefs_ok_def version_request_ok_def
      split: option.splits)

section \<open>The search over a list of libraries\<close>

text \<open>
  A library is well formed when its table is; one with a GNU table has no custom symbols,
  because the search over a list does not look at them there.
\<close>

definition library_wf :: "soinfo \<Rightarrow> bool" where
  "library_wf si \<longleftrightarrow>
     verdefs_ok si \<and>
     (if is_gnu_hash si then gnu_table_wf si \<and> custom_symbols si = Map.empty
      else if si_bucket si \<noteq> None then elf_table_wf si else True)"

definition exported :: "soinfo \<Rightarrow> string \<Rightarrow> version_info option \<Rightarrow> elf_sym option" where
  "exported si name vi =
     (case custom_symbols si name of
        Some es \<Rightarrow> Some es
      | None \<Rightarrow> map_option (\<lambda>n. si_symtab si ! n)
          (if is_gnu_hash si then gnu_symbol_of si name (required_version si vi)
           else if si_bucket si \<noteq> None then elf_symbol_of si name (required_version si vi) else None))"

fun first_export :: "soinfo list \<Rightarrow> string \<Rightarrow> version_info option \<Rightarrow> (soinfo \<times> elf_sym) option" where
  "first_export [] name vi = None"
| "first_export (si # sis) name vi =
     (case exported si name vi of Some es \<Rightarrow> Some (si, es) | None \<Rightarrow> first_export sis name vi)"

lemma find_symbol_by_name_exported:
  assumes "library_wf si" "c_string name" "version_request_ok vi"
  shows "find_symbol_by_name si name vi = Inr (exported si name vi)"
  using assms gnu_lookup_correct [of si name vi "required_version si vi"]
    elf_lookup_correct [of si name vi "required_version si vi"] required_version_Inr [of si vi]
  by (auto simp: find_symbol_by_name_def exported_def library_wf_def symbol_at_def split: option.splits if_splits)

lemma lib_gnu_search_exported:
  assumes "library_wf si" "c_string name" "version_request_ok vi" "is_gnu_hash si"
  shows "lib_gnu_search (get_lookup_lib si) name vi = Inr (exported si name vi)"
proof -
  have wf: "gnu_table_wf si" "verdefs_ok si" "custom_symbols si = Map.empty"
    using assms by (auto simp: library_wf_def)
  note v = required_version_Inr [OF wf(2) assms(3)]
  show ?thesis
    unfolding lib_gnu_search_correct [OF wf(1) assms(2) v assms(4)] gnu_lookup_correct [OF wf(1) assms(2) v]
    using wf(3) assms(4) by (simp add: symbol_at_def exported_def)
qed

lemma needs_sysv_lookup_iff [simp]: "needs_sysv_lookup (get_lookup_lib si) \<longleftrightarrow> \<not> is_gnu_hash si"
  by (simp add: needs_sysv_lookup_def get_lookup_lib_def)

lemma lib_si_get_lookup_lib [simp]: "lib_si (get_lookup_lib si) = si"
  by (simp add: get_lookup_lib_def)

lemma soinfo_do_lookup_impl_correct:
  assumes "list_all library_wf sis" "c_string name" "version_request_ok vi"
    "general \<or> list_all is_gnu_hash sis"
  shows "soinfo_do_lookup_impl general name vi (map get_lookup_lib sis) = Inr (first_export sis name vi)"
  using assms
proof (induction sis)
  case (Cons si sis)
  have "(if general \<and> needs_sysv_lookup (get_lookup_lib si) then find_symbol_by_name si name vi
         else lib_gnu_search (get_lookup_lib si) name vi) = Inr (exported si name vi)"
    using Cons.prems find_symbol_by_name_exported [of si] lib_gnu_search_exported [of si] by auto
  then show ?case
    using Cons by (auto split: option.splits)
qed simp

lemma slow_path_iff:
  "needs_slow_path (set_dt_symbolic_lib sy (symbol_lookup_list gs ls)) \<longleftrightarrow>
   \<not> list_all is_gnu_hash (case_option [] (\<lambda>s. [s]) sy @ gs @ ls)"
  by (auto simp: needs_slow_path_def set_dt_symbolic_lib_def symbol_lookup_list_def Let_def sysv_count_def
      filter_empty_conv list_all_iff length_greater_0_conv split: option.splits)

lemma searched_libs_map:
  "searched_libs (set_dt_symbolic_lib sy (symbol_lookup_list gs ls)) =
   map get_lookup_lib (case_option [] (\<lambda>s. [s]) sy @ gs @ ls)"
  by (simp add: searched_libs_def set_dt_symbolic_lib_def symbol_lookup_list_def Let_def split: option.splits)

text \<open>
  C4. Symbol resolution of the guest linker: for well-formed libraries the search over the
  \<^verbatim>\<open>DT_SYMBOLIC\<close> library, the global group and the local group returns the symbol of the first
  library that exports the name, whichever of the inlined GNU search and the general search
  is selected; it never fails and never runs forever.
\<close>

theorem symbol_resolution_correct:
  assumes "list_all library_wf (case_option [] (\<lambda>s. [s]) sy @ gs @ ls)" "c_string name"
    "version_request_ok vi"
  shows "soinfo_do_lookup name vi (set_dt_symbolic_lib sy (symbol_lookup_list gs ls)) =
         Inr (first_export (case_option [] (\<lambda>s. [s]) sy @ gs @ ls) name vi)"
  unfolding soinfo_do_lookup_def searched_libs_map
  using soinfo_do_lookup_impl_correct [OF assms] slow_path_iff [of sy gs ls] by blast


text \<open>A library with a GNU table of three symbols, one of them local, and an empty one.\<close>

definition demo_lib :: soinfo where
  "demo_lib = new_soinfo
     \<lparr>si_soname := ''libdemo.so'', si_flags := FLAG_LINKED OR FLAG_GNU_HASH, load_bias := 0x7f0000000000,
      si_strtab := [CHR 0x00] @ ''puts'' @ [CHR 0x00] @ ''free'' @ [CHR 0x00] @ ''__init'' @ [CHR 0x00],
      si_symtab := [\<lparr>st_name = 0, st_info = 0, st_shndx = 0, st_value = 0, st_size = 0\<rparr>,
        \<lparr>st_name = 1, st_info = 0x12, st_shndx = 7, st_value = 0x1000, st_size = 16\<rparr>,
        \<lparr>st_name = 6, st_info = 0x12, st_shndx = 7, st_value = 0x1010, st_size = 16\<rparr>,
        \<lparr>st_name = 11, st_info = 0x02, st_shndx = 7, st_value = 0x1020, st_size = 16\<rparr>],
      gnu_nbucket := 3, gnu_bucket := [1, 2, 0], gnu_symndx := 1, gnu_chain := [0x7c9c7b11, 0x7c96f086, 0xec6ba617],
      gnu_shift2 := 5, gnu_bloom_filter := [0x1000001820090]\<rparr>"

definition demo_empty_lib :: soinfo where
  "demo_empty_lib = empty_soinfo ''libempty.so''"

lemma demo_lib_table: "gnu_table_wf demo_lib \<and> is_gnu_hash demo_lib \<and> \<not> is_gnu_hash demo_empty_lib"
  by code_simp

lemma demo_lib_wf: "library_wf demo_lib \<and> library_wf demo_empty_lib"
  using demo_lib_table by (simp add: library_wf_def verdefs_ok_def) (simp add: demo_lib_def demo_empty_lib_def empty_soinfo_def new_soinfo_def)

lemma demo_lib_exports:
  "exported demo_empty_lib ''puts'' None = None \<and>
   exported demo_lib ''puts'' None = Some (si_symtab demo_lib ! 1)"
  by code_simp

theorem symbol_resolution_correct_witness:
  "soinfo_do_lookup ''puts'' None (set_dt_symbolic_lib None (symbol_lookup_list [demo_empty_lib] [demo_lib])) =
     Inr (Some (demo_lib, si_symtab demo_lib ! 1))"
proof -
  have "list_all library_wf (case_option [] (\<lambda>s. [s]) None @ [demo_empty_lib] @ [demo_lib])" "c_string ''puts''"
    "version_request_ok None"
    using demo_lib_wf by (simp_all add: c_string_def version_request_ok_def)
  then show ?thesis
    using symbol_resolution_correct [of None "[demo_empty_lib]" "[demo_lib]" "''puts''" None] demo_lib_exports
    by simp
qed

end
