(* ===== verification/Linker_Relocate.thy ===== *)
theory Linker_Relocate
  imports Linker_Tables Guest_Cpu
begin

unbundle bit_operations_syntax

text \<open>
  Relocation of a guest library (\<^verbatim>\<open>linker_relocate.cpp\<close>, \<^verbatim>\<open>linker_reloc_iterators.h\<close>,
  \<^verbatim>\<open>linker_sleb128.h\<close> and the version tracker and RELR parts of \<^verbatim>\<open>linker.cpp\<close> under
  \<^verbatim>\<open>src/subprojects/liblinker/external/bionic/linker\<close>).  The linker is built for an x86-64 host with
  the AArch64 relocation numbers.  A \<^verbatim>\<open>DL_ERR\<close> followed by \<^verbatim>\<open>return false\<close> makes every caller return
  false; it is the \<open>Runtime_error\<close> with the message.
\<close>

section \<open>The LEB128 decoder\<close>

text \<open>The decoder is the list of bytes still to be read; a shift by the word size is undefined.\<close>

fun sleb128_loop :: "u64 \<Rightarrow> nat \<Rightarrow> u8 list \<Rightarrow> (u64 \<times> u8 list) result" where
  "sleb128_loop value shift [] = Inl (Terminate ''sleb128_decoder ran out of bounds'')"
| "sleb128_loop value shift (byte # bs) =
     (if 64 \<le> shift then Inl Invalid_access
      else let value' = value OR push_bit shift (ucast (byte AND 127));
               shift' = shift + 7
           in if byte AND 128 \<noteq> 0 then sleb128_loop value' shift' bs
              else Inr (if shift' < 64 \<and> byte AND 64 \<noteq> 0 then value' OR - push_bit shift' 1 else value', bs))"

definition pop_front :: "u8 list \<Rightarrow> (u64 \<times> u8 list) result" where
  "pop_front bs = sleb128_loop 0 0 bs"

lemma sleb128_loop_consumes: "sleb128_loop v s bs = Inr (w, rest) \<Longrightarrow> length rest < length bs"
  by (induction bs arbitrary: v s) (fastforce simp: Let_def split: if_splits)+

lemma pop_front_consumes: "pop_front bs = Inr (w, rest) \<Longrightarrow> length rest < length bs"
  by (simp add: pop_front_def sleb128_loop_consumes)

section \<open>Packed relocations\<close>

abbreviation (input) GROUPED_BY_INFO :: u64 where "GROUPED_BY_INFO \<equiv> 1"
abbreviation (input) GROUPED_BY_OFFSET_DELTA :: u64 where "GROUPED_BY_OFFSET_DELTA \<equiv> 2"
abbreviation (input) GROUPED_BY_ADDEND :: u64 where "GROUPED_BY_ADDEND \<equiv> 4"
abbreviation (input) GROUP_HAS_ADDEND :: u64 where "GROUP_HAS_ADDEND \<equiv> 8"

text \<open>A field read from the stream only if a condition holds, otherwise the given value.\<close>

definition pop_if :: "bool \<Rightarrow> u64 \<Rightarrow> u8 list \<Rightarrow> (u64 \<times> u8 list) result" where
  "pop_if c v bs = (if c then pop_front bs else Inr (v, bs))"

fun packed_group ::
    "(rela \<Rightarrow> 's \<Rightarrow> 's result) \<Rightarrow> u64 \<Rightarrow> u64 \<Rightarrow> nat \<Rightarrow> rela \<Rightarrow> u8 list \<Rightarrow> 's \<Rightarrow> (rela \<times> u8 list \<times> 's) result" where
  "packed_group callback group_flags delta 0 reloc bs s = Inr (reloc, bs, s)"
| "packed_group callback group_flags delta (Suc i) reloc bs s =
     and_then (pop_if (group_flags AND GROUPED_BY_OFFSET_DELTA = 0) delta bs) (\<lambda>(d, bs1).
     and_then (pop_if (group_flags AND GROUPED_BY_INFO = 0) (r_info reloc) bs1) (\<lambda>(info, bs2).
     and_then (pop_if (group_flags AND (GROUP_HAS_ADDEND OR GROUPED_BY_ADDEND) = GROUP_HAS_ADDEND) 0 bs2) (\<lambda>(a, bs3).
     let reloc' = \<lparr>r_offset = r_offset reloc + d, r_info = info, r_addend = r_addend reloc + a\<rparr>
     in and_then (callback reloc' s) (\<lambda>s'. packed_group callback group_flags delta i reloc' bs3 s'))))"

definition group_header :: "rela \<Rightarrow> u8 list \<Rightarrow> (u64 \<times> u64 \<times> u64 \<times> rela \<times> u8 list) result" where
  "group_header reloc bs =
     and_then (pop_front bs) (\<lambda>(group_size, bs1).
     and_then (pop_front bs1) (\<lambda>(group_flags, bs2).
     and_then (pop_if (group_flags AND GROUPED_BY_OFFSET_DELTA \<noteq> 0) 0 bs2) (\<lambda>(delta, bs3).
     and_then (pop_if (group_flags AND GROUPED_BY_INFO \<noteq> 0) (r_info reloc) bs3) (\<lambda>(info, bs4).
     let fl = group_flags AND (GROUP_HAS_ADDEND OR GROUPED_BY_ADDEND)
     in and_then (if fl = GROUP_HAS_ADDEND then Inr (r_addend reloc, bs4)
                  else if fl = GROUP_HAS_ADDEND OR GROUPED_BY_ADDEND
                       then and_then (pop_front bs4) (\<lambda>(a, bs5). Inr (r_addend reloc + a, bs5))
                  else Inr (0, bs4)) (\<lambda>(addend, bs6).
        Inr (group_size, group_flags, delta, reloc\<lparr>r_info := info, r_addend := addend\<rparr>, bs6))))))"

lemma pop_if_consumes: "pop_if c v bs = Inr (w, rest) \<Longrightarrow> length rest \<le> length bs"
  using pop_front_consumes by (fastforce simp: pop_if_def split: if_splits)

lemma group_header_consumes:
  assumes "group_header reloc bs = Inr (gs, gf, d, reloc', rest)"
  shows "length rest < length bs"
  using assms
  by (auto simp: group_header_def and_then_eq_Inr Let_def split: if_splits
      dest!: pop_front_consumes pop_if_consumes)

lemma packed_group_consumes:
  "packed_group f gf d i reloc bs s = Inr (reloc', rest, s') \<Longrightarrow> length rest \<le> length bs"
proof (induction i arbitrary: reloc bs s)
  case (Suc i)
  then obtain b1 b2 b3 w1 w2 w3 reloc1 s1 where
    "pop_if (gf AND 2 = 0) d bs = Inr (w1, b1)"
    "pop_if (gf AND 1 = 0) (r_info reloc) b1 = Inr (w2, b2)"
    "pop_if (gf AND (8 OR 4) = 8) 0 b2 = Inr (w3, b3)"
    "packed_group f gf d i reloc1 b3 s1 = Inr (reloc', rest, s')"
    by (auto simp: and_then_eq_Inr Let_def)
  then show ?case using Suc.IH pop_if_consumes by (meson le_trans)
qed simp

text \<open>
  The loop over the groups: \<open>idx\<close> is the number of relocations done so far.  Every group reads
  at least its two header fields, so the bytes left bound the number of rounds.
\<close>

function packed_groups ::
    "(rela \<Rightarrow> 's \<Rightarrow> 's result) \<Rightarrow> u64 \<Rightarrow> u64 \<Rightarrow> rela \<Rightarrow> u8 list \<Rightarrow> 's \<Rightarrow> 's result" where
  "packed_groups callback idx num_relocs reloc bs s =
     (if \<not> idx < num_relocs then Inr s
      else and_then (group_header reloc bs) (\<lambda>(group_size, group_flags, delta, reloc1, bs1).
           and_then (packed_group callback group_flags delta (unat group_size) reloc1 bs1 s) (\<lambda>(reloc2, bs2, s').
           packed_groups callback (idx + group_size) num_relocs reloc2 bs2 s')))"
  by pat_completeness auto
termination
  by (relation "measure (\<lambda>(_, _, _, _, bs, _). length bs)")
     (auto dest!: group_header_consumes packed_group_consumes)

declare packed_groups.simps [simp del]

definition for_all_packed_relocs :: "u8 list \<Rightarrow> (rela \<Rightarrow> 's \<Rightarrow> 's result) \<Rightarrow> 's \<Rightarrow> 's result" where
  "for_all_packed_relocs bs callback s =
     and_then (pop_front bs) (\<lambda>(num_relocs, bs1).
     and_then (pop_front bs1) (\<lambda>(offset, bs2).
     packed_groups callback 0 num_relocs \<lparr>r_offset = offset, r_info = 0, r_addend = 0\<rparr> bs2 s))"

section \<open>The version tracker\<close>

definition cstr :: "string \<Rightarrow> string" where
  "cstr p = takeWhile (\<lambda>c. c \<noteq> CHR 0x00) p"

type_synonym version_tracker = "version_info option list"

definition add_version_info :: "nat \<Rightarrow> u32 \<Rightarrow> string \<Rightarrow> version_tracker \<Rightarrow> version_tracker" where
  "add_version_info source_index hash ver_name vs =
     (let vs' = (if length vs \<le> source_index then vs @ replicate (source_index + 1 - length vs) None else vs)
      in vs'[source_index := Some \<lparr>vi_elf_hash = hash, vi_name = ver_name\<rparr>])"

definition get_version_info :: "version_tracker \<Rightarrow> u16 \<Rightarrow> version_info option" where
  "get_version_info vs source_symver =
     (if source_symver < 2 \<or> length vs \<le> unat source_symver then None else vs ! unat source_symver)"

fun add_vernauxs :: "soinfo \<Rightarrow> vernaux list \<Rightarrow> version_tracker \<Rightarrow> version_tracker result" where
  "add_vernauxs si [] vs = Inr vs"
| "add_vernauxs si (x # xs) vs =
     and_then (get_string si (vna_name x)) (\<lambda>p.
     add_vernauxs si xs (add_version_info (unat (vna_other x)) (vna_hash x) (cstr p) vs))"

fun init_verneed :: "soinfo \<Rightarrow> verneed list \<Rightarrow> version_tracker \<Rightarrow> version_tracker result" where
  "init_verneed si [] vs = Inr vs"
| "init_verneed si (n # ns) vs =
     (if vn_version n \<noteq> 1 then Inl (Runtime_error ''unsupported verneed vn_version'')
      else and_then (get_string si (vn_file n)) (\<lambda>p.
           if cstr p \<notin> set (si_children si) then Inl (Runtime_error ''cannot find verneed library'')
           else and_then (add_vernauxs si (vn_auxs n) vs) (init_verneed si ns)))"

fun init_verdef :: "soinfo \<Rightarrow> verdef list \<Rightarrow> version_tracker \<Rightarrow> version_tracker result" where
  "init_verdef si [] vs = Inr vs"
| "init_verdef si (d # ds) vs =
     (if vd_version d \<noteq> 1 then Inl (Runtime_error ''unsupported verdef vd_version'')
      else if vd_flags d AND 1 \<noteq> 0 then init_verdef si ds vs
      else if vd_cnt d = 0 then Inl (Runtime_error ''invalid verdef vd_cnt'')
      else and_then (get_string si (vda_name d)) (\<lambda>p.
           init_verdef si ds (add_version_info (unat (vd_ndx d)) (vd_hash d) (cstr p) vs)))"

definition version_tracker_init :: "soinfo \<Rightarrow> version_tracker result" where
  "version_tracker_init si = and_then (init_verneed si (si_verneeds si) []) (init_verdef si (verdefs si))"

definition lookup_version_info :: "soinfo \<Rightarrow> version_tracker \<Rightarrow> u32 \<Rightarrow> version_info option result" where
  "lookup_version_info si vs s =
     and_then (case si_versym si of None \<Rightarrow> Inr 0 | Some t \<Rightarrow> vec_index t (unat s)) (\<lambda>sym_ver.
     if sym_ver \<noteq> 0 \<and> sym_ver \<noteq> 1 then
       (case get_version_info vs sym_ver of
          None \<Rightarrow> Inl (Runtime_error ''cannot find verneed/verdef for version index'')
        | Some vi \<Rightarrow> Inr (Some vi))
     else Inr None)"

section \<open>Relocations\<close>

abbreviation (input) R_GENERIC_NONE :: u32 where "R_GENERIC_NONE \<equiv> 0"
abbreviation (input) R_GENERIC_ABSOLUTE :: u32 where "R_GENERIC_ABSOLUTE \<equiv> 257"
abbreviation (input) R_GENERIC_COPY :: u32 where "R_GENERIC_COPY \<equiv> 1024"
abbreviation (input) R_GENERIC_GLOB_DAT :: u32 where "R_GENERIC_GLOB_DAT \<equiv> 1025"
abbreviation (input) R_GENERIC_JUMP_SLOT :: u32 where "R_GENERIC_JUMP_SLOT \<equiv> 1026"
abbreviation (input) R_GENERIC_RELATIVE :: u32 where "R_GENERIC_RELATIVE \<equiv> 1027"
abbreviation (input) R_GENERIC_TLS_DTPMOD :: u32 where "R_GENERIC_TLS_DTPMOD \<equiv> 1028"
abbreviation (input) R_GENERIC_TLS_DTPREL :: u32 where "R_GENERIC_TLS_DTPREL \<equiv> 1029"
abbreviation (input) R_GENERIC_TLS_TPREL :: u32 where "R_GENERIC_TLS_TPREL \<equiv> 1030"
abbreviation (input) R_GENERIC_TLSDESC :: u32 where "R_GENERIC_TLSDESC \<equiv> 1031"
abbreviation (input) R_GENERIC_IRELATIVE :: u32 where "R_GENERIC_IRELATIVE \<equiv> 1032"
abbreviation (input) R_X86_64_PC32 :: u32 where "R_X86_64_PC32 \<equiv> 2"
abbreviation (input) R_X86_64_32 :: u32 where "R_X86_64_32 \<equiv> 10"

definition is_tls_reloc :: "u32 \<Rightarrow> bool" where
  "is_tls_reloc t \<longleftrightarrow>
     t = R_GENERIC_TLS_DTPMOD \<or> t = R_GENERIC_TLS_DTPREL \<or> t = R_GENERIC_TLS_TPREL \<or> t = R_GENERIC_TLSDESC"

definition R_SYM :: "u64 \<Rightarrow> u32" where
  "R_SYM info = ucast (drop_bit 32 info)"

definition R_TYPE :: "u64 \<Rightarrow> u32" where
  "R_TYPE info = ucast info"

text \<open>The \<^verbatim>\<open>Relocator\<close> with the memory it writes; the statistics counters are left out.\<close>

record relocator =
  rl_si :: soinfo
  rl_versions :: version_tracker
  rl_lookup_list :: SymbolLookupList
  cache_sym_val :: u32
  cache_found :: "(soinfo \<times> elf_sym) option"
  rl_memory :: memory

definition lookup_symbol ::
    "u32 \<Rightarrow> string \<Rightarrow> relocator \<Rightarrow> ((soinfo \<times> elf_sym) option \<times> relocator) result" where
  "lookup_symbol r_sym sym_name rl =
     and_then
       (if r_sym = cache_sym_val rl then Inr (cache_found rl, rl)
        else and_then (lookup_version_info (rl_si rl) (rl_versions rl) r_sym) (\<lambda>vi.
             and_then (soinfo_do_lookup sym_name vi (rl_lookup_list rl)) (\<lambda>found.
             Inr (found, rl\<lparr>cache_sym_val := r_sym, cache_found := found\<rparr>)))) (\<lambda>(found, rl1).
     if found = None then
       and_then (vec_index (si_symtab (rl_si rl)) (unat r_sym)) (\<lambda>s.
       if ELF_ST_BIND (st_info s) \<noteq> STB_WEAK then Inl (Runtime_error ''cannot locate symbol'')
       else Inr (None, rl1))
     else Inr (found, rl1))"

datatype RelocMode = JumpTable | Typical | General

definition sym_name_of :: "soinfo \<Rightarrow> u32 \<Rightarrow> string result" where
  "sym_name_of si r_sym =
     (if r_sym = 0 then Inr []
      else and_then (vec_index (si_symtab si) (unat r_sym)) (\<lambda>s.
           and_then (get_string si (st_name s)) (\<lambda>p. Inr (cstr p))))"

text \<open>The symbol of a TLS relocation: where it was found and its offset in the segment.\<close>

definition tls_symbol :: "u32 \<Rightarrow> string \<Rightarrow> relocator \<Rightarrow> (soinfo option \<times> u64 \<times> relocator) result" where
  "tls_symbol r_sym sym_name rl =
     and_then
       (if r_sym = 0 then Inr (Some (rl_si rl), None, rl)
        else and_then (vec_index (si_symtab (rl_si rl)) (unat r_sym)) (\<lambda>s.
             if ELF_ST_BIND (st_info s) = STB_LOCAL
             then Inl (Runtime_error ''unexpected TLS reference to local symbol'')
             else and_then (lookup_symbol r_sym sym_name rl) (\<lambda>(found, rl1).
                  Inr (map_option fst found, map_option snd found, rl1)))) (\<lambda>(found_in, es, rl1).
     case found_in of
       Some lib \<Rightarrow>
         if si_tls lib = None then Inl (Runtime_error ''TLS relocation refers to a library with no TLS segment'')
         else (case es of
                 None \<Rightarrow> Inr (found_in, 0, rl1)
               | Some s \<Rightarrow> if ELF_ST_TYPE (st_info s) \<noteq> 6
                           then Inl (Runtime_error ''reference to non-TLS symbol'')
                           else Inr (found_in, st_value s, rl1))
     | None \<Rightarrow> Inr (None, 0, rl1))"

text \<open>
  The address of the symbol of any other relocation.  An undefined weak symbol is 0, except
  that a PC-relative relocation in the general mode uses its own target.
\<close>

definition plain_symbol ::
    "(u64 \<Rightarrow> u64) \<Rightarrow> bool \<Rightarrow> u32 \<Rightarrow> u32 \<Rightarrow> string \<Rightarrow> u64 \<Rightarrow> relocator \<Rightarrow>
     (soinfo option \<times> u64 \<times> relocator) result" where
  "plain_symbol ifunc general r_type r_sym sym_name rel_target rl =
     (if r_sym = 0 then Inr (None, 0, rl)
      else and_then (lookup_symbol r_sym sym_name rl) (\<lambda>(found, rl1).
           case found of
             Some (lib, s) \<Rightarrow> Inr (Some lib, resolve_symbol_address ifunc lib s, rl1)
           | None \<Rightarrow> Inr (None, if general \<and> r_type = R_X86_64_PC32 then rel_target else 0, rl1)))"

definition store_word :: "u64 \<Rightarrow> u64 \<Rightarrow> relocator \<Rightarrow> relocator" where
  "store_word target v rl = rl\<lparr>rl_memory := write_mem 8 target v (rl_memory rl)\<rparr>"

definition store_half :: "u64 \<Rightarrow> u32 \<Rightarrow> relocator \<Rightarrow> relocator" where
  "store_half target v rl = rl\<lparr>rl_memory := write_mem 4 target v (rl_memory rl)\<rparr>"

text \<open>
  The switch at the end of the general mode.  \<^verbatim>\<open>R_GENERIC_TLSDESC\<close> is compiled in only on an AArch64
  host, the x86-64 cases are compiled in on this one; \<^verbatim>\<open>TLS_DTV_OFFSET\<close> is 0.
\<close>

definition other_relocation ::
    "(u64 \<Rightarrow> u64) \<Rightarrow> u32 \<Rightarrow> soinfo option \<Rightarrow> u64 \<Rightarrow> u64 \<Rightarrow> u64 \<Rightarrow> relocator \<Rightarrow> relocator result" where
  "other_relocation ifunc r_type found_in sym_addr addend target rl =
     (if r_type = R_GENERIC_IRELATIVE then
        (if si_flags (rl_si rl) AND 0x10 \<noteq> 0 then Inr rl
         else Inr (store_word target (ifunc (load_bias (rl_si rl) + addend)) rl))
      else if r_type = R_GENERIC_COPY then Inl (Runtime_error ''COPY relocations are not supported'')
      else if r_type = R_GENERIC_TLS_TPREL then Inr (store_word target (sym_addr + addend) rl)
      else if r_type = R_GENERIC_TLS_DTPMOD then
        (case found_in of
           None \<Rightarrow> Inr (store_word target 0 rl)
         | Some lib \<Rightarrow>
             (case si_tls lib of
                None \<Rightarrow> Inl (Terminate ''CHECK get_tls'')
              | Some module_id \<Rightarrow> if module_id = 0 then Inl (Terminate ''CHECK module_id'')
                                 else Inr (store_word target module_id rl)))
      else if r_type = R_GENERIC_TLS_DTPREL then Inr (store_word target (sym_addr + addend) rl)
      else if r_type = R_X86_64_32 then Inr (store_half target (ucast (sym_addr + addend)) rl)
      else if r_type = R_X86_64_PC32 then Inr (store_half target (ucast (sym_addr + addend - target)) rl)
      else Inl (Runtime_error ''unknown reloc type''))"

function process_relocation_impl ::
    "RelocMode \<Rightarrow> (u64 \<Rightarrow> u64) \<Rightarrow> rela \<Rightarrow> relocator \<Rightarrow> relocator result" where
  "process_relocation_impl mode ifunc reloc rl =
     (let target = r_offset reloc + load_bias (rl_si rl);
          r_type = R_TYPE (r_info reloc);
          r_sym = R_SYM (r_info reloc);
          addend = r_addend reloc
      in and_then (sym_name_of (rl_si rl) r_sym) (\<lambda>sym_name.
         if r_type = R_GENERIC_NONE then Inr rl
         else if mode \<noteq> General \<and> is_tls_reloc r_type then process_relocation_impl General ifunc reloc rl
         else and_then (if is_tls_reloc r_type then tls_symbol r_sym sym_name rl
                        else plain_symbol ifunc (mode = General) r_type r_sym sym_name target rl)
                (\<lambda>(found_in, sym_addr, rl1).
              if mode \<noteq> Typical \<and> r_type = R_GENERIC_JUMP_SLOT then Inr (store_word target (sym_addr + addend) rl1)
              else if mode \<noteq> JumpTable \<and> r_type = R_GENERIC_ABSOLUTE then Inr (store_word target (sym_addr + addend) rl1)
              else if mode \<noteq> JumpTable \<and> r_type = R_GENERIC_GLOB_DAT then Inr (store_word target (sym_addr + addend) rl1)
              else if mode \<noteq> JumpTable \<and> r_type = R_GENERIC_RELATIVE
                then Inr (store_word target (load_bias (rl_si rl1) + addend) rl1)
              else if mode \<noteq> General then process_relocation_impl General ifunc reloc rl1
              else other_relocation ifunc r_type found_in sym_addr addend target rl1)))"
  by pat_completeness auto
termination
  by (relation "measure (\<lambda>(mode, _). if mode = General then 0 else 1)") auto

declare process_relocation_impl.simps [simp del]

definition process_relocation_general :: "(u64 \<Rightarrow> u64) \<Rightarrow> rela \<Rightarrow> relocator \<Rightarrow> relocator result" where
  "process_relocation_general = process_relocation_impl General"

definition process_relocation :: "RelocMode \<Rightarrow> (u64 \<Rightarrow> u64) \<Rightarrow> rela \<Rightarrow> relocator \<Rightarrow> relocator result" where
  "process_relocation mode ifunc reloc rl =
     (if mode = General then process_relocation_general ifunc reloc rl
      else process_relocation_impl mode ifunc reloc rl)"

fun plain_relocate_impl :: "RelocMode \<Rightarrow> (u64 \<Rightarrow> u64) \<Rightarrow> rela list \<Rightarrow> relocator \<Rightarrow> relocator result" where
  "plain_relocate_impl mode ifunc [] rl = Inr rl"
| "plain_relocate_impl mode ifunc (r # rs) rl =
     and_then (process_relocation mode ifunc r rl) (plain_relocate_impl mode ifunc rs)"

definition packed_relocate_impl :: "RelocMode \<Rightarrow> (u64 \<Rightarrow> u64) \<Rightarrow> u8 list \<Rightarrow> relocator \<Rightarrow> relocator result" where
  "packed_relocate_impl mode ifunc bs rl = for_all_packed_relocs bs (process_relocation mode ifunc) rl"

section \<open>RELR\<close>

definition apply_relr_reloc :: "u64 \<Rightarrow> u64 \<Rightarrow> memory \<Rightarrow> memory" where
  "apply_relr_reloc bias offset mem =
     write_mem 8 (offset + bias) (read_mem 8 (offset + bias) mem + bias) mem"

text \<open>The inner loop over the bits of a bitmap entry.\<close>

function relr_bitmap :: "u64 \<Rightarrow> u64 \<Rightarrow> u64 \<Rightarrow> memory \<Rightarrow> memory" where
  "relr_bitmap bias entry offset mem =
     (if entry = 0 then mem
      else let entry' = drop_bit 1 entry
           in relr_bitmap bias entry' (offset + 8)
                (if entry' AND 1 \<noteq> 0 then apply_relr_reloc bias offset mem else mem))"
  by pat_completeness auto
termination
proof (relation "measure (\<lambda>(_, entry, _, _). unat entry)", goal_cases)
  case (2 bias entry offset mem x)
  then have "unat (drop_bit 1 entry) < unat entry"
    by (simp add: drop_bit_eq_div unat_div_distrib unat_gt_0)
  then show ?case using 2 by simp
qed simp

declare relr_bitmap.simps [simp del]

fun relocate_relr :: "u64 \<Rightarrow> u64 list \<Rightarrow> u64 \<Rightarrow> memory \<Rightarrow> memory" where
  "relocate_relr bias [] base mem = mem"
| "relocate_relr bias (entry # es) base mem =
     (if entry AND 1 = 0 then relocate_relr bias es (entry + 8) (apply_relr_reloc bias entry mem)
      else relocate_relr bias es (base + (8 * 8 - 1) * 8) (relr_bitmap bias entry base mem))"

section \<open>Relocating a library\<close>

text \<open>
  \<^verbatim>\<open>soinfo::relocate\<close>.  \<^verbatim>\<open>g_is_ldd\<close> is false and tracing is off, so the optimised loops are used.
\<close>

definition relocate_packed :: "(u64 \<Rightarrow> u64) \<Rightarrow> relocator \<Rightarrow> relocator result" where
  "relocate_packed ifunc rl =
     (case si_android_relocs (rl_si rl) of
        None \<Rightarrow> Inr rl
      | Some bs \<Rightarrow>
          if 3 < length bs \<and> take 4 bs = [0x41, 0x50, 0x53, 0x32]
          then packed_relocate_impl Typical ifunc (drop 4 bs) rl
          else Inl (Runtime_error ''bad android relocation header.''))"

definition relocate_plain :: "RelocMode \<Rightarrow> (u64 \<Rightarrow> u64) \<Rightarrow> rela list option \<Rightarrow> relocator \<Rightarrow> relocator result" where
  "relocate_plain mode ifunc rs rl =
     (case rs of None \<Rightarrow> Inr rl | Some rs \<Rightarrow> plain_relocate_impl mode ifunc rs rl)"

definition relocate :: "(u64 \<Rightarrow> u64) \<Rightarrow> SymbolLookupList \<Rightarrow> soinfo \<Rightarrow> memory \<Rightarrow> memory result" where
  "relocate ifunc lookup_list si mem =
     and_then (version_tracker_init si) (\<lambda>versions.
     let mem1 = (case si_relr si of None \<Rightarrow> mem | Some es \<Rightarrow> relocate_relr (load_bias si) es 0 mem);
         rl = \<lparr>rl_si = si, rl_versions = versions, rl_lookup_list = lookup_list, cache_sym_val = 0,
               cache_found = None, rl_memory = mem1\<rparr>
     in and_then (relocate_packed ifunc rl) (\<lambda>rl1.
        and_then (relocate_plain Typical ifunc (si_rela si) rl1) (\<lambda>rl2.
        and_then (relocate_plain JumpTable ifunc (si_plt_rela si) rl2) (\<lambda>rl3.
        Inr (rl_memory rl3)))))"

end
