(* ===== verification/Linker_Binding.thy ===== *)
theory Linker_Binding
  imports Linker_Relocate
begin

unbundle bit_operations_syntax

text \<open>
  What relocation does: the LEB128 decoder inverts the encoding, the RELR table adds the load
  bias exactly to the words it lists, the optimised relocation modes agree with the general
  one, the one-entry symbol cache is transparent, and the relocations of a library leave the
  resolved addresses in their targets.
\<close>

section \<open>LEB128\<close>

text \<open>The encoding of signed numbers the decoder reads.\<close>

function sleb128_encode :: "int \<Rightarrow> u8 list" where
  "sleb128_encode x =
     (if x div 128 = 0 \<and> x mod 128 < 64 \<or> x div 128 = -1 \<and> 64 \<le> x mod 128
      then [of_int (x mod 128)]
      else (of_int (x mod 128) OR 128) # sleb128_encode (x div 128))"
  by pat_completeness auto
termination
proof (relation "measure (\<lambda>x. nat \<bar>x\<bar>)", goal_cases)
  case (2 x)
  have "\<bar>x div 128\<bar> < \<bar>x\<bar>"
  proof (cases "0 \<le> x")
    case True
    then show ?thesis using 2 by auto
  next
    case False
    have "x = 128 * (x div 128) + x mod 128" "0 \<le> x mod 128" "x mod 128 < 128" by simp_all
    moreover have "x div 128 \<le> -1" using False by auto
    moreover have "x div 128 = -1 \<Longrightarrow> x mod 128 < 64" using 2 by auto
    ultimately show ?thesis by (cases "x div 128 = -1") linarith+
  qed
  then show ?case by simp
qed simp

declare sleb128_encode.simps [simp del]

definition sleb_byte_ok :: "int \<Rightarrow> bool" where
  "sleb_byte_ok m \<longleftrightarrow>
     (let b = of_int m :: u8 in
      b AND 128 = 0 \<and> b AND 127 = b \<and> (b AND 64 \<noteq> 0 \<longleftrightarrow> 64 \<le> m) \<and>
      (b OR 128) AND 128 \<noteq> 0 \<and> (b OR 128) AND 127 = b \<and> (ucast b :: u64) = of_int m)"

lemma sleb_bytes: "list_all sleb_byte_ok [0..127]"
  by code_simp

lemma sleb_byte: "sleb_byte_ok (x mod 128)"
proof -
  have "x mod 128 \<in> set [0..127]" by auto
  then show ?thesis using sleb_bytes by (simp only: list_all_iff)
qed

lemma sleb_split: "(of_int x :: u64) = of_int (x mod 128) OR push_bit 7 (of_int (x div 128))"
proof -
  have "x = take_bit 7 x OR push_bit 7 (drop_bit 7 x)"
    by (rule bit_eqI) (simp add: bit_simps, metis le_add_diff_inverse not_less)
  then have "(of_int x :: u64) = of_int (take_bit 7 x OR push_bit 7 (drop_bit 7 x))" by simp
  then show ?thesis
    by (simp add: of_int_or_eq push_bit_of_int take_bit_eq_mod drop_bit_eq_div)
qed

lemma push_sleb_split:
  "push_bit s (of_int x :: u64) = push_bit s (of_int (x mod 128)) OR push_bit (s + 7) (of_int (x div 128))"
  by (subst sleb_split) (simp add: push_bit_or push_bit_push_bit add.commute)

lemma sleb_minus_one: "- push_bit n (1 :: u64) = push_bit n (- 1)"
  by (simp add: push_bit_minus)

lemma sleb128_loop_encode:
  assumes "s < 64" "- (2 ^ (63 - s)) \<le> x" "x < 2 ^ (63 - s)"
  shows "sleb128_loop v s (sleb128_encode x @ bs) = Inr (v OR push_bit s (of_int x), bs)"
  using assms
proof (induction x arbitrary: v s rule: sleb128_encode.induct)
  case (1 x)
  note byte = sleb_byte [of x, unfolded sleb_byte_ok_def Let_def]
  show ?case
  proof (cases "x div 128 = 0 \<and> x mod 128 < 64 \<or> x div 128 = -1 \<and> 64 \<le> x mod 128")
    case True
    then have enc: "sleb128_encode x = [of_int (x mod 128)]"
      by (subst sleb128_encode.simps) simp
    let ?m = "of_int (x mod 128) :: u64"
    have step: "sleb128_loop v s (sleb128_encode x @ bs) =
        Inr (if s + 7 < 64 \<and> 64 \<le> x mod 128 then (v OR push_bit s ?m) OR - push_bit (s + 7) 1
             else v OR push_bit s ?m, bs)"
      using "1.prems"(1) byte by (simp add: enc Let_def)
    from True show ?thesis
    proof
      assume "x div 128 = 0 \<and> x mod 128 < 64"
      then show ?thesis using step by (simp add: push_sleb_split [of s x])
    next
      assume m: "x div 128 = -1 \<and> 64 \<le> x mod 128"
      have "push_bit (s + 7) (- 1 :: u64) = (if s + 7 < 64 then - push_bit (s + 7) 1 else 0)"
        using sleb_minus_one [of "s + 7"] by (auto intro!: bit_eqI simp: bit_simps)
      then show ?thesis using step m by (simp add: push_sleb_split [of s x] or.assoc)
    qed
  next
    case False
    have small: "s + 7 < 64"
    proof (rule ccontr)
      assume "\<not> s + 7 < 64"
      then have "(2 :: int) ^ (63 - s) \<le> 2 ^ 6" by (intro power_increasing) auto
      then have "-64 \<le> x" "x < 64" using "1.prems" by auto
      then show False
        using False mod_pos_pos_trivial [of "x + 128" 128] div_mult_mod_eq [of x 128]
        by (cases "0 \<le> x") auto
    qed
    have e: "63 - s = 7 + (63 - (s + 7))" using small by simp
    have "- (2 ^ (63 - (s + 7))) \<le> x div 128" "x div 128 < 2 ^ (63 - (s + 7))"
      using "1.prems"(2,3) unfolding e power_add by auto
    then have "sleb128_loop v' (s + 7) (sleb128_encode (x div 128) @ bs) =
        Inr (v' OR push_bit (s + 7) (of_int (x div 128)), bs)" for v'
      using "1.IH" [OF False small] by blast
    moreover have "sleb128_encode x = (of_int (x mod 128) OR 128) # sleb128_encode (x div 128)"
      by (subst sleb128_encode.simps) (simp only: False if_False)
    ultimately show ?thesis
      using byte "1.prems"(1) by (simp add: push_sleb_split [of s x] or.assoc)
  qed
qed

text \<open>
  The decoder of packed relocation data inverts the signed LEB128 encoding: every 64-bit
  signed number is read back and exactly its bytes are consumed.
\<close>

theorem sleb128_round_trip:
  assumes "- (2 ^ 63) \<le> x" "x < 2 ^ 63"
  shows "pop_front (sleb128_encode x @ bs) = Inr (of_int x, bs)"
  using sleb128_loop_encode [of 0 x 0 bs] assms by (simp add: pop_front_def)

theorem sleb128_round_trip_witness:
  "pop_front (sleb128_encode (-624485) @ [7]) = Inr (of_int (-624485), [7])"
  using sleb128_round_trip [of "-624485" "[7]"] by simp

section \<open>RELR\<close>

text \<open>The offsets an entry stands for: bit \<open>i + 1\<close> of a bitmap is the word \<open>i\<close> from the base.\<close>

definition bitmap_offsets :: "u64 \<Rightarrow> u64 \<Rightarrow> u64 list" where
  "bitmap_offsets base entry =
     map (\<lambda>i. base + 8 * of_nat i) (filter (\<lambda>i. bit entry (Suc i)) [0..<64])"

fun relr_offsets :: "u64 list \<Rightarrow> u64 \<Rightarrow> u64 list" where
  "relr_offsets [] base = []"
| "relr_offsets (entry # es) base =
     (if entry AND 1 = 0 then entry # relr_offsets es (entry + 8)
      else bitmap_offsets base entry @ relr_offsets es (base + 504))"

lemma bitmap_offsets_step:
  "bitmap_offsets base entry =
     (if drop_bit 1 entry AND 1 \<noteq> 0 then [base] else []) @ bitmap_offsets (base + 8) (drop_bit 1 entry)"
proof -
  have split: "[0..<64] = 0 # map Suc [0..<63]" "[0..<64] = [0..<63] @ [63::nat]"
    by (simp_all add: map_Suc_upt upt_conv_Cons flip: upt_Suc_append)
  have top: "\<not> bit (drop_bit 1 entry) 64" by (auto simp: bit_simps dest: bit_imp_le_length)
  have "bitmap_offsets (base + 8) (drop_bit 1 entry) =
        map (\<lambda>i. base + 8 + 8 * of_nat i) (filter (\<lambda>i. bit entry (Suc (Suc i))) [0..<63])"
    unfolding bitmap_offsets_def split(2) using top by (simp add: bit_simps)
  moreover have "bitmap_offsets base entry =
        (if bit entry 1 then [base] else []) @
        map (\<lambda>i. base + 8 + 8 * of_nat i) (filter (\<lambda>i. bit entry (Suc (Suc i))) [0..<63])"
    unfolding bitmap_offsets_def split(1)
    by (simp add: filter_map o_def algebra_simps del: upt_Suc)
  moreover have "drop_bit 1 entry AND 1 \<noteq> 0 \<longleftrightarrow> bit entry 1"
    by (simp add: and_one_eq odd_iff_mod_2_eq_one bit_iff_odd_drop_bit)
  ultimately show ?thesis by simp
qed

lemma relr_bitmap_fold:
  "relr_bitmap bias entry offset mem = fold (apply_relr_reloc bias) (bitmap_offsets offset entry) mem"
proof (induction bias entry offset mem rule: relr_bitmap.induct)
  case (1 bias entry offset mem)
  show ?case
  proof (cases "entry = 0")
    case True
    then show ?thesis by (simp add: relr_bitmap.simps bitmap_offsets_def)
  next
    case False
    then show ?thesis
      using 1 [OF False refl]
      by (subst relr_bitmap.simps, subst bitmap_offsets_step) (simp add: Let_def)
  qed
qed

lemma relocate_relr_fold:
  "relocate_relr bias es base mem = fold (apply_relr_reloc bias) (relr_offsets es base) mem"
  by (induction es arbitrary: base mem) (auto simp: relr_bitmap_fold)

fun disjoint_words :: "u64 list \<Rightarrow> bool" where
  "disjoint_words [] = True"
| "disjoint_words (a # as) = (list_all (\<lambda>b. disjoint_blocks a 8 b 8) as \<and> disjoint_words as)"

lemma disjoint_blocks_sym: "disjoint_blocks a n b k = disjoint_blocks b k a n"
  by (auto simp: disjoint_blocks_def) metis+

lemma disjoint_blocks_shift: "disjoint_blocks (a + c) n (b + c) k = disjoint_blocks a n b k"
  by (simp add: disjoint_blocks_def add.assoc add.left_commute add.commute)

lemma read_relr_other:
  "disjoint_blocks a 8 (o1 + bias) 8 \<Longrightarrow>
   (read_mem 8 a (apply_relr_reloc bias o1 mem) :: u64) = read_mem 8 a mem"
  by (simp add: apply_relr_reloc_def read_write_other)

lemma fold_relr_other:
  "list_all (\<lambda>o1. disjoint_blocks a 8 (o1 + bias) 8) os \<Longrightarrow>
   (read_mem 8 a (fold (apply_relr_reloc bias) os mem) :: u64) = read_mem 8 a mem"
  by (induction os arbitrary: mem) (auto simp: read_relr_other)

lemma fold_relr_listed:
  assumes "disjoint_words os" "a \<in> set os"
  shows "(read_mem 8 (a + bias) (fold (apply_relr_reloc bias) os mem) :: u64) =
         read_mem 8 (a + bias) mem + bias"
  using assms
proof (induction os arbitrary: mem)
  case (Cons b bs)
  show ?case
  proof (cases "a = b")
    case True
    then have "list_all (\<lambda>o1. disjoint_blocks (b + bias) 8 (o1 + bias) 8) bs"
      using Cons.prems(1) by (simp add: disjoint_blocks_shift)
    then have "(read_mem 8 (b + bias) (fold (apply_relr_reloc bias) bs (apply_relr_reloc bias b mem)) :: u64) =
        read_mem 8 (b + bias) (apply_relr_reloc bias b mem)"
      by (rule fold_relr_other)
    moreover have "(read_mem 8 (b + bias) (apply_relr_reloc bias b mem) :: u64) = read_mem 8 (b + bias) mem + bias"
      by (simp add: apply_relr_reloc_def read_write_mem)
    ultimately show ?thesis using True by simp
  next
    case False
    then have a: "a \<in> set bs" using Cons.prems by simp
    then have "disjoint_blocks (a + bias) 8 (b + bias) 8"
      using Cons.prems(1) by (simp add: list_all_iff disjoint_blocks_shift disjoint_blocks_sym [of a])
    then show ?thesis
      using Cons.IH [OF _ a] Cons.prems(1) by (simp add: read_relr_other)
  qed
qed simp

text \<open>
  C7. The RELR relocations of a library: if the listed words do not overlap, each of them has
  the load bias added exactly once and no other word changes.
\<close>

theorem relr_adds_load_bias:
  assumes "disjoint_words (relr_offsets es 0)"
  shows "(a \<in> set (relr_offsets es 0) \<longrightarrow>
            (read_mem 8 (a + bias) (relocate_relr bias es 0 mem) :: u64) = read_mem 8 (a + bias) mem + bias) \<and>
         (list_all (\<lambda>o1. disjoint_blocks b 8 (o1 + bias) 8) (relr_offsets es 0) \<longrightarrow>
            (read_mem 8 b (relocate_relr bias es 0 mem) :: u64) = read_mem 8 b mem)"
  unfolding relocate_relr_fold using fold_relr_listed [OF assms] fold_relr_other by blast

lemma read_zero_memory: "read_mem n a (\<lambda>_. 0) = 0"
proof -
  have "word_of_bytes (load_bytes n a (\<lambda>_. 0)) = 0" by (induction n arbitrary: a) auto
  then show ?thesis by (simp add: read_mem_def)
qed

theorem relr_adds_load_bias_witness:
  "(read_mem 8 (0x1008 + 0x4000000) (relocate_relr 0x4000000 [0x1000, 7] 0 (\<lambda>_. 0)) :: u64) = 0x4000000 \<and>
   (read_mem 8 0x1008 (relocate_relr 0x4000000 [0x1000, 7] 0 (\<lambda>_. 0)) :: u64) = 0"
proof -
  have os: "relr_offsets [0x1000, 7] 0 = [0x1000, 0x1008, 0x1010]" by code_simp
  have w: "disjoint_words (relr_offsets [0x1000, 7] 0)"
    "list_all (\<lambda>o1. disjoint_blocks 0x1008 8 (o1 + 0x4000000) 8) (relr_offsets [0x1000, 7] 0)"
    unfolding os using disjoint_within [where x = "0x1000" and n = 8 and y = "0x1008" and k = 8 and base = 0] disjoint_within [where x = "0x1000" and n = 8 and y = "0x1010" and k = 8 and base = 0]
      disjoint_within [where x = "0x1008" and n = 8 and y = "0x1010" and k = 8 and base = 0] disjoint_within [where x = "0x1008" and n = 8 and y = "0x4001000" and k = 8 and base = 0]
      disjoint_within [where x = "0x1008" and n = 8 and y = "0x4001008" and k = 8 and base = 0] disjoint_within [where x = "0x1008" and n = 8 and y = "0x4001010" and k = 8 and base = 0]
    by simp_all
  show ?thesis
    using relr_adds_load_bias [OF w(1), of "0x1008" "0x4000000" "\<lambda>_. 0" "0x1008"] w(2) os
    by (simp add: read_zero_memory)
qed

section \<open>The relocation modes\<close>

text \<open>The general mode without the recursive calls, which it never reaches.\<close>

lemma process_general:
  "process_relocation_impl General ifunc reloc rl =
     (let target = r_offset reloc + load_bias (rl_si rl);
          r_type = R_TYPE (r_info reloc);
          r_sym = R_SYM (r_info reloc);
          addend = r_addend reloc
      in and_then (sym_name_of (rl_si rl) r_sym) (\<lambda>sym_name.
         if r_type = R_GENERIC_NONE then Inr rl
         else and_then (if is_tls_reloc r_type then tls_symbol r_sym sym_name rl
                        else plain_symbol ifunc True r_type r_sym sym_name target rl)
                (\<lambda>(found_in, sym_addr, rl1).
              if r_type = R_GENERIC_JUMP_SLOT \<or> r_type = R_GENERIC_ABSOLUTE \<or> r_type = R_GENERIC_GLOB_DAT
              then Inr (store_word target (sym_addr + addend) rl1)
              else if r_type = R_GENERIC_RELATIVE
                then Inr (store_word target (load_bias (rl_si rl1) + addend) rl1)
              else other_relocation ifunc r_type found_in sym_addr addend target rl1)))"
  by (subst process_relocation_impl.simps) (auto simp: Let_def intro!: and_then_cong)

lemma lookup_symbol_si: "lookup_symbol r n rl = Inr (f, rl1) \<Longrightarrow> rl_si rl1 = rl_si rl"
  by (auto simp: lookup_symbol_def and_then_eq_Inr split: if_splits)

lemma lookup_symbol_again:
  assumes "lookup_symbol r n rl = Inr (f, rl1)"
  shows "lookup_symbol r n rl1 = Inr (f, rl1)"
  using assms by (auto simp: lookup_symbol_def and_then_eq_Inr split: if_splits)

lemma plain_symbol_si: "plain_symbol ifunc g t r n tg rl = Inr (fi, a, rl1) \<Longrightarrow> rl_si rl1 = rl_si rl"
  by (auto simp: plain_symbol_def and_then_eq_Inr split: if_splits option.splits dest: lookup_symbol_si)

lemma plain_symbol_again:
  assumes "plain_symbol ifunc g t r n tg rl = Inr (fi, a, rl1)"
  shows "plain_symbol ifunc True t r n tg rl1 = plain_symbol ifunc True t r n tg rl"
proof (cases "r = 0")
  case True
  then show ?thesis using assms by (simp add: plain_symbol_def)
next
  case False
  then obtain f where "lookup_symbol r n rl = Inr (f, rl1)"
    using assms by (auto simp: plain_symbol_def and_then_eq_Inr split: option.splits)
  then show ?thesis using False lookup_symbol_again by (simp add: plain_symbol_def)
qed

text \<open>A general pass after the symbol has been looked up once is the general pass.\<close>

lemma general_after_lookup:
  assumes name: "sym_name_of (rl_si rl) (R_SYM (r_info reloc)) = Inr n"
    and tls: "\<not> is_tls_reloc (R_TYPE (r_info reloc))"
    and look: "plain_symbol ifunc g (R_TYPE (r_info reloc)) (R_SYM (r_info reloc)) n
                 (r_offset reloc + load_bias (rl_si rl)) rl = Inr (fi, a, rl1)"
    and none: "R_TYPE (r_info reloc) \<noteq> R_GENERIC_NONE"
  shows "process_relocation_impl General ifunc reloc rl1 = process_relocation_impl General ifunc reloc rl"
  unfolding process_general
  using name tls none plain_symbol_si [OF look] plain_symbol_again [OF look]
  by (simp add: Let_def)

lemma plain_symbol_mode:
  "t \<noteq> R_X86_64_PC32 \<Longrightarrow> plain_symbol ifunc g t r n tg rl = plain_symbol ifunc True t r n tg rl"
  by (simp add: plain_symbol_def)

text \<open>A relocation that a mode handles itself is handled as in the general mode.\<close>

definition handled_by :: "RelocMode \<Rightarrow> u32 \<Rightarrow> bool" where
  "handled_by mode t \<longleftrightarrow>
     (mode \<noteq> Typical \<and> t = R_GENERIC_JUMP_SLOT) \<or>
     (mode \<noteq> JumpTable \<and> (t = R_GENERIC_ABSOLUTE \<or> t = R_GENERIC_GLOB_DAT \<or> t = R_GENERIC_RELATIVE))"

lemma handled_mode:
  assumes "handled_by mode (R_TYPE (r_info reloc))"
  shows "process_relocation_impl mode ifunc reloc rl = process_relocation_impl General ifunc reloc rl"
proof -
  have t: "\<not> is_tls_reloc (R_TYPE (r_info reloc))" "R_TYPE (r_info reloc) \<noteq> R_GENERIC_NONE"
    "R_TYPE (r_info reloc) \<noteq> R_X86_64_PC32"
    using assms by (auto simp: handled_by_def is_tls_reloc_def)
  show ?thesis
    unfolding process_general using assms t plain_symbol_mode [OF t(3)]
    by (subst process_relocation_impl.simps) (auto simp: Let_def handled_by_def intro!: and_then_cong)
qed

lemma unhandled_mode:
  assumes "\<not> handled_by mode (R_TYPE (r_info reloc))" "mode \<noteq> General"
  shows "process_relocation_impl mode ifunc reloc rl = process_relocation_impl General ifunc reloc rl"
proof (cases "sym_name_of (rl_si rl) (R_SYM (r_info reloc))")
  case (Inl e)
  then show ?thesis by (subst process_relocation_impl.simps) (simp add: process_general Let_def)
next
  case name: (Inr n)
  let ?t = "R_TYPE (r_info reloc)" and ?s = "R_SYM (r_info reloc)"
  let ?tg = "r_offset reloc + load_bias (rl_si rl)"
  show ?thesis
  proof (cases "?t = R_GENERIC_NONE \<or> is_tls_reloc ?t")
    case True
    then show ?thesis
      using name assms(2)
      by (subst process_relocation_impl.simps)
         (auto simp: Let_def process_general)
  next
    case False
    have eq: "process_relocation_impl mode ifunc reloc rl =
        and_then (plain_symbol ifunc False ?t ?s n ?tg rl)
          (\<lambda>(fi, a, rl1). process_relocation_impl General ifunc reloc rl1)"
      using name assms False
      by (subst process_relocation_impl.simps) (auto simp: Let_def handled_by_def intro!: and_then_cong)
    show ?thesis
    proof (cases "plain_symbol ifunc False ?t ?s n ?tg rl")
      case (Inl e)
      then have "plain_symbol ifunc True ?t ?s n ?tg rl = Inl e"
        by (auto simp: plain_symbol_def and_then_eq_Inl split: if_splits option.splits)
      then show ?thesis
        using Inl eq name False by (simp add: process_general Let_def)
    next
      case (Inr x)
      obtain fi a rl1 where x: "x = (fi, a, rl1)" by (cases x) auto
      show ?thesis
        unfolding eq Inr x using general_after_lookup [OF name _ Inr [unfolded x]] False by simp
    qed
  qed
qed

lemma process_relocation_general_mode:
  "process_relocation mode ifunc = process_relocation General ifunc"
  using handled_mode unhandled_mode
  by (intro ext) (metis process_relocation_def process_relocation_general_def)

text \<open>
  The optimised relocation loops: for every relocation table, plain or packed, the fast
  modes for jump slots and for the typical types leave the same memory, cache and errors as
  the general mode.
\<close>

theorem relocation_modes_agree:
  "plain_relocate_impl mode ifunc rs rl = plain_relocate_impl General ifunc rs rl \<and>
   packed_relocate_impl mode ifunc bs rl = packed_relocate_impl General ifunc bs rl"
proof -
  have "plain_relocate_impl mode ifunc rs rl = plain_relocate_impl General ifunc rs rl"
  proof (induction rs arbitrary: rl)
    case (Cons r rs)
    then show ?case
      by (simp add: process_relocation_general_mode [of mode] cong: and_then_cong)
  qed simp
  then show ?thesis
    by (simp add: packed_relocate_impl_def process_relocation_general_mode [of mode])
qed

section \<open>The symbol cache\<close>

definition reloc_name :: "soinfo \<Rightarrow> u32 \<Rightarrow> string" where
  "reloc_name si r = symbol_string si (si_symtab si ! unat r)"

definition wanted_version :: "soinfo \<Rightarrow> version_tracker \<Rightarrow> u32 \<Rightarrow> version_info option" where
  "wanted_version si vs r = (case lookup_version_info si vs r of Inr vi \<Rightarrow> vi | Inl _ \<Rightarrow> None)"

definition resolved :: "soinfo list \<Rightarrow> soinfo \<Rightarrow> version_tracker \<Rightarrow> u32 \<Rightarrow> (soinfo \<times> elf_sym) option" where
  "resolved libs si vs r = first_export libs (reloc_name si r) (wanted_version si vs r)"

definition cache_ok :: "soinfo list \<Rightarrow> relocator \<Rightarrow> bool" where
  "cache_ok libs rl \<longleftrightarrow>
     (cache_sym_val rl \<noteq> 0 \<longrightarrow> cache_found rl = resolved libs (rl_si rl) (rl_versions rl) (cache_sym_val rl))"

text \<open>
  A symbol a relocation may name: its name and version request are readable, and some library
  exports it or the reference is weak.
\<close>

definition symbol_available :: "soinfo list \<Rightarrow> soinfo \<Rightarrow> version_tracker \<Rightarrow> u32 \<Rightarrow> bool" where
  "symbol_available libs si vs r \<longleftrightarrow>
     unat r < length (si_symtab si) \<and> string_ok si (st_name (si_symtab si ! unat r)) \<and>
     (case lookup_version_info si vs r of Inr vi \<Rightarrow> version_request_ok vi | Inl _ \<Rightarrow> False) \<and>
     (resolved libs si vs r \<noteq> None \<or> ELF_ST_BIND (st_info (si_symtab si ! unat r)) = STB_WEAK)"

lemma c_string_symbol: "c_string (symbol_string si s)"
  by (auto simp: c_string_def symbol_string_def list_all_iff dest: set_takeWhileD)

lemma sym_name_of_available:
  assumes "symbol_available libs si vs r" "r \<noteq> 0"
  shows "sym_name_of si r = Inr (reloc_name si r)"
  using assms string_ok_bound [of si "st_name (si_symtab si ! unat r)"]
  by (simp add: symbol_available_def sym_name_of_def get_string_def reloc_name_def symbol_string_def
      cstr_def not_le)

text \<open>A relocator that searches the given libraries, all of them well formed.\<close>

definition searches :: "soinfo list \<Rightarrow> relocator \<Rightarrow> bool" where
  "searches libs rl \<longleftrightarrow>
     list_all library_wf libs \<and>
     (\<exists>sy gs ls. rl_lookup_list rl = set_dt_symbolic_lib sy (symbol_lookup_list gs ls) \<and>
                 libs = case_option [] (\<lambda>s. [s]) sy @ gs @ ls)"

lemma searches_lookup:
  assumes "searches libs rl" "c_string name" "version_request_ok vi"
  shows "soinfo_do_lookup name vi (rl_lookup_list rl) = Inr (first_export libs name vi)"
proof -
  obtain sy gs ls where l: "rl_lookup_list rl = set_dt_symbolic_lib sy (symbol_lookup_list gs ls)"
    "libs = case_option [] (\<lambda>s. [s]) sy @ gs @ ls"
    using assms(1) by (auto simp: searches_def)
  then have "list_all library_wf (case_option [] (\<lambda>s. [s]) sy @ gs @ ls)"
    using assms(1) by (simp add: searches_def)
  then show ?thesis
    unfolding l soinfo_do_lookup_def searched_libs_map
    using soinfo_do_lookup_impl_correct assms(2,3) slow_path_iff [of sy gs ls] by blast
qed

definition same_relocator :: "relocator \<Rightarrow> relocator \<Rightarrow> bool" where
  "same_relocator rl rl' \<longleftrightarrow>
     rl_si rl' = rl_si rl \<and> rl_versions rl' = rl_versions rl \<and> rl_lookup_list rl' = rl_lookup_list rl"

lemma lookup_symbol_correct:
  assumes s: "searches libs rl" and c: "cache_ok libs rl" and r: "r \<noteq> 0"
    and a: "symbol_available libs (rl_si rl) (rl_versions rl) r"
  shows "\<exists>rl1. lookup_symbol r (reloc_name (rl_si rl) r) rl =
                 Inr (resolved libs (rl_si rl) (rl_versions rl) r, rl1) \<and>
               same_relocator rl rl1 \<and> cache_ok libs rl1 \<and> rl_memory rl1 = rl_memory rl"
proof -
  let ?f = "resolved libs (rl_si rl) (rl_versions rl) r"
  obtain vi where vi: "lookup_version_info (rl_si rl) (rl_versions rl) r = Inr vi" "version_request_ok vi"
    using a by (auto simp: symbol_available_def split: sum.splits)
  have look: "soinfo_do_lookup (reloc_name (rl_si rl) r) vi (rl_lookup_list rl) = Inr ?f"
    using searches_lookup [OF s c_string_symbol vi(2)] vi(1)
    by (simp add: resolved_def wanted_version_def reloc_name_def)
  let ?rl1 = "if r = cache_sym_val rl then rl else rl\<lparr>cache_sym_val := r, cache_found := ?f\<rparr>"
  have "(if r = cache_sym_val rl then Inr (cache_found rl, rl)
         else and_then (lookup_version_info (rl_si rl) (rl_versions rl) r) (\<lambda>vi.
              and_then (soinfo_do_lookup (reloc_name (rl_si rl) r) vi (rl_lookup_list rl)) (\<lambda>found.
              Inr (found, rl\<lparr>cache_sym_val := r, cache_found := found\<rparr>)))) = Inr (?f, ?rl1)"
    using c r look vi(1) by (auto simp: cache_ok_def)
  then have "lookup_symbol r (reloc_name (rl_si rl) r) rl = Inr (?f, ?rl1)"
    using a unfolding lookup_symbol_def by (auto simp: symbol_available_def)
  moreover have "same_relocator rl ?rl1" "cache_ok libs ?rl1" "rl_memory ?rl1 = rl_memory rl"
    using c by (simp_all add: same_relocator_def cache_ok_def)
  ultimately show ?thesis by blast
qed

section \<open>Binding\<close>

text \<open>The value the relocation types of linked libraries ask for.\<close>

definition symbol_value :: "(u64 \<Rightarrow> u64) \<Rightarrow> soinfo list \<Rightarrow> soinfo \<Rightarrow> version_tracker \<Rightarrow> u32 \<Rightarrow> u64" where
  "symbol_value ifunc libs si vs r =
     (if r = 0 then 0
      else case resolved libs si vs r of None \<Rightarrow> 0 | Some (lib, s) \<Rightarrow> resolve_symbol_address ifunc lib s)"

definition reloc_value :: "(u64 \<Rightarrow> u64) \<Rightarrow> soinfo list \<Rightarrow> soinfo \<Rightarrow> version_tracker \<Rightarrow> rela \<Rightarrow> u64" where
  "reloc_value ifunc libs si vs reloc =
     (if R_TYPE (r_info reloc) = R_GENERIC_RELATIVE then load_bias si + r_addend reloc
      else symbol_value ifunc libs si vs (R_SYM (r_info reloc)) + r_addend reloc)"

definition bindable :: "soinfo list \<Rightarrow> soinfo \<Rightarrow> version_tracker \<Rightarrow> rela \<Rightarrow> bool" where
  "bindable libs si vs reloc \<longleftrightarrow>
     handled_by General (R_TYPE (r_info reloc)) \<and>
     (R_SYM (r_info reloc) = 0 \<or> symbol_available libs si vs (R_SYM (r_info reloc)))"

definition reloc_target :: "soinfo \<Rightarrow> rela \<Rightarrow> u64" where
  "reloc_target si reloc = r_offset reloc + load_bias si"

lemma plain_symbol_correct:
  assumes "searches libs rl" "cache_ok libs rl" "t \<noteq> R_X86_64_PC32"
    and "r = 0 \<or> symbol_available libs (rl_si rl) (rl_versions rl) r"
  shows "\<exists>fi rl1. sym_name_of (rl_si rl) r = Inr (if r = 0 then [] else reloc_name (rl_si rl) r) \<and>
           plain_symbol ifunc True t r (if r = 0 then [] else reloc_name (rl_si rl) r) tg rl =
             Inr (fi, symbol_value ifunc libs (rl_si rl) (rl_versions rl) r, rl1) \<and>
           same_relocator rl rl1 \<and> cache_ok libs rl1 \<and> rl_memory rl1 = rl_memory rl"
proof (cases "r = 0")
  case True
  then show ?thesis
    using assms(2) by (simp add: sym_name_of_def plain_symbol_def symbol_value_def same_relocator_def)
next
  case False
  then show ?thesis
    using lookup_symbol_correct [OF assms(1,2) False] assms(3,4) sym_name_of_available [OF _ False]
    by (fastforce simp: plain_symbol_def symbol_value_def split: option.splits)
qed

lemma process_relocation_binds:
  assumes "searches libs rl" "cache_ok libs rl" "bindable libs (rl_si rl) (rl_versions rl) reloc"
  shows "\<exists>rl'. process_relocation mode ifunc reloc rl = Inr rl' \<and> same_relocator rl rl' \<and> cache_ok libs rl' \<and>
           rl_memory rl' = write_mem 8 (reloc_target (rl_si rl) reloc)
             (reloc_value ifunc libs (rl_si rl) (rl_versions rl) reloc) (rl_memory rl)"
proof -
  let ?t = "R_TYPE (r_info reloc)" and ?r = "R_SYM (r_info reloc)"
  have t: "?t \<noteq> R_X86_64_PC32" "?t \<noteq> R_GENERIC_NONE" "\<not> is_tls_reloc ?t"
    "?t = R_GENERIC_JUMP_SLOT \<or> ?t = R_GENERIC_ABSOLUTE \<or> ?t = R_GENERIC_GLOB_DAT \<or> ?t = R_GENERIC_RELATIVE"
    using assms(3) by (auto simp: bindable_def handled_by_def is_tls_reloc_def)
  obtain fi rl1 where l: "sym_name_of (rl_si rl) ?r = Inr (if ?r = 0 then [] else reloc_name (rl_si rl) ?r)"
    "plain_symbol ifunc True ?t ?r (if ?r = 0 then [] else reloc_name (rl_si rl) ?r)
       (reloc_target (rl_si rl) reloc) rl =
       Inr (fi, symbol_value ifunc libs (rl_si rl) (rl_versions rl) ?r, rl1)"
    "same_relocator rl rl1" "cache_ok libs rl1" "rl_memory rl1 = rl_memory rl"
    using plain_symbol_correct [OF assms(1,2) t(1), of ?r] assms(3) unfolding bindable_def by metis
  let ?rl' = "store_word (reloc_target (rl_si rl) reloc)
    (reloc_value ifunc libs (rl_si rl) (rl_versions rl) reloc) rl1"
  have "process_relocation_impl General ifunc reloc rl = Inr ?rl'"
    using l t unfolding process_general reloc_target_def
    by (auto simp: Let_def reloc_value_def same_relocator_def)
  moreover have "process_relocation mode ifunc reloc rl = process_relocation_impl General ifunc reloc rl"
    by (simp add: process_relocation_general_mode [of mode] process_relocation_def process_relocation_general_def)
  moreover have "same_relocator rl ?rl'" "cache_ok libs ?rl'" "rl_memory ?rl' = write_mem 8
      (reloc_target (rl_si rl) reloc) (reloc_value ifunc libs (rl_si rl) (rl_versions rl) reloc) (rl_memory rl)"
    using l(3-5) by (simp_all add: store_word_def same_relocator_def cache_ok_def)
  ultimately show ?thesis by auto
qed

lemma searches_same: "searches libs rl \<Longrightarrow> same_relocator rl rl' \<Longrightarrow> searches libs rl'"
  by (simp add: searches_def same_relocator_def)

lemma plain_relocate_binds:
  assumes "searches libs rl" "cache_ok libs rl"
    and "list_all (bindable libs (rl_si rl) (rl_versions rl)) rs"
  shows "\<exists>rl'. plain_relocate_impl mode ifunc rs rl = Inr rl' \<and> same_relocator rl rl' \<and> cache_ok libs rl' \<and>
           rl_memory rl' = fold (\<lambda>r. write_mem 8 (reloc_target (rl_si rl) r)
             (reloc_value ifunc libs (rl_si rl) (rl_versions rl) r)) rs (rl_memory rl)"
  using assms
proof (induction rs arbitrary: rl)
  case (Cons r rs)
  have "bindable libs (rl_si rl) (rl_versions rl) r" using Cons.prems(3) by simp
  from process_relocation_binds [OF Cons.prems(1,2) this, of mode ifunc]
  obtain rl1 where rl1: "process_relocation mode ifunc r rl = Inr rl1" "same_relocator rl rl1" "cache_ok libs rl1"
    "rl_memory rl1 = write_mem 8 (reloc_target (rl_si rl) r)
       (reloc_value ifunc libs (rl_si rl) (rl_versions rl) r) (rl_memory rl)"
    by blast
  have eq: "rl_si rl1 = rl_si rl" "rl_versions rl1 = rl_versions rl"
    using rl1(2) by (simp_all add: same_relocator_def)
  from Cons.IH [OF searches_same [OF Cons.prems(1) rl1(2)] rl1(3)]
  obtain rl2 where "plain_relocate_impl mode ifunc rs rl1 = Inr rl2" "same_relocator rl1 rl2" "cache_ok libs rl2"
    "rl_memory rl2 = fold (\<lambda>r. write_mem 8 (reloc_target (rl_si rl) r)
       (reloc_value ifunc libs (rl_si rl) (rl_versions rl) r)) rs (rl_memory rl1)"
    using Cons.prems(3) eq by auto
  then show ?case using rl1 by (auto simp: same_relocator_def)
qed (simp add: same_relocator_def)

lemma fold_write_other:
  "list_all (\<lambda>r. disjoint_blocks a 8 (f r) 8) rs \<Longrightarrow>
   (read_mem 8 a (fold (\<lambda>r. write_mem 8 (f r) (v r)) rs mem) :: u64) = read_mem 8 a mem"
  by (induction rs arbitrary: mem) (auto simp: read_write_other)

lemma fold_write_listed:
  fixes v :: "'r \<Rightarrow> u64"
  assumes "disjoint_words (map f rs)" "r \<in> set rs"
  shows "(read_mem 8 (f r) (fold (\<lambda>r. write_mem 8 (f r) (v r)) rs mem) :: u64) = v r"
  using assms
proof (induction rs arbitrary: mem)
  case (Cons b bs)
  show ?case
  proof (cases "r = b")
    case True
    then have "list_all (\<lambda>q. disjoint_blocks (f r) 8 (f q) 8) bs"
      using Cons.prems(1) by (simp add: list_all_iff)
    then show ?thesis
      using True fold_write_other [of "f r" f bs v] by (simp add: read_write_mem)
  next
    case False
    then show ?thesis using Cons by simp
  qed
qed simp

definition relocation_list :: "rela list option \<Rightarrow> rela list" where
  "relocation_list rs = (case rs of None \<Rightarrow> [] | Some rs \<Rightarrow> rs)"

lemma relocate_plain_list: "relocate_plain mode ifunc rs rl = plain_relocate_impl mode ifunc (relocation_list rs) rl"
  by (simp add: relocate_plain_def relocation_list_def split: option.splits)

lemma relocate_writes_values:
  assumes "version_tracker_init si = Inr vs" "si_android_relocs si = None"
    and "list_all library_wf (case_option [] (\<lambda>s. [s]) sy @ gs @ ls)"
    and "rs = relocation_list (si_rela si) @ relocation_list (si_plt_rela si)"
    and "list_all (bindable (case_option [] (\<lambda>s. [s]) sy @ gs @ ls) si vs) rs"
    and "disjoint_words (map (reloc_target si) rs)"
  shows "\<exists>mem'. relocate ifunc (set_dt_symbolic_lib sy (symbol_lookup_list gs ls)) si mem = Inr mem' \<and>
           (\<forall>r \<in> set rs. (read_mem 8 (reloc_target si r) mem' :: u64) =
              reloc_value ifunc (case_option [] (\<lambda>s. [s]) sy @ gs @ ls) si vs r)"
proof -
  let ?libs = "case_option [] (\<lambda>s. [s]) sy @ gs @ ls" and ?ll = "set_dt_symbolic_lib sy (symbol_lookup_list gs ls)"
  let ?w = "\<lambda>r. write_mem 8 (reloc_target si r) (reloc_value ifunc ?libs si vs r)"
  define rl where "rl = \<lparr>rl_si = si, rl_versions = vs, rl_lookup_list = ?ll, cache_sym_val = 0, cache_found = None,
    rl_memory = (case si_relr si of None \<Rightarrow> mem | Some es \<Rightarrow> relocate_relr (load_bias si) es 0 mem)\<rparr>"
  have rl: "searches ?libs rl" "cache_ok ?libs rl" "rl_si rl = si" "rl_versions rl = vs"
    using assms(3) by (auto simp: searches_def cache_ok_def rl_def)
  have b: "list_all (bindable ?libs (rl_si rl) (rl_versions rl)) (relocation_list (si_rela si))"
    using assms(4,5) rl(3,4) by simp
  obtain rl1 where 1: "plain_relocate_impl Typical ifunc (relocation_list (si_rela si)) rl = Inr rl1"
    "same_relocator rl rl1" "cache_ok ?libs rl1" "rl_memory rl1 = fold ?w (relocation_list (si_rela si)) (rl_memory rl)"
    using plain_relocate_binds [OF rl(1,2) b, of Typical ifunc] rl(3,4) by auto
  have rl1: "rl_si rl1 = si" "rl_versions rl1 = vs" using 1(2) rl(3,4) by (simp_all add: same_relocator_def)
  have b2: "list_all (bindable ?libs (rl_si rl1) (rl_versions rl1)) (relocation_list (si_plt_rela si))"
    using assms(4,5) rl1 by simp
  obtain rl2 where 2: "plain_relocate_impl JumpTable ifunc (relocation_list (si_plt_rela si)) rl1 = Inr rl2"
    "rl_memory rl2 = fold ?w (relocation_list (si_plt_rela si)) (rl_memory rl1)"
    using plain_relocate_binds [OF searches_same [OF rl(1) 1(2)] 1(3) b2, of JumpTable ifunc] rl1 by auto
  have "relocate ifunc ?ll si mem = Inr (rl_memory rl2)"
    using 1(1) 2(1) assms(1,2) rl(3)
    by (simp add: relocate_def relocate_packed_def relocate_plain_list flip: rl_def)
  moreover have "rl_memory rl2 = fold ?w rs (rl_memory rl)"
    using 1(4) 2(2) assms(4) by simp
  ultimately show ?thesis
    using fold_write_listed [OF assms(6)] by auto
qed

text \<open>
  C5. Linking binds symbols: when the libraries searched are well formed, every relocation is of
  one of the types of linked code with an available symbol, and no two targets overlap,
  relocating the library succeeds and afterwards every target holds the address of the symbol
  of the first exporting library (or 0 for an undefined weak symbol), respectively the load
  bias, plus the addend.
\<close>

theorem relocation_binds_symbols:
  assumes "version_tracker_init si = Inr vs" "si_android_relocs si = None"
    and "list_all library_wf (case_option [] (\<lambda>s. [s]) sy @ gs @ ls)"
    and "rs = relocation_list (si_rela si) @ relocation_list (si_plt_rela si)"
    and "list_all (bindable (case_option [] (\<lambda>s. [s]) sy @ gs @ ls) si vs) rs"
    and "disjoint_words (map (reloc_target si) rs)"
  shows "\<exists>mem'. relocate ifunc (set_dt_symbolic_lib sy (symbol_lookup_list gs ls)) si mem = Inr mem' \<and>
           (\<forall>r \<in> set rs. (read_mem 8 (reloc_target si r) mem' :: u64) =
              reloc_value ifunc (case_option [] (\<lambda>s. [s]) sy @ gs @ ls) si vs r)"
  using relocate_writes_values [OF assms] .

text \<open>A library with a jump slot for an imported function and a relative relocation.\<close>

definition demo_client :: soinfo where
  "demo_client = new_soinfo
     \<lparr>si_soname := ''libclient.so'', load_bias := 0x7e0000000000,
      si_strtab := [CHR 0x00] @ ''puts'' @ [CHR 0x00],
      si_symtab := [\<lparr>st_name = 0, st_info = 0, st_shndx = 0, st_value = 0, st_size = 0\<rparr>,
        \<lparr>st_name = 1, st_info = 0x12, st_shndx = 0, st_value = 0, st_size = 0\<rparr>],
      si_rela := Some [\<lparr>r_offset = 0x2008, r_info = 1027, r_addend = 0x40\<rparr>],
      si_plt_rela := Some [\<lparr>r_offset = 0x2000, r_info = 0x100000402, r_addend = 0\<rparr>]\<rparr>"

lemma demo_client_values:
  "version_tracker_init demo_client = Inr [] \<and>
   map (reloc_target demo_client)
     (relocation_list (si_rela demo_client) @ relocation_list (si_plt_rela demo_client)) =
     [0x7e0000002008, 0x7e0000002000] \<and>
   list_all (bindable [demo_empty_lib, demo_lib] demo_client [])
     (relocation_list (si_rela demo_client) @ relocation_list (si_plt_rela demo_client)) \<and>
   map (reloc_value (\<lambda>a. a) [demo_empty_lib, demo_lib] demo_client [])
     (relocation_list (si_rela demo_client) @ relocation_list (si_plt_rela demo_client)) =
     [0x7e0000000040, 0x7f0000001000]"
  by code_simp

theorem relocation_binds_symbols_witness:
  "\<exists>mem'. relocate (\<lambda>a. a) (set_dt_symbolic_lib None (symbol_lookup_list [demo_empty_lib] [demo_lib]))
            demo_client (\<lambda>_. 0) = Inr mem' \<and>
          (read_mem 8 0x7e0000002000 mem' :: u64) = 0x7f0000001000 \<and>
          (read_mem 8 0x7e0000002008 mem' :: u64) = 0x7e0000000040"
proof -
  let ?rs = "relocation_list (si_rela demo_client) @ relocation_list (si_plt_rela demo_client)"
  have d: "disjoint_words (map (reloc_target demo_client) ?rs)"
    using disjoint_within [where x = "0x2008" and n = 8 and y = "0x2000" and k = 8 and base = "0x7e0000000000"]
      demo_client_values by simp
  have wf: "list_all library_wf (case_option [] (\<lambda>s. [s]) None @ [demo_empty_lib] @ [demo_lib])"
    "list_all (bindable (case_option [] (\<lambda>s. [s]) None @ [demo_empty_lib] @ [demo_lib]) demo_client []) ?rs"
    using demo_lib_wf demo_client_values by simp_all
  have v: "version_tracker_init demo_client = Inr []" "si_android_relocs demo_client = None"
    using demo_client_values by (simp_all add: demo_client_def new_soinfo_def)
  obtain mem' where mem': "relocate (\<lambda>a. a) (set_dt_symbolic_lib None (symbol_lookup_list [demo_empty_lib] [demo_lib]))
      demo_client (\<lambda>_. 0) = Inr mem'"
    "\<forall>r \<in> set ?rs. (read_mem 8 (reloc_target demo_client r) mem' :: u64) =
       reloc_value (\<lambda>a. a) [demo_empty_lib, demo_lib] demo_client [] r"
    using relocation_binds_symbols [OF v wf(1) refl wf(2) d, of "\<lambda>a. a" "\<lambda>_. 0"] by auto
  have "map (\<lambda>a. read_mem 8 a mem' :: u64) (map (reloc_target demo_client) ?rs) =
      map (reloc_value (\<lambda>a. a) [demo_empty_lib, demo_lib] demo_client []) ?rs"
    using mem'(2) by (simp add: comp_def)
  then show ?thesis
    unfolding demo_client_values [THEN conjunct2, THEN conjunct1]
      demo_client_values [THEN conjunct2, THEN conjunct2, THEN conjunct2]
    using mem'(1) by simp
qed

end
