(* ===== verification/Symbol_Data.thy ===== *)
theory Symbol_Data
  imports Function_Traits
begin

text \<open>
  The tables of symbols Sober exports to the guest: the host libraries under \<^verbatim>\<open>src/src/libs\<close>, the C
  library shim under \<^verbatim>\<open>src/src/vendor/libc-shim\<close> and the loader functions of \<^verbatim>\<open>libdl.cpp\<close>, in the order
  of the source.  An entry is the tag, the exported name and the C++ expression it stands for; the
  preprocessor branches are those of an x86-64 Linux build, where \<^verbatim>\<open>WithErrnoUpdate\<close> and
  \<^verbatim>\<open>ARMHFREWRITE\<close> expand to their argument.  What the compiler makes of an expression (its address and
  type) is the parameter \<open>decl\<close> of \<open>symbol_of\<close>.
\<close>

type_synonym symbol_entry = "bool \<times> string \<times> string"

definition sym_of :: "string \<Rightarrow> symbol_entry" where
  "sym_of name = (False, name, name)"

definition sym_as :: "string \<Rightarrow> string \<Rightarrow> symbol_entry" where
  "sym_as name expr = (False, name, expr)"

definition effect :: "string \<Rightarrow> string \<Rightarrow> symbol_entry" where
  "effect name expr = (True, name, expr)"

text \<open>The two Android entries of the Vulkan table have the type of a void function.\<close>

definition vulkan_entry :: "string \<Rightarrow> symbol_entry" where
  "vulkan_entry name =
     (False, name,
      if name = ''vkGetAndroidHardwareBufferPropertiesANDROID'' \<or> name = ''vkGetMemoryAndroidHardwareBufferANDROID''
      then ''PFN_vkVoidFunction'' else ''PFN_'' @ name)"

text \<open>
  The overloads of the constructor of \<^verbatim>\<open>dynamic_symbol\<close>: an object pointer, a function, a function
  with an ellipsis.
\<close>

datatype cxx_decl =
    Object u64
  | Func u64 cxx_type "cxx_type list"
  | Variadic u64 cxx_type "cxx_type list"

type_synonym declarations = "string \<Rightarrow> cxx_decl"

definition symbol_of :: "declarations \<Rightarrow> symbol_entry \<Rightarrow> dynamic_symbol" where
  "symbol_of decl e =
     (case e of (tagged, name, expr) \<Rightarrow>
        let tag = (if tagged then HasExecutionSideEffects else TagNone)
        in case decl expr of
             Object v \<Rightarrow> dynamic_symbol_data name v
           | Func p ret args \<Rightarrow> dynamic_symbol_tagged tag name p ret args
           | Variadic p ret args \<Rightarrow> dynamic_symbol_tagged_ellipsis tag name p ret args)"

lemma sym_name_symbol_of [simp]: "sym_name (symbol_of decl (t, n, e)) = n"
  by (simp add: symbol_of_def Let_def dynamic_symbol_data_def dynamic_symbol_tagged_def
      dynamic_symbol_tagged_ellipsis_def dynamic_symbol_function_def dynamic_symbol_ellipsis_def split: cxx_decl.splits)

section \<open>The C library shim\<close>

definition add_common_shimmed_symbols :: "symbol_entry list" where
  "add_common_shimmed_symbols =
     [sym_as ''environ'' ''&environ'', sym_as ''__errno'' ''bionic::get_errno'',
      sym_as ''__set_errno'' ''bionic::set_errno'',
      sym_as ''__stack_chk_fail'' ''bionic::on_stack_chk_fail'',
      sym_as ''__stack_chk_guard'' ''&bionic::stack_chk_guard'', sym_as ''__assert'' ''assert_impl'',
      sym_as ''__assert2'' ''assert2_impl'', sym_of ''android_set_abort_message'',
      sym_as ''__cxa_atexit'' ''atexit_impl'', sym_as ''__cxa_finalize'' ''::__cxa_finalize'',
      sym_of ''setpriority'']"

definition add_stdlib_shimmed_symbols :: "symbol_entry list" where
  "add_stdlib_shimmed_symbols =
     [sym_as ''abort'' ''lambda abort'', sym_as ''atexit'' ''lambda atexit'',
      sym_as ''exit'' ''lambda exit'', sym_as ''_Exit'' ''lambda _Exit'', sym_of ''system'',
      sym_of ''getenv'', sym_of ''putenv'', sym_of ''setenv'', sym_of ''unsetenv'', sym_of ''random'',
      sym_of ''srandom'', sym_of ''initstate'', sym_of ''setstate'', sym_of ''rand'', sym_of ''srand'',
      sym_of ''rand_r'', sym_of ''drand48'', sym_of ''erand48'', sym_of ''lrand48'',
      sym_of ''nrand48'', sym_of ''mrand48'', sym_of ''jrand48'', sym_of ''srand48'',
      sym_of ''seed48'', sym_of ''lcong48'', sym_of ''arc4random_buf'', sym_of ''isnan'',
      sym_of ''atof'', sym_of ''atoi'', sym_of ''atol'', sym_of ''atoll'', sym_of ''strtod'',
      sym_of ''strtof'', sym_of ''strtold'', sym_of ''strtol'', sym_of ''strtoul'',
      sym_of ''strtoul_l'', sym_of ''strtoq'', sym_of ''strtouq'', sym_of ''strtoll'',
      sym_of ''strtoll_l'', sym_of ''strtoull'', sym_of ''strtoull_l'', sym_of ''strtof_l'',
      sym_of ''strtold_l'', sym_of ''strtoumax'', sym_of ''strtoimax'', sym_of ''realpath'',
      effect ''bsearch'' ''bsearch_impl'', effect ''qsort'' ''qsort_impl'', sym_of ''mblen'',
      sym_of ''mbtowc'', sym_of ''wctomb'', sym_of ''mbstowcs'', sym_of ''wcstombs'',
      sym_of ''wcsrtombs'']"

definition add_malloc_shimmed_symbols :: "symbol_entry list" where
  "add_malloc_shimmed_symbols =
     [sym_as ''malloc'' ''::malloc'', sym_as ''malloc_usable_size'' ''::malloc_usable_size'',
      sym_of ''mallinfo'', sym_as ''free'' ''::free'', sym_as ''calloc'' ''::calloc'',
      sym_as ''realloc'' ''::realloc'', sym_as ''valloc'' ''::valloc'', sym_of ''memalign'',
      sym_as ''posix_memalign'' ''::posix_memalign'',
      sym_as ''_Znwj'' ''(void *(*)(size_t)) ::operator new'',
      sym_as ''_ZdlPv'' ''(void (*)(void *)) ::operator delete'']"

definition add_ctype_shimmed_symbols :: "symbol_entry list" where
  "add_ctype_shimmed_symbols =
     [sym_as ''_tolower_tab_'' ''&_tolower_tab_'', sym_as ''_toupper_tab_'' ''&_toupper_tab_'',
      sym_as ''_ctype_'' ''&_ctype_'', sym_of ''isalnum'', sym_of ''isalpha'', sym_of ''isblank'',
      sym_of ''iscntrl'', sym_of ''isdigit'', sym_of ''isgraph'', sym_of ''islower'',
      sym_of ''isprint'', sym_of ''ispunct'', sym_of ''isspace'', sym_of ''isupper'',
      sym_of ''isxdigit'', sym_of ''isascii'', sym_as ''isxdigit_l'' ''::isxdigit_l'',
      sym_as ''isdigit_l'' ''::isxdigit_l'', sym_as ''tolower'' ''::tolower'',
      sym_as ''toupper'' ''::toupper'', sym_as ''__ctype_get_mb_cur_max'' ''ctype_get_mb_cur_max'']"

definition add_math_shimmed_symbols :: "symbol_entry list" where
  "add_math_shimmed_symbols =
     [sym_as ''ldexp'' ''((double(&)(double, int)) ::ldexp)'']"

definition add_time_shimmed_symbols :: "symbol_entry list" where
  "add_time_shimmed_symbols =
     [sym_of ''gettimeofday'', sym_as ''clock'' ''::clock'', sym_as ''time'' ''::time'',
      sym_as ''difftime'' ''::difftime'', sym_as ''mktime'' ''::mktime'',
      sym_as ''strftime'' ''::strftime'', sym_as ''strptime'' ''::strptime'',
      sym_as ''strftime_l'' ''::strftime_l'', sym_as ''strptime_l'' ''::strptime_l'',
      sym_as ''gmtime'' ''::gmtime'', sym_as ''gmtime_r'' ''::gmtime_r'',
      sym_as ''localtime'' ''::localtime'', sym_as ''localtime_r'' ''::localtime_r'',
      sym_as ''asctime'' ''::asctime'', sym_as ''ctime'' ''::ctime'',
      sym_as ''asctime_r'' ''::asctime_r'', sym_as ''ctime_r'' ''::ctime_r'',
      sym_as ''tzname'' ''::tzname'', sym_as ''tzset'' ''::tzset'',
      sym_as ''daylight'' ''&::daylight'', sym_as ''timezone'' ''&::timezone'',
      sym_as ''nanosleep'' ''::nanosleep'', sym_as ''clock_gettime'' ''::clock_gettime'']"

definition add_sched_shimmed_symbols :: "symbol_entry list" where
  "add_sched_shimmed_symbols =
     [sym_as ''sched_yield'' ''::sched_yield'', sym_of ''sched_setaffinity'',
      sym_of ''sched_setscheduler'', sym_of ''sched_getscheduler'', sym_of ''sched_getparam'',
      sym_of ''sched_setparam'', sym_of ''sched_getcpu'']"

definition add_unistd_shimmed_symbols :: "symbol_entry list" where
  "add_unistd_shimmed_symbols =
     [sym_as ''optarg'' ''&optarg'', sym_as ''optind'' ''&optind'', sym_of ''getopt_long'',
      sym_as ''access'' ''IOREWRITE1(::access)'', sym_as ''lseek'' ''::lseek'',
      sym_as ''close'' ''::close'', sym_as ''read'' ''::read'', sym_of ''__read_chk'',
      sym_of ''__write_chk'', sym_of ''__recvfrom_chk'', sym_of ''__sendto_chk'',
      sym_as ''write'' ''::write'', sym_as ''pipe'' ''::pipe'', sym_as ''alarm'' ''::alarm'',
      sym_as ''sleep'' ''::sleep'', sym_as ''usleep'' ''::usleep'', sym_as ''pause'' ''::pause'',
      sym_as ''chown'' ''IOREWRITE1(::chown)'', sym_as ''fchown'' ''::fchown'',
      sym_as ''lchown'' ''IOREWRITE1(::lchown)'', sym_as ''chdir'' ''IOREWRITE1(::chdir)'',
      sym_as ''fchdir'' ''::fchdir'', sym_as ''getcwd'' ''::getcwd'', sym_as ''dup'' ''::dup'',
      sym_as ''dup2'' ''::dup2'', sym_as ''execv'' ''lambda execv'',
      sym_as ''execve'' ''lambda execve'', sym_as ''execle'' ''lambda execle'',
      sym_as ''execl'' ''lambda execl'', sym_as ''execvp'' ''lambda execvp'',
      sym_as ''execlp'' ''lambda execlp'', sym_as ''nice'' ''::nice'',
      sym_as ''_exit'' ''lambda _exit'', sym_of ''getchar'', sym_as ''getuid'' ''::getuid'',
      sym_as ''getpid'' ''::getpid'', sym_as ''getgid'' ''::getgid'', sym_as ''getppid'' ''::getppid'',
      sym_as ''getpgrp'' ''::getpgrp'', sym_as ''geteuid'' ''::geteuid'',
      sym_as ''getegid'' ''::getegid'', sym_as ''fork'' ''lambda fork'',
      sym_as ''vfork'' ''lambda vfork'', sym_as ''isatty'' ''::isatty'',
      sym_as ''link'' ''IOREWRITE2(::link)'', sym_as ''symlink'' ''IOREWRITE2(::symlink)'',
      sym_as ''readlink'' ''::readlink'', sym_of ''__readlink_chk'',
      sym_as ''unlink'' ''IOREWRITE1(::unlink)'', sym_as ''rmdir'' ''IOREWRITE1(::rmdir)'',
      sym_as ''gethostname'' ''::gethostname'', sym_as ''fsync'' ''::fsync'',
      sym_as ''sync'' ''::sync'', sym_as ''getpagesize'' ''::getpagesize'',
      sym_as ''getdtablesize'' ''::getdtablesize'', sym_as ''syscall'' ''fakesyscall'',
      sym_of ''getrandom'', sym_of ''gettid'', sym_of ''sched_get_priority_min'',
      sym_of ''sched_get_priority_max'', sym_as ''lockf'' ''::lockf'', sym_as ''swab'' ''::swab'',
      sym_as ''pathconf'' ''::pathconf'', sym_as ''truncate'' ''::truncate'', sym_of ''fdatasync'',
      sym_of ''ftruncate'', sym_of ''pread'', sym_of ''pread64'', sym_of ''pwrite'',
      sym_of ''pwrite64'']"

definition add_signal_shimmed_symbols :: "symbol_entry list" where
  "add_signal_shimmed_symbols =
     [sym_as ''signal'' ''lambda signal'', sym_as ''bsd_signal'' ''lambda bsd_signal'',
      sym_as ''kill'' ''lambda kill'', sym_as ''killpg'' ''lambda killpg'',
      sym_as ''raise'' ''::raise'', sym_as ''sigaction'' ''lambda sigaction'',
      sym_as ''sigprocmask'' ''lambda sigprocmask'',
      sym_as ''pthread_sigmask'' ''lambda pthread_sigmask'',
      sym_as ''sigemptyset'' ''lambda sigemptyset'', sym_as ''sigfillset'' ''lambda sigfillset'',
      sym_as ''sigaddset'' ''lambda sigaddset'', sym_as ''sigdelset'' ''lambda sigdelset'',
      sym_as ''sigaltstack'' ''lambda sigaltstack'']"

definition add_string_shimmed_symbols :: "symbol_entry list" where
  "add_string_shimmed_symbols =
     [sym_as ''memccpy'' ''::memccpy'',
      sym_as ''memchr'' ''(void *(*)(void *, int, size_t)) ::memchr'',
      sym_as ''memcmp'' ''(int (*)(const void *, const void *, size_t)) ::memcmp'',
      sym_as ''memcpy'' ''::memcpy'', sym_of ''__memcpy_chk'', sym_as ''memmove'' ''::memmove'',
      sym_of ''__memmove_chk'', sym_as ''memset'' ''::memset'',
      sym_as ''__memset_chk'' ''::__memset_chk'', sym_as ''memmem'' ''::memmem'',
      sym_of ''__vsprintf_chk'', sym_as ''strchr'' ''(char *(*)(char *, int)) ::strchr'',
      sym_as ''strrchr'' ''(char *(*)(char *, int)) ::strrchr'', sym_as ''strlen'' ''::strlen'',
      sym_as ''__strlen_chk'' ''strlen_chk'', sym_as ''__strchr_chk'' ''strchr_chk'',
      sym_as ''__strrchr_chk'' ''strrchr_chk'', sym_as ''strcmp'' ''::strcmp'',
      sym_as ''strcpy'' ''::strcpy'', sym_of ''__strcpy_chk'', sym_as ''strcat'' ''::strcat'',
      sym_as ''strdup'' ''::strdup'', sym_as ''strstr'' ''(char *(*)(char *, const char *)) ::strstr'',
      sym_as ''strtok'' ''::strtok'', sym_as ''strtok_r'' ''::strtok_r'', sym_of ''strerror'',
      sym_of ''strerror_r'', sym_as ''strnlen'' ''::strnlen'', sym_as ''strncat'' ''::strncat'',
      sym_as ''strndup'' ''::strndup'', sym_as ''strncmp'' ''::strncmp'',
      sym_as ''strncpy'' ''::strncpy'', sym_of ''__strcat_chk'', sym_of ''__strncat_chk'',
      sym_of ''__strncpy_chk'', sym_of ''__strncpy_chk2'', sym_as ''strlcpy'' ''bionic::strlcpy'',
      sym_as ''strcspn'' ''::strcspn'',
      sym_as ''strpbrk'' ''(char *(*)(char *, const char *)) ::strpbrk'',
      sym_as ''strsep'' ''::strsep'', sym_as ''strspn'' ''::strspn'',
      sym_as ''strsignal'' ''::strsignal'', sym_as ''strcoll'' ''::strcoll'',
      sym_as ''strxfrm'' ''::strxfrm'', sym_as ''strcoll_l'' ''::strcoll_l'',
      sym_as ''strxfrm_l'' ''::strxfrm_l'', sym_as ''islower_l'' ''::islower_l'',
      sym_as ''isupper_l'' ''::isupper_l'', sym_as ''tolower_l'' ''::tolower_l'',
      sym_as ''toupper_l'' ''::toupper_l'',
      sym_as ''memchr'' ''(void* (*)(void *s, int c, size_t n))::memchr'',
      sym_as ''memrchr'' ''(void* (*)(void *s, int c, size_t n))::memrchr'',
      sym_as ''bcmp'' ''::bcmp'', sym_as ''bcopy'' ''::bcopy'', sym_as ''bzero'' ''::bzero'',
      sym_as ''ffs'' ''::ffs'', sym_as ''index'' ''::index'', sym_as ''rindex'' ''::rindex'',
      sym_as ''strcasecmp'' ''::strcasecmp'', sym_as ''strncasecmp'' ''::strncasecmp'']"

definition add_wchar_shimmed_symbols :: "symbol_entry list" where
  "add_wchar_shimmed_symbols =
     [sym_as ''wcscat'' ''::wcscat'', sym_as ''wcscpy'' ''::wcscpy'', sym_as ''wcscmp'' ''::wcscmp'',
      sym_as ''wcslen'' ''::wcslen'', sym_as ''wctob'' ''::wctob'', sym_as ''btowc'' ''::btowc'',
      sym_as ''wmemchr'' ''(wchar_t *(*)(wchar_t *, wchar_t, size_t)) ::wmemchr'',
      sym_as ''wmemcmp'' ''::wmemcmp'', sym_as ''wmemcpy'' ''::wmemcpy'',
      sym_as ''wmemset'' ''::wmemset'', sym_as ''wmemmove'' ''::wmemmove'',
      sym_as ''wcrtomb'' ''::wcrtomb'', sym_as ''mbrtowc'' ''::mbrtowc'',
      sym_as ''wcscoll'' ''::wcscoll'', sym_as ''wcsxfrm'' ''::wcsxfrm'',
      sym_as ''wcsftime'' ''::wcsftime'', sym_as ''mbsrtowcs'' ''::mbsrtowcs'',
      sym_as ''mbsnrtowcs'' ''::mbsnrtowcs'', sym_as ''wcsnrtombs'' ''::wcsnrtombs'',
      sym_of ''mbrlen'', sym_of ''wcstol'', sym_of ''wcstoul'', sym_of ''wcstoll'',
      sym_of ''wcstoull'', sym_of ''wcstof'', sym_of ''wcstod'', sym_of ''wcstold'',
      sym_of ''swprintf'', sym_as ''wcscoll_l'' ''::wcscoll_l'', sym_as ''wcsxfrm_l'' ''::wcsxfrm_l'',
      sym_as ''wctype'' ''::wctype'', sym_as ''iswspace'' ''::iswspace'',
      sym_as ''iswctype'' ''::iswctype'', sym_as ''towlower'' ''::towlower'',
      sym_as ''towlower_l'' ''::towlower_l'', sym_as ''towupper'' ''::towupper'',
      sym_as ''towupper_l'' ''::towupper_l'', sym_of ''iswlower'',
      sym_as ''iswlower_l'' ''::iswlower_l'', sym_of ''iswprint'',
      sym_as ''iswprint_l'' ''::iswprint_l'', sym_of ''iswblank'',
      sym_as ''iswblank_l'' ''::iswblank_l'', sym_of ''iswcntrl'',
      sym_as ''iswcntrl_l'' ''::iswcntrl_l'', sym_of ''iswupper'',
      sym_as ''iswupper_l'' ''::iswupper_l'', sym_of ''iswalpha'',
      sym_as ''iswalpha_l'' ''::iswalpha_l'', sym_of ''iswdigit'',
      sym_as ''iswdigit_l'' ''::iswdigit_l'', sym_of ''iswpunct'',
      sym_as ''iswpunct_l'' ''::iswpunct_l'', sym_of ''iswxdigit'',
      sym_as ''iswxdigit_l'' ''::iswxdigit_l'', sym_as ''iswspace_l'' ''::iswspace_l'']"

definition add_pthread_shimmed_symbols :: "symbol_entry list" where
  "add_pthread_shimmed_symbols =
     [sym_of ''pthread_create'', sym_as ''pthread_equal'' ''::pthread_equal'',
      sym_as ''pthread_join'' ''::pthread_join'', sym_as ''pthread_detach'' ''::pthread_detach'',
      sym_as ''pthread_kill'' ''::pthread_kill'', sym_as ''pthread_self'' ''::pthread_self'',
      sym_as ''pthread_atfork'' ''::pthread_atfork'', sym_of ''pthread_setschedparam'',
      sym_of ''pthread_getschedparam'', sym_of ''pthread_getattr_np'', sym_of ''pthread_attr_init'',
      sym_of ''pthread_attr_destroy'', sym_of ''pthread_attr_setdetachstate'',
      sym_of ''pthread_attr_getdetachstate'', sym_of ''pthread_attr_setschedparam'',
      sym_of ''pthread_attr_getschedparam'', sym_of ''pthread_attr_setstacksize'',
      sym_of ''pthread_attr_getstack'', sym_of ''pthread_attr_getstacksize'',
      sym_of ''pthread_attr_setguardsize'', sym_of ''pthread_attr_getguardsize'',
      sym_of ''pthread_setname_np'', sym_of ''pthread_mutex_init'', sym_of ''pthread_mutex_destroy'',
      sym_of ''pthread_mutex_lock'', sym_of ''pthread_mutex_unlock'', sym_of ''pthread_mutex_trylock'',
      sym_of ''pthread_mutexattr_init'', sym_of ''pthread_mutexattr_destroy'',
      sym_of ''pthread_mutexattr_settype'', sym_of ''pthread_mutexattr_gettype'',
      sym_of ''pthread_cond_init'', sym_of ''pthread_cond_destroy'', sym_of ''pthread_cond_wait'',
      sym_of ''pthread_cond_broadcast'', sym_of ''pthread_cond_signal'',
      sym_of ''pthread_cond_timedwait'',
      sym_as ''pthread_cond_timedwait_monotonic_np'' ''pthread_cond_timedwait'',
      sym_of ''pthread_condattr_init'', sym_of ''pthread_condattr_destroy'',
      sym_of ''pthread_condattr_setclock'', sym_of ''pthread_condattr_getclock'',
      sym_of ''pthread_rwlock_init'', sym_of ''pthread_rwlock_destroy'',
      sym_as ''pthread_rwlock_rdlock'' ''&detail::arg_rewrite_helper<int (::pthread_rwlock_t *)>::rewrite<pthread_rwlock_rdlock>'',
      sym_as ''pthread_rwlock_tryrdlock'' ''&detail::arg_rewrite_helper<int (::pthread_rwlock_t *)>::rewrite<pthread_rwlock_tryrdlock>'',
      sym_as ''pthread_rwlock_wrlock'' ''&detail::arg_rewrite_helper<int (::pthread_rwlock_t *)>::rewrite<pthread_rwlock_wrlock>'',
      sym_as ''pthread_rwlock_trywrlock'' ''&detail::arg_rewrite_helper<int (::pthread_rwlock_t *)>::rewrite<pthread_rwlock_trywrlock>'',
      sym_as ''pthread_rwlock_unlock'' ''&detail::arg_rewrite_helper<int (::pthread_rwlock_t *)>::rewrite<pthread_rwlock_unlock>'',
      sym_of ''pthread_key_create'', sym_of ''pthread_key_delete'', sym_of ''pthread_setspecific'',
      sym_as ''pthread_getspecific'' ''pthread_getspecific_impl'',
      effect ''__pthread_cleanup_push'' ''pthread_cleanup_push_impl'',
      effect ''__pthread_cleanup_pop'' ''pthread_cleanup_pop_impl'',
      effect ''pthread_once'' ''pthread_once'', sym_of ''pthread_gettid_np'']"

definition add_sem_shimmed_symbols :: "symbol_entry list" where
  "add_sem_shimmed_symbols =
     [sym_of ''sem_init'', sym_of ''sem_destroy'',
      sym_as ''sem_wait'' ''&detail::arg_rewrite_helper<int (::sem_t *)>::rewrite<sem_wait>'',
      sym_as ''sem_timedwait'' ''&detail::arg_rewrite_helper<int (::sem_t *, const struct timespec *)>::rewrite<sem_timedwait>'',
      sym_as ''sem_post'' ''&detail::arg_rewrite_helper<int (::sem_t *)>::rewrite<sem_post>'']"

definition add_network_shimmed_symbols :: "symbol_entry list" where
  "add_network_shimmed_symbols =
     [sym_of ''socket'', sym_of ''bind'', sym_of ''connect'', sym_of ''send'', sym_of ''sendmsg'',
      sym_of ''sendto'', sym_of ''recv'', sym_of ''recvmsg'', sym_of ''recvfrom'',
      sym_of ''getsockname'', sym_of ''getpeername'', sym_of ''accept'', sym_of ''accept4'',
      sym_of ''getsockopt'', sym_of ''setsockopt'', sym_as ''listen'' ''::listen'',
      sym_of ''shutdown'', sym_of ''getaddrinfo'', sym_of ''freeaddrinfo'', sym_of ''getnameinfo'',
      sym_of ''gai_strerror'', sym_of ''gethostbyaddr'', sym_of ''gethostbyname'',
      sym_of ''gethostbyname2'', sym_of ''gethostent'', sym_of ''inet_addr'', sym_of ''inet_lnaof'',
      sym_of ''inet_makeaddr'', sym_of ''inet_netof'', sym_of ''inet_network'', sym_of ''inet_ntoa'',
      sym_of ''inet_pton'', sym_of ''inet_ntop'', sym_of ''if_nametoindex'', sym_of ''if_indextoname'',
      sym_of ''if_nameindex'', sym_of ''if_freenameindex'']"

definition add_dirent_shimmed_symbols :: "symbol_entry list" where
  "add_dirent_shimmed_symbols =
     [sym_as ''opendir'' ''IOREWRITE1(opendir)'', sym_of ''fdopendir'', sym_of ''closedir'',
      sym_of ''readdir'', sym_of ''rewinddir'', sym_of ''seekdir'', sym_of ''telldir'',
      sym_of ''dirfd'']"

definition add_stat_shimmed_symbols :: "symbol_entry list" where
  "add_stat_shimmed_symbols =
     [sym_as ''stat'' ''IOREWRITE1(stat)'', sym_of ''fstat'', sym_as ''stat64'' ''IOREWRITE1(stat)'',
      sym_as ''fstat64'' ''fstat'', sym_as ''chmod'' ''IOREWRITE1(::chmod)'',
      sym_as ''fchmod'' ''::fchmod'', sym_as ''fchmodat'' ''::fchmodat'', sym_as ''umask'' ''::umask'',
      sym_as ''mkdir'' ''IOREWRITE1(::mkdir)'', sym_of ''utimensat'',
      sym_as ''lstat'' ''IOREWRITE1(lstat)'']"

definition add_cstdio_shimmed_symbols :: "symbol_entry list" where
  "add_cstdio_shimmed_symbols =
     [sym_as ''__sF'' ''(void*) &bionic::standard_files'',
      sym_as ''__isthreaded'' ''(void*) &bionic::io_isthreaded'',
      sym_as ''fopen'' ''IOREWRITE1(fopen)'', sym_of ''fdopen'',
      sym_as ''freopen'' ''IOREWRITE1(freopen)'', sym_of ''tmpfile'', sym_of ''popen'',
      sym_of ''fclose'', sym_of ''pclose'', sym_as ''clearerr'' ''AutoArgRewritten(::clearerr)'',
      sym_as ''feof'' ''AutoArgRewritten(::feof)'', sym_as ''fseek'' ''AutoArgRewritten(::fseek)'',
      sym_as ''ftell'' ''AutoArgRewritten(::ftell)'', sym_of ''fseeko'', sym_of ''ftello'',
      sym_as ''ferror'' ''AutoArgRewritten(::ferror)'',
      sym_as ''ferror'' ''AutoArgRewritten(::ferror)'',
      sym_as ''fflush'' ''AutoArgRewritten(::fflush)'', sym_as ''fgetc'' ''AutoArgRewritten(::fgetc)'',
      sym_as ''fgets'' ''AutoArgRewritten(::fgets)'', sym_of ''__fgets_chk'',
      sym_as ''fputc'' ''AutoArgRewritten(::fputc)'', sym_as ''fputs'' ''AutoArgRewritten(::fputs)'',
      sym_of ''fread'', sym_as ''fwrite'' ''AutoArgRewritten(::fwrite)'', sym_of ''fprintf'',
      sym_as ''vfprintf'' ''AutoArgRewritten(::vfprintf)'', sym_of ''fscanf'', sym_of ''vfscanf'',
      sym_as ''getc'' ''AutoArgRewritten(::getc)'',
      sym_as ''getc_unlocked'' ''AutoArgRewritten(::getc_unlocked)'',
      sym_as ''getdelim'' ''AutoArgRewritten(::getdelim)'',
      sym_as ''getline'' ''AutoArgRewritten(::getline)'', sym_as ''putc'' ''AutoArgRewritten(::putc)'',
      sym_as ''putc_unlocked'' ''AutoArgRewritten(::putc_unlocked)'',
      sym_as ''rewind'' ''AutoArgRewritten(::rewind)'',
      sym_as ''setbuf'' ''AutoArgRewritten(::setbuf)'', sym_as ''setvbuf'' ''lambda setvbuf'',
      sym_as ''setbuffer'' ''AutoArgRewritten(::setbuffer)'',
      sym_as ''setlinebuf'' ''AutoArgRewritten(::setlinebuf)'',
      sym_as ''ungetc'' ''AutoArgRewritten(::ungetc)'',
      sym_as ''fileno'' ''AutoArgRewritten(::fileno)'',
      sym_as ''pclose'' ''AutoArgRewritten(::pclose)'',
      sym_as ''flockfile'' ''AutoArgRewritten(::flockfile)'',
      sym_as ''ftrylockfile'' ''AutoArgRewritten(::ftrylockfile)'',
      sym_as ''funlockfile'' ''AutoArgRewritten(::funlockfile)'',
      sym_as ''getw'' ''AutoArgRewritten(::getw)'', sym_as ''putw'' ''AutoArgRewritten(::putw)'',
      sym_as ''remove'' ''IOREWRITE1(::remove)'', sym_as ''rename'' ''IOREWRITE2(::rename)'',
      sym_as ''putchar'' ''::putchar'', sym_as ''puts'' ''::puts'', sym_as ''printf'' ''::printf'',
      sym_as ''vprintf'' ''::vprintf'', sym_as ''sprintf'' ''::sprintf'',
      sym_as ''asprintf'' ''::asprintf'', sym_as ''vasprintf'' ''::vasprintf'',
      sym_as ''snprintf'' ''::snprintf'', sym_as ''vsprintf'' ''::vsprintf'',
      sym_as ''vsnprintf'' ''::vsnprintf'', sym_as ''__vsnprintf_chk'' ''::__vsnprintf_chk'',
      sym_as ''__snprintf_chk'' ''::__snprintf_chk'', sym_as ''scanf'' ''::scanf'',
      sym_as ''sscanf'' ''::sscanf'', sym_as ''vscanf'' ''::vscanf'', sym_as ''vsscanf'' ''::vsscanf'',
      sym_as ''perror'' ''::perror'', sym_as ''stdin'' ''&bionic::standard_files[0]'',
      sym_as ''stdout'' ''&bionic::standard_files[1]'',
      sym_as ''stderr'' ''&bionic::standard_files[2]'',
      sym_as ''__register_atfork'' ''lambda __register_atfork'',
      sym_as ''getauxval'' ''lambda getauxval'', sym_as ''tcgetattr'' ''lambda tcgetattr'',
      sym_as ''tcsetattr'' ''lambda tcsetattr'', sym_as ''getpwuid_r'' ''lambda getpwuid_r'',
      sym_as ''basename'' ''(void*)basename'', sym_as ''getwc'' ''AutoArgRewritten(getwc)'',
      sym_as ''ungetwc'' ''AutoArgRewritten(ungetwc)'', sym_as ''putwc'' ''AutoArgRewritten(putwc)'']"

definition add_mman_shimmed_symbols :: "symbol_entry list" where
  "add_mman_shimmed_symbols =
     [sym_of ''mmap'', sym_as ''munmap'' ''::munmap'', sym_as ''mprotect'' ''::mprotect'',
      sym_as ''madvise'' ''::madvise'', sym_as ''msync'' ''::msync'', sym_as ''mlock'' ''::mlock'',
      sym_as ''munlock'' ''::munlock'', sym_as ''mremap'' ''::mremap'']"

definition add_resource_shimmed_symbols :: "symbol_entry list" where
  "add_resource_shimmed_symbols =
     [sym_as ''getrusage'' ''::getrusage'', sym_of ''getpriority'', sym_of ''getrlimit'']"

definition add_prctl_shimmed_symbols :: "symbol_entry list" where
  "add_prctl_shimmed_symbols =
     [sym_of ''prctl'']"

definition add_locale_shimmed_symbols :: "symbol_entry list" where
  "add_locale_shimmed_symbols =
     [sym_of ''newlocale'', sym_of ''uselocale'', sym_of ''freelocale'', sym_of ''setlocale'',
      sym_of ''localeconv'']"

definition add_setjmp_shimmed_symbols :: "symbol_entry list" where
  "add_setjmp_shimmed_symbols =
     [effect ''setjmp'' ''setjmp_impl'', effect ''longjmp'' ''longjmp_impl'',
      effect ''sigsetjmp'' ''lambda sigsetjmp'', effect ''siglongjmp'' ''lambda siglongjmp'']"

definition add_ioctl_shimmed_symbols :: "symbol_entry list" where
  "add_ioctl_shimmed_symbols =
     [sym_of ''ioctl'']"

definition add_fcntl_shimmed_symbols :: "symbol_entry list" where
  "add_fcntl_shimmed_symbols =
     [sym_of ''open'', sym_as ''__open_2'' ''IOREWRITE1(open_2)'',
      sym_as ''__libc_shim_open_3'' ''IOREWRITE1(open_3)'', sym_of ''fcntl'']"

definition add_poll_select_shimmed_symbols :: "symbol_entry list" where
  "add_poll_select_shimmed_symbols =
     [sym_as ''poll'' ''::poll'', sym_as ''select'' ''::select'', sym_of ''__FD_ISSET_chk'',
      sym_of ''__FD_CLR_chk'', sym_of ''__FD_SET_chk'']"

definition add_epoll_shimmed_symbols :: "symbol_entry list" where
  "add_epoll_shimmed_symbols =
     [sym_of ''epoll_create'', sym_of ''epoll_create1'', sym_of ''epoll_ctl'', sym_of ''epoll_wait'']"

definition add_misc_shimmed_symbols :: "symbol_entry list" where
  "add_misc_shimmed_symbols =
     [sym_of ''uname'', sym_of ''utime'', sym_of ''writev'', sym_of ''openlog'', sym_of ''closelog'',
      sym_of ''syslog'', sym_of ''arc4random'', sym_of ''wait'', sym_of ''waitpid'', sym_of ''ptrace'']"

definition add_sysconf_shimmed_symbols :: "symbol_entry list" where
  "add_sysconf_shimmed_symbols =
     [sym_of ''sysconf'']"

definition add_system_properties_shimmed_symbols :: "symbol_entry list" where
  "add_system_properties_shimmed_symbols =
     [sym_of ''__system_property_find'', sym_of ''__system_property_get'']"

definition add_eventfd_shimmed_symbols :: "symbol_entry list" where
  "add_eventfd_shimmed_symbols =
     [sym_of ''eventfd'']"

definition add_fnmatch_shimmed_symbols :: "symbol_entry list" where
  "add_fnmatch_shimmed_symbols =
     [sym_as ''fnmatch'' ''::fnmatch'']"

definition add_socket_shimmed_symbols :: "symbol_entry list" where
  "add_socket_shimmed_symbols =
     [sym_of ''sendfile'', sym_of ''__cmsg_nxthdr'', sym_of ''socketpair'']"

definition add_statvfs_shimmed_symbols :: "symbol_entry list" where
  "add_statvfs_shimmed_symbols =
     [sym_of ''statvfs'']"

definition get_shimmed_symbols :: "symbol_entry list" where
  "get_shimmed_symbols =
     add_common_shimmed_symbols @
     add_stdlib_shimmed_symbols @
     add_malloc_shimmed_symbols @
     add_ctype_shimmed_symbols @
     add_math_shimmed_symbols @
     add_time_shimmed_symbols @
     add_sched_shimmed_symbols @
     add_unistd_shimmed_symbols @
     add_signal_shimmed_symbols @
     add_string_shimmed_symbols @
     add_wchar_shimmed_symbols @
     add_pthread_shimmed_symbols @
     add_sem_shimmed_symbols @
     add_network_shimmed_symbols @
     add_dirent_shimmed_symbols @
     add_stat_shimmed_symbols @
     add_cstdio_shimmed_symbols @
     add_mman_shimmed_symbols @
     add_resource_shimmed_symbols @
     add_prctl_shimmed_symbols @
     add_locale_shimmed_symbols @
     add_setjmp_shimmed_symbols @
     add_ioctl_shimmed_symbols @
     add_fcntl_shimmed_symbols @
     add_poll_select_shimmed_symbols @
     add_epoll_shimmed_symbols @
     add_misc_shimmed_symbols @
     add_sysconf_shimmed_symbols @
     add_system_properties_shimmed_symbols @
     add_eventfd_shimmed_symbols @
     add_fnmatch_shimmed_symbols @
     add_socket_shimmed_symbols @
     add_statvfs_shimmed_symbols"

section \<open>The host libraries\<close>

definition get_libdl_symbols :: "symbol_entry list" where
  "get_libdl_symbols =
     [sym_of ''__loader_android_get_LD_LIBRARY_PATH'', effect ''__loader_dlopen'' ''__loader_dlopen'',
      sym_of ''__loader_dlerror'', sym_of ''__loader_dlsym'', sym_of ''__loader_dlvsym'',
      sym_of ''__loader_dladdr'', sym_of ''__loader_dlclose'',
      effect ''__loader_dl_iterate_phdr'' ''__loader_dl_iterate_phdr'',
      sym_of ''__loader_android_get_LD_LIBRARY_PATH'',
      sym_of ''__loader_android_update_LD_LIBRARY_PATH'', sym_of ''__loader_android_dlopen_ext'',
      sym_of ''__loader_android_get_application_target_sdk_version'',
      sym_of ''__loader_android_handle_signal'', sym_of ''android_get_LD_LIBRARY_PATH'',
      effect ''dlopen'' ''linker_dlopen'', sym_as ''dlerror'' ''linker_dlerror'',
      sym_as ''dlsym'' ''linker_dlsym'', sym_as ''dlvsym'' ''linker_dlvsym'',
      sym_as ''dladdr'' ''linker_dladdr'', sym_as ''dlclose'' ''linker_dlclose'',
      effect ''dl_iterate_phdr'' ''linker_dl_iterate_phdr'', sym_of ''android_dlopen_ext'',
      sym_of ''android_get_application_target_sdk_version'', sym_of ''android_handle_signal'']"

definition libm_symbols :: "symbol_entry list" where
  "libm_symbols =
     [sym_of ''acos'', sym_of ''acosf'', sym_of ''asin'', sym_of ''asinf'', sym_of ''atan'',
      sym_of ''atan2'', sym_of ''atan2f'', sym_of ''atanf'', sym_of ''cbrt'', sym_of ''cos'',
      sym_of ''cosf'', sym_of ''cosh'', sym_of ''coshf'', sym_of ''erfcf'', sym_of ''exp'',
      sym_of ''exp2'', sym_of ''exp2f'', sym_of ''expf'', sym_of ''expm1'', sym_of ''fmod'',
      sym_of ''fmodf'', sym_of ''frexp'', sym_of ''frexpf'', sym_of ''hypotf'', sym_of ''ldexp'',
      sym_of ''ldexpf'', sym_of ''log'', sym_of ''log10'', sym_of ''log10f'', sym_of ''log2'',
      sym_of ''log2f'', sym_of ''logbf'', sym_of ''logf'', sym_of ''modf'', sym_of ''modff'',
      sym_of ''nan'', sym_of ''nextafterf'', sym_of ''pow'', sym_of ''powf'', sym_of ''scalbnf'',
      sym_of ''sin'', sym_of ''sincos'', sym_of ''sincosf'', sym_of ''sinf'', sym_of ''sinh'',
      sym_of ''tan'', sym_of ''tanf'', sym_of ''tanh'', sym_of ''tanhf'']"

definition libglesv2_symbols :: "symbol_entry list" where
  "libglesv2_symbols =
     [sym_of ''glActiveTexture'', sym_of ''glAttachShader'', sym_of ''glBindAttribLocation'',
      sym_of ''glBindBuffer'', sym_of ''glBindFramebuffer'', sym_of ''glBindRenderbuffer'',
      sym_of ''glBindTexture'', sym_of ''glBlendFunc'', sym_of ''glBlendFuncSeparate'',
      sym_of ''glBufferData'', sym_of ''glBufferSubData'', sym_of ''glCheckFramebufferStatus'',
      sym_of ''glClear'', sym_of ''glClearColor'', sym_of ''glClearDepthf'', sym_of ''glClearStencil'',
      sym_of ''glColorMask'', sym_of ''glCompileShader'', sym_of ''glCompressedTexImage2D'',
      sym_of ''glCompressedTexSubImage2D'', sym_of ''glCopyTexSubImage2D'', sym_of ''glCreateProgram'',
      sym_of ''glCreateShader'', sym_of ''glCullFace'', sym_of ''glDeleteBuffers'',
      sym_of ''glDeleteFramebuffers'', sym_of ''glDeleteProgram'', sym_of ''glDeleteRenderbuffers'',
      sym_of ''glDeleteShader'', sym_of ''glDeleteTextures'', sym_of ''glDepthFunc'',
      sym_of ''glDepthMask'', sym_of ''glDisable'', sym_of ''glDisableVertexAttribArray'',
      sym_of ''glDrawArrays'', sym_of ''glDrawElements'', sym_of ''glEnable'',
      sym_of ''glEnableVertexAttribArray'', sym_of ''glFramebufferRenderbuffer'',
      sym_of ''glFramebufferTexture2D'', sym_of ''glGenBuffers'', sym_of ''glGenerateMipmap'',
      sym_of ''glGenFramebuffers'', sym_of ''glGenRenderbuffers'', sym_of ''glGenTextures'',
      sym_of ''glGetActiveUniform'', sym_of ''glGetAttribLocation'', sym_of ''glGetError'',
      sym_of ''glGetIntegerv'', sym_of ''glGetProgramInfoLog'', sym_of ''glGetProgramiv'',
      sym_of ''glGetShaderInfoLog'', sym_of ''glGetShaderiv'', sym_of ''glGetString'',
      sym_of ''glGetUniformLocation'', sym_of ''glLinkProgram'', sym_of ''glPixelStorei'',
      sym_of ''glPolygonOffset'', sym_of ''glReadPixels'', sym_of ''glRenderbufferStorage'',
      sym_of ''glScissor'', sym_of ''glShaderSource'', sym_of ''glStencilFunc'',
      sym_of ''glStencilMask'', sym_of ''glStencilOp'', sym_of ''glTexImage2D'',
      sym_of ''glTexParameterf'', sym_of ''glTexParameterfv'', sym_of ''glTexParameteri'',
      sym_of ''glTexSubImage2D'', sym_of ''glUniform1i'', sym_of ''glUniform4fv'',
      sym_of ''glUniformMatrix4fv'', sym_of ''glUseProgram'', sym_of ''glVertexAttribPointer'',
      sym_of ''glViewport'']"

definition libopensles_symbols :: "symbol_entry list" where
  "libopensles_symbols =
     [sym_as ''SL_IID_ANDROIDCONFIGURATION'' ''&SL_IID_ANDROIDCONFIGURATION'',
      sym_as ''SL_IID_ANDROIDSIMPLEBUFFERQUEUE'' ''&SL_IID_ANDROIDSIMPLEBUFFERQUEUE'',
      sym_as ''SL_IID_BUFFERQUEUE'' ''&SL_IID_BUFFERQUEUE'',
      sym_as ''SL_IID_ENGINE'' ''&SL_IID_ENGINE'', sym_as ''SL_IID_PLAY'' ''&SL_IID_PLAY'',
      sym_as ''SL_IID_RECORD'' ''&SL_IID_RECORD'', sym_as ''SL_IID_VOLUME'' ''&SL_IID_VOLUME'',
      sym_of ''slCreateEngine'']"

definition libmediandk_symbols :: "symbol_entry list" where
  "libmediandk_symbols =
     [sym_as ''AMEDIAFORMAT_KEY_CHANNEL_COUNT'' ''&AMEDIAFORMAT_KEY_CHANNEL_COUNT'',
      sym_as ''AMEDIAFORMAT_KEY_COLOR_FORMAT'' ''&AMEDIAFORMAT_KEY_COLOR_FORMAT'',
      sym_as ''AMEDIAFORMAT_KEY_HEIGHT'' ''&AMEDIAFORMAT_KEY_HEIGHT'',
      sym_as ''AMEDIAFORMAT_KEY_MIME'' ''&AMEDIAFORMAT_KEY_MIME'',
      sym_as ''AMEDIAFORMAT_KEY_SAMPLE_RATE'' ''&AMEDIAFORMAT_KEY_SAMPLE_RATE'',
      sym_as ''AMEDIAFORMAT_KEY_STRIDE'' ''&AMEDIAFORMAT_KEY_STRIDE'',
      sym_as ''AMEDIAFORMAT_KEY_WIDTH'' ''&AMEDIAFORMAT_KEY_WIDTH'', sym_of ''AMediaCodec_configure'',
      sym_of ''AMediaCodec_createDecoderByType'', sym_of ''AMediaCodec_delete'',
      sym_of ''AMediaCodec_dequeueInputBuffer'', sym_of ''AMediaCodec_dequeueOutputBuffer'',
      sym_of ''AMediaCodec_flush'', sym_of ''AMediaCodec_getInputBuffer'',
      sym_of ''AMediaCodec_getOutputBuffer'', sym_of ''AMediaCodec_getOutputFormat'',
      sym_of ''AMediaCodec_queueInputBuffer'', sym_of ''AMediaCodec_releaseOutputBuffer'',
      sym_of ''AMediaCodec_start'', sym_of ''AMediaCodec_stop'', sym_of ''AMediaFormat_delete'',
      sym_of ''AMediaFormat_getInt32'', sym_of ''AMediaFormat_new'', sym_of ''AMediaFormat_setBuffer'',
      sym_of ''AMediaFormat_setInt32'', sym_of ''AMediaFormat_setString'',
      sym_of ''AMediaFormat_toString'']"

definition log_symbols :: "symbol_entry list" where
  "log_symbols =
     [sym_of ''__android_log_buf_write'', sym_of ''__android_log_print'',
      sym_of ''__android_log_write'', sym_of ''__android_log_assert'']"

definition android_symbols :: "symbol_entry list" where
  "android_symbols =
     [sym_of ''ANativeWindow_acquire'', sym_of ''ANativeWindow_fromSurface'',
      sym_of ''ANativeWindow_getHeight'', sym_of ''ANativeWindow_getWidth'',
      sym_of ''ANativeWindow_release'', sym_of ''AAssetManager_fromJava'',
      sym_of ''AConfiguration_new'', sym_of ''AConfiguration_fromAssetManager'',
      sym_of ''AConfiguration_getDensity'', sym_of ''AConfiguration_getCountry'',
      sym_of ''AConfiguration_getLanguage'', sym_of ''AConfiguration_delete'',
      sym_of ''ALooper_prepare'', sym_of ''ALooper_pollAll'', sym_of ''ALooper_acquire'',
      sym_of ''ALooper_addFd'', sym_of ''ALooper_removeFd'', sym_of ''ALooper_forThread'',
      sym_of ''ALooper_release'']"

definition zlib_symbols :: "symbol_entry list" where
  "zlib_symbols =
     [effect ''deflate'' ''deflate'', effect ''deflateEnd'' ''lambda deflateEnd'',
      effect ''deflateInit_'' ''lambda deflateInit_'',
      effect ''deflateInit2_'' ''lambda deflateInit2_'', effect ''deflateReset'' ''deflateReset'',
      effect ''inflate'' ''inflate'', effect ''inflateEnd'' ''lambda inflateEnd'',
      effect ''inflateInit_'' ''lambda inflateInit_'',
      effect ''inflateInit2_'' ''lambda inflateInit2_'', effect ''inflateReset'' ''inflateReset'',
      effect ''inflateReset2'' ''inflateReset2'', effect ''uncompress'' ''uncompress'',
      sym_of ''adler32'', sym_of ''crc32'', sym_of ''zError'', sym_of ''zlibVersion'']"

definition egl_symbols :: "symbol_entry list" where
  "egl_symbols =
     [sym_of ''eglChooseConfig'', sym_of ''eglCreateContext'', sym_of ''eglCreatePbufferSurface'',
      sym_of ''eglCreateWindowSurface'', sym_of ''eglDestroyContext'', sym_of ''eglDestroySurface'',
      sym_of ''eglGetConfigAttrib'', sym_of ''eglGetCurrentContext'', sym_of ''eglGetDisplay'',
      sym_of ''eglGetError'', sym_as ''eglGetProcAddress'' ''lambda eglGetProcAddress'',
      sym_of ''eglInitialize'', sym_of ''eglMakeCurrent'', sym_of ''eglQuerySurface'',
      sym_of ''eglSwapBuffers'', sym_of ''eglSwapInterval'', sym_of ''eglTerminate'']"

definition extra_gl_symbols :: "symbol_entry list" where
  "extra_gl_symbols =
     [sym_as ''glBindVertexArray'' ''&glBindVertexArray'',
      sym_as ''glDeleteVertexArrays'' ''&glDeleteVertexArrays'',
      sym_as ''glGenVertexArrays'' ''&glGenVertexArrays'',
      sym_as ''glMapBuffer'' ''&glMapBufferRange'', sym_as ''glUnmapBuffer'' ''&glUnmapBuffer'',
      sym_as ''glMapBufferRange'' ''&glMapBufferRange'', sym_as ''glTexImage3D'' ''&glTexImage3D'',
      sym_as ''glTexSubImage3D'' ''&glTexSubImage3D'',
      sym_as ''glCompressedTexImage3D'' ''&glCompressedTexImage3D'',
      sym_as ''glCompressedTexSubImage3D'' ''&glCompressedTexSubImage3D'',
      sym_as ''glCopyImageSubData'' ''&glCopyImageSubData'',
      sym_as ''glTexStorage2D'' ''&glTexStorage2D'', sym_as ''glTexStorage3D'' ''&glTexStorage3D'',
      sym_as ''glFenceSync'' ''&glFenceSync'', sym_as ''glDeleteSync'' ''&glDeleteSync'',
      sym_as ''glClientWaitSync'' ''&glClientWaitSync'', sym_as ''glWaitSync'' ''&glWaitSync'',
      sym_as ''glBlitFramebuffer'' ''&glBlitFramebuffer'',
      sym_as ''glRenderbufferStorageMultisample'' ''&glRenderbufferStorageMultisample'',
      sym_as ''glInvalidateFramebuffer'' ''&glInvalidateFramebuffer'',
      sym_as ''glDrawBuffers'' ''&glDrawBuffers'', sym_as ''glClearBufferiv'' ''&glClearBufferiv'',
      sym_as ''glClearBufferfv'' ''&glClearBufferfv'', sym_as ''glClearBufferfi'' ''&glClearBufferfi'',
      sym_as ''glUniformBlockBinding'' ''&glUniformBlockBinding'',
      sym_as ''glBindBufferBase'' ''&glBindBufferBase'',
      sym_as ''glBindBufferRange'' ''&glBindBufferRange'',
      sym_as ''glGetUniformBlockIndex'' ''&glGetUniformBlockIndex'',
      sym_as ''glDrawElementsInstanced'' ''&glDrawElementsInstanced'',
      sym_as ''glDrawArraysInstanced'' ''&glDrawArraysInstanced'',
      sym_as ''glPushGroupMarker'' ''&glPushGroupMarkerEXT'',
      sym_as ''glPopGroupMarker'' ''&glPopGroupMarkerEXT'', sym_as ''glGenQueries'' ''&glGenQueries'',
      sym_as ''glDeleteQueries'' ''&glDeleteQueries'', sym_as ''glBeginQuery'' ''&glBeginQuery'',
      sym_as ''glEndQuery'' ''&glEndQuery'', sym_as ''glQueryCounter'' ''&glQueryCounterEXT'',
      sym_as ''glGetQueryiv'' ''&glGetQueryiv'',
      sym_as ''glGetQueryObjectiv'' ''&glGetQueryObjectivEXT'',
      sym_as ''glGetQueryObjectui64v'' ''&glGetQueryObjectui64vEXT'',
      sym_as ''glGetInteger64v'' ''&glGetInteger64v'']"

definition actual_symbols :: "symbol_entry list" where
  "actual_symbols = map vulkan_entry
     [''vkAcquireDrmDisplayEXT'', ''vkAcquireNextImage2KHR'', ''vkAcquireNextImageKHR'',
      ''vkAcquirePerformanceConfigurationINTEL'', ''vkAcquireProfilingLockKHR'',
      ''vkAllocateCommandBuffers'', ''vkAllocateDescriptorSets'', ''vkAllocateMemory'',
      ''vkBeginCommandBuffer'', ''vkBindAccelerationStructureMemoryNV'', ''vkBindBufferMemory2KHR'',
      ''vkBindBufferMemory2'', ''vkBindBufferMemory'', ''vkBindImageMemory2KHR'',
      ''vkBindImageMemory2'', ''vkBindImageMemory'', ''vkBindOpticalFlowSessionImageNV'',
      ''vkBindVideoSessionMemoryKHR'', ''vkBuildAccelerationStructuresKHR'', ''vkBuildMicromapsEXT'',
      ''vkCmdBeginConditionalRenderingEXT'', ''vkCmdBeginDebugUtilsLabelEXT'',
      ''vkCmdBeginQueryIndexedEXT'', ''vkCmdBeginQuery'', ''vkCmdBeginRenderingKHR'',
      ''vkCmdBeginRendering'', ''vkCmdBeginRenderPass2KHR'', ''vkCmdBeginRenderPass2'',
      ''vkCmdBeginRenderPass'', ''vkCmdBeginTransformFeedbackEXT'', ''vkCmdBeginVideoCodingKHR'',
      ''vkCmdBindDescriptorBufferEmbeddedSamplersEXT'', ''vkCmdBindDescriptorBuffersEXT'',
      ''vkCmdBindDescriptorSets'', ''vkCmdBindIndexBuffer'', ''vkCmdBindInvocationMaskHUAWEI'',
      ''vkCmdBindPipelineShaderGroupNV'', ''vkCmdBindPipeline'', ''vkCmdBindShadersEXT'',
      ''vkCmdBindShadingRateImageNV'', ''vkCmdBindTransformFeedbackBuffersEXT'',
      ''vkCmdBindVertexBuffers2EXT'', ''vkCmdBindVertexBuffers2'', ''vkCmdBindVertexBuffers'',
      ''vkCmdBlitImage2KHR'', ''vkCmdBlitImage2'', ''vkCmdBlitImage'',
      ''vkCmdBuildAccelerationStructureNV'', ''vkCmdBuildAccelerationStructuresIndirectKHR'',
      ''vkCmdBuildAccelerationStructuresKHR'', ''vkCmdBuildMicromapsEXT'', ''vkCmdClearAttachments'',
      ''vkCmdClearColorImage'', ''vkCmdClearDepthStencilImage'', ''vkCmdControlVideoCodingKHR'',
      ''vkCmdCopyAccelerationStructureKHR'', ''vkCmdCopyAccelerationStructureNV'',
      ''vkCmdCopyAccelerationStructureToMemoryKHR'', ''vkCmdCopyBuffer2KHR'', ''vkCmdCopyBuffer2'',
      ''vkCmdCopyBufferToImage2KHR'', ''vkCmdCopyBufferToImage2'', ''vkCmdCopyBufferToImage'',
      ''vkCmdCopyBuffer'', ''vkCmdCopyImage2KHR'', ''vkCmdCopyImage2'', ''vkCmdCopyImageToBuffer2KHR'',
      ''vkCmdCopyImageToBuffer2'', ''vkCmdCopyImageToBuffer'', ''vkCmdCopyImage'',
      ''vkCmdCopyMemoryIndirectNV'', ''vkCmdCopyMemoryToAccelerationStructureKHR'',
      ''vkCmdCopyMemoryToImageIndirectNV'', ''vkCmdCopyMemoryToMicromapEXT'', ''vkCmdCopyMicromapEXT'',
      ''vkCmdCopyMicromapToMemoryEXT'', ''vkCmdCopyQueryPoolResults'', ''vkCmdCuLaunchKernelNVX'',
      ''vkCmdDebugMarkerBeginEXT'', ''vkCmdDebugMarkerEndEXT'', ''vkCmdDebugMarkerInsertEXT'',
      ''vkCmdDecodeVideoKHR'', ''vkCmdDecompressMemoryIndirectCountNV'', ''vkCmdDecompressMemoryNV'',
      ''vkCmdDispatchBaseKHR'', ''vkCmdDispatchBase'', ''vkCmdDispatchIndirect'', ''vkCmdDispatch'',
      ''vkCmdDrawClusterHUAWEI'', ''vkCmdDrawClusterIndirectHUAWEI'',
      ''vkCmdDrawIndexedIndirectCountAMD'', ''vkCmdDrawIndexedIndirectCountKHR'',
      ''vkCmdDrawIndexedIndirectCount'', ''vkCmdDrawIndexedIndirect'', ''vkCmdDrawIndexed'',
      ''vkCmdDrawIndirectByteCountEXT'', ''vkCmdDrawIndirectCountAMD'', ''vkCmdDrawIndirectCountKHR'',
      ''vkCmdDrawIndirectCount'', ''vkCmdDrawIndirect'', ''vkCmdDrawMeshTasksEXT'',
      ''vkCmdDrawMeshTasksIndirectCountEXT'', ''vkCmdDrawMeshTasksIndirectCountNV'',
      ''vkCmdDrawMeshTasksIndirectEXT'', ''vkCmdDrawMeshTasksIndirectNV'', ''vkCmdDrawMeshTasksNV'',
      ''vkCmdDrawMultiEXT'', ''vkCmdDrawMultiIndexedEXT'', ''vkCmdDraw'',
      ''vkCmdEndConditionalRenderingEXT'', ''vkCmdEndDebugUtilsLabelEXT'', ''vkCmdEndQueryIndexedEXT'',
      ''vkCmdEndQuery'', ''vkCmdEndRenderingKHR'', ''vkCmdEndRendering'', ''vkCmdEndRenderPass2KHR'',
      ''vkCmdEndRenderPass2'', ''vkCmdEndRenderPass'', ''vkCmdEndTransformFeedbackEXT'',
      ''vkCmdEndVideoCodingKHR'', ''vkCmdExecuteCommands'', ''vkCmdExecuteGeneratedCommandsNV'',
      ''vkCmdFillBuffer'', ''vkCmdInsertDebugUtilsLabelEXT'', ''vkCmdNextSubpass2KHR'',
      ''vkCmdNextSubpass2'', ''vkCmdNextSubpass'', ''vkCmdOpticalFlowExecuteNV'',
      ''vkCmdPipelineBarrier2KHR'', ''vkCmdPipelineBarrier2'', ''vkCmdPipelineBarrier'',
      ''vkCmdPreprocessGeneratedCommandsNV'', ''vkCmdPushConstants'', ''vkCmdPushDescriptorSetKHR'',
      ''vkCmdPushDescriptorSetWithTemplateKHR'', ''vkCmdResetEvent2KHR'', ''vkCmdResetEvent2'',
      ''vkCmdResetEvent'', ''vkCmdResetQueryPool'', ''vkCmdResolveImage2KHR'', ''vkCmdResolveImage2'',
      ''vkCmdResolveImage'', ''vkCmdSetAlphaToCoverageEnableEXT'', ''vkCmdSetAlphaToOneEnableEXT'',
      ''vkCmdSetAttachmentFeedbackLoopEnableEXT'', ''vkCmdSetBlendConstants'',
      ''vkCmdSetCheckpointNV'', ''vkCmdSetCoarseSampleOrderNV'', ''vkCmdSetColorBlendAdvancedEXT'',
      ''vkCmdSetColorBlendEnableEXT'', ''vkCmdSetColorBlendEquationEXT'',
      ''vkCmdSetColorWriteEnableEXT'', ''vkCmdSetColorWriteMaskEXT'',
      ''vkCmdSetConservativeRasterizationModeEXT'', ''vkCmdSetCoverageModulationModeNV'',
      ''vkCmdSetCoverageModulationTableEnableNV'', ''vkCmdSetCoverageModulationTableNV'',
      ''vkCmdSetCoverageReductionModeNV'', ''vkCmdSetCoverageToColorEnableNV'',
      ''vkCmdSetCoverageToColorLocationNV'', ''vkCmdSetCullModeEXT'', ''vkCmdSetCullMode'',
      ''vkCmdSetDepthBiasEnableEXT'', ''vkCmdSetDepthBiasEnable'', ''vkCmdSetDepthBias'',
      ''vkCmdSetDepthBoundsTestEnableEXT'', ''vkCmdSetDepthBoundsTestEnable'', ''vkCmdSetDepthBounds'',
      ''vkCmdSetDepthClampEnableEXT'', ''vkCmdSetDepthClipEnableEXT'',
      ''vkCmdSetDepthClipNegativeOneToOneEXT'', ''vkCmdSetDepthCompareOpEXT'',
      ''vkCmdSetDepthCompareOp'', ''vkCmdSetDepthTestEnableEXT'', ''vkCmdSetDepthTestEnable'',
      ''vkCmdSetDepthWriteEnableEXT'', ''vkCmdSetDepthWriteEnable'',
      ''vkCmdSetDescriptorBufferOffsetsEXT'', ''vkCmdSetDeviceMaskKHR'', ''vkCmdSetDeviceMask'',
      ''vkCmdSetDiscardRectangleEnableEXT'', ''vkCmdSetDiscardRectangleEXT'',
      ''vkCmdSetDiscardRectangleModeEXT'', ''vkCmdSetEvent2KHR'', ''vkCmdSetEvent2'',
      ''vkCmdSetEvent'', ''vkCmdSetExclusiveScissorEnableNV'', ''vkCmdSetExclusiveScissorNV'',
      ''vkCmdSetExtraPrimitiveOverestimationSizeEXT'', ''vkCmdSetFragmentShadingRateEnumNV'',
      ''vkCmdSetFragmentShadingRateKHR'', ''vkCmdSetFrontFaceEXT'', ''vkCmdSetFrontFace'',
      ''vkCmdSetLineRasterizationModeEXT'', ''vkCmdSetLineStippleEnableEXT'',
      ''vkCmdSetLineStippleEXT'', ''vkCmdSetLineWidth'', ''vkCmdSetLogicOpEnableEXT'',
      ''vkCmdSetLogicOpEXT'', ''vkCmdSetPatchControlPointsEXT'', ''vkCmdSetPerformanceMarkerINTEL'',
      ''vkCmdSetPerformanceOverrideINTEL'', ''vkCmdSetPerformanceStreamMarkerINTEL'',
      ''vkCmdSetPolygonModeEXT'', ''vkCmdSetPrimitiveRestartEnableEXT'',
      ''vkCmdSetPrimitiveRestartEnable'', ''vkCmdSetPrimitiveTopologyEXT'',
      ''vkCmdSetPrimitiveTopology'', ''vkCmdSetProvokingVertexModeEXT'',
      ''vkCmdSetRasterizationSamplesEXT'', ''vkCmdSetRasterizationStreamEXT'',
      ''vkCmdSetRasterizerDiscardEnableEXT'', ''vkCmdSetRasterizerDiscardEnable'',
      ''vkCmdSetRayTracingPipelineStackSizeKHR'', ''vkCmdSetRepresentativeFragmentTestEnableNV'',
      ''vkCmdSetSampleLocationsEnableEXT'', ''vkCmdSetSampleLocationsEXT'', ''vkCmdSetSampleMaskEXT'',
      ''vkCmdSetScissor'', ''vkCmdSetScissorWithCountEXT'', ''vkCmdSetScissorWithCount'',
      ''vkCmdSetShadingRateImageEnableNV'', ''vkCmdSetStencilCompareMask'', ''vkCmdSetStencilOpEXT'',
      ''vkCmdSetStencilOp'', ''vkCmdSetStencilReference'', ''vkCmdSetStencilTestEnableEXT'',
      ''vkCmdSetStencilTestEnable'', ''vkCmdSetStencilWriteMask'',
      ''vkCmdSetTessellationDomainOriginEXT'', ''vkCmdSetVertexInputEXT'',
      ''vkCmdSetViewportShadingRatePaletteNV'', ''vkCmdSetViewportSwizzleNV'', ''vkCmdSetViewport'',
      ''vkCmdSetViewportWithCountEXT'', ''vkCmdSetViewportWithCount'',
      ''vkCmdSetViewportWScalingEnableNV'', ''vkCmdSetViewportWScalingNV'',
      ''vkCmdSubpassShadingHUAWEI'', ''vkCmdTraceRaysIndirect2KHR'', ''vkCmdTraceRaysIndirectKHR'',
      ''vkCmdTraceRaysKHR'', ''vkCmdTraceRaysNV'', ''vkCmdUpdateBuffer'', ''vkCmdWaitEvents2KHR'',
      ''vkCmdWaitEvents2'', ''vkCmdWaitEvents'', ''vkCmdWriteAccelerationStructuresPropertiesKHR'',
      ''vkCmdWriteAccelerationStructuresPropertiesNV'', ''vkCmdWriteBufferMarker2AMD'',
      ''vkCmdWriteBufferMarkerAMD'', ''vkCmdWriteMicromapsPropertiesEXT'', ''vkCmdWriteTimestamp2KHR'',
      ''vkCmdWriteTimestamp2'', ''vkCmdWriteTimestamp'', ''vkCompileDeferredNV'',
      ''vkCopyAccelerationStructureKHR'', ''vkCopyAccelerationStructureToMemoryKHR'',
      ''vkCopyMemoryToAccelerationStructureKHR'', ''vkCopyMemoryToMicromapEXT'', ''vkCopyMicromapEXT'',
      ''vkCopyMicromapToMemoryEXT'', ''vkCreateAccelerationStructureKHR'',
      ''vkCreateAccelerationStructureNV'', ''vkCreateAndroidSurfaceKHR'', ''vkCreateBufferView'',
      ''vkCreateBuffer'', ''vkCreateCommandPool'', ''vkCreateComputePipelines'',
      ''vkCreateCuFunctionNVX'', ''vkCreateCuModuleNVX'', ''vkCreateDebugReportCallbackEXT'',
      ''vkCreateDebugUtilsMessengerEXT'', ''vkCreateDeferredOperationKHR'', ''vkCreateDescriptorPool'',
      ''vkCreateDescriptorSetLayout'', ''vkCreateDescriptorUpdateTemplateKHR'',
      ''vkCreateDescriptorUpdateTemplate'', ''vkCreateDevice'', ''vkCreateDisplayModeKHR'',
      ''vkCreateDisplayPlaneSurfaceKHR'', ''vkCreateEvent'', ''vkCreateFence'',
      ''vkCreateFramebuffer'', ''vkCreateGraphicsPipelines'', ''vkCreateHeadlessSurfaceEXT'',
      ''vkCreateImageView'', ''vkCreateImage'', ''vkCreateIndirectCommandsLayoutNV'',
      ''vkCreateInstance'', ''vkCreateMicromapEXT'', ''vkCreateOpticalFlowSessionNV'',
      ''vkCreatePipelineCache'', ''vkCreatePipelineLayout'', ''vkCreatePrivateDataSlotEXT'',
      ''vkCreatePrivateDataSlot'', ''vkCreateQueryPool'', ''vkCreateRayTracingPipelinesKHR'',
      ''vkCreateRayTracingPipelinesNV'', ''vkCreateRenderPass2KHR'', ''vkCreateRenderPass2'',
      ''vkCreateRenderPass'', ''vkCreateSampler'', ''vkCreateSamplerYcbcrConversionKHR'',
      ''vkCreateSamplerYcbcrConversion'', ''vkCreateSemaphore'', ''vkCreateShaderModule'',
      ''vkCreateShadersEXT'', ''vkCreateSharedSwapchainsKHR'', ''vkCreateSwapchainKHR'',
      ''vkCreateValidationCacheEXT'', ''vkCreateVideoSessionKHR'',
      ''vkCreateVideoSessionParametersKHR'', ''vkDebugMarkerSetObjectNameEXT'',
      ''vkDebugMarkerSetObjectTagEXT'', ''vkDebugReportMessageEXT'', ''vkDeferredOperationJoinKHR'',
      ''vkDestroyAccelerationStructureKHR'', ''vkDestroyAccelerationStructureNV'',
      ''vkDestroyBufferView'', ''vkDestroyBuffer'', ''vkDestroyCommandPool'',
      ''vkDestroyCuFunctionNVX'', ''vkDestroyCuModuleNVX'', ''vkDestroyDebugReportCallbackEXT'',
      ''vkDestroyDebugUtilsMessengerEXT'', ''vkDestroyDeferredOperationKHR'',
      ''vkDestroyDescriptorPool'', ''vkDestroyDescriptorSetLayout'',
      ''vkDestroyDescriptorUpdateTemplateKHR'', ''vkDestroyDescriptorUpdateTemplate'',
      ''vkDestroyDevice'', ''vkDestroyEvent'', ''vkDestroyFence'', ''vkDestroyFramebuffer'',
      ''vkDestroyImageView'', ''vkDestroyImage'', ''vkDestroyIndirectCommandsLayoutNV'',
      ''vkDestroyInstance'', ''vkDestroyMicromapEXT'', ''vkDestroyOpticalFlowSessionNV'',
      ''vkDestroyPipelineCache'', ''vkDestroyPipelineLayout'', ''vkDestroyPipeline'',
      ''vkDestroyPrivateDataSlotEXT'', ''vkDestroyPrivateDataSlot'', ''vkDestroyQueryPool'',
      ''vkDestroyRenderPass'', ''vkDestroySampler'', ''vkDestroySamplerYcbcrConversionKHR'',
      ''vkDestroySamplerYcbcrConversion'', ''vkDestroySemaphore'', ''vkDestroyShaderEXT'',
      ''vkDestroyShaderModule'', ''vkDestroySurfaceKHR'', ''vkDestroySwapchainKHR'',
      ''vkDestroyValidationCacheEXT'', ''vkDestroyVideoSessionKHR'',
      ''vkDestroyVideoSessionParametersKHR'', ''vkDeviceWaitIdle'', ''vkDisplayPowerControlEXT'',
      ''vkEndCommandBuffer'', ''vkEnumerateDeviceExtensionProperties'',
      ''vkEnumerateDeviceLayerProperties'', ''vkEnumerateInstanceExtensionProperties'',
      ''vkEnumerateInstanceLayerProperties'', ''vkEnumerateInstanceVersion'',
      ''vkEnumeratePhysicalDeviceGroupsKHR'', ''vkEnumeratePhysicalDeviceGroups'',
      ''vkEnumeratePhysicalDeviceQueueFamilyPerformanceQueryCountersKHR'',
      ''vkEnumeratePhysicalDevices'', ''vkFlushMappedMemoryRanges'', ''vkFreeCommandBuffers'',
      ''vkFreeDescriptorSets'', ''vkFreeMemory'', ''vkGetAccelerationStructureBuildSizesKHR'',
      ''vkGetAccelerationStructureDeviceAddressKHR'', ''vkGetAccelerationStructureHandleNV'',
      ''vkGetAccelerationStructureMemoryRequirementsNV'',
      ''vkGetAccelerationStructureOpaqueCaptureDescriptorDataEXT'',
      ''vkGetAndroidHardwareBufferPropertiesANDROID'', ''vkGetBufferDeviceAddressEXT'',
      ''vkGetBufferDeviceAddressKHR'', ''vkGetBufferDeviceAddress'',
      ''vkGetBufferMemoryRequirements2KHR'', ''vkGetBufferMemoryRequirements2'',
      ''vkGetBufferMemoryRequirements'', ''vkGetBufferOpaqueCaptureAddressKHR'',
      ''vkGetBufferOpaqueCaptureAddress'', ''vkGetBufferOpaqueCaptureDescriptorDataEXT'',
      ''vkGetCalibratedTimestampsEXT'', ''vkGetDeferredOperationMaxConcurrencyKHR'',
      ''vkGetDeferredOperationResultKHR'', ''vkGetDescriptorEXT'',
      ''vkGetDescriptorSetHostMappingVALVE'', ''vkGetDescriptorSetLayoutBindingOffsetEXT'',
      ''vkGetDescriptorSetLayoutHostMappingInfoVALVE'', ''vkGetDescriptorSetLayoutSizeEXT'',
      ''vkGetDescriptorSetLayoutSupportKHR'', ''vkGetDescriptorSetLayoutSupport'',
      ''vkGetDeviceAccelerationStructureCompatibilityKHR'', ''vkGetDeviceBufferMemoryRequirementsKHR'',
      ''vkGetDeviceBufferMemoryRequirements'', ''vkGetDeviceFaultInfoEXT'',
      ''vkGetDeviceGroupPeerMemoryFeaturesKHR'', ''vkGetDeviceGroupPeerMemoryFeatures'',
      ''vkGetDeviceGroupPresentCapabilitiesKHR'', ''vkGetDeviceGroupSurfacePresentModesKHR'',
      ''vkGetDeviceImageMemoryRequirementsKHR'', ''vkGetDeviceImageMemoryRequirements'',
      ''vkGetDeviceImageSparseMemoryRequirementsKHR'', ''vkGetDeviceImageSparseMemoryRequirements'',
      ''vkGetDeviceMemoryCommitment'', ''vkGetDeviceMemoryOpaqueCaptureAddressKHR'',
      ''vkGetDeviceMemoryOpaqueCaptureAddress'', ''vkGetDeviceMicromapCompatibilityEXT'',
      ''vkGetDeviceProcAddr'', ''vkGetDeviceQueue2'', ''vkGetDeviceQueue'',
      ''vkGetDeviceSubpassShadingMaxWorkgroupSizeHUAWEI'', ''vkGetDisplayModeProperties2KHR'',
      ''vkGetDisplayModePropertiesKHR'', ''vkGetDisplayPlaneCapabilities2KHR'',
      ''vkGetDisplayPlaneCapabilitiesKHR'', ''vkGetDisplayPlaneSupportedDisplaysKHR'',
      ''vkGetDrmDisplayEXT'', ''vkGetDynamicRenderingTilePropertiesQCOM'', ''vkGetEventStatus'',
      ''vkGetFenceFdKHR'', ''vkGetFenceStatus'', ''vkGetFramebufferTilePropertiesQCOM'',
      ''vkGetGeneratedCommandsMemoryRequirementsNV'', ''vkGetImageDrmFormatModifierPropertiesEXT'',
      ''vkGetImageMemoryRequirements2KHR'', ''vkGetImageMemoryRequirements2'',
      ''vkGetImageMemoryRequirements'', ''vkGetImageOpaqueCaptureDescriptorDataEXT'',
      ''vkGetImageSparseMemoryRequirements2KHR'', ''vkGetImageSparseMemoryRequirements2'',
      ''vkGetImageSparseMemoryRequirements'', ''vkGetImageSubresourceLayout2EXT'',
      ''vkGetImageSubresourceLayout'', ''vkGetImageViewAddressNVX'', ''vkGetImageViewHandleNVX'',
      ''vkGetImageViewOpaqueCaptureDescriptorDataEXT'', ''vkGetMemoryAndroidHardwareBufferANDROID'',
      ''vkGetMemoryFdKHR'', ''vkGetMemoryFdPropertiesKHR'', ''vkGetMemoryHostPointerPropertiesEXT'',
      ''vkGetMemoryRemoteAddressNV'', ''vkGetMicromapBuildSizesEXT'',
      ''vkGetPastPresentationTimingGOOGLE'', ''vkGetPerformanceParameterINTEL'',
      ''vkGetPhysicalDeviceCalibrateableTimeDomainsEXT'',
      ''vkGetPhysicalDeviceCooperativeMatrixPropertiesNV'',
      ''vkGetPhysicalDeviceDisplayPlaneProperties2KHR'',
      ''vkGetPhysicalDeviceDisplayPlanePropertiesKHR'', ''vkGetPhysicalDeviceDisplayProperties2KHR'',
      ''vkGetPhysicalDeviceDisplayPropertiesKHR'', ''vkGetPhysicalDeviceExternalBufferPropertiesKHR'',
      ''vkGetPhysicalDeviceExternalBufferProperties'',
      ''vkGetPhysicalDeviceExternalFencePropertiesKHR'',
      ''vkGetPhysicalDeviceExternalFenceProperties'',
      ''vkGetPhysicalDeviceExternalImageFormatPropertiesNV'',
      ''vkGetPhysicalDeviceExternalSemaphorePropertiesKHR'',
      ''vkGetPhysicalDeviceExternalSemaphoreProperties'', ''vkGetPhysicalDeviceFeatures2KHR'',
      ''vkGetPhysicalDeviceFeatures2'', ''vkGetPhysicalDeviceFeatures'',
      ''vkGetPhysicalDeviceFormatProperties2KHR'', ''vkGetPhysicalDeviceFormatProperties2'',
      ''vkGetPhysicalDeviceFormatProperties'', ''vkGetPhysicalDeviceFragmentShadingRatesKHR'',
      ''vkGetPhysicalDeviceImageFormatProperties2KHR'', ''vkGetPhysicalDeviceImageFormatProperties2'',
      ''vkGetPhysicalDeviceImageFormatProperties'', ''vkGetPhysicalDeviceMemoryProperties2KHR'',
      ''vkGetPhysicalDeviceMemoryProperties2'', ''vkGetPhysicalDeviceMemoryProperties'',
      ''vkGetPhysicalDeviceMultisamplePropertiesEXT'',
      ''vkGetPhysicalDeviceOpticalFlowImageFormatsNV'', ''vkGetPhysicalDevicePresentRectanglesKHR'',
      ''vkGetPhysicalDeviceProperties2KHR'', ''vkGetPhysicalDeviceProperties2'',
      ''vkGetPhysicalDeviceProperties'', ''vkGetPhysicalDeviceQueueFamilyPerformanceQueryPassesKHR'',
      ''vkGetPhysicalDeviceQueueFamilyProperties2KHR'', ''vkGetPhysicalDeviceQueueFamilyProperties2'',
      ''vkGetPhysicalDeviceQueueFamilyProperties'',
      ''vkGetPhysicalDeviceSparseImageFormatProperties2KHR'',
      ''vkGetPhysicalDeviceSparseImageFormatProperties2'',
      ''vkGetPhysicalDeviceSparseImageFormatProperties'',
      ''vkGetPhysicalDeviceSupportedFramebufferMixedSamplesCombinationsNV'',
      ''vkGetPhysicalDeviceSurfaceCapabilities2EXT'', ''vkGetPhysicalDeviceSurfaceCapabilities2KHR'',
      ''vkGetPhysicalDeviceSurfaceCapabilitiesKHR'', ''vkGetPhysicalDeviceSurfaceFormats2KHR'',
      ''vkGetPhysicalDeviceSurfaceFormatsKHR'', ''vkGetPhysicalDeviceSurfacePresentModesKHR'',
      ''vkGetPhysicalDeviceSurfaceSupportKHR'', ''vkGetPhysicalDeviceToolPropertiesEXT'',
      ''vkGetPhysicalDeviceToolProperties'', ''vkGetPhysicalDeviceVideoCapabilitiesKHR'',
      ''vkGetPhysicalDeviceVideoFormatPropertiesKHR'', ''vkGetPipelineCacheData'',
      ''vkGetPipelineExecutableInternalRepresentationsKHR'', ''vkGetPipelineExecutablePropertiesKHR'',
      ''vkGetPipelineExecutableStatisticsKHR'', ''vkGetPipelinePropertiesEXT'',
      ''vkGetPrivateDataEXT'', ''vkGetPrivateData'', ''vkGetQueryPoolResults'',
      ''vkGetQueueCheckpointData2NV'', ''vkGetQueueCheckpointDataNV'',
      ''vkGetRayTracingCaptureReplayShaderGroupHandlesKHR'', ''vkGetRayTracingShaderGroupHandlesKHR'',
      ''vkGetRayTracingShaderGroupHandlesNV'', ''vkGetRayTracingShaderGroupStackSizeKHR'',
      ''vkGetRefreshCycleDurationGOOGLE'', ''vkGetRenderAreaGranularity'',
      ''vkGetSamplerOpaqueCaptureDescriptorDataEXT'', ''vkGetSemaphoreCounterValueKHR'',
      ''vkGetSemaphoreCounterValue'', ''vkGetSemaphoreFdKHR'', ''vkGetShaderBinaryDataEXT'',
      ''vkGetShaderInfoAMD'', ''vkGetShaderModuleCreateInfoIdentifierEXT'',
      ''vkGetShaderModuleIdentifierEXT'', ''vkGetSwapchainCounterEXT'', ''vkGetSwapchainImagesKHR'',
      ''vkGetSwapchainStatusKHR'', ''vkGetValidationCacheDataEXT'',
      ''vkGetVideoSessionMemoryRequirementsKHR'', ''vkImportFenceFdKHR'', ''vkImportSemaphoreFdKHR'',
      ''vkInitializePerformanceApiINTEL'', ''vkInvalidateMappedMemoryRanges'', ''vkMapMemory2KHR'',
      ''vkMapMemory'', ''vkMergePipelineCaches'', ''vkMergeValidationCachesEXT'',
      ''vkQueueBeginDebugUtilsLabelEXT'', ''vkQueueBindSparse'', ''vkQueueEndDebugUtilsLabelEXT'',
      ''vkQueueInsertDebugUtilsLabelEXT'', ''vkQueuePresentKHR'',
      ''vkQueueSetPerformanceConfigurationINTEL'', ''vkQueueSubmit2KHR'', ''vkQueueSubmit2'',
      ''vkQueueSubmit'', ''vkQueueWaitIdle'', ''vkRegisterDeviceEventEXT'',
      ''vkRegisterDisplayEventEXT'', ''vkReleaseDisplayEXT'',
      ''vkReleasePerformanceConfigurationINTEL'', ''vkReleaseProfilingLockKHR'',
      ''vkReleaseSwapchainImagesEXT'', ''vkResetCommandBuffer'', ''vkResetCommandPool'',
      ''vkResetDescriptorPool'', ''vkResetEvent'', ''vkResetFences'', ''vkResetQueryPoolEXT'',
      ''vkResetQueryPool'', ''vkSetDebugUtilsObjectNameEXT'', ''vkSetDebugUtilsObjectTagEXT'',
      ''vkSetDeviceMemoryPriorityEXT'', ''vkSetEvent'', ''vkSetHdrMetadataEXT'',
      ''vkSetLocalDimmingAMD'', ''vkSetPrivateDataEXT'', ''vkSetPrivateData'',
      ''vkSignalSemaphoreKHR'', ''vkSignalSemaphore'', ''vkSubmitDebugUtilsMessageEXT'',
      ''vkTrimCommandPoolKHR'', ''vkTrimCommandPool'', ''vkUninitializePerformanceApiINTEL'',
      ''vkUnmapMemory2KHR'', ''vkUnmapMemory'', ''vkUpdateDescriptorSets'',
      ''vkUpdateDescriptorSetWithTemplateKHR'', ''vkUpdateDescriptorSetWithTemplate'',
      ''vkUpdateVideoSessionParametersKHR'', ''vkWaitForFences'', ''vkWaitForPresentKHR'',
      ''vkWaitSemaphoresKHR'', ''vkWaitSemaphores'', ''vkWriteAccelerationStructuresPropertiesKHR'',
      ''vkWriteMicromapsPropertiesEXT'']"

definition vulkan_symbols :: "symbol_entry list" where
  "vulkan_symbols =
     [sym_as ''vkGetInstanceProcAddr'' ''lambda vkGetInstanceProcAddr'']"

section \<open>Sizes\<close>

lemma length_add_common_shimmed_symbols [simp]: "length add_common_shimmed_symbols = 11"
  by (simp add: add_common_shimmed_symbols_def)

lemma length_add_stdlib_shimmed_symbols [simp]: "length add_stdlib_shimmed_symbols = 56"
  by (simp add: add_stdlib_shimmed_symbols_def)

lemma length_add_malloc_shimmed_symbols [simp]: "length add_malloc_shimmed_symbols = 11"
  by (simp add: add_malloc_shimmed_symbols_def)

lemma length_add_ctype_shimmed_symbols [simp]: "length add_ctype_shimmed_symbols = 21"
  by (simp add: add_ctype_shimmed_symbols_def)

lemma length_add_math_shimmed_symbols [simp]: "length add_math_shimmed_symbols = 1"
  by (simp add: add_math_shimmed_symbols_def)

lemma length_add_time_shimmed_symbols [simp]: "length add_time_shimmed_symbols = 23"
  by (simp add: add_time_shimmed_symbols_def)

lemma length_add_sched_shimmed_symbols [simp]: "length add_sched_shimmed_symbols = 7"
  by (simp add: add_sched_shimmed_symbols_def)

lemma length_add_unistd_shimmed_symbols [simp]: "length add_unistd_shimmed_symbols = 70"
  by (simp add: add_unistd_shimmed_symbols_def)

lemma length_add_signal_shimmed_symbols [simp]: "length add_signal_shimmed_symbols = 13"
  by (simp add: add_signal_shimmed_symbols_def)

lemma length_add_string_shimmed_symbols [simp]: "length add_string_shimmed_symbols = 60"
  by (simp add: add_string_shimmed_symbols_def)

lemma length_add_wchar_shimmed_symbols [simp]: "length add_wchar_shimmed_symbols = 56"
  by (simp add: add_wchar_shimmed_symbols_def)

lemma length_add_pthread_shimmed_symbols [simp]: "length add_pthread_shimmed_symbols = 57"
  by (simp add: add_pthread_shimmed_symbols_def)

lemma length_add_sem_shimmed_symbols [simp]: "length add_sem_shimmed_symbols = 5"
  by (simp add: add_sem_shimmed_symbols_def)

lemma length_add_network_shimmed_symbols [simp]: "length add_network_shimmed_symbols = 37"
  by (simp add: add_network_shimmed_symbols_def)

lemma length_add_dirent_shimmed_symbols [simp]: "length add_dirent_shimmed_symbols = 8"
  by (simp add: add_dirent_shimmed_symbols_def)

lemma length_add_stat_shimmed_symbols [simp]: "length add_stat_shimmed_symbols = 11"
  by (simp add: add_stat_shimmed_symbols_def)

lemma length_add_cstdio_shimmed_symbols [simp]: "length add_cstdio_shimmed_symbols = 79"
  by (simp add: add_cstdio_shimmed_symbols_def)

lemma length_add_mman_shimmed_symbols [simp]: "length add_mman_shimmed_symbols = 8"
  by (simp add: add_mman_shimmed_symbols_def)

lemma length_add_resource_shimmed_symbols [simp]: "length add_resource_shimmed_symbols = 3"
  by (simp add: add_resource_shimmed_symbols_def)

lemma length_add_prctl_shimmed_symbols [simp]: "length add_prctl_shimmed_symbols = 1"
  by (simp add: add_prctl_shimmed_symbols_def)

lemma length_add_locale_shimmed_symbols [simp]: "length add_locale_shimmed_symbols = 5"
  by (simp add: add_locale_shimmed_symbols_def)

lemma length_add_setjmp_shimmed_symbols [simp]: "length add_setjmp_shimmed_symbols = 4"
  by (simp add: add_setjmp_shimmed_symbols_def)

lemma length_add_ioctl_shimmed_symbols [simp]: "length add_ioctl_shimmed_symbols = 1"
  by (simp add: add_ioctl_shimmed_symbols_def)

lemma length_add_fcntl_shimmed_symbols [simp]: "length add_fcntl_shimmed_symbols = 4"
  by (simp add: add_fcntl_shimmed_symbols_def)

lemma length_add_poll_select_shimmed_symbols [simp]: "length add_poll_select_shimmed_symbols = 5"
  by (simp add: add_poll_select_shimmed_symbols_def)

lemma length_add_epoll_shimmed_symbols [simp]: "length add_epoll_shimmed_symbols = 4"
  by (simp add: add_epoll_shimmed_symbols_def)

lemma length_add_misc_shimmed_symbols [simp]: "length add_misc_shimmed_symbols = 10"
  by (simp add: add_misc_shimmed_symbols_def)

lemma length_add_sysconf_shimmed_symbols [simp]: "length add_sysconf_shimmed_symbols = 1"
  by (simp add: add_sysconf_shimmed_symbols_def)

lemma length_add_system_properties_shimmed_symbols [simp]: "length add_system_properties_shimmed_symbols = 2"
  by (simp add: add_system_properties_shimmed_symbols_def)

lemma length_add_eventfd_shimmed_symbols [simp]: "length add_eventfd_shimmed_symbols = 1"
  by (simp add: add_eventfd_shimmed_symbols_def)

lemma length_add_fnmatch_shimmed_symbols [simp]: "length add_fnmatch_shimmed_symbols = 1"
  by (simp add: add_fnmatch_shimmed_symbols_def)

lemma length_add_socket_shimmed_symbols [simp]: "length add_socket_shimmed_symbols = 3"
  by (simp add: add_socket_shimmed_symbols_def)

lemma length_add_statvfs_shimmed_symbols [simp]: "length add_statvfs_shimmed_symbols = 1"
  by (simp add: add_statvfs_shimmed_symbols_def)

lemma length_get_libdl_symbols [simp]: "length get_libdl_symbols = 24"
  by (simp add: get_libdl_symbols_def)

lemma length_libm_symbols [simp]: "length libm_symbols = 49"
  by (simp add: libm_symbols_def)

lemma length_libglesv2_symbols [simp]: "length libglesv2_symbols = 76"
  by (simp add: libglesv2_symbols_def)

lemma length_libopensles_symbols [simp]: "length libopensles_symbols = 8"
  by (simp add: libopensles_symbols_def)

lemma length_libmediandk_symbols [simp]: "length libmediandk_symbols = 27"
  by (simp add: libmediandk_symbols_def)

lemma length_log_symbols [simp]: "length log_symbols = 4"
  by (simp add: log_symbols_def)

lemma length_android_symbols [simp]: "length android_symbols = 19"
  by (simp add: android_symbols_def)

lemma length_zlib_symbols [simp]: "length zlib_symbols = 16"
  by (simp add: zlib_symbols_def)

lemma length_egl_symbols [simp]: "length egl_symbols = 17"
  by (simp add: egl_symbols_def)

lemma length_extra_gl_symbols [simp]: "length extra_gl_symbols = 41"
  by (simp add: extra_gl_symbols_def)

lemma length_actual_symbols [simp]: "length actual_symbols = 590"
  by (simp add: actual_symbols_def)

lemma length_vulkan_symbols [simp]: "length vulkan_symbols = 1"
  by (simp add: vulkan_symbols_def)

lemma length_get_shimmed_symbols [simp]: "length get_shimmed_symbols = 580"
  by (simp add: get_shimmed_symbols_def)

end
