(* ===== verification/Symbol_Libraries.thy ===== *)
theory Symbol_Libraries
  imports Symbol_Tables Linker_Tables Symbol_Data
begin

text \<open>
  Registration of the host libraries with the guest linker (\<^verbatim>\<open>src/src/libs/syms.cpp\<close>), the part of the
  linker it uses (\<^verbatim>\<open>create_empty_soinfo\<close> and the list of libraries, \<^verbatim>\<open>linker.cpp\<close> and \<^verbatim>\<open>linker_main.cpp\<close>) and
  the trampolines reserved for OpenGL and Vulkan functions (\<^verbatim>\<open>egl_syms.cpp\<close>, \<^verbatim>\<open>vulkan_syms.cpp\<close>).
\<close>

section \<open>The libraries of the linker\<close>

text \<open>
  A reference to a library is its index in \<open>ls_soinfos\<close>; \<open>ls_next\<close> holds the \<^verbatim>\<open>next\<close> pointers,
  \<open>ls_solist\<close> and \<open>ls_sonext\<close> the head and the tail of the list.
\<close>

record linker_state =
  ls_soinfos :: "soinfo list"
  ls_next :: "nat \<rightharpoonup> nat"
  ls_solist :: "nat option"
  ls_sonext :: "nat option"

definition initial_linker_state :: linker_state where
  "initial_linker_state = \<lparr>ls_soinfos = [], ls_next = Map.empty, ls_solist = None, ls_sonext = None\<rparr>"

definition solist_add_soinfo :: "nat \<Rightarrow> linker_state \<Rightarrow> linker_state" where
  "solist_add_soinfo si s =
     (case ls_sonext s of
        None \<Rightarrow> s
      | Some prev \<Rightarrow> s\<lparr>ls_next := (ls_next s)(prev \<mapsto> si), ls_sonext := Some si\<rparr>)"

text \<open>\<^verbatim>\<open>PATH_MAX\<close> is 4096; the random handle of a library is not used here.\<close>

definition soinfo_alloc :: "string \<Rightarrow> linker_state \<Rightarrow> (nat \<times> linker_state) result" where
  "soinfo_alloc name s =
     (if 4096 \<le> length name then Inl (Terminate ''library name too long'')
      else let n = length (ls_soinfos s)
           in Inr (n, solist_add_soinfo n (s\<lparr>ls_soinfos := ls_soinfos s @ [new_soinfo]\<rparr>)))"

definition create_empty_soinfo :: "string \<Rightarrow> linker_state \<Rightarrow> (nat \<times> linker_state) result" where
  "create_empty_soinfo name s =
     and_then (soinfo_alloc name s) (\<lambda>(n, s1).
     Inr (n, s1\<lparr>ls_soinfos := (ls_soinfos s1)[n := empty_soinfo name]\<rparr>))"

definition solist_init :: "linker_state \<Rightarrow> linker_state result" where
  "solist_init s =
     and_then (create_empty_soinfo ''linker.so'' s) (\<lambda>(a, s1).
     and_then (create_empty_soinfo ''linker_main'' (s1\<lparr>ls_solist := Some a, ls_sonext := Some a\<rparr>)) (\<lambda>(b, s2).
     Inr (solist_add_soinfo b s2)))"

definition soinfo_add_custom_symbol :: "nat \<Rightarrow> string \<Rightarrow> u64 \<Rightarrow> linker_state \<Rightarrow> linker_state" where
  "soinfo_add_custom_symbol i name addr s =
     s\<lparr>ls_soinfos := (ls_soinfos s)[i := add_custom_symbol name addr (ls_soinfos s ! i)]\<rparr>"

section \<open>State of the host libraries\<close>

record host_libraries =
  hs_trampolines :: trampoline_state
  hs_linker :: linker_state
  gl_initialized :: bool
  symbols_with_trampoline_ids :: "(symbol_entry \<times> u32) list"
  proc_to_guest_routine :: "string \<rightharpoonup> u64"
  vk_proc_to_trampoline :: "string \<rightharpoonup> u32"
  vk_device_proc_addr :: u64
  vk_global_instance :: u64

fun add_symbols :: "nat \<Rightarrow> dynamic_symbol list \<Rightarrow> host_libraries \<Rightarrow> host_libraries result" where
  "add_symbols i [] hs = Inr hs"
| "add_symbols i (d # ds) hs =
     and_then (symbol_address d (hs_trampolines hs)) (\<lambda>(a, ts).
     add_symbols i ds (hs\<lparr>hs_trampolines := ts,
       hs_linker := soinfo_add_custom_symbol i (sym_name d) a (hs_linker hs)\<rparr>))"

definition add_library :: "string \<Rightarrow> dynamic_symbol list \<Rightarrow> host_libraries \<Rightarrow> host_libraries result" where
  "add_library name symbols hs =
     and_then (create_empty_soinfo name (hs_linker hs)) (\<lambda>(i, lk).
     add_symbols i symbols (hs\<lparr>hs_linker := lk\<rparr>))"

definition gl_spec :: "declarations \<Rightarrow> symbol_entry \<Rightarrow> trampoline_spec" where
  "gl_spec decl e = (fst (snd e), 0, sym_arg_types (symbol_of decl e), False, False)"

fun create_extra_gl_trampolines ::
    "declarations \<Rightarrow> symbol_entry list \<Rightarrow> host_libraries \<Rightarrow> host_libraries result" where
  "create_extra_gl_trampolines decl [] hs = Inr hs"
| "create_extra_gl_trampolines decl (e # es) hs =
     and_then (assert_that (sym_arg_types (symbol_of decl e) \<noteq> []) ''!sym.arg_types.empty()'') (\<lambda>_.
     and_then (create_from (gl_spec decl e) (hs_trampolines hs)) (\<lambda>(n, ts).
     create_extra_gl_trampolines decl es
       (hs\<lparr>hs_trampolines := ts,
           symbols_with_trampoline_ids := symbols_with_trampoline_ids hs @ [(e, tr_id (trampolines ts ! n))]\<rparr>)))"

definition vk_spec :: "declarations \<Rightarrow> symbol_entry \<Rightarrow> trampoline_spec" where
  "vk_spec decl e =
     (fst (snd e), 0, sym_arg_types (symbol_of decl e), sym_is_ellipsis_function (symbol_of decl e),
      sym_has_execution_side_effects (symbol_of decl e))"

fun create_vulkan_trampolines ::
    "declarations \<Rightarrow> symbol_entry list \<Rightarrow> host_libraries \<Rightarrow> host_libraries result" where
  "create_vulkan_trampolines decl [] hs = Inr hs"
| "create_vulkan_trampolines decl (e # es) hs =
     and_then (assert_that (sym_arg_types (symbol_of decl e) \<noteq> []) ''!sym.arg_types.empty()'') (\<lambda>_.
     and_then (create_from (vk_spec decl e) (hs_trampolines hs)) (\<lambda>(n, ts).
     create_vulkan_trampolines decl es
       (hs\<lparr>hs_trampolines := ts,
           vk_proc_to_trampoline := insert_new (fst (snd e)) (tr_id (trampolines ts ! n) + trampoline_id_offset)
             (vk_proc_to_trampoline hs)\<rparr>)))"

definition sober_libraries :: "(string \<times> symbol_entry list) list" where
  "sober_libraries =
     [(''libdl.so'', get_libdl_symbols), (''libc.so'', get_shimmed_symbols), (''libm.so'', libm_symbols),
      (''libGLESv2.so'', libglesv2_symbols), (''libOpenSLES.so'', libopensles_symbols),
      (''libmediandk.so'', libmediandk_symbols), (''liblog.so'', log_symbols),
      (''libandroid.so'', android_symbols), (''libz.so'', zlib_symbols), (''libEGL.so'', egl_symbols),
      (''libvulkan.so.1'', vulkan_symbols)]"

fun add_libraries :: "declarations \<Rightarrow> (string \<times> symbol_entry list) list \<Rightarrow> host_libraries \<Rightarrow> host_libraries result" where
  "add_libraries decl [] hs = Inr hs"
| "add_libraries decl ((name, table) # ls) hs =
     and_then (add_library name (map (symbol_of decl) table) hs) (add_libraries decl ls)"

definition syms_init :: "declarations \<Rightarrow> host_libraries \<Rightarrow> host_libraries result" where
  "syms_init decl hs =
     and_then (add_libraries decl sober_libraries hs) (\<lambda>hs1.
     and_then (create_empty_soinfo ''libOpenMAXAL.so'' (hs_linker hs1)) (\<lambda>(_, lk).
     and_then (create_extra_gl_trampolines decl extra_gl_symbols (hs1\<lparr>hs_linker := lk\<rparr>)) (\<lambda>hs2.
     create_vulkan_trampolines decl actual_symbols hs2)))"

section \<open>What a registered library offers\<close>

definition custom_symbol :: "u64 \<Rightarrow> elf_sym" where
  "custom_symbol a = \<lparr>st_name = 0, st_info = push_bit 4 STB_GLOBAL, st_shndx = -1, st_value = a, st_size = 0\<rparr>"

text \<open>A later entry of the same name replaces an earlier one.\<close>

definition last_symbol :: "dynamic_symbol list \<Rightarrow> string \<Rightarrow> dynamic_symbol option" where
  "last_symbol ds name = find (\<lambda>d. sym_name d = name) (rev ds)"

definition symbol_bound :: "trampoline_state \<Rightarrow> dynamic_symbol list \<Rightarrow> string \<Rightarrow> elf_sym option \<Rightarrow> bool" where
  "symbol_bound ts ds name s \<longleftrightarrow>
     (case last_symbol ds name of
        None \<Rightarrow> s = None
      | Some d \<Rightarrow> \<exists>a. s = Some (custom_symbol a) \<and> bound_to ts d a)"

definition library_bound :: "trampoline_state \<Rightarrow> string \<Rightarrow> dynamic_symbol list \<Rightarrow> soinfo \<Rightarrow> bool" where
  "library_bound ts lib ds si \<longleftrightarrow>
     si = (empty_soinfo lib)\<lparr>custom_symbols := custom_symbols si\<rparr> \<and>
     (\<forall>name. symbol_bound ts ds name (custom_symbols si name))"

lemma add_symbols_bind:
  "add_symbols i ds hs =
     and_then (bind_symbols ds (hs_trampolines hs)) (\<lambda>(as, ts).
     Inr (hs\<lparr>hs_trampolines := ts,
       hs_linker := fold (\<lambda>(d, a). soinfo_add_custom_symbol i (sym_name d) a) (zip ds as) (hs_linker hs)\<rparr>))"
proof (induction ds arbitrary: hs)
  case (Cons d ds)
  then show ?case
    by (cases "symbol_address d (hs_trampolines hs)") (auto simp: and_then_def split: sum.splits prod.splits)
qed simp

lemma fold_add_soinfo:
  "i < length (ls_soinfos s) \<Longrightarrow>
   fold (\<lambda>(d, a). soinfo_add_custom_symbol i (sym_name d) a) xs s =
   s\<lparr>ls_soinfos := (ls_soinfos s)[i := fold (\<lambda>(d, a). add_custom_symbol (sym_name d) a) xs (ls_soinfos s ! i)]\<rparr>"
  by (induction xs arbitrary: s) (auto simp: soinfo_add_custom_symbol_def)

lemma fold_add_custom_symbol:
  "fold (\<lambda>(d, a). add_custom_symbol (sym_name d) a) xs si =
   si\<lparr>custom_symbols := custom_symbols si ++ map_of (rev (map (\<lambda>(d, a). (sym_name d, custom_symbol a)) xs))\<rparr>"
  by (induction xs arbitrary: si) (auto simp: add_custom_symbol_def custom_symbol_def fun_eq_iff map_add_def
      split: option.splits)

lemma find_map_of:
  "list_all2 P ds as \<Longrightarrow>
   (case find (\<lambda>d. sym_name d = name) ds of
      None \<Rightarrow> map_of (map2 (\<lambda>d a. (sym_name d, custom_symbol a)) ds as) name = None
    | Some d \<Rightarrow> \<exists>a. map_of (map2 (\<lambda>d a. (sym_name d, custom_symbol a)) ds as) name = Some (custom_symbol a) \<and> P d a)"
  by (induction rule: list_all2_induct) (auto split: option.splits)

lemma map_of_bound:
  assumes "list_all2 (bound_to ts) ds as"
  shows "symbol_bound ts ds name (map_of (rev (map2 (\<lambda>d a. (sym_name d, custom_symbol a)) ds as)) name)"
  using find_map_of [of "bound_to ts" "rev ds" "rev as" name] assms list_all2_lengthD [OF assms]
  by (simp add: symbol_bound_def last_symbol_def zip_rev rev_map split: option.splits)

lemma create_empty_soinfo_total:
  "length name < 4096 \<Longrightarrow> \<exists>s'. create_empty_soinfo name s = Inr (length (ls_soinfos s), s') \<and>
     ls_soinfos s' = ls_soinfos s @ [empty_soinfo name]"
  by (auto simp: create_empty_soinfo_def soinfo_alloc_def solist_add_soinfo_def Let_def split: option.splits)

lemma symbol_bound_extends:
  "trampolines_wf ts' \<Longrightarrow> extends ts ts' \<Longrightarrow> symbol_bound ts ds name s \<Longrightarrow> symbol_bound ts' ds name s"
  by (auto simp: symbol_bound_def split: option.splits dest: bound_to_extends)

lemma library_bound_extends:
  "trampolines_wf ts' \<Longrightarrow> extends ts ts' \<Longrightarrow> library_bound ts lib ds si \<Longrightarrow> library_bound ts' lib ds si"
  unfolding library_bound_def using symbol_bound_extends by blast

lemma add_library_correct:
  assumes "trampolines_wf (hs_trampolines hs)" "function_count ds \<le> free_trampolines (hs_trampolines hs)"
    "length name < 4096"
  shows "\<exists>ts lk si. add_library name ds hs = Inr (hs\<lparr>hs_trampolines := ts, hs_linker := lk\<rparr>) \<and> trampolines_wf ts \<and>
           extends (hs_trampolines hs) ts \<and> ls_soinfos lk = ls_soinfos (hs_linker hs) @ [si] \<and>
           library_bound ts name ds si \<and>
           free_trampolines ts = free_trampolines (hs_trampolines hs) - function_count ds"
proof -
  obtain lk where lk: "create_empty_soinfo name (hs_linker hs) = Inr (length (ls_soinfos (hs_linker hs)), lk)"
    "ls_soinfos lk = ls_soinfos (hs_linker hs) @ [empty_soinfo name]"
    using create_empty_soinfo_total [OF assms(3)] by blast
  obtain as ts where b: "bind_symbols ds (hs_trampolines hs) = Inr (as, ts)" "trampolines_wf ts"
    "extends (hs_trampolines hs) ts" "list_all2 (bound_to ts) ds as"
    "free_trampolines ts = free_trampolines (hs_trampolines hs) - function_count ds"
    using bind_symbols_correct [OF assms(1,2)] by blast
  define si where "si = fold (\<lambda>(d, a). add_custom_symbol (sym_name d) a) (zip ds as) (empty_soinfo name)"
  have "custom_symbols (empty_soinfo name) = Map.empty" by (simp add: empty_soinfo_def new_soinfo_def)
  then have "library_bound ts name ds si"
    using map_of_bound [OF b(4)] by (simp add: library_bound_def si_def fold_add_custom_symbol)
  then show ?thesis
    using lk b
    by (intro exI [of _ ts] exI [of _ "lk\<lparr>ls_soinfos := ls_soinfos (hs_linker hs) @ [si]\<rparr>"] exI [of _ si])
      (simp add: add_library_def add_symbols_bind fold_add_soinfo flip: si_def)
qed

definition table_size :: "(string \<times> symbol_entry list) list \<Rightarrow> nat" where
  "table_size libs = sum_list (map (\<lambda>l. length (snd l)) libs)"

lemma function_count_le: "function_count ds \<le> length ds"
  by (simp add: function_count_def)

lemma add_libraries_correct:
  assumes "trampolines_wf (hs_trampolines hs)" "table_size libs \<le> free_trampolines (hs_trampolines hs)"
    "list_all (\<lambda>l. length (fst l) < 4096) libs"
  shows "\<exists>ts lk sis. add_libraries decl libs hs = Inr (hs\<lparr>hs_trampolines := ts, hs_linker := lk\<rparr>) \<and> trampolines_wf ts \<and>
           extends (hs_trampolines hs) ts \<and> ls_soinfos lk = ls_soinfos (hs_linker hs) @ sis \<and>
           list_all2 (\<lambda>l. library_bound ts (fst l) (map (symbol_of decl) (snd l))) libs sis \<and>
           free_trampolines (hs_trampolines hs) - table_size libs \<le> free_trampolines ts"
  using assms
proof (induction libs arbitrary: hs)
  case Nil
  have "hs = hs\<lparr>hs_trampolines := hs_trampolines hs, hs_linker := hs_linker hs\<rparr>" by simp
  then show ?case using Nil by (intro exI [of _ "hs_trampolines hs"] exI [of _ "hs_linker hs"]) simp
next
  case (Cons l libs)
  obtain name table where l: "l = (name, table)" by (cases l)
  let ?ds = "map (symbol_of decl) table"
  have size: "table_size (l # libs) = length table + table_size libs" by (simp add: table_size_def l)
  have c: "function_count ?ds \<le> length table" using function_count_le [of ?ds] by simp
  obtain ts lk si where 1: "add_library name ?ds hs = Inr (hs\<lparr>hs_trampolines := ts, hs_linker := lk\<rparr>)"
    "trampolines_wf ts" "extends (hs_trampolines hs) ts" "ls_soinfos lk = ls_soinfos (hs_linker hs) @ [si]"
    "library_bound ts name ?ds si"
    "free_trampolines ts = free_trampolines (hs_trampolines hs) - function_count ?ds"
    using add_library_correct [OF Cons.prems(1), of ?ds name] Cons.prems(2,3) c size l by auto
  have room: "table_size libs \<le> free_trampolines ts" using 1(6) Cons.prems(2) c size by linarith
  obtain ts2 lk2 sis where 2: "add_libraries decl libs (hs\<lparr>hs_trampolines := ts, hs_linker := lk\<rparr>) =
      Inr (hs\<lparr>hs_trampolines := ts2, hs_linker := lk2\<rparr>)" "trampolines_wf ts2" "extends ts ts2"
    "ls_soinfos lk2 = ls_soinfos lk @ sis"
    "list_all2 (\<lambda>l. library_bound ts2 (fst l) (map (symbol_of decl) (snd l))) libs sis"
    "free_trampolines ts - table_size libs \<le> free_trampolines ts2"
    using Cons.IH [of "hs\<lparr>hs_trampolines := ts, hs_linker := lk\<rparr>"] 1(2) room Cons.prems(3) by auto
  then show ?case
    using 1 c size extends_trans [OF 1(3) 2(3)] library_bound_extends [OF 2(2,3) 1(5)]
    by (intro exI [of _ ts2] exI [of _ lk2] exI [of _ "si # sis"]) (simp add: l)
qed

section \<open>Trampolines reserved for functions bound later\<close>

definition gl_ready :: "declarations \<Rightarrow> host_libraries \<Rightarrow> bool" where
  "gl_ready decl hs \<longleftrightarrow>
     (\<exists>ns. symbols_with_trampoline_ids hs = zip extra_gl_symbols (map of_nat ns) \<and> distinct ns \<and>
        list_all2 (\<lambda>n e. \<exists>t. entry_at (hs_trampolines hs) n = Some t \<and> spec_of t = gl_spec decl e) ns extra_gl_symbols)"

text \<open>\<^verbatim>\<open>emplace\<close> keeps the first entry of a name.\<close>

definition entry_named :: "symbol_entry list \<Rightarrow> string \<Rightarrow> symbol_entry option" where
  "entry_named es name = find (\<lambda>e. fst (snd e) = name) es"

definition vk_ready :: "declarations \<Rightarrow> host_libraries \<Rightarrow> bool" where
  "vk_ready decl hs \<longleftrightarrow>
     (\<forall>name. case entry_named actual_symbols name of
        None \<Rightarrow> vk_proc_to_trampoline hs name = None
      | Some e \<Rightarrow> \<exists>n t. vk_proc_to_trampoline hs name = Some (of_nat n + trampoline_id_offset) \<and>
                  entry_at (hs_trampolines hs) n = Some t \<and> spec_of t = vk_spec decl e)"

definition all_functions :: "declarations \<Rightarrow> symbol_entry list \<Rightarrow> bool" where
  "all_functions decl es \<longleftrightarrow> list_all (\<lambda>e. is_function_symbol (symbol_of decl e)) es"

lemma create_from_id:
  assumes "trampolines_wf ts" "create_from d ts = Inr (n, ts')"
  shows "tr_id (trampolines ts' ! n) = of_nat n"
proof -
  obtain e where e: "entry_at ts' n = Some e" using tramp.create_entry [OF assms] by blast
  then show ?thesis
    using tramp.create_inv [OF assms] by (auto simp: entry_at_def trampolines_wf_def entry_wf_def split: if_splits)
qed

lemma create_extra_gl_trampolines_register:
  assumes "trampolines_wf (hs_trampolines hs)" "all_functions decl es"
  shows "create_extra_gl_trampolines decl es hs =
     and_then (register_all create_from (map (gl_spec decl) es) (hs_trampolines hs)) (\<lambda>(ns, ts).
     Inr (hs\<lparr>hs_trampolines := ts,
       symbols_with_trampoline_ids := symbols_with_trampoline_ids hs @ zip es (map of_nat ns)\<rparr>))"
  using assms
proof (induction es arbitrary: hs)
  case (Cons e es)
  show ?case
  proof (cases "create_from (gl_spec decl e) (hs_trampolines hs)")
    case (Inr r)
    obtain n ts where r: "r = (n, ts)" by (cases r)
    note c = Inr [unfolded r]
    show ?thesis
      using Cons.IH [of "hs\<lparr>hs_trampolines := ts, symbols_with_trampoline_ids := symbols_with_trampoline_ids hs @ [(e, of_nat n)]\<rparr>"]
        Cons.prems c create_from_id [OF Cons.prems(1) c] tramp.create_inv [OF Cons.prems(1) c]
      by (auto simp: all_functions_def is_function_symbol_def assert_that_def and_then_def split: sum.splits)
  qed (use Cons.prems in \<open>simp add: all_functions_def is_function_symbol_def assert_that_def\<close>)
qed simp


fun insert_all :: "(string \<times> 'v) list \<Rightarrow> (string \<rightharpoonup> 'v) \<Rightarrow> (string \<rightharpoonup> 'v)" where
  "insert_all [] m = m"
| "insert_all ((k, v) # xs) m = insert_all xs (insert_new k v m)"

lemma insert_all_map_of: "insert_all xs m = map_of xs ++ m"
  by (induction xs m rule: insert_all.induct)
    (auto simp: insert_new_def map_add_def fun_eq_iff split: option.splits)

lemma create_vulkan_trampolines_register:
  assumes "trampolines_wf (hs_trampolines hs)" "all_functions decl es"
  shows "create_vulkan_trampolines decl es hs =
     and_then (register_all create_from (map (vk_spec decl) es) (hs_trampolines hs)) (\<lambda>(ns, ts).
     Inr (hs\<lparr>hs_trampolines := ts,
       vk_proc_to_trampoline := insert_all
         (map2 (\<lambda>e n. (fst (snd e), of_nat n + trampoline_id_offset)) es ns) (vk_proc_to_trampoline hs)\<rparr>))"
  using assms
proof (induction es arbitrary: hs)
  case (Cons e es)
  show ?case
  proof (cases "create_from (vk_spec decl e) (hs_trampolines hs)")
    case (Inr r)
    obtain n ts where r: "r = (n, ts)" by (cases r)
    note c = Inr [unfolded r]
    show ?thesis
      using Cons.IH [of "hs\<lparr>hs_trampolines := ts, vk_proc_to_trampoline :=
          insert_new (fst (snd e)) (of_nat n + trampoline_id_offset) (vk_proc_to_trampoline hs)\<rparr>"]
        Cons.prems c create_from_id [OF Cons.prems(1) c] tramp.create_inv [OF Cons.prems(1) c]
      by (auto simp: all_functions_def is_function_symbol_def assert_that_def and_then_def split: sum.splits)
  qed (use Cons.prems in \<open>simp add: all_functions_def is_function_symbol_def assert_that_def\<close>)
qed simp

lemma find_named:
  "list_all2 P ns es \<Longrightarrow>
   (case entry_named es name of
      None \<Rightarrow> map_of (map2 (\<lambda>e n. (fst (snd e), f n)) es ns) name = None
    | Some e \<Rightarrow> \<exists>n. map_of (map2 (\<lambda>e n. (fst (snd e), f n)) es ns) name = Some (f n) \<and> P n e)"
  unfolding entry_named_def by (induction rule: list_all2_induct) (auto split: option.splits)

lemma registered_entries:
  assumes "trampolines_wf ts" "register_all create_from (map spec es) ts = Inr (ns, ts')"
  shows "list_all2 (\<lambda>n e. \<exists>t. entry_at ts' n = Some t \<and> spec_of t = spec e) ns es"
  using tramp.register_all_entries [OF assms] by (simp add: list.rel_map)

lemma register_extends:
  "trampolines_wf ts \<Longrightarrow> register_all create_from ds ts = Inr (ns, ts') \<Longrightarrow> extends ts ts' \<and> trampolines_wf ts'"
  using tramp.register_all_keeps tramp.register_all_inv unfolding extends_def by blast

definition initial_host_libraries :: "trampoline_state \<Rightarrow> linker_state \<Rightarrow> host_libraries" where
  "initial_host_libraries ts lk =
     \<lparr>hs_trampolines = ts, hs_linker = lk, gl_initialized = False, symbols_with_trampoline_ids = [],
      proc_to_guest_routine = Map.empty, vk_proc_to_trampoline = Map.empty, vk_device_proc_addr = 0,
      vk_global_instance = 0\<rparr>"

lemma sober_libraries_size:
  "table_size sober_libraries = 821" "list_all (\<lambda>l. length (fst l) < 4096) sober_libraries"
  by (simp_all add: sober_libraries_def table_size_def)

lemma gl_trampolines_reserved:
  assumes "trampolines_wf (hs_trampolines hs)" "all_functions decl extra_gl_symbols"
    "symbols_with_trampoline_ids hs = []" "41 \<le> free_trampolines (hs_trampolines hs)"
  shows "\<exists>ts ids. create_extra_gl_trampolines decl extra_gl_symbols hs =
             Inr (hs\<lparr>hs_trampolines := ts, symbols_with_trampoline_ids := ids\<rparr>) \<and>
           trampolines_wf ts \<and> extends (hs_trampolines hs) ts \<and>
           gl_ready decl (hs\<lparr>hs_trampolines := ts, symbols_with_trampoline_ids := ids\<rparr>) \<and>
           free_trampolines ts = free_trampolines (hs_trampolines hs) - 41"
proof -
  obtain ns ts where r: "register_all create_from (map (gl_spec decl) extra_gl_symbols) (hs_trampolines hs) = Inr (ns, ts)"
    "free_trampolines ts = free_trampolines (hs_trampolines hs) - 41"
    using tramp.register_all_total [OF assms(1), of "map (gl_spec decl) extra_gl_symbols"] assms(4) by auto
  show ?thesis
    using r assms(3) create_extra_gl_trampolines_register [OF assms(1,2)] register_extends [OF assms(1) r(1)]
      registered_entries [OF assms(1) r(1)] tramp.register_all_entries [OF assms(1) r(1)]
    by (auto simp: gl_ready_def)
qed

lemma vk_trampolines_reserved:
  assumes "trampolines_wf (hs_trampolines hs)" "all_functions decl actual_symbols"
    "vk_proc_to_trampoline hs = Map.empty" "590 \<le> free_trampolines (hs_trampolines hs)"
  shows "\<exists>ts m. create_vulkan_trampolines decl actual_symbols hs =
             Inr (hs\<lparr>hs_trampolines := ts, vk_proc_to_trampoline := m\<rparr>) \<and>
           trampolines_wf ts \<and> extends (hs_trampolines hs) ts \<and>
           vk_ready decl (hs\<lparr>hs_trampolines := ts, vk_proc_to_trampoline := m\<rparr>)"
proof -
  obtain ns ts where r: "register_all create_from (map (vk_spec decl) actual_symbols) (hs_trampolines hs) = Inr (ns, ts)"
    using tramp.register_all_total [OF assms(1), of "map (vk_spec decl) actual_symbols"] assms(4) by auto
  define m :: "string \<rightharpoonup> u32" where
    "m = map_of (map2 (\<lambda>e n. (fst (snd e), of_nat n + trampoline_id_offset)) actual_symbols ns)"
  have "vk_ready decl (hs\<lparr>hs_trampolines := ts, vk_proc_to_trampoline := m\<rparr>)"
    unfolding vk_ready_def
  proof
    fix name
    show "case entry_named actual_symbols name of
        None \<Rightarrow> vk_proc_to_trampoline (hs\<lparr>hs_trampolines := ts, vk_proc_to_trampoline := m\<rparr>) name = None
      | Some e \<Rightarrow> \<exists>n t. vk_proc_to_trampoline (hs\<lparr>hs_trampolines := ts, vk_proc_to_trampoline := m\<rparr>) name =
            Some (of_nat n + trampoline_id_offset) \<and>
          entry_at (hs_trampolines (hs\<lparr>hs_trampolines := ts, vk_proc_to_trampoline := m\<rparr>)) n = Some t \<and>
          spec_of t = vk_spec decl e"
      using find_named [OF registered_entries [OF assms(1) r], where name = name and
          f = "\<lambda>n. of_nat n + trampoline_id_offset"]
      by (cases "entry_named actual_symbols name") (auto simp: m_def)
  qed
  moreover have "create_vulkan_trampolines decl actual_symbols hs =
      Inr (hs\<lparr>hs_trampolines := ts, vk_proc_to_trampoline := m\<rparr>)"
    using r assms(3) create_vulkan_trampolines_register [OF assms(1,2)] by (simp add: insert_all_map_of m_def)
  ultimately show ?thesis using register_extends [OF assms(1) r] by blast
qed

lemma gl_ready_extends:
  "gl_ready decl hs \<Longrightarrow> extends (hs_trampolines hs) ts \<Longrightarrow>
   gl_ready decl (hs\<lparr>hs_trampolines := ts, vk_proc_to_trampoline := m\<rparr>)"
  unfolding gl_ready_def extends_def by (fastforce elim: list_all2_mono)

definition libraries_ready :: "declarations \<Rightarrow> host_libraries \<Rightarrow> soinfo list \<Rightarrow> bool" where
  "libraries_ready decl hs sis \<longleftrightarrow>
     trampolines_wf (hs_trampolines hs) \<and>
     list_all2 (\<lambda>l. library_bound (hs_trampolines hs) (fst l) (map (symbol_of decl) (snd l))) sober_libraries sis \<and>
     gl_ready decl hs \<and> vk_ready decl hs"

lemma syms_init_ready:
  assumes "trampolines_wf ts" "1452 \<le> free_trampolines ts"
    "all_functions decl extra_gl_symbols" "all_functions decl actual_symbols"
  shows "\<exists>hs sis. syms_init decl (initial_host_libraries ts lk) = Inr hs \<and> libraries_ready decl hs sis \<and>
           ls_soinfos (hs_linker hs) = ls_soinfos lk @ sis @ [empty_soinfo ''libOpenMAXAL.so''] \<and>
           gl_initialized hs = False \<and> proc_to_guest_routine hs = Map.empty"
proof -
  let ?hs = "initial_host_libraries ts lk"
  have i: "hs_trampolines ?hs = ts" "symbols_with_trampoline_ids ?hs = []" "vk_proc_to_trampoline ?hs = Map.empty"
    "hs_linker ?hs = lk" "gl_initialized ?hs = False" "proc_to_guest_routine ?hs = Map.empty"
    by (simp_all add: initial_host_libraries_def)
  obtain ts1 lk1 sis where 1: "add_libraries decl sober_libraries ?hs = Inr (?hs\<lparr>hs_trampolines := ts1, hs_linker := lk1\<rparr>)"
    "trampolines_wf ts1" "ls_soinfos lk1 = ls_soinfos lk @ sis"
    "list_all2 (\<lambda>l. library_bound ts1 (fst l) (map (symbol_of decl) (snd l))) sober_libraries sis"
    "631 \<le> free_trampolines ts1"
    using add_libraries_correct [of ?hs sober_libraries decl] assms(1,2) sober_libraries_size i by auto
  obtain lk2 where 2: "create_empty_soinfo ''libOpenMAXAL.so'' lk1 = Inr (length (ls_soinfos lk1), lk2)"
    "ls_soinfos lk2 = ls_soinfos lk1 @ [empty_soinfo ''libOpenMAXAL.so'']"
    using create_empty_soinfo_total [of "''libOpenMAXAL.so''" lk1] by auto
  define h1 where "h1 = ?hs\<lparr>hs_trampolines := ts1, hs_linker := lk2\<rparr>"
  obtain ts2 ids where 3: "create_extra_gl_trampolines decl extra_gl_symbols h1 =
        Inr (h1\<lparr>hs_trampolines := ts2, symbols_with_trampoline_ids := ids\<rparr>)" "trampolines_wf ts2" "extends ts1 ts2"
    "gl_ready decl (h1\<lparr>hs_trampolines := ts2, symbols_with_trampoline_ids := ids\<rparr>)" "590 \<le> free_trampolines ts2"
    using gl_trampolines_reserved [OF _ assms(3), of h1] 1(2,5) i by (auto simp: h1_def)
  define h2 where "h2 = h1\<lparr>hs_trampolines := ts2, symbols_with_trampoline_ids := ids\<rparr>"
  obtain ts3 m where 4: "create_vulkan_trampolines decl actual_symbols h2 =
        Inr (h2\<lparr>hs_trampolines := ts3, vk_proc_to_trampoline := m\<rparr>)" "trampolines_wf ts3" "extends ts2 ts3"
    "vk_ready decl (h2\<lparr>hs_trampolines := ts3, vk_proc_to_trampoline := m\<rparr>)"
    using vk_trampolines_reserved [OF _ assms(4), of h2] 3(2,5) i by (auto simp: h1_def h2_def)
  have "gl_ready decl (h2\<lparr>hs_trampolines := ts3, vk_proc_to_trampoline := m\<rparr>)"
    using gl_ready_extends [OF 3(4), of ts3 m] 4(3) by (simp add: h2_def)
  moreover have "list_all2 (\<lambda>l. library_bound ts3 (fst l) (map (symbol_of decl) (snd l))) sober_libraries sis"
    using library_bound_extends [OF 4(2) extends_trans [OF 3(3) 4(3)]] by (blast intro: list_all2_mono [OF 1(4)])
  moreover have "syms_init decl ?hs = Inr (h2\<lparr>hs_trampolines := ts3, vk_proc_to_trampoline := m\<rparr>)"
    using 1(1) 2(1) 3(1) 4(1) by (simp add: syms_init_def flip: h1_def h2_def)
  ultimately show ?thesis
    using 1(3) 2(2) 4(2,4) i by (auto simp: libraries_ready_def h1_def h2_def)
qed

section \<open>Libraries as the linker sees them\<close>

definition exports_symbol ::
    "(u64 \<Rightarrow> u64) \<Rightarrow> trampoline_state \<Rightarrow> dynamic_symbol list \<Rightarrow> soinfo \<Rightarrow> string \<Rightarrow> version_info option \<Rightarrow> bool" where
  "exports_symbol ifunc ts ds si name vi \<longleftrightarrow>
     (case last_symbol ds name of
        None \<Rightarrow> find_symbol_by_name si name vi = Inr None
      | Some d \<Rightarrow> \<exists>es. find_symbol_by_name si name vi = Inr (Some es) \<and>
                       bound_to ts d (resolve_symbol_address ifunc si es))"

lemma empty_soinfo_fields:
  assumes "si = (empty_soinfo lib)\<lparr>custom_symbols := cs\<rparr>"
  shows "\<not> is_gnu_hash si" "si_bucket si = None" "si_soname si = lib" "load_bias si = 0" "verdefs si = []"
  unfolding assms by (simp_all add: empty_soinfo_def new_soinfo_def is_gnu_hash_def FLAG_LINKED_def FLAG_GNU_HASH_def)

lemma resolve_custom_symbol: "load_bias si = 0 \<Longrightarrow> resolve_symbol_address ifunc si (custom_symbol a) = a"
  by (simp add: resolve_symbol_address_def custom_symbol_def ELF_ST_TYPE_def)

lemma library_bound_exports:
  assumes "library_bound ts lib ds si"
  shows "si_soname si = lib \<and> library_wf si \<and> exports_symbol ifunc ts ds si name vi"
proof -
  have e: "si = (empty_soinfo lib)\<lparr>custom_symbols := custom_symbols si\<rparr>"
    and b: "symbol_bound ts ds name (custom_symbols si name)"
    using assms by (simp_all add: library_bound_def)
  note f = empty_soinfo_fields [OF e]
  have "exports_symbol ifunc ts ds si name vi"
    using b f by (auto simp: exports_symbol_def symbol_bound_def find_symbol_by_name_def resolve_custom_symbol
        split: option.splits)
  then show ?thesis using f by (simp add: library_wf_def verdefs_ok_def)
qed

text \<open>
  The list of libraries after \<^verbatim>\<open>solist_init\<close>: \<^verbatim>\<open>soinfo_alloc\<close> has already appended the second library when
  \<^verbatim>\<open>solist_add_soinfo\<close> is called for it, so it is linked to itself until the next one is created.
\<close>

definition solist_upto :: "nat \<Rightarrow> linker_state \<Rightarrow> bool" where
  "solist_upto n s \<longleftrightarrow>
     n = length (ls_soinfos s) \<and> 0 < n \<and> ls_solist s = Some 0 \<and> ls_sonext s = Some (n - 1) \<and>
     (\<forall>i. Suc i < n \<longrightarrow> ls_next s i = Some (Suc i)) \<and> (\<forall>i\<ge>n. ls_next s i = None)"

lemma solist_init_links:
  "\<exists>s. solist_init initial_linker_state = Inr s \<and> solist_upto 2 s \<and> ls_next s 1 = Some 1 \<and>
       map si_soname (ls_soinfos s) = [''linker.so'', ''linker_main'']"
  by (simp add: solist_init_def create_empty_soinfo_def soinfo_alloc_def initial_linker_state_def
      solist_add_soinfo_def solist_upto_def empty_soinfo_def less_Suc_eq numeral_2_eq_2)

lemma create_empty_soinfo_links:
  assumes "solist_upto n s" "create_empty_soinfo name s = Inr (i, s')"
  shows "i = n \<and> solist_upto (Suc n) s' \<and> ls_next s' n = None"
  using assms gr0_conv_Suc [of n]
  by (auto simp: create_empty_soinfo_def soinfo_alloc_def solist_add_soinfo_def solist_upto_def Let_def
      and_then_eq_Inr less_Suc_eq split: if_splits)

text \<open>
  C6. Registration of the host libraries succeeds on a fresh trampoline buffer, and afterwards the linker
  finds, in each library of \<^verbatim>\<open>syms_init\<close>, exactly the names of its table; the address it returns
  is the value of a data symbol, and for a function a trampoline whose supervisor call dispatches to
  an entry with the host function, argument types and flags of the last table entry of that name.
\<close>

theorem syms_init_exports:
  assumes "trampoline_init (Some base) initial_trampoline_state = Inr (r, ts)" "base \<noteq> 0"
    "all_functions decl extra_gl_symbols" "all_functions decl actual_symbols"
  shows "\<exists>hs sis. syms_init decl (initial_host_libraries ts lk) = Inr hs \<and>
           ls_soinfos (hs_linker hs) = ls_soinfos lk @ sis @ [empty_soinfo ''libOpenMAXAL.so''] \<and>
           list_all2 (\<lambda>(lib, table) si. si_soname si = lib \<and>
               (\<forall>name vi. exports_symbol ifunc (hs_trampolines hs) (map (symbol_of decl) table) si name vi))
             sober_libraries sis"
proof -
  have ts: "trampolines_wf ts" "trampolines ts = []"
    using trampoline_init_wf [OF assms(2)] assms(1) by auto
  then have "1452 \<le> free_trampolines ts" by (simp add: free_trampolines_def max_trampolines_def)
  then obtain hs sis where hs: "syms_init decl (initial_host_libraries ts lk) = Inr hs" "libraries_ready decl hs sis"
    "ls_soinfos (hs_linker hs) = ls_soinfos lk @ sis @ [empty_soinfo ''libOpenMAXAL.so'']"
    using syms_init_ready [OF ts(1) _ assms(3,4)] by blast
  have "list_all2 (\<lambda>l. library_bound (hs_trampolines hs) (fst l) (map (symbol_of decl) (snd l))) sober_libraries sis"
    using hs(2) by (simp add: libraries_ready_def)
  then have "list_all2 (\<lambda>(lib, table) si. si_soname si = lib \<and>
      (\<forall>name vi. exports_symbol ifunc (hs_trampolines hs) (map (symbol_of decl) table) si name vi)) sober_libraries sis"
    by (rule list_all2_mono) (auto simp: library_bound_exports)
  then show ?thesis using hs by blast
qed

lemma all_functions_const: "all_functions (\<lambda>_. Func p ret args) es"
  by (auto simp: all_functions_def list_all_iff is_function_symbol_def symbol_of_def Let_def dynamic_symbol_tagged_def
      dynamic_symbol_function_def split: prod.splits)

theorem syms_init_exports_witness:
  "\<exists>ts hs sis. trampoline_init (Some 0x7f0000000000) initial_trampoline_state = Inr (0, ts) \<and>
     syms_init (\<lambda>_. Func 0x1234 CVoid []) (initial_host_libraries ts initial_linker_state) = Inr hs \<and>
     length sis = 11 \<and>
     list_all2 (\<lambda>(lib, table) si. si_soname si = lib \<and>
         (\<forall>name vi. exports_symbol (\<lambda>a. a) (hs_trampolines hs) (map (symbol_of (\<lambda>_. Func 0x1234 CVoid [])) table) si name vi))
       sober_libraries sis"
proof -
  obtain ts where ts: "trampoline_init (Some 0x7f0000000000) initial_trampoline_state = Inr (0, ts)"
    using trampoline_init_wf [of "0x7f0000000000"] by auto
  have "length sober_libraries = 11" by (simp add: sober_libraries_def)
  then show ?thesis
    using syms_init_exports [OF ts _ all_functions_const all_functions_const, of "0x1234" CVoid "[]" initial_linker_state "\<lambda>a. a"]
      ts list_all2_lengthD by fastforce
qed

end
