(* ===== verification/Graphics_Symbols.thy ===== *)
theory Graphics_Symbols
  imports Symbol_Libraries
begin

text \<open>
  Functions bound when the guest asks for them: \<^verbatim>\<open>eglGetProcAddress\<close> (\<^verbatim>\<open>src/src/libs/egl_syms.cpp\<close>) and
  the Vulkan resolvers with the functions they replace (\<^verbatim>\<open>src/src/libs/vulkan_syms.cpp\<close>).
\<close>

section \<open>OpenGL\<close>

definition set_native_func :: "nat \<Rightarrow> u64 \<Rightarrow> trampoline_state \<Rightarrow> trampoline_state" where
  "set_native_func k f ts = ts\<lparr>trampolines := (trampolines ts)[k := (trampolines ts ! k)\<lparr>native_func := f\<rparr>]\<rparr>"

text \<open>
  \<open>glad expr\<close> is the value the GL loader has stored in the function pointer the table entry names.
\<close>

fun load_gl_symbols :: "(string \<Rightarrow> u64) \<Rightarrow> (symbol_entry \<times> u32) list \<Rightarrow> host_libraries \<Rightarrow> host_libraries result" where
  "load_gl_symbols glad [] hs = Inr hs"
| "load_gl_symbols glad ((e, trampoline_id) # rest) hs =
     and_then (trampoline_get_by_id (trampoline_id + trampoline_id_offset) (hs_trampolines hs)) (\<lambda>k.
     load_gl_symbols glad rest
       (hs\<lparr>hs_trampolines := set_native_func k (glad (snd (snd e))) (hs_trampolines hs),
           proc_to_guest_routine := insert_new (fst (snd e)) (guest_trampoline (trampolines (hs_trampolines hs) ! k))
             (proc_to_guest_routine hs)\<rparr>))"

definition egl_get_proc_address ::
    "(string \<Rightarrow> u64) \<Rightarrow> string \<Rightarrow> host_libraries \<Rightarrow> (u64 \<times> host_libraries) result" where
  "egl_get_proc_address glad name hs =
     and_then (if gl_initialized hs then Inr hs
               else load_gl_symbols glad (symbols_with_trampoline_ids hs) hs) (\<lambda>hs1.
     case proc_to_guest_routine hs1 name of
       None \<Rightarrow> Inl (Assert_failure ''unknown proc in eglGetProcAddress'')
     | Some a \<Rightarrow> Inr (a, hs1))"

section \<open>Vulkan\<close>

text \<open>
  The host side of Vulkan: the addresses of the functions that replace an instance or device
  function, the loader's \<^verbatim>\<open>vkGetInstanceProcAddr\<close> (0 is \<^verbatim>\<open>nullptr\<close>), a call of the device resolver at an
  address, and \<^verbatim>\<open>vkCreateInstance\<close> of the loader for a list of extensions, with its result and the
  contents of \<^verbatim>\<open>*instance\<close> after the call.
\<close>

record vulkan_host =
  instance_function :: "string \<Rightarrow> u64"
  device_function :: "string \<Rightarrow> u64"
  proc_addr :: "u64 \<Rightarrow> string \<Rightarrow> u64"
  device_proc :: "u64 \<Rightarrow> u64 \<Rightarrow> string \<Rightarrow> u64"
  create_instance :: "string list \<Rightarrow> int \<times> u64"

definition instance_overrides :: "string list" where
  "instance_overrides =
     [''vkCreateInstance'', ''vkDestroyInstance'', ''vkGetDeviceProcAddr'', ''vkCreateAndroidSurfaceKHR'',
      ''vkGetPhysicalDeviceSurfaceCapabilitiesKHR'']"

definition device_overrides :: "string list" where
  "device_overrides = [''vkAcquireNextImageKHR'']"

definition bind_native :: "nat \<Rightarrow> u64 \<Rightarrow> host_libraries \<Rightarrow> u64 \<times> host_libraries" where
  "bind_native k f hs =
     (let ts = set_native_func k f (hs_trampolines hs)
      in (guest_trampoline (trampolines ts ! k), hs\<lparr>hs_trampolines := ts\<rparr>))"

definition bind_native_or_null :: "nat \<Rightarrow> u64 \<Rightarrow> host_libraries \<Rightarrow> u64 \<times> host_libraries" where
  "bind_native_or_null k f hs =
     (if f = 0 then (0, snd (bind_native k f hs)) else bind_native k f hs)"

definition vkGetInstanceProcAddr ::
    "vulkan_host \<Rightarrow> u64 \<Rightarrow> string \<Rightarrow> host_libraries \<Rightarrow> (u64 \<times> host_libraries) result" where
  "vkGetInstanceProcAddr host inst name hs =
     (case vk_proc_to_trampoline hs name of
        None \<Rightarrow> Inl (Assert_failure ''unknown proc in vkGetInstanceProcAddr'')
      | Some i \<Rightarrow>
          and_then (trampoline_get_by_id i (hs_trampolines hs)) (\<lambda>k.
          if name \<in> set instance_overrides then Inr (bind_native k (instance_function host name) hs)
          else Inr (bind_native_or_null k (proc_addr host inst name) hs)))"

definition vkGetDeviceProcAddr ::
    "vulkan_host \<Rightarrow> u64 \<Rightarrow> string \<Rightarrow> host_libraries \<Rightarrow> (u64 \<times> host_libraries) result" where
  "vkGetDeviceProcAddr host device name hs =
     (case vk_proc_to_trampoline hs name of
        None \<Rightarrow> Inl (Assert_failure ''unknown proc in vkGetDeviceProcAddr'')
      | Some i \<Rightarrow>
          and_then (trampoline_get_by_id i (hs_trampolines hs)) (\<lambda>k.
          if name \<in> set device_overrides then Inr (bind_native k (device_function host name) hs)
          else if vk_device_proc_addr hs = 0 then Inl Invalid_access
          else Inr (bind_native_or_null k (device_proc host (vk_device_proc_addr hs) device name) hs)))"

definition add_extension :: "string \<Rightarrow> string list \<Rightarrow> string list" where
  "add_extension str extensions =
     (if str = ''VK_KHR_android_surface'' then extensions
      else if str \<in> set extensions then extensions else extensions @ [str])"

definition instance_extensions :: "string list \<Rightarrow> string list \<Rightarrow> string list" where
  "instance_extensions sdl requested = fold add_extension requested sdl"

text \<open>
  \<open>sdl\<close> is the list \<^verbatim>\<open>SDL_Vulkan_GetInstanceExtensions\<close> returns, \<open>None\<close> when it fails.  The result pairs the
  status with the contents of \<^verbatim>\<open>*instance\<close>.
\<close>

definition vkCreateInstance ::
    "vulkan_host \<Rightarrow> string list option \<Rightarrow> string list \<Rightarrow> u64 \<Rightarrow> host_libraries \<Rightarrow>
     ((int \<times> u64) \<times> host_libraries) result" where
  "vkCreateInstance host sdl requested pAllocator hs =
     (if vk_global_instance hs \<noteq> 0 then Inr ((0, vk_global_instance hs), hs)
      else and_then (assert_that (pAllocator = 0) ''pAllocator == nullptr'') (\<lambda>_.
        case sdl of
          None \<Rightarrow> Inl (Assert_failure ''SDL_Vulkan_GetInstanceExtensions'')
        | Some extensions \<Rightarrow>
            (let (r, inst) = create_instance host (instance_extensions extensions requested)
             in Inr ((r, inst), hs\<lparr>vk_device_proc_addr := proc_addr host inst ''vkGetDeviceProcAddr'',
                                   vk_global_instance := inst\<rparr>))))"

definition VK_SUBOPTIMAL_KHR :: int where
  "VK_SUBOPTIMAL_KHR = 1000001003"

definition vkAcquireNextImageKHR :: "int \<Rightarrow> int" where
  "vkAcquireNextImageKHR result = (if result = VK_SUBOPTIMAL_KHR then 0 else result)"

record VkSurfaceCapabilitiesKHR =
  currentExtent :: "u32 \<times> u32"
  minImageExtent :: "u32 \<times> u32"
  maxImageExtent :: "u32 \<times> u32"

text \<open>\<open>result\<close> and \<open>caps\<close> are what the driver's function returns, \<open>window\<close> is the size of the window.\<close>

definition vkGetPhysicalDeviceSurfaceCapabilitiesKHR ::
    "u32 \<times> u32 \<Rightarrow> int \<Rightarrow> VkSurfaceCapabilitiesKHR \<Rightarrow> int \<times> VkSurfaceCapabilitiesKHR" where
  "vkGetPhysicalDeviceSurfaceCapabilitiesKHR window result caps =
     (if result \<noteq> 0 then (result, caps)
      else if fst (currentExtent caps) = 0xFFFFFFFF \<and> snd (currentExtent caps) = 0xFFFFFFFF
        then (0, caps\<lparr>currentExtent := window, minImageExtent := window, maxImageExtent := window\<rparr>)
      else (0, caps))"

definition vkCreateAndroidSurfaceKHR :: "bool \<Rightarrow> u64 \<Rightarrow> int result" where
  "vkCreateAndroidSurfaceKHR sdl_ok pAllocator =
     and_then (assert_that (pAllocator = 0) ''pAllocator == nullptr'') (\<lambda>_.
     Inr (if sdl_ok then 0 else -1))"

section \<open>Rebinding a trampoline\<close>

lemma set_native_func_fields [simp]:
  "code_words (set_native_func k f ts) = code_words ts" "trampoline_code (set_native_func k f ts) = trampoline_code ts"
  "trampoline_code_index (set_native_func k f ts) = trampoline_code_index ts"
  "temp_code_gen_buf (set_native_func k f ts) = temp_code_gen_buf ts"
  "guest_exit_trampoline (set_native_func k f ts) = guest_exit_trampoline ts"
  "length (trampolines (set_native_func k f ts)) = length (trampolines ts)"
  by (simp_all add: set_native_func_def)

lemma set_native_func_entry:
  "entry_at (set_native_func k f ts) n =
     (if n = k then map_option (\<lambda>t. t\<lparr>native_func := f\<rparr>) (entry_at ts n) else entry_at ts n)"
  by (auto simp: entry_at_def set_native_func_def)

lemma set_native_func_wf [simp]: "trampolines_wf (set_native_func k f ts) = trampolines_wf ts"
proof -
  have "entry_wf (set_native_func k f ts) i = entry_wf ts i" if "i < length (trampolines ts)" for i
    using that by (cases "i = k") (simp_all add: entry_wf_def code_addr_def, simp_all add: set_native_func_def)
  then show ?thesis by (simp add: trampolines_wf_def)
qed

lemma reserved_trampoline_found:
  assumes "trampolines_wf ts" "entry_at ts n = Some t"
  shows "trampoline_get_by_id (of_nat n + trampoline_id_offset) ts = Inr n"
  using get_by_id_offset [OF assms(1), of n] assms(2) by (simp add: entry_at_def split: if_splits)

section \<open>OpenGL functions on demand\<close>

text \<open>The symbol the guest should reach under the name of a GL table entry.\<close>

definition gl_symbol :: "declarations \<Rightarrow> (string \<Rightarrow> u64) \<Rightarrow> symbol_entry \<Rightarrow> dynamic_symbol" where
  "gl_symbol decl glad e =
     (symbol_of decl e)\<lparr>sym_value := glad (snd (snd e)), sym_is_ellipsis_function := False,
                        sym_has_execution_side_effects := False\<rparr>"

lemma sym_name_of_entry: "sym_name (symbol_of decl e) = fst (snd e)"
  by (cases e) simp

text \<open>An entry reserved for a description, whatever host function it holds at the moment.\<close>

definition reserved_as :: "trampoline_spec \<Rightarrow> Trampoline \<Rightarrow> bool" where
  "reserved_as d t \<longleftrightarrow> (\<exists>f. spec_of t = (fst d, f, snd (snd d)))"

lemma reserved_as_bind:
  "reserved_as d t \<Longrightarrow> spec_of (t\<lparr>native_func := f\<rparr>) = (fst d, f, snd (snd d))"
  "reserved_as d t \<Longrightarrow> reserved_as d (t\<lparr>native_func := f\<rparr>)"
  by (auto simp: reserved_as_def spec_of_def)

definition routines :: "trampoline_state \<Rightarrow> symbol_entry list \<Rightarrow> nat list \<Rightarrow> (string \<times> u64) list" where
  "routines ts es ns = map2 (\<lambda>e n. (fst (snd e), guest_trampoline (trampolines ts ! n))) es ns"

definition gl_reserved :: "declarations \<Rightarrow> trampoline_state \<Rightarrow> nat list \<Rightarrow> symbol_entry list \<Rightarrow> bool" where
  "gl_reserved decl ts ns es \<longleftrightarrow>
     distinct ns \<and> list_all2 (\<lambda>n e. \<exists>t. entry_at ts n = Some t \<and> reserved_as (gl_spec decl e) t) ns es"

definition gl_state :: "declarations \<Rightarrow> host_libraries \<Rightarrow> bool" where
  "gl_state decl hs \<longleftrightarrow>
     trampolines_wf (hs_trampolines hs) \<and> \<not> gl_initialized hs \<and>
     (\<exists>ns. symbols_with_trampoline_ids hs = zip extra_gl_symbols (map of_nat ns) \<and>
        gl_reserved decl (hs_trampolines hs) ns extra_gl_symbols \<and>
        (proc_to_guest_routine hs = Map.empty \<or>
         proc_to_guest_routine hs = map_of (routines (hs_trampolines hs) extra_gl_symbols ns)))"

lemma guest_trampoline_set_native [simp]:
  "guest_trampoline (trampolines (set_native_func k f ts) ! n) = guest_trampoline (trampolines ts ! n)"
  by (cases "k < length (trampolines ts)") (auto simp: set_native_func_def nth_list_update list_update_beyond)

lemma routines_set_native [simp]: "routines (set_native_func k f ts) es ns = routines ts es ns"
  by (simp add: routines_def)

lemma reserved_set_native:
  assumes "\<exists>t. entry_at ts n = Some t \<and> reserved_as d t"
  shows "\<exists>t. entry_at (set_native_func k f ts) n = Some t \<and> reserved_as d t"
proof -
  obtain t where t: "entry_at ts n = Some t" "reserved_as d t" using assms by blast
  then show ?thesis using reserved_as_bind(2) [OF t(2), of f] by (auto simp: set_native_func_entry)
qed

lemma gl_reserved_set_native:
  assumes "gl_reserved decl ts ns es"
  shows "gl_reserved decl (set_native_func k f ts) ns es"
proof -
  have "list_all2 (\<lambda>n e. \<exists>t. entry_at ts n = Some t \<and> reserved_as (gl_spec decl e) t) ns es"
    using assms by (simp add: gl_reserved_def)
  then have "list_all2 (\<lambda>n e. \<exists>t. entry_at (set_native_func k f ts) n = Some t \<and> reserved_as (gl_spec decl e) t) ns es"
    by (rule list_all2_mono) (rule reserved_set_native)
  then show ?thesis using assms by (simp add: gl_reserved_def)
qed

definition gl_bound :: "declarations \<Rightarrow> (string \<Rightarrow> u64) \<Rightarrow> trampoline_state \<Rightarrow> nat \<Rightarrow> symbol_entry \<Rightarrow> bool" where
  "gl_bound decl glad ts n e \<longleftrightarrow>
     (\<exists>t. entry_at ts n = Some t \<and> spec_of t = spec_of_symbol (gl_symbol decl glad e))"

lemma load_gl_symbols_correct:
  assumes "trampolines_wf (hs_trampolines hs)" "gl_reserved decl (hs_trampolines hs) ns es"
  shows "\<exists>ts. load_gl_symbols glad (zip es (map of_nat ns)) hs =
             Inr (hs\<lparr>hs_trampolines := ts,
               proc_to_guest_routine := insert_all (routines (hs_trampolines hs) es ns) (proc_to_guest_routine hs)\<rparr>) \<and>
           trampolines_wf ts \<and> list_all2 (gl_bound decl glad ts) ns es \<and>
           (\<forall>es' ns'. routines ts es' ns' = routines (hs_trampolines hs) es' ns') \<and>
           (\<forall>es' ns'. gl_reserved decl (hs_trampolines hs) ns' es' \<longrightarrow> gl_reserved decl ts ns' es') \<and>
           (\<forall>n. n \<notin> set ns \<longrightarrow> entry_at ts n = entry_at (hs_trampolines hs) n)"
  using assms
proof (induction es arbitrary: ns hs)
  case Nil
  then show ?case by (intro exI [of _ "hs_trampolines hs"]) (simp add: gl_reserved_def routines_def)
next
  case (Cons e es)
  let ?ts = "hs_trampolines hs"
  obtain n ns' t where ns: "ns = n # ns'" "entry_at ?ts n = Some t" "reserved_as (gl_spec decl e) t" "n \<notin> set ns'"
    "gl_reserved decl ?ts ns' es"
    using Cons.prems(2) by (auto simp: gl_reserved_def list_all2_Cons2)
  define ts1 where "ts1 = set_native_func n (glad (snd (snd e))) ?ts"
  define hs1 where "hs1 = hs\<lparr>hs_trampolines := ts1, proc_to_guest_routine :=
      insert_new (fst (snd e)) (guest_trampoline (trampolines ?ts ! n)) (proc_to_guest_routine hs)\<rparr>"
  have 1: "trampolines_wf (hs_trampolines hs1)" "gl_reserved decl (hs_trampolines hs1) ns' es"
    using Cons.prems(1) gl_reserved_set_native [OF ns(5)] by (simp_all add: hs1_def ts1_def)
  obtain ts where ts: "load_gl_symbols glad (zip es (map of_nat ns')) hs1 =
        Inr (hs1\<lparr>hs_trampolines := ts,
          proc_to_guest_routine := insert_all (routines ts1 es ns') (proc_to_guest_routine hs1)\<rparr>)"
    "trampolines_wf ts" "list_all2 (gl_bound decl glad ts) ns' es"
    "\<forall>es' ns'. routines ts es' ns' = routines ts1 es' ns'"
    "\<forall>es' ns'. gl_reserved decl ts1 ns' es' \<longrightarrow> gl_reserved decl ts ns' es'"
    "\<forall>n. n \<notin> set ns' \<longrightarrow> entry_at ts n = entry_at ts1 n"
    using Cons.IH [OF 1] by (auto simp: hs1_def)
  have "gl_bound decl glad ts n e"
    using ts(6) ns(2-4) reserved_as_bind(1) [OF ns(3), of "glad (snd (snd e))"]
    by (simp add: gl_bound_def ts1_def set_native_func_entry spec_of_symbol_def gl_symbol_def gl_spec_def sym_name_of_entry)
  moreover have "routines ?ts (e # es) ns = (fst (snd e), guest_trampoline (trampolines ?ts ! n)) # routines ts1 es ns'"
    by (simp add: routines_def ns(1) ts1_def)
  ultimately show ?case
    using ts ns reserved_trampoline_found [OF Cons.prems(1) ns(2)] gl_reserved_set_native
    by (intro exI [of _ ts]) (simp add: hs1_def ts1_def set_native_func_entry)
qed

lemma routine_of_entry:
  assumes "list_all2 (gl_bound decl glad ts) ns es" "trampolines_wf ts" "entry_named es name = Some e"
    "is_function_symbol (symbol_of decl e)"
  shows "\<exists>a. map_of (routines ts es ns) name = Some a \<and> bound_to ts (gl_symbol decl glad e) a"
proof -
  obtain n where n: "map_of (routines ts es ns) name = Some (guest_trampoline (trampolines ts ! n))" "gl_bound decl glad ts n e"
    using find_named [OF assms(1), where name = name and f = "\<lambda>n. guest_trampoline (trampolines ts ! n)"] assms(3)
    by (auto simp: routines_def)
  then have "bound_to ts (gl_symbol decl glad e) (guest_trampoline (trampolines ts ! n))"
    using assms(2,4) entry_at_dispatches [OF assms(2), of n]
    by (auto simp: gl_bound_def bound_to_def is_function_symbol_def gl_symbol_def entry_at_def split: if_splits)
  then show ?thesis using n by blast
qed

lemma routine_absent:
  assumes "entry_named es name = None"
  shows "map_of (routines ts es ns) name = None"
proof -
  have "fst (snd e) \<noteq> name" if "e \<in> set es" for e
    using assms that unfolding entry_named_def find_None_iff by blast
  then have "name \<notin> fst ` set (routines ts es ns)"
    by (fastforce simp: routines_def dest: set_zip_leftD)
  then show ?thesis by (simp add: map_of_eq_None_iff)
qed

lemma libraries_ready_gl_state:
  assumes "libraries_ready decl hs sis" "gl_initialized hs = False" "proc_to_guest_routine hs = Map.empty"
  shows "gl_state decl hs"
proof -
  obtain ns where ns: "symbols_with_trampoline_ids hs = zip extra_gl_symbols (map of_nat ns)" "distinct ns"
    "list_all2 (\<lambda>n e. \<exists>t. entry_at (hs_trampolines hs) n = Some t \<and> spec_of t = gl_spec decl e) ns extra_gl_symbols"
    using assms(1) unfolding libraries_ready_def gl_ready_def by blast
  have "list_all2 (\<lambda>n e. \<exists>t. entry_at (hs_trampolines hs) n = Some t \<and> reserved_as (gl_spec decl e) t) ns extra_gl_symbols"
    by (rule list_all2_mono [OF ns(3)]) (auto simp: reserved_as_def gl_spec_def)
  then show ?thesis
    using assms ns(1,2) unfolding libraries_ready_def gl_state_def gl_reserved_def by blast
qed

lemma all_functions_named:
  assumes "all_functions decl es" "entry_named es name = Some e"
  shows "is_function_symbol (symbol_of decl e)"
proof -
  have "e \<in> set es" using assms(2) unfolding entry_named_def find_Some_iff by auto
  then show ?thesis using assms(1) unfolding all_functions_def list_all_iff by blast
qed

lemma map_add_same: "m ++ m = m"
  by (simp add: map_add_def fun_eq_iff split: option.splits)

text \<open>
  C8. On libraries registered by \<^verbatim>\<open>syms_init\<close>, \<^verbatim>\<open>eglGetProcAddress\<close> answers every name of the GL table with
  an address whose supervisor call dispatches to the function the GL loader has found for that entry,
  with the argument types of its declaration; a name asked again gets the same address; the state is again
  one in which every name is answered so, and any other name fails the assertion.
\<close>

theorem egl_get_proc_address_correct:
  assumes "gl_state decl hs" "all_functions decl extra_gl_symbols"
  shows "case entry_named extra_gl_symbols name of
           None \<Rightarrow> egl_get_proc_address glad name hs = Inl (Assert_failure ''unknown proc in eglGetProcAddress'')
         | Some e \<Rightarrow> \<exists>a hs'. egl_get_proc_address glad name hs = Inr (a, hs') \<and> gl_state decl hs' \<and>
             (\<forall>b. proc_to_guest_routine hs name = Some b \<longrightarrow> a = b) \<and>
             bound_to (hs_trampolines hs') (gl_symbol decl glad e) a"
proof -
  let ?ts = "hs_trampolines hs"
  obtain ns where ns: "trampolines_wf ?ts" "\<not> gl_initialized hs" "symbols_with_trampoline_ids hs = zip extra_gl_symbols (map of_nat ns)"
    "gl_reserved decl ?ts ns extra_gl_symbols"
    "proc_to_guest_routine hs = Map.empty \<or> proc_to_guest_routine hs = map_of (routines ?ts extra_gl_symbols ns)"
    using assms(1) by (auto simp: gl_state_def)
  let ?m = "map_of (routines ?ts extra_gl_symbols ns)"
  obtain ts where ts: "load_gl_symbols glad (symbols_with_trampoline_ids hs) hs =
      Inr (hs\<lparr>hs_trampolines := ts, proc_to_guest_routine := insert_all (routines ?ts extra_gl_symbols ns) (proc_to_guest_routine hs)\<rparr>)"
    "trampolines_wf ts" "list_all2 (gl_bound decl glad ts) ns extra_gl_symbols"
    "routines ts extra_gl_symbols ns = routines ?ts extra_gl_symbols ns" "gl_reserved decl ts ns extra_gl_symbols"
    using load_gl_symbols_correct [OF ns(1,4), of glad] ns(3,4) by auto
  define hs' where "hs' = hs\<lparr>hs_trampolines := ts, proc_to_guest_routine := ?m\<rparr>"
  have load: "load_gl_symbols glad (symbols_with_trampoline_ids hs) hs = Inr hs'"
    using ts(1) ns(5) by (auto simp: hs'_def insert_all_map_of map_add_same)
  have state: "gl_state decl hs'"
    unfolding gl_state_def using ts(2,4,5) ns(2,3) by (auto simp: hs'_def)
  show ?thesis
  proof (cases "entry_named extra_gl_symbols name")
    case None
    then show ?thesis using routine_absent [OF None, of ?ts ns] load ns(2)
      by (simp add: egl_get_proc_address_def hs'_def)
  next
    case (Some e)
    then have "is_function_symbol (symbol_of decl e)"
      by (rule all_functions_named [OF assms(2)])
    from routine_of_entry [OF ts(3,2) Some this] ts(4)
    obtain a where a: "?m name = Some a" "bound_to ts (gl_symbol decl glad e) a" by auto
    then show ?thesis using Some load state ns(2,5)
      by (auto simp: egl_get_proc_address_def hs'_def)
  qed
qed

lemma registered_gl_state:
  obtains hs where "gl_state (\<lambda>_. Func p ret args) hs"
proof -
  obtain ts where "trampolines_wf ts" "trampolines ts = []"
    using trampoline_init_wf [of 1] by auto
  then obtain hs sis where "libraries_ready (\<lambda>_. Func p ret args) hs sis" "gl_initialized hs = False"
    "proc_to_guest_routine hs = Map.empty"
    using syms_init_ready [OF _ _ all_functions_const all_functions_const, of ts p ret args initial_linker_state]
    by (auto simp: free_trampolines_def max_trampolines_def)
  then show ?thesis using libraries_ready_gl_state that by blast
qed

theorem egl_get_proc_address_correct_witness:
  "\<exists>hs a hs'. gl_state (\<lambda>_. Func 0 CVoid [CInt]) hs \<and>
     egl_get_proc_address (\<lambda>_. 0x5000) ''glMapBuffer'' hs = Inr (a, hs') \<and>
     bound_to (hs_trampolines hs')
       (gl_symbol (\<lambda>_. Func 0 CVoid [CInt]) (\<lambda>_. 0x5000) (sym_as ''glMapBuffer'' ''&glMapBufferRange'')) a"
proof -
  obtain hs where hs: "gl_state (\<lambda>_. Func 0 CVoid [CInt]) hs" by (rule registered_gl_state)
  have "entry_named extra_gl_symbols ''glMapBuffer'' = Some (sym_as ''glMapBuffer'' ''&glMapBufferRange'')"
    by (simp add: entry_named_def extra_gl_symbols_def sym_as_def)
  then show ?thesis
    using egl_get_proc_address_correct [OF hs all_functions_const, of "\<lambda>_. 0x5000" "''glMapBuffer''"] hs by auto
qed

section \<open>Vulkan functions on demand\<close>

definition vk_symbol :: "declarations \<Rightarrow> u64 \<Rightarrow> symbol_entry \<Rightarrow> dynamic_symbol" where
  "vk_symbol decl f e = (symbol_of decl e)\<lparr>sym_value := f\<rparr>"

text \<open>The trampoline of every known name, holding the function \<open>bound name\<close>.\<close>

definition vk_slot :: "declarations \<Rightarrow> host_libraries \<Rightarrow> symbol_entry \<Rightarrow> u64 \<Rightarrow> nat \<Rightarrow> bool" where
  "vk_slot decl hs e f n \<longleftrightarrow>
     vk_proc_to_trampoline hs (fst (snd e)) = Some (of_nat n + trampoline_id_offset) \<and>
     (\<exists>t. entry_at (hs_trampolines hs) n = Some t \<and> spec_of t = spec_of_symbol (vk_symbol decl f e))"

definition vk_state :: "declarations \<Rightarrow> (string \<Rightarrow> u64) \<Rightarrow> host_libraries \<Rightarrow> bool" where
  "vk_state decl bound hs \<longleftrightarrow>
     trampolines_wf (hs_trampolines hs) \<and> vk_device_proc_addr hs \<noteq> 0 \<and>
     (\<forall>name e. entry_named actual_symbols name = Some e \<longrightarrow> (\<exists>n. vk_slot decl hs e (bound name) n))"

datatype vk_query = InstanceProc u64 string | DeviceProc u64 string

fun query_name :: "vk_query \<Rightarrow> string" where
  "query_name (InstanceProc h name) = name"
| "query_name (DeviceProc h name) = name"

fun vk_resolve :: "vulkan_host \<Rightarrow> vk_query \<Rightarrow> host_libraries \<Rightarrow> (u64 \<times> host_libraries) result" where
  "vk_resolve host (InstanceProc h name) hs = vkGetInstanceProcAddr host h name hs"
| "vk_resolve host (DeviceProc h name) hs = vkGetDeviceProcAddr host h name hs"

fun vk_answer :: "vulkan_host \<Rightarrow> u64 \<Rightarrow> vk_query \<Rightarrow> u64" where
  "vk_answer host dpa (InstanceProc h name) =
     (if name \<in> set instance_overrides then instance_function host name else proc_addr host h name)"
| "vk_answer host dpa (DeviceProc h name) =
     (if name \<in> set device_overrides then device_function host name else device_proc host dpa h name)"

fun vk_run :: "vulkan_host \<Rightarrow> vk_query list \<Rightarrow> host_libraries \<Rightarrow> (u64 list \<times> host_libraries) result" where
  "vk_run host [] hs = Inr ([], hs)"
| "vk_run host (q # qs) hs =
     and_then (vk_resolve host q hs) (\<lambda>(a, hs1).
     and_then (vk_run host qs hs1) (\<lambda>(as, hs2). Inr (a # as, hs2)))"

lemma entry_named_name: "entry_named es name = Some e \<Longrightarrow> fst (snd e) = name"
  by (auto simp: entry_named_def find_Some_iff)

lemma sym_name_vk_symbol [simp]: "sym_name (vk_symbol decl f e) = fst (snd e)"
  by (simp add: vk_symbol_def sym_name_of_entry)

lemma vk_slot_tr_name:
  "vk_slot decl hs e f n \<Longrightarrow> entry_at (hs_trampolines hs) n = Some t \<Longrightarrow> tr_name t = fst (snd e)"
  by (auto simp: vk_slot_def spec_of_def spec_of_symbol_def)

text \<open>The guest address that stands for a name.\<close>

definition routine_at :: "host_libraries \<Rightarrow> string \<Rightarrow> u64 option" where
  "routine_at hs name =
     (case vk_proc_to_trampoline hs name of
        None \<Rightarrow> None
      | Some i \<Rightarrow> (case trampoline_get_by_id i (hs_trampolines hs) of
                    Inl _ \<Rightarrow> None
                  | Inr k \<Rightarrow> Some (guest_trampoline (trampolines (hs_trampolines hs) ! k))))"

definition rebind :: "nat \<Rightarrow> u64 \<Rightarrow> host_libraries \<Rightarrow> host_libraries" where
  "rebind k f hs = hs\<lparr>hs_trampolines := set_native_func k f (hs_trampolines hs)\<rparr>"

lemma rebind_fields [simp]:
  "vk_proc_to_trampoline (rebind k f hs) = vk_proc_to_trampoline hs"
  "vk_device_proc_addr (rebind k f hs) = vk_device_proc_addr hs"
  "hs_trampolines (rebind k f hs) = set_native_func k f (hs_trampolines hs)"
  by (simp_all add: rebind_def)

lemma routine_at_rebind [simp]: "routine_at (rebind k f hs) = routine_at hs"
  by (simp add: routine_at_def trampoline_get_by_id_def Let_def fun_eq_iff split: option.splits)

lemma vk_slot_rebind_same: "vk_slot decl hs e f n \<Longrightarrow> vk_slot decl (rebind n g hs) e g n"
  by (auto simp: vk_slot_def set_native_func_entry spec_of_def spec_of_symbol_def vk_symbol_def)

lemma vk_slot_rebind_other: "vk_slot decl hs e f n \<Longrightarrow> n \<noteq> k \<Longrightarrow> vk_slot decl (rebind k g hs) e f n"
  by (simp add: vk_slot_def set_native_func_entry)

lemma vk_slot_routine:
  assumes "trampolines_wf (hs_trampolines hs)" "vk_slot decl hs e f n"
  shows "routine_at hs (fst (snd e)) = Some (guest_trampoline (trampolines (hs_trampolines hs) ! n))"
  using assms reserved_trampoline_found [OF assms(1)] by (auto simp: routine_at_def vk_slot_def)

lemma vk_state_rebind:
  assumes st: "vk_state decl bound hs" and e: "entry_named actual_symbols name = Some e"
    and n: "vk_slot decl hs e (bound name) n"
  shows "vk_state decl (bound(name := f)) (rebind n f hs)"
proof -
  obtain t where t: "entry_at (hs_trampolines hs) n = Some t" using n by (auto simp: vk_slot_def)
  have "\<exists>m. vk_slot decl (rebind n f hs) e' ((bound(name := f)) name') m"
    if e': "entry_named actual_symbols name' = Some e'" for name' e'
  proof (cases "name' = name")
    case True
    then show ?thesis using e e' vk_slot_rebind_same [OF n] by auto
  next
    case False
    obtain m where m: "vk_slot decl hs e' (bound name') m" using st e' unfolding vk_state_def by blast
    have "m \<noteq> n"
      using False vk_slot_tr_name [OF n t] vk_slot_tr_name [OF m] t entry_named_name [OF e] entry_named_name [OF e'] by auto
    then show ?thesis using vk_slot_rebind_other [OF m] False by auto
  qed
  then show ?thesis using st unfolding vk_state_def by simp
qed

lemma vk_resolve_step:
  assumes st: "vk_state decl bound hs" and e: "entry_named actual_symbols (query_name q) \<noteq> None"
  shows "\<exists>a hs'. vk_resolve host q hs = Inr (a, hs') \<and> (a \<noteq> 0 \<longrightarrow> routine_at hs (query_name q) = Some a) \<and>
           vk_state decl (bound(query_name q := vk_answer host (vk_device_proc_addr hs) q)) hs' \<and>
           vk_device_proc_addr hs' = vk_device_proc_addr hs \<and> routine_at hs' = routine_at hs"
proof -
  let ?f = "vk_answer host (vk_device_proc_addr hs) q"
  have wf: "trampolines_wf (hs_trampolines hs)" and dpa: "vk_device_proc_addr hs \<noteq> 0"
    using st by (simp_all add: vk_state_def)
  obtain ent where ent: "entry_named actual_symbols (query_name q) = Some ent" using e by blast
  obtain n where n: "vk_slot decl hs ent (bound (query_name q)) n" using st ent unfolding vk_state_def by blast
  obtain t where t: "entry_at (hs_trampolines hs) n = Some t" using n by (auto simp: vk_slot_def)
  have proc: "vk_proc_to_trampoline hs (query_name q) = Some (of_nat n + trampoline_id_offset)"
    using n entry_named_name [OF ent] by (simp add: vk_slot_def)
  have "\<exists>a. vk_resolve host q hs = Inr (a, rebind n ?f hs) \<and>
      (a \<noteq> 0 \<longrightarrow> a = guest_trampoline (trampolines (hs_trampolines hs) ! n))"
    using proc reserved_trampoline_found [OF wf t] dpa
    by (cases q) (simp_all add: vkGetInstanceProcAddr_def vkGetDeviceProcAddr_def bind_native_or_null_def
        bind_native_def rebind_def Let_def)
  then show ?thesis
    using vk_state_rebind [OF st ent n, of ?f] vk_slot_routine [OF wf n] entry_named_name [OF ent] by auto
qed

definition last_query :: "vk_query list \<Rightarrow> string \<Rightarrow> vk_query option" where
  "last_query qs name = find (\<lambda>q. query_name q = name) (rev qs)"

lemma last_query_found: "q \<in> set qs \<Longrightarrow> last_query qs (query_name q) \<noteq> None"
  unfolding last_query_def find_None_iff by auto

definition bound_after :: "(vk_query \<Rightarrow> u64) \<Rightarrow> (string \<Rightarrow> u64) \<Rightarrow> vk_query list \<Rightarrow> string \<Rightarrow> u64" where
  "bound_after ans bound qs name = (case last_query qs name of None \<Rightarrow> bound name | Some q \<Rightarrow> ans q)"

lemma find_append: "find P (xs @ ys) = (case find P xs of None \<Rightarrow> find P ys | Some x \<Rightarrow> Some x)"
  by (induction xs) auto

lemma bound_after_Cons: "bound_after ans bound (q # qs) = bound_after ans (bound(query_name q := ans q)) qs"
  by (auto simp: bound_after_def last_query_def find_append fun_eq_iff split: option.splits)

lemma vk_run_correct:
  assumes "vk_state decl bound hs" "list_all (\<lambda>q. entry_named actual_symbols (query_name q) \<noteq> None) qs"
  shows "\<exists>as hs'. vk_run host qs hs = Inr (as, hs') \<and>
           list_all2 (\<lambda>q a. a \<noteq> 0 \<longrightarrow> routine_at hs (query_name q) = Some a) qs as \<and>
           vk_state decl (bound_after (vk_answer host (vk_device_proc_addr hs)) bound qs) hs' \<and>
           routine_at hs' = routine_at hs"
  using assms
proof (induction qs arbitrary: bound hs)
  case Nil
  then show ?case by (simp add: bound_after_def last_query_def)
next
  case (Cons q qs)
  have "entry_named actual_symbols (query_name q) \<noteq> None" using Cons.prems(2) by simp
  from vk_resolve_step [OF Cons.prems(1) this, of host]
  obtain a hs1 where 1: "vk_resolve host q hs = Inr (a, hs1)" "a \<noteq> 0 \<longrightarrow> routine_at hs (query_name q) = Some a"
    "vk_state decl (bound(query_name q := vk_answer host (vk_device_proc_addr hs) q)) hs1"
    "vk_device_proc_addr hs1 = vk_device_proc_addr hs" "routine_at hs1 = routine_at hs" by blast
  have known: "list_all (\<lambda>q. entry_named actual_symbols (query_name q) \<noteq> None) qs" using Cons.prems(2) by simp
  obtain as hs2 where "vk_run host qs hs1 = Inr (as, hs2)"
    "list_all2 (\<lambda>q a. a \<noteq> 0 \<longrightarrow> routine_at hs1 (query_name q) = Some a) qs as"
    "vk_state decl (bound_after (vk_answer host (vk_device_proc_addr hs1)) (bound(query_name q := vk_answer host (vk_device_proc_addr hs) q)) qs) hs2"
    "routine_at hs2 = routine_at hs1"
    using Cons.IH [OF 1(3) known] by blast
  then show ?case using 1 by (simp add: bound_after_Cons)
qed

lemma vk_state_bound:
  assumes "vk_state decl bound hs" "entry_named actual_symbols name = Some e" "routine_at hs name = Some a"
    "is_function_symbol (symbol_of decl e)"
  shows "bound_to (hs_trampolines hs) (vk_symbol decl (bound name) e) a"
proof -
  have wf: "trampolines_wf (hs_trampolines hs)" using assms(1) by (simp add: vk_state_def)
  obtain n where n: "vk_slot decl hs e (bound name) n" using assms(1,2) unfolding vk_state_def by blast
  then have a: "a = guest_trampoline (trampolines (hs_trampolines hs) ! n)"
    using vk_slot_routine [OF wf n] assms(3) entry_named_name [OF assms(2)] by simp
  obtain t where t: "entry_at (hs_trampolines hs) n = Some t" "spec_of t = spec_of_symbol (vk_symbol decl (bound name) e)"
    using n by (auto simp: vk_slot_def)
  then have "guest_trampoline t = a" using a by (simp add: entry_at_def split: if_splits)
  then show ?thesis
    using t assms(4) entry_at_dispatches [OF wf t(1)] by (auto simp: bound_to_def is_function_symbol_def vk_symbol_def)
qed


lemma vkCreateInstance_vk_state:
  assumes "libraries_ready decl hs sis" "vkCreateInstance host sdl exts alloc hs = Inr ((r, inst), hs')"
    "vk_global_instance hs = 0" "proc_addr host inst ''vkGetDeviceProcAddr'' \<noteq> 0"
  shows "vk_state decl (\<lambda>_. 0) hs'"
proof -
  have hs': "hs' = hs\<lparr>vk_device_proc_addr := proc_addr host inst ''vkGetDeviceProcAddr'', vk_global_instance := inst\<rparr>"
    using assms(2,3) by (auto simp: vkCreateInstance_def and_then_eq_Inr split: option.splits prod.splits)
  have "\<exists>n. vk_slot decl hs' e 0 n" if e: "entry_named actual_symbols name = Some e" for name e
  proof -
    have "vk_ready decl hs" using assms(1) by (simp add: libraries_ready_def)
    then have "\<exists>n t. vk_proc_to_trampoline hs name = Some (of_nat n + trampoline_id_offset) \<and>
        entry_at (hs_trampolines hs) n = Some t \<and> spec_of t = vk_spec decl e"
      using e unfolding vk_ready_def by (elim allE [of _ name]) simp
    then show ?thesis
      using entry_named_name [OF e] by (auto simp: vk_slot_def hs' vk_spec_def spec_of_symbol_def vk_symbol_def sym_name_of_entry)
  qed
  then show ?thesis using assms(1,4) unfolding vk_state_def by (simp add: hs' libraries_ready_def)
qed

text \<open>The host of the witness answers a device query with the handle of the device.\<close>

definition demo_host :: vulkan_host where
  "demo_host = \<lparr>instance_function = (\<lambda>_. 0x10), device_function = (\<lambda>_. 0x20), proc_addr = (\<lambda>_ _. 0x30),
     device_proc = (\<lambda>_ d _. d), create_instance = (\<lambda>_. (0, 0x99))\<rparr>"

lemma registered_vk_state:
  obtains hs where "vk_state (\<lambda>_. Func p ret args) (\<lambda>_. 0) hs" "vk_device_proc_addr hs = 0x30"
proof -
  obtain ts where ts: "trampolines_wf ts" "trampolines ts = []"
    using trampoline_init_wf [of 1] by auto
  then obtain hs sis where hs: "libraries_ready (\<lambda>_. Func p ret args) hs sis"
    using syms_init_ready [OF _ _ all_functions_const all_functions_const, of ts p ret args initial_linker_state]
    by (auto simp: free_trampolines_def max_trampolines_def)
  define h0 where "h0 = hs\<lparr>vk_global_instance := 0\<rparr>"
  have h0: "libraries_ready (\<lambda>_. Func p ret args) h0 sis" "vk_global_instance h0 = 0"
    using hs by (simp_all add: h0_def libraries_ready_def gl_ready_def vk_ready_def cong: option.case_cong)
  define h1 where "h1 = h0\<lparr>vk_device_proc_addr := 0x30, vk_global_instance := 0x99\<rparr>"
  have "vkCreateInstance demo_host (Some []) [] 0 h0 = Inr ((0, 0x99), h1)"
    using h0(2) by (simp add: vkCreateInstance_def demo_host_def h1_def)
  then have "vk_state (\<lambda>_. Func p ret args) (\<lambda>_. 0) h1"
    using vkCreateInstance_vk_state [OF h0(1) _ h0(2)] by (simp add: demo_host_def)
  then show ?thesis using that by (simp add: h1_def)
qed


end
