(* ===== verification/Shim_Network.thy ===== *)
theory Shim_Network
  imports Guest_Cpu
begin

text \<open>
  Sockets of the C library shim (\<^verbatim>\<open>src/src/vendor/libc-shim/src/network.cpp\<close>, \<^verbatim>\<open>network.h\<close>): conversion of
  flags, families, options, socket addresses and address lists between the guest's C library and
  the host's, and the calls built on them.  Guest and host share one memory.  The constants of the
  host are those of Linux; the host's functions are parameters.
\<close>

unbundle bit_operations_syntax

section \<open>Flags and enumerations\<close>

abbreviation (input) AF_UNSPEC :: int where "AF_UNSPEC \<equiv> 0"
abbreviation (input) AF_INET :: int where "AF_INET \<equiv> 2"
abbreviation (input) AF_INET6 :: int where "AF_INET6 \<equiv> 10"
abbreviation (input) AF_NETLINK :: int where "AF_NETLINK \<equiv> 16"

definition from_host_ai_flags :: "u32 \<Rightarrow> u32" where
  "from_host_ai_flags flags =
     (if flags AND 1 \<noteq> 0 then 1 else 0) OR (if flags AND 2 \<noteq> 0 then 2 else 0) OR (if flags AND 4 \<noteq> 0 then 4 else 0)"

definition to_host_ai_flags :: "u32 \<Rightarrow> u32" where
  "to_host_ai_flags flags =
     (if flags AND 1 \<noteq> 0 then 1 else 0) OR (if flags AND 2 \<noteq> 0 then 2 else 0) OR (if flags AND 4 \<noteq> 0 then 4 else 0)"

definition from_host_af_family :: "int \<Rightarrow> int" where
  "from_host_af_family family =
     (if family = AF_UNSPEC then 0 else if family = AF_INET then 2 else if family = AF_INET6 then 10
      else if family = AF_NETLINK then 16 else 0)"

definition to_host_af_family :: "int \<Rightarrow> int" where
  "to_host_af_family family =
     (if family = 0 then AF_UNSPEC else if family = 2 then AF_INET else if family = 10 then AF_INET6
      else if family = 16 then AF_NETLINK else AF_UNSPEC)"

text \<open>\<^verbatim>\<open>SOCK_STREAM\<close>, \<^verbatim>\<open>SOCK_DGRAM\<close>, \<^verbatim>\<open>SOCK_RAW\<close>; \<^verbatim>\<open>IPPROTO_IP\<close>, \<^verbatim>\<open>TCP\<close>, \<^verbatim>\<open>UDP\<close>, \<^verbatim>\<open>IPV6\<close>.\<close>

definition from_host_socktype :: "int \<Rightarrow> int result" where
  "from_host_socktype t =
     (if t = 1 then Inr 1 else if t = 2 then Inr 2 else if t = 3 then Inr 3 else Inl (Runtime_error ''Unknown socktype''))"

definition to_host_socktype :: "int \<Rightarrow> int result" where
  "to_host_socktype t =
     (if t = 1 then Inr 1 else if t = 2 then Inr 2 else if t = 3 then Inr 3 else Inl (Runtime_error ''Unknown socktype''))"

definition from_host_ipproto :: "int \<Rightarrow> int result" where
  "from_host_ipproto p =
     (if p = 0 then Inr 0 else if p = 6 then Inr 6 else if p = 17 then Inr 17 else if p = 41 then Inr 41
      else Inl (Runtime_error ''Unknown ipproto''))"

definition to_host_ipproto :: "int \<Rightarrow> int result" where
  "to_host_ipproto p =
     (if p = 0 then Inr 0 else if p = 6 then Inr 6 else if p = 17 then Inr 17 else if p = 41 then Inr 41
      else Inl (Runtime_error ''Unknown ipproto''))"

section \<open>Socket addresses in memory\<close>

text \<open>
  \<open>copy_field off n src dst\<close> is the assignment of a field of \<open>n\<close> bytes at offset \<open>off\<close>.  Both
  structures have the family at 0, the port at 2, the IPv4 address or the flow label at 4, the IPv6
  address at 8 and the scope at 24.
\<close>

definition copy_field :: "nat \<Rightarrow> nat \<Rightarrow> u64 \<Rightarrow> u64 \<Rightarrow> memory \<Rightarrow> memory" where
  "copy_field off n src dst m = store_bytes (load_bytes n (src + of_nat off) m) (dst + of_nat off) m"

definition sa_family :: "u64 \<Rightarrow> memory \<Rightarrow> u16" where
  "sa_family p m = read_mem 2 p m"

definition set_family :: "u64 \<Rightarrow> u16 \<Rightarrow> memory \<Rightarrow> memory" where
  "set_family p f m = write_mem 2 p f m"

definition sockaddr_from_host :: "u64 \<Rightarrow> u64 \<Rightarrow> memory \<Rightarrow> memory result" where
  "sockaddr_from_host src dst m =
     (if sa_family src m = 0 then Inr (set_family dst 0 m)
      else if sa_family src m = 2 then
        Inr (copy_field 4 4 src dst (copy_field 2 2 src dst (set_family dst 2 m)))
      else if sa_family src m = 10 then
        Inr (copy_field 24 4 src dst (copy_field 8 16 src dst (copy_field 4 4 src dst
          (copy_field 2 2 src dst (set_family dst 10 m)))))
      else Inl (Runtime_error ''Unknown socket family when converting sockaddr from host''))"

definition sockaddr_to_host :: "u64 \<Rightarrow> u64 \<Rightarrow> memory \<Rightarrow> memory result" where
  "sockaddr_to_host src dst m =
     (if sa_family src m = 0 then Inr (set_family dst 0 m)
      else if sa_family src m = 2 then
        Inr (copy_field 4 4 src dst (copy_field 2 2 src dst (set_family dst 2 m)))
      else if sa_family src m = 10 then
        Inr (copy_field 24 4 src dst (copy_field 8 16 src dst (copy_field 4 4 src dst
          (copy_field 2 2 src dst (set_family dst 10 m)))))
      else Inl (Runtime_error ''Unknown socket family when converting sockaddr to host''))"

definition get_host_len :: "u64 \<Rightarrow> memory \<Rightarrow> nat result" where
  "get_host_len p m =
     (if p = 0 then Inr 0 else if sa_family p m = 2 then Inr 16 else if sa_family p m = 10 then Inr 28
      else Inl (Runtime_error ''Unknown socket family when converting sockaddr to host''))"

definition get_bionic_len :: "u64 \<Rightarrow> memory \<Rightarrow> nat result" where
  "get_bionic_len p m =
     (if p = 0 then Inr 0 else if sa_family p m = 2 then Inr 16 else if sa_family p m = 10 then Inr 28
      else Inl (Runtime_error ''Unknown socket family when converting sockaddr from host''))"

text \<open>
  The two helper objects of the calls; \<open>slot\<close> is the address of their \<^verbatim>\<open>sockaddr_storage\<close> of 128 bytes, zeroed
  first.  \<open>sockaddr_in\<close> gives the pointer and the length for the host's function.
\<close>

definition zero_storage :: "u64 \<Rightarrow> memory \<Rightarrow> memory" where
  "zero_storage slot m = store_bytes (replicate 128 0) slot m"

definition sockaddr_in :: "u64 \<Rightarrow> u64 \<Rightarrow> memory \<Rightarrow> (u64 \<times> nat \<times> memory) result" where
  "sockaddr_in slot addr m =
     (if addr = 0 then Inr (0, 0, zero_storage slot m)
      else and_then (sockaddr_to_host addr slot (zero_storage slot m)) (\<lambda>m1.
           and_then (get_host_len addr m1) (\<lambda>len.
           Inr (if len = 0 then 0 else slot, len, m1))))"

definition sockaddr_out_apply :: "u64 \<Rightarrow> u64 \<Rightarrow> u64 \<Rightarrow> memory \<Rightarrow> memory result" where
  "sockaddr_out_apply slot addr addrlen m =
     and_then (get_bionic_len slot m) (\<lambda>len.
     if unat (read_mem 4 addrlen m :: u32) < len then Inl (Runtime_error ''buffer for sockaddr not big enough'')
     else and_then (sockaddr_from_host slot addr m) (\<lambda>m1.
          and_then (get_bionic_len slot m1) (\<lambda>len1.
          Inr (write_mem 4 addrlen (of_nat len1 :: u32) m1))))"

definition sock_send_flags :: "u32 \<Rightarrow> u32 result" where
  "sock_send_flags flags =
     (let hflags = (if flags AND 0x4000 \<noteq> 0 then 0x4000 else 0);
          rest = (if flags AND 0x4000 \<noteq> 0 then flags AND NOT 0x4000 else flags)
      in if rest \<noteq> 0 then Inl (Runtime_error ''Unexpected flags in a socket send operation'') else Inr hflags)"

section \<open>Calls\<close>

text \<open>A host function takes its pointer and length arguments and returns a result and the memory.\<close>

type_synonym addr_call = "int \<Rightarrow> u64 \<Rightarrow> nat \<Rightarrow> memory \<Rightarrow> int \<times> memory"

definition shim_socket :: "(int \<Rightarrow> int \<Rightarrow> int \<Rightarrow> int) \<Rightarrow> int \<Rightarrow> int \<Rightarrow> int \<Rightarrow> int result" where
  "shim_socket host domain type proto =
     and_then (to_host_socktype type) (\<lambda>t. and_then (to_host_ipproto proto) (\<lambda>p.
     Inr (host (to_host_af_family domain) t p)))"

definition shim_bind :: "addr_call \<Rightarrow> u64 \<Rightarrow> int \<Rightarrow> u64 \<Rightarrow> memory \<Rightarrow> (int \<times> memory) result" where
  "shim_bind host slot fd addr m =
     and_then (sockaddr_in slot addr m) (\<lambda>(p, len, m1). Inr (host fd p len m1))"

definition shim_connect :: "addr_call \<Rightarrow> u64 \<Rightarrow> int \<Rightarrow> u64 \<Rightarrow> memory \<Rightarrow> (int \<times> memory) result" where
  "shim_connect host slot fd addr m =
     and_then (sockaddr_in slot addr m) (\<lambda>(p, len, m1). Inr (host fd p len m1))"

definition shim_sendto ::
    "(u32 \<Rightarrow> addr_call) \<Rightarrow> u64 \<Rightarrow> int \<Rightarrow> u32 \<Rightarrow> u64 \<Rightarrow> memory \<Rightarrow> (int \<times> memory) result" where
  "shim_sendto host slot fd flags addr m =
     and_then (sockaddr_in slot addr m) (\<lambda>(p, len, m1).
     and_then (sock_send_flags flags) (\<lambda>hflags. Inr (host hflags fd p len m1)))"

definition shim_recvfrom :: "addr_call \<Rightarrow> u64 \<Rightarrow> int \<Rightarrow> u32 \<Rightarrow> u64 \<Rightarrow> u64 \<Rightarrow> memory \<Rightarrow> (int \<times> memory) result" where
  "shim_recvfrom host slot fd flags addr addrlen m =
     (if flags \<noteq> 0 then Inl (Runtime_error ''recvfrom with unsupported flags'')
      else if addr = 0 then Inr (host fd 0 0 m)
      else (let (ret, m1) = host fd slot 128 (zero_storage slot m)
            in if 0 \<le> ret then and_then (sockaddr_out_apply slot addr addrlen m1) (\<lambda>m2. Inr (ret, m2))
               else Inr (ret, m1)))"

definition shim_getsockname :: "addr_call \<Rightarrow> u64 \<Rightarrow> int \<Rightarrow> u64 \<Rightarrow> u64 \<Rightarrow> memory \<Rightarrow> (int \<times> memory) result" where
  "shim_getsockname host slot fd addr addrlen m =
     (let (ret, m1) = host fd slot 128 (zero_storage slot m)
      in if ret = 0 then and_then (sockaddr_out_apply slot addr addrlen m1) (\<lambda>m2. Inr (ret, m2))
         else Inr (ret, m1))"

definition shim_accept :: "addr_call \<Rightarrow> u64 \<Rightarrow> int \<Rightarrow> u64 \<Rightarrow> u64 \<Rightarrow> memory \<Rightarrow> (int \<times> memory) result" where
  "shim_accept host slot fd addr addrlen m =
     (let (ret, m1) = host fd slot 128 (zero_storage slot m)
      in if 0 \<le> ret \<and> addrlen \<noteq> 0 then and_then (sockaddr_out_apply slot addr addrlen m1) (\<lambda>m2. Inr (ret, m2))
         else Inr (ret, m1))"

text \<open>\<^verbatim>\<open>accept4\<close> does not look at its flags.\<close>

definition shim_accept4 :: "addr_call \<Rightarrow> u64 \<Rightarrow> int \<Rightarrow> u64 \<Rightarrow> u64 \<Rightarrow> u32 \<Rightarrow> memory \<Rightarrow> (int \<times> memory) result" where
  "shim_accept4 host slot fd addr addrlen flag m =
     (let (ret, m1) = host fd slot 128 (zero_storage slot m)
      in if 0 \<le> ret \<and> addrlen \<noteq> 0 then and_then (sockaddr_out_apply slot addr addrlen m1) (\<lambda>m2. Inr (ret, m2))
         else Inr (ret, m1))"

section \<open>Address lists\<close>

text \<open>A socket address as the value of its fields; the linked lists of \<^verbatim>\<open>addrinfo\<close> are lists.\<close>

datatype sockaddr =
    Unspec
  | Inet "u8 list" "u8 list"
  | Inet6 "u8 list" "u8 list" "u8 list" "u8 list"
  | Other_family u16

record addrinfo =
  ai_flags :: u32
  ai_family :: int
  ai_socktype :: int
  ai_protocol :: int
  ai_addrlen :: nat
  ai_canonname :: "string option"
  ai_addr :: "sockaddr option"

fun sockaddr_len :: "sockaddr option \<Rightarrow> nat result" where
  "sockaddr_len None = Inr 0"
| "sockaddr_len (Some (Inet p a)) = Inr 16"
| "sockaddr_len (Some (Inet6 p f a s)) = Inr 28"
| "sockaddr_len (Some _) = Inl (Runtime_error ''Unknown socket family when converting sockaddr'')"

definition addrinfo_from_host :: "addrinfo \<Rightarrow> addrinfo result" where
  "addrinfo_from_host a =
     and_then (from_host_socktype (ai_socktype a)) (\<lambda>t.
     and_then (from_host_ipproto (ai_protocol a)) (\<lambda>p.
     and_then (sockaddr_len (ai_addr a)) (\<lambda>len.
     Inr \<lparr>ai_flags = from_host_ai_flags (ai_flags a), ai_family = from_host_af_family (ai_family a),
          ai_socktype = t, ai_protocol = p, ai_addrlen = len, ai_canonname = ai_canonname a,
          ai_addr = (if len = 0 then None else ai_addr a)\<rparr>)))"

text \<open>An entry whose conversion throws is dropped and the rest of the list converted.\<close>

fun from_host_alloc :: "addrinfo list \<Rightarrow> addrinfo list" where
  "from_host_alloc [] = []"
| "from_host_alloc (a # as) =
     (case addrinfo_from_host a of Inr b \<Rightarrow> b # from_host_alloc as | Inl _ \<Rightarrow> from_host_alloc as)"

fun to_host_alloc :: "addrinfo list \<Rightarrow> addrinfo list result" where
  "to_host_alloc [] = Inr []"
| "to_host_alloc (a # as) =
     and_then (if ai_socktype a \<noteq> 0 then to_host_socktype (ai_socktype a) else Inr 0) (\<lambda>t.
     and_then (to_host_ipproto (ai_protocol a)) (\<lambda>p.
     and_then (sockaddr_len (ai_addr a)) (\<lambda>len.
     and_then (to_host_alloc as) (\<lambda>rest.
     Inr (\<lparr>ai_flags = to_host_ai_flags (ai_flags a), ai_family = to_host_af_family (ai_family a),
           ai_socktype = t, ai_protocol = p, ai_addrlen = len, ai_canonname = ai_canonname a,
           ai_addr = (if len = 0 then None else ai_addr a)\<rparr> # rest)))))"

definition shim_getaddrinfo ::
    "(addrinfo list \<Rightarrow> int \<times> addrinfo list) \<Rightarrow> addrinfo list \<Rightarrow> (int \<times> addrinfo list option) result" where
  "shim_getaddrinfo host hints =
     and_then (to_host_alloc hints) (\<lambda>hhints.
     let (ret, hres) = host hhints in Inr (if ret \<noteq> 0 then (ret, None) else (0, Some (from_host_alloc hres))))"

section \<open>Socket options\<close>

definition to_host_sockopt_so :: "int \<Rightarrow> int result" where
  "to_host_sockopt_so opt =
     (if opt \<in> {1, 2, 3, 4, 5, 6, 7, 8, 9, 10, 13, 15} then Inr opt else Inl (Runtime_error ''Unknown SO sockopt''))"

definition to_host_sockopt_ipv6 :: "int \<Rightarrow> int result" where
  "to_host_sockopt_ipv6 opt =
     (if opt \<in> {2, 3, 4, 5, 6, 7, 8, 16, 17, 18, 19, 20, 21, 26, 34} then Inr opt
      else Inl (Runtime_error ''Unknown IPv6 sockopt''))"

definition to_host_sockopt_level :: "int \<Rightarrow> int result" where
  "to_host_sockopt_level level = (if level = 1 then Inr 1 else to_host_ipproto level)"

text \<open>The unknown IP options are passed on.\<close>

definition to_host_sockopt :: "int \<Rightarrow> int \<Rightarrow> int result" where
  "to_host_sockopt level opt =
     and_then (to_host_sockopt_level level) (\<lambda>l.
     if l = 1 then to_host_sockopt_so opt
     else if l = 0 then Inr opt
     else if l = 41 then to_host_sockopt_ipv6 opt
     else if l = 6 then Inr opt
     else Inl (Runtime_error ''Unknown sockopt level''))"

definition shim_shutdown :: "(int \<Rightarrow> int \<Rightarrow> int) \<Rightarrow> int \<Rightarrow> int \<Rightarrow> int result" where
  "shim_shutdown host fd how =
     (if how = 0 \<or> how = 1 \<or> how = 2 then Inr (host fd how)
      else Inl (Runtime_error ''Unexpected how parameter passed to shutdown''))"

section \<open>Copies of address fields\<close>

definition in_block :: "u64 \<Rightarrow> u64 \<Rightarrow> nat \<Rightarrow> bool" where
  "in_block x a n \<longleftrightarrow> (\<exists>i<n. x = a + of_nat i)"

lemma load_bytes_nth: "i < n \<Longrightarrow> load_bytes n a m ! i = m (a + of_nat i)"
proof (induction n arbitrary: a i)
  case (Suc n)
  then show ?case by (cases i) (auto simp: algebra_simps)
qed simp

lemma offset_inj:
  assumes "i < 4096" "j < 4096" "(a :: u64) + of_nat i = a + of_nat j"
  shows "i = j"
proof -
  have "unat (of_nat i :: u64) = unat (of_nat j :: u64)" using assms(3) by simp
  then show ?thesis using unat_of_nat_u64 [of i] unat_of_nat_u64 [of j] assms(1,2) by simp
qed

lemma store_bytes_nth:
  assumes "i < length bs" "length bs \<le> 4096"
  shows "store_bytes bs a m (a + of_nat i) = bs ! i"
  using load_bytes_nth [of i "length bs" a "store_bytes bs a m"] load_store_bytes [of bs a m] assms by simp

lemma copy_field_outside:
  "\<not> in_block x (dst + of_nat off) n \<Longrightarrow> copy_field off n src dst m x = m x"
  unfolding copy_field_def in_block_def by (rule store_bytes_other) auto

lemma copy_field_inside:
  assumes "off \<le> i" "i < off + n" "n \<le> 4096"
  shows "copy_field off n src dst m (dst + of_nat i) = m (src + of_nat i)"
proof -
  define k where "k = i - off"
  then have k: "i = off + k" "k < n" using assms by simp_all
  then show ?thesis
    using store_bytes_nth [of k "load_bytes n (src + of_nat off) m" "dst + of_nat off" m] assms(3)
      load_bytes_nth [of k n "src + of_nat off" m]
    by (simp add: copy_field_def algebra_simps)
qed

lemma in_block_off:
  assumes "i < 4096" "off + n \<le> 4096"
  shows "in_block (dst + of_nat i) (dst + of_nat off) n \<longleftrightarrow> off \<le> i \<and> i < off + n"
proof
  assume "in_block (dst + of_nat i) (dst + of_nat off) n"
  then obtain k where "k < n" "dst + of_nat i = dst + of_nat (off + k)" by (auto simp: in_block_def algebra_simps)
  then show "off \<le> i \<and> i < off + n" using offset_inj [of i "off + k" dst] assms by simp
next
  assume a: "off \<le> i \<and> i < off + n"
  define k where "k = i - off"
  then have "i = off + k" "k < n" using a by auto
  then show "in_block (dst + of_nat i) (dst + of_nat off) n"
    unfolding in_block_def by (intro exI [of _ k]) (simp add: add.assoc)
qed

text \<open>\<open>copied L P\<close>: the offsets in \<open>P\<close> of the target hold the bytes of the source, nothing outside the target changed.\<close>

definition copied :: "nat \<Rightarrow> (nat \<Rightarrow> bool) \<Rightarrow> u64 \<Rightarrow> u64 \<Rightarrow> memory \<Rightarrow> memory \<Rightarrow> bool" where
  "copied L P src dst m m' \<longleftrightarrow>
     (\<forall>i<L. P i \<longrightarrow> m' (dst + of_nat i) = m (src + of_nat i)) \<and> (\<forall>x. \<not> in_block x dst L \<longrightarrow> m' x = m x)"

lemma copied_step:
  assumes c: "copied L P src dst m m1" and d: "disjoint_blocks src L dst L" and b: "off + n \<le> L" "L \<le> 4096"
  shows "copied L (\<lambda>i. P i \<or> off \<le> i \<and> i < off + n) src dst m (copy_field off n src dst m1)"
proof -
  have src: "m1 (src + of_nat i) = m (src + of_nat i)" if "i < L" for i
    using c d that by (auto simp: copied_def disjoint_blocks_def in_block_def)
  have "copy_field off n src dst m1 (dst + of_nat i) = m (src + of_nat i)"
    if "i < L" "P i \<or> off \<le> i \<and> i < off + n" for i
  proof (cases "off \<le> i \<and> i < off + n")
    case True
    then show ?thesis using copy_field_inside [of off i n src dst m1] src b that(1) by simp
  next
    case False
    then have "\<not> in_block (dst + of_nat i) (dst + of_nat off) n" using in_block_off [of i off n dst] b that(1) by simp
    moreover have "m1 (dst + of_nat i) = m (src + of_nat i)" using False c that unfolding copied_def by blast
    ultimately show ?thesis using copy_field_outside by simp
  qed
  moreover have "copy_field off n src dst m1 x = m x" if "\<not> in_block x dst L" for x
  proof -
    have "\<not> in_block x (dst + of_nat off) n"
    proof
      assume "in_block x (dst + of_nat off) n"
      then obtain k where "k < n" "x = dst + of_nat (off + k)" by (auto simp: in_block_def algebra_simps)
      moreover from this have "off + k < L" using b by simp
      ultimately show False using that unfolding in_block_def by blast
    qed
    then show ?thesis using copy_field_outside c that by (simp add: copied_def)
  qed
  ultimately show ?thesis unfolding copied_def by blast
qed

lemma bytes_of_u16: "bytes_of 2 (word_of_bytes [a, b] :: u16) = [a, b]"
proof -
  have "(ucast (ucast a OR push_bit 8 (ucast b) :: u16) :: u8) = a"
    by (rule bit_eqI) (auto simp: bit_simps)
  moreover have "(ucast (drop_bit 8 (ucast a OR push_bit 8 (ucast b) :: u16)) :: u8) = b"
    by (rule bit_eqI) (auto simp: bit_simps dest: bit_imp_le_length)
  ultimately show ?thesis by (simp add: numeral_2_eq_2)
qed

lemma set_family_copy: "set_family dst (sa_family src m) m = copy_field 0 2 src dst m"
proof -
  have "load_bytes 2 src m = [m src, m (src + 1)]" by (simp add: numeral_2_eq_2)
  then show ?thesis
    by (simp add: set_family_def sa_family_def copy_field_def write_mem_def read_mem_def bytes_of_u16
        del: word_of_bytes.simps)
qed

lemma copied_refl: "copied L (\<lambda>_. False) src dst m m"
  by (simp add: copied_def)

lemma copied_weaken: "copied L P src dst m m' \<Longrightarrow> (\<And>i. Q i \<Longrightarrow> P i) \<Longrightarrow> copied L Q src dst m m'"
  by (auto simp: copied_def)

lemma copied_inet:
  assumes d: "disjoint_blocks src 16 dst 16"
  shows "copied 16 (\<lambda>i. i < 8) src dst m
    (copy_field 4 4 src dst (copy_field 2 2 src dst (copy_field 0 2 src dst m)))"
  by (rule copied_weaken [OF copied_step [OF copied_step [OF copied_step [OF copied_refl d] d] d]]) auto

lemma copied_inet6:
  assumes d: "disjoint_blocks src 28 dst 28"
  shows "copied 28 (\<lambda>i. i < 28) src dst m
    (copy_field 24 4 src dst (copy_field 8 16 src dst (copy_field 4 4 src dst (copy_field 2 2 src dst
      (copy_field 0 2 src dst m)))))"
  by (rule copied_weaken [OF copied_step [OF copied_step [OF copied_step [OF copied_step [OF copied_step
      [OF copied_refl d] d] d] d] d]]) auto

text \<open>The fields of the address at a pointer.\<close>

definition sockaddr_at :: "u64 \<Rightarrow> memory \<Rightarrow> sockaddr" where
  "sockaddr_at p m =
     (if sa_family p m = 0 then Unspec
      else if sa_family p m = 2 then Inet (load_bytes 2 (p + 2) m) (load_bytes 4 (p + 4) m)
      else if sa_family p m = 10 then
        Inet6 (load_bytes 2 (p + 2) m) (load_bytes 4 (p + 4) m) (load_bytes 16 (p + 8) m) (load_bytes 4 (p + 24) m)
      else Other_family (sa_family p m))"

definition field_bytes :: "nat \<Rightarrow> nat" where
  "field_bytes L = (if L = 16 then 8 else L)"

lemma load_bytes_copied:
  assumes "\<And>i. i < k \<Longrightarrow> m' (dst + of_nat i) = m (src + of_nat i)" "off + n \<le> k"
  shows "load_bytes n (dst + of_nat off) m' = load_bytes n (src + of_nat off) m"
proof (rule nth_equalityI)
  fix i assume i: "i < length (load_bytes n (dst + of_nat off) m')"
  then show "load_bytes n (dst + of_nat off) m' ! i = load_bytes n (src + of_nat off) m ! i"
    using assms(1) [of "off + i"] assms(2) by (simp add: load_bytes_nth add.assoc)
qed simp

lemma bionic_len_cases:
  assumes "get_bionic_len p m = Inr L" "p \<noteq> 0"
  shows "sa_family p m = 2 \<and> L = 16 \<or> sa_family p m = 10 \<and> L = 28"
  using assms by (auto simp: get_bionic_len_def split: if_splits)

lemma sockaddr_at_copied:
  assumes "get_bionic_len src m = Inr L" "src \<noteq> 0"
    and bytes: "\<And>i. i < field_bytes L \<Longrightarrow> m' (dst + of_nat i) = m (src + of_nat i)"
  shows "sockaddr_at dst m' = sockaddr_at src m"
proof -
  note f = bionic_len_cases [OF assms(1,2)]
  have L: "8 \<le> field_bytes L" using f by (auto simp: field_bytes_def)
  note eq = load_bytes_copied [of "field_bytes L" m' dst m src, OF bytes]
  have fam: "sa_family dst m' = sa_family src m"
    using eq [of 0 2] L by (simp add: sa_family_def read_mem_def)
  have "load_bytes 2 (dst + 2) m' = load_bytes 2 (src + 2) m" "load_bytes 4 (dst + 4) m' = load_bytes 4 (src + 4) m"
    using eq [of 2 2] eq [of 4 4] L by simp_all
  moreover have "load_bytes 16 (dst + 8) m' = load_bytes 16 (src + 8) m \<and> load_bytes 4 (dst + 24) m' = load_bytes 4 (src + 24) m"
    if "L = 28"
    using eq [of 8 16] eq [of 24 4] that
    by (simp add: field_bytes_def)
  ultimately show ?thesis using f fam by (auto simp: sockaddr_at_def)
qed

lemma sockaddr_from_host_copied:
  assumes "get_bionic_len src m = Inr L" "src \<noteq> 0" "disjoint_blocks src L dst L"
  shows "\<exists>m'. sockaddr_from_host src dst m = Inr m' \<and> copied L (\<lambda>i. i < field_bytes L) src dst m m'"
proof -
  consider "sa_family src m = 2" "L = 16" | "sa_family src m = 10" "L = 28"
    using bionic_len_cases [OF assms(1,2)] by blast
  then show ?thesis
  proof cases
    case 1
    then show ?thesis
      using copied_inet [of src dst m] assms(3) set_family_copy [of dst src m]
      by (simp add: sockaddr_from_host_def field_bytes_def)
  next
    case 2
    then show ?thesis
      using copied_inet6 [of src dst m] assms(3) set_family_copy [of dst src m]
      by (simp add: sockaddr_from_host_def field_bytes_def)
  qed
qed

lemma get_bionic_len_copied:
  assumes "get_bionic_len src m = Inr L" "src \<noteq> 0" "copied L P src dst m m'" "disjoint_blocks src L dst L"
  shows "get_bionic_len src m' = Inr L"
proof -
  have L: "2 \<le> L" using bionic_len_cases [OF assms(1,2)] by auto
  have "m' (src + of_nat i) = m (src + of_nat i)" if "i < L" for i
    using assms(3,4) that by (auto simp: copied_def disjoint_blocks_def in_block_def)
  then have "load_bytes 2 src m' = load_bytes 2 src m" using L by (intro load_bytes_cong) simp
  then have "sa_family src m' = sa_family src m" by (simp add: sa_family_def read_mem_def)
  then show ?thesis using bionic_len_cases [OF assms(1,2)] assms(2) by (auto simp: get_bionic_len_def)
qed

lemma write_mem_outside: "\<not> in_block x a n \<Longrightarrow> write_mem n a v m x = m x"
  unfolding write_mem_def in_block_def by (rule store_bytes_other) auto


text \<open>The storage at 0x5000 holds an IPv4 address, the guest's length variable 64.\<close>

definition demo_socket_memory :: memory where
  "demo_socket_memory = write_mem 4 0x9000 (64 :: u32) (store_bytes [2, 0, 0x1F, 0x90, 127, 0, 0, 1] 0x5000 (\<lambda>_. 0))"


section \<open>Address lists of the host\<close>

fun known_address :: "sockaddr option \<Rightarrow> bool" where
  "known_address None = True"
| "known_address (Some (Inet _ _)) = True"
| "known_address (Some (Inet6 _ _ _ _)) = True"
| "known_address (Some _) = False"

fun address_len :: "sockaddr option \<Rightarrow> nat" where
  "address_len None = 0"
| "address_len (Some (Inet _ _)) = 16"
| "address_len (Some _) = 28"

definition convertible :: "addrinfo \<Rightarrow> bool" where
  "convertible a \<longleftrightarrow> ai_socktype a \<in> {1, 2, 3} \<and> ai_protocol a \<in> {0, 6, 17, 41} \<and> known_address (ai_addr a)"

definition known_family :: "int \<Rightarrow> int" where
  "known_family f = (if f \<in> {2, 10, 16} then f else 0)"

definition guest_entry :: "addrinfo \<Rightarrow> addrinfo" where
  "guest_entry a =
     a\<lparr>ai_flags := ai_flags a AND 7, ai_family := known_family (ai_family a), ai_addrlen := address_len (ai_addr a)\<rparr>"

lemma flag_selected:
  fixes w :: u32
  assumes "k = push_bit n 1" "n < 32"
  shows "(if w AND k \<noteq> 0 then k else 0) = w AND k"
proof -
  have "k \<noteq> 0" using assms by (simp add: push_bit_eq_mult)
  then show ?thesis using and_single_bit [of w n] assms(1) by simp
qed

lemma ai_flags_masked: "from_host_ai_flags w = w AND 7" "to_host_ai_flags w = w AND 7"
proof -
  have "(7 :: u32) = 1 OR 2 OR 4" by simp
  then have seven: "w AND 7 = (w AND 1) OR (w AND 2) OR (w AND 4)"
    by (simp only: bit.conj_disj_distrib)
  have bits: "(if w AND 1 \<noteq> 0 then 1 else 0) = w AND 1" "(if w AND 2 \<noteq> 0 then 2 else 0) = w AND 2"
    "(if w AND 4 \<noteq> 0 then 4 else 0) = w AND 4"
    by (rule flag_selected [where n = 0], simp, simp, rule flag_selected [where n = 1], simp, simp,
        rule flag_selected [where n = 2], simp, simp)
  show "from_host_ai_flags w = w AND 7" "to_host_ai_flags w = w AND 7"
    unfolding from_host_ai_flags_def to_host_ai_flags_def bits seven by simp_all
qed

lemma known_values:
  "from_host_socktype t = Inr u \<longleftrightarrow> t \<in> {1, 2, 3} \<and> u = t"
  "to_host_socktype t = Inr u \<longleftrightarrow> t \<in> {1, 2, 3} \<and> u = t"
  "from_host_ipproto p = Inr q \<longleftrightarrow> p \<in> {0, 6, 17, 41} \<and> q = p"
  "to_host_ipproto p = Inr q \<longleftrightarrow> p \<in> {0, 6, 17, 41} \<and> q = p"
  "sockaddr_len sa = Inr n \<longleftrightarrow> known_address sa \<and> n = address_len sa"
  "from_host_af_family f = known_family f" "to_host_af_family f = known_family f"
proof -
  show "sockaddr_len sa = Inr n \<longleftrightarrow> known_address sa \<and> n = address_len sa"
    by (cases sa rule: sockaddr_len.cases) auto
qed (auto simp: from_host_socktype_def to_host_socktype_def from_host_ipproto_def to_host_ipproto_def
    from_host_af_family_def to_host_af_family_def known_family_def)

lemma address_len_zero: "known_address sa \<Longrightarrow> address_len sa = 0 \<longleftrightarrow> sa = None"
  by (cases sa rule: address_len.cases) auto

lemma addrinfo_from_host_convertible:
  "addrinfo_from_host a = Inr b \<longleftrightarrow> convertible a \<and> b = guest_entry a"
  unfolding addrinfo_from_host_def and_then_eq_Inr known_values convertible_def guest_entry_def ai_flags_masked
  using address_len_zero [of "ai_addr a"] by (cases a) auto

lemma from_host_alloc_filter: "from_host_alloc as = map guest_entry (filter convertible as)"
proof (induction as)
  case (Cons a as)
  show ?case
  proof (cases "addrinfo_from_host a")
    case (Inl e)
    then have "\<not> convertible a" using addrinfo_from_host_convertible [of a "guest_entry a"] by auto
    then show ?thesis using Inl Cons by simp
  next
    case (Inr b)
    then show ?thesis using addrinfo_from_host_convertible [of a b] Cons by simp
  qed
qed simp

text \<open>
  C24. Name resolution: without hints, or with hints of known socket type, protocol and address family, the guest gets
  the host's status, and on success exactly the entries of the host's list the guest's C library
  can represent, in the host's order, with the three known flags, the known address family and the
  length of the converted address; socket type 0 of a hint is passed on as "any".
\<close>

theorem getaddrinfo_converts_list:
  assumes "list_all (\<lambda>h. ai_socktype h = 0 \<or> convertible h) hints" "list_all (\<lambda>h. ai_protocol h \<in> {0, 6, 17, 41} \<and> ai_addr h = None) hints"
  shows "\<exists>hhints. map ai_socktype hhints = map ai_socktype hints \<and> map ai_protocol hhints = map ai_protocol hints \<and>
           map ai_family hhints = map (\<lambda>h. known_family (ai_family h)) hints \<and>
           shim_getaddrinfo host hints =
             Inr (if fst (host hhints) \<noteq> 0 then (fst (host hhints), None)
                  else (0, Some (map guest_entry (filter convertible (snd (host hhints))))))"
proof -
  have "\<exists>hh. to_host_alloc hints = Inr hh \<and> map ai_socktype hh = map ai_socktype hints \<and>
      map ai_protocol hh = map ai_protocol hints \<and> map ai_family hh = map (\<lambda>h. known_family (ai_family h)) hints"
    using assms
  proof (induction hints)
    case (Cons h hs)
    then obtain hh where "to_host_alloc hs = Inr hh" "map ai_socktype hh = map ai_socktype hs"
      "map ai_protocol hh = map ai_protocol hs" "map ai_family hh = map (\<lambda>h. known_family (ai_family h)) hs" by auto
    moreover have "(if ai_socktype h \<noteq> 0 then to_host_socktype (ai_socktype h) else Inr 0) = Inr (ai_socktype h)"
      "to_host_ipproto (ai_protocol h) = Inr (ai_protocol h)" "sockaddr_len (ai_addr h) = Inr 0"
      using Cons.prems by (auto simp: known_values(2,4) convertible_def)
    ultimately show ?case by (simp add: known_values(7) del: not_None_eq)
  qed simp
  then show ?thesis by (auto simp: shim_getaddrinfo_def from_host_alloc_filter case_prod_beta)
qed

definition demo_entry :: "int \<Rightarrow> sockaddr option \<Rightarrow> addrinfo" where
  "demo_entry t a =
     \<lparr>ai_flags = 0x28, ai_family = 2, ai_socktype = t, ai_protocol = 6, ai_addrlen = 0, ai_canonname = None, ai_addr = a\<rparr>"

theorem getaddrinfo_converts_list_witness:
  "\<exists>r. shim_getaddrinfo (\<lambda>_. (0, [demo_entry 1 (Some (Inet [0, 80] [10, 0, 0, 1])), demo_entry 5 None,
       demo_entry 2 (Some (Other_family 1)), demo_entry 3 None])) [demo_entry 0 None] = Inr (0, Some r) \<and>
     map ai_socktype r = [1, 3] \<and> map ai_addrlen r = [16, 0]"
proof -
  have "list_all (\<lambda>h. ai_socktype h = 0 \<or> convertible h) [demo_entry 0 None]"
    "list_all (\<lambda>h. ai_protocol h \<in> {0, 6, 17, 41} \<and> ai_addr h = None) [demo_entry 0 None]"
    by (simp_all add: demo_entry_def)
  from getaddrinfo_converts_list [OF this, of "\<lambda>_. (0, [demo_entry 1 (Some (Inet [0, 80] [10, 0, 0, 1])), demo_entry 5 None,
       demo_entry 2 (Some (Other_family 1)), demo_entry 3 None])"]
  show ?thesis by (auto simp: convertible_def guest_entry_def demo_entry_def)
qed

end
