(* ===== verification/Shim_Errno.thy ===== *)
theory Shim_Errno
  imports Sober_Prelude
begin

text \<open>
  Error numbers of the C library shim (\<^verbatim>\<open>src/src/vendor/libc-shim/src/errno.cpp\<close>): the two translations
  between the numbers of the host and those of the guest's C library.  The value of a host constant
  such as \<^verbatim>\<open>EPERM\<close> is the parameter \<open>host\<close>; the labels of a \<^verbatim>\<open>switch\<close> are pairwise different.
\<close>

type_synonym errno_values = "string \<Rightarrow> int"

definition from_host_cases :: "(string \<times> int) list" where
  "from_host_cases =
     [(''EPERM'', 1), (''ENOENT'', 2), (''ESRCH'', 3), (''EINTR'', 4), (''EIO'', 5), (''ENXIO'', 6),
      (''E2BIG'', 7), (''ENOEXEC'', 8), (''EBADF'', 9), (''ECHILD'', 10), (''EAGAIN'', 11),
      (''ENOMEM'', 12), (''EACCES'', 13), (''EFAULT'', 14), (''ENOTBLK'', 15), (''EBUSY'', 16),
      (''EEXIST'', 17), (''EXDEV'', 18), (''ENODEV'', 19), (''ENOTDIR'', 20), (''EISDIR'', 21),
      (''EINVAL'', 22), (''ENFILE'', 23), (''EMFILE'', 24), (''ENOTTY'', 25), (''ETXTBSY'', 26),
      (''EFBIG'', 27), (''ENOSPC'', 28), (''ESPIPE'', 29), (''EROFS'', 30), (''EMLINK'', 31),
      (''EPIPE'', 32), (''EDOM'', 33), (''ERANGE'', 34), (''EDEADLK'', 35), (''ENAMETOOLONG'', 36),
      (''ENOLCK'', 37), (''ENOSYS'', 38), (''ENOTEMPTY'', 39), (''ELOOP'', 40), (''ENOMSG'', 42),
      (''EIDRM'', 43), (''ECHRNG'', 44), (''EL2NSYNC'', 45), (''EL3HLT'', 46), (''EL3RST'', 47),
      (''ELNRNG'', 48), (''EUNATCH'', 49), (''ENOCSI'', 50), (''EL2HLT'', 51), (''EBADE'', 52),
      (''EBADR'', 53), (''EXFULL'', 54), (''ENOANO'', 55), (''EBADRQC'', 56), (''EBADSLT'', 57),
      (''EBFONT'', 59), (''ENOSTR'', 60), (''ENODATA'', 61), (''ETIME'', 62), (''ENOSR'', 63),
      (''ENONET'', 64), (''ENOPKG'', 65), (''EREMOTE'', 66), (''ENOLINK'', 67), (''EADV'', 68),
      (''ESRMNT'', 69), (''ECOMM'', 70), (''EPROTO'', 71), (''EMULTIHOP'', 72), (''EDOTDOT'', 73),
      (''EBADMSG'', 74), (''EOVERFLOW'', 75), (''ENOTUNIQ'', 76), (''EBADFD'', 77), (''EREMCHG'', 78),
      (''ELIBACC'', 79), (''ELIBBAD'', 80), (''ELIBSCN'', 81), (''ELIBMAX'', 82), (''ELIBEXEC'', 83),
      (''EILSEQ'', 84), (''ERESTART'', 85), (''ESTRPIPE'', 86), (''EUSERS'', 87), (''ENOTSOCK'', 88),
      (''EDESTADDRREQ'', 89), (''EMSGSIZE'', 90), (''EPROTOTYPE'', 91), (''ENOPROTOOPT'', 92),
      (''EPROTONOSUPPORT'', 93), (''ESOCKTNOSUPPORT'', 94), (''EOPNOTSUPP'', 95),
      (''EPFNOSUPPORT'', 96), (''EAFNOSUPPORT'', 97), (''EADDRINUSE'', 98), (''EADDRNOTAVAIL'', 99),
      (''ENETDOWN'', 100), (''ENETUNREACH'', 101), (''ENETRESET'', 102), (''ECONNABORTED'', 103),
      (''ECONNRESET'', 104), (''ENOBUFS'', 105), (''EISCONN'', 106), (''ENOTCONN'', 107),
      (''ESHUTDOWN'', 108), (''ETOOMANYREFS'', 109), (''ETIMEDOUT'', 110), (''ECONNREFUSED'', 111),
      (''EHOSTDOWN'', 112), (''EHOSTUNREACH'', 113), (''EALREADY'', 114), (''EINPROGRESS'', 115),
      (''ESTALE'', 116), (''EUCLEAN'', 117), (''ENOTNAM'', 118), (''ENAVAIL'', 119), (''EISNAM'', 120),
      (''EREMOTEIO'', 121), (''EDQUOT'', 122), (''ENOMEDIUM'', 123), (''EMEDIUMTYPE'', 124),
      (''ECANCELED'', 125), (''ENOKEY'', 126), (''EKEYEXPIRED'', 127), (''EKEYREVOKED'', 128),
      (''EKEYREJECTED'', 129), (''EOWNERDEAD'', 130), (''ENOTRECOVERABLE'', 131)]"

definition to_host_cases :: "(int \<times> string) list" where
  "to_host_cases =
     [(1, ''EPERM''), (2, ''ENOENT''), (3, ''ESRCH''), (4, ''EINTR''), (5, ''EIO''), (6, ''ENXIO''),
      (7, ''E2BIG''), (8, ''ENOEXEC''), (9, ''EBADF''), (10, ''ECHILD''), (11, ''EAGAIN''),
      (12, ''ENOMEM''), (13, ''EACCES''), (14, ''EFAULT''), (15, ''ENOTBLK''), (16, ''EBUSY''),
      (17, ''EEXIST''), (18, ''EXDEV''), (19, ''ENODEV''), (20, ''ENOTDIR''), (21, ''EISDIR''),
      (22, ''EINVAL''), (23, ''ENFILE''), (24, ''EMFILE''), (25, ''ENOTTY''), (26, ''ETXTBSY''),
      (27, ''EFBIG''), (28, ''ENOSPC''), (29, ''ESPIPE''), (30, ''EROFS''), (31, ''EMLINK''),
      (32, ''EPIPE''), (33, ''EDOM''), (34, ''ERANGE''), (35, ''EDEADLK''), (36, ''ENAMETOOLONG''),
      (37, ''ENOLCK''), (38, ''ENOSYS''), (39, ''ENOTEMPTY''), (40, ''ELOOP''), (42, ''ENOMSG''),
      (43, ''EIDRM''), (44, ''ECHRNG''), (45, ''EL2NSYNC''), (46, ''EL3HLT''), (47, ''EL3RST''),
      (48, ''ELNRNG''), (49, ''EUNATCH''), (50, ''ENOCSI''), (51, ''EL2HLT''), (52, ''EBADE''),
      (53, ''EBADR''), (54, ''EXFULL''), (55, ''ENOANO''), (56, ''EBADRQC''), (57, ''EBADSLT''),
      (59, ''EBFONT''), (60, ''ENOSTR''), (61, ''ENODATA''), (62, ''ETIME''), (63, ''ENOSR''),
      (64, ''ENONET''), (65, ''ENOPKG''), (66, ''EREMOTE''), (67, ''ENOLINK''), (68, ''EADV''),
      (69, ''ESRMNT''), (70, ''ECOMM''), (71, ''EPROTO''), (72, ''EMULTIHOP''), (73, ''EDOTDOT''),
      (74, ''EBADMSG''), (75, ''EOVERFLOW''), (76, ''ENOTUNIQ''), (77, ''EBADFD''), (78, ''EREMCHG''),
      (79, ''ELIBACC''), (80, ''ELIBBAD''), (81, ''ELIBSCN''), (82, ''ELIBMAX''), (83, ''ELIBEXEC''),
      (84, ''EILSEQ''), (85, ''ERESTART''), (86, ''ESTRPIPE''), (87, ''EUSERS''), (88, ''ENOTSOCK''),
      (89, ''EDESTADDRREQ''), (90, ''EMSGSIZE''), (91, ''EPROTOTYPE''), (92, ''ENOPROTOOPT''),
      (93, ''EPROTONOSUPPORT''), (94, ''ESOCKTNOSUPPORT''), (95, ''EOPNOTSUPP''),
      (96, ''EPFNOSUPPORT''), (97, ''EAFNOSUPPORT''), (98, ''EADDRINUSE''), (99, ''EADDRNOTAVAIL''),
      (100, ''ENETDOWN''), (101, ''ENETUNREACH''), (102, ''ENETRESET''), (103, ''ECONNABORTED''),
      (104, ''ECONNRESET''), (105, ''ENOBUFS''), (106, ''EISCONN''), (107, ''ENOTCONN''),
      (108, ''ESHUTDOWN''), (109, ''ETOOMANYREFS''), (110, ''ETIMEDOUT''), (111, ''ECONNREFUSED''),
      (112, ''EHOSTDOWN''), (113, ''EHOSTUNREACH''), (114, ''EALREADY''), (115, ''EINPROGRESS''),
      (116, ''ESTALE''), (117, ''EUCLEAN''), (118, ''ENOTNAM''), (119, ''ENAVAIL''), (120, ''EISNAM''),
      (121, ''EREMOTEIO''), (122, ''EDQUOT''), (123, ''ENOMEDIUM''), (124, ''EMEDIUMTYPE''),
      (125, ''ECANCELED''), (126, ''ENOKEY''), (127, ''EKEYEXPIRED''), (128, ''EKEYREVOKED''),
      (129, ''EKEYREJECTED''), (130, ''EOWNERDEAD''), (131, ''ENOTRECOVERABLE'')]"

definition translate_errno_from_host :: "errno_values \<Rightarrow> int \<Rightarrow> int" where
  "translate_errno_from_host host err =
     (case find (\<lambda>c. host (fst c) = err) from_host_cases of None \<Rightarrow> err | Some c \<Rightarrow> snd c)"

definition translate_errno_to_host :: "errno_values \<Rightarrow> int \<Rightarrow> int" where
  "translate_errno_to_host host err =
     (case find (\<lambda>c. fst c = err) to_host_cases of None \<Rightarrow> err | Some c \<Rightarrow> host (snd c))"

text \<open>The value of \<^verbatim>\<open>errno\<close> itself: on a Linux host the guest shares the variable of the host.\<close>

definition shim_strerror :: "errno_values \<Rightarrow> (int \<Rightarrow> string) \<Rightarrow> int \<Rightarrow> string" where
  "shim_strerror host strerror err = strerror (translate_errno_to_host host err)"

definition shim_strerror_r :: "errno_values \<Rightarrow> (int \<Rightarrow> string option) \<Rightarrow> int \<Rightarrow> int \<times> string option" where
  "shim_strerror_r host strerror_r err =
     (case strerror_r (translate_errno_to_host host err) of Some s \<Rightarrow> (0, Some s) | None \<Rightarrow> (-1, None))"

section \<open>The two tables\<close>

lemma tables_inverse: "to_host_cases = map prod.swap from_host_cases"
  by (simp only: to_host_cases_def from_host_cases_def list.map swap_simp)

lemma guest_numbers_increase: "sorted_wrt (<) (map snd from_host_cases)"
proof -
  have "successively (<) (map snd from_host_cases)" by (simp add: from_host_cases_def)
  then show ?thesis using successively_conv_sorted_wrt [of "(<)" "map snd from_host_cases"] by simp
qed

lemma guest_numbers_distinct: "distinct (map snd from_host_cases)"
  using guest_numbers_increase strict_sorted_iff by blast

lemma find_unique:
  "distinct (map f xs) \<Longrightarrow> x \<in> set xs \<Longrightarrow> find (\<lambda>y. f y = f x) xs = Some x"
  by (induction xs) (auto simp: image_iff)

definition case_labels_ok :: "errno_values \<Rightarrow> bool" where
  "case_labels_ok host \<longleftrightarrow> distinct (map (\<lambda>c. host (fst c)) from_host_cases)"

lemma from_host_listed:
  assumes "case_labels_ok host" "c \<in> set from_host_cases"
  shows "translate_errno_from_host host (host (fst c)) = snd c"
  using find_unique [of "\<lambda>c. host (fst c)" from_host_cases c] assms
  by (simp add: translate_errno_from_host_def case_labels_ok_def)

lemma to_host_listed:
  assumes "c \<in> set from_host_cases"
  shows "translate_errno_to_host host (snd c) = host (fst c)"
proof -
  have "map fst to_host_cases = map snd from_host_cases" by (simp add: tables_inverse)
  then have "distinct (map fst to_host_cases)" using guest_numbers_distinct by simp
  moreover have "prod.swap c \<in> set to_host_cases" using assms by (auto simp: tables_inverse)
  ultimately show ?thesis
    using find_unique [of fst to_host_cases "prod.swap c"] by (simp add: translate_errno_to_host_def)
qed

lemma from_host_unlisted:
  "err \<notin> host ` fst ` set from_host_cases \<Longrightarrow> translate_errno_from_host host err = err"
  by (auto simp: translate_errno_from_host_def find_None_iff split: option.splits dest!: find_Some_iff [THEN iffD1])

text \<open>
  Error numbers survive the translation: with the host's constants pairwise different, every listed host error comes
  back after translation to the guest's number and back, every guest number of the table comes back after
  translation to the host and back, and a host error outside the table is passed on unchanged.
\<close>

theorem errno_round_trip:
  assumes "case_labels_ok host"
  shows "list_all (\<lambda>c.
             translate_errno_to_host host (translate_errno_from_host host (host (fst c))) = host (fst c) \<and>
             translate_errno_from_host host (translate_errno_to_host host (snd c)) = snd c) from_host_cases \<and>
         (err \<in> host ` fst ` set from_host_cases \<or> translate_errno_from_host host err = err)"
proof -
  have "translate_errno_to_host host (translate_errno_from_host host (host (fst c))) = host (fst c) \<and>
      translate_errno_from_host host (translate_errno_to_host host (snd c)) = snd c" if "c \<in> set from_host_cases" for c
    using from_host_listed [OF assms that] to_host_listed [OF that, of host] by simp
  then have "list_all (\<lambda>c.
      translate_errno_to_host host (translate_errno_from_host host (host (fst c))) = host (fst c) \<and>
      translate_errno_from_host host (translate_errno_to_host host (snd c)) = snd c) from_host_cases"
    unfolding list_all_iff by blast
  then show ?thesis using from_host_unlisted [of err host] by blast
qed

text \<open>On Linux the constants have the guest's values.\<close>

definition linux_errno :: errno_values where
  "linux_errno name = the (map_of from_host_cases name)"

fun name_code :: "nat \<Rightarrow> string \<Rightarrow> nat" where
  "name_code a [] = a"
| "name_code a (c # cs) = name_code ((a * 36 + of_char c) mod 2003) cs"

lemma host_names_distinct: "distinct (map fst from_host_cases)"
proof -
  have "distinct (map (name_code 0) (map fst from_host_cases))"
    by (simp add: from_host_cases_def)
  then show ?thesis by (rule distinct_map [THEN iffD1, THEN conjunct1])
qed

lemma linux_errno_values: "map (\<lambda>c. linux_errno (fst c)) from_host_cases = map snd from_host_cases"
  using map_of_is_SomeI [OF host_names_distinct] by (auto simp: linux_errno_def)

lemma linux_case_labels: "case_labels_ok linux_errno"
  unfolding case_labels_ok_def linux_errno_values by (rule guest_numbers_distinct)

lemma translate_errno_linux [simp]: "translate_errno_from_host linux_errno err = err"
proof (cases "err \<in> linux_errno ` fst ` set from_host_cases")
  case True
  then obtain c where c: "c \<in> set from_host_cases" "err = linux_errno (fst c)" by blast
  moreover have "linux_errno (fst c) = snd c" using linux_errno_values c(1) by simp
  ultimately show ?thesis using from_host_listed [OF linux_case_labels c(1)] by simp
qed (rule from_host_unlisted)

theorem errno_round_trip_witness:
  "translate_errno_from_host linux_errno 2 = 2 \<and>
   list_all (\<lambda>c.
     translate_errno_to_host linux_errno (translate_errno_from_host linux_errno (linux_errno (fst c))) = linux_errno (fst c) \<and>
     translate_errno_from_host linux_errno (translate_errno_to_host linux_errno (snd c)) = snd c) from_host_cases"
proof -
  have "(''ENOENT'', 2) \<in> set from_host_cases" by (simp add: from_host_cases_def)
  moreover have "linux_errno ''ENOENT'' = 2" by (simp add: linux_errno_def from_host_cases_def)
  ultimately show ?thesis
    using errno_round_trip [OF linux_case_labels] from_host_listed [OF linux_case_labels, of "(''ENOENT'', 2)"] by simp
qed

end
