(* ===== verification/Shim_Pthreads.thy ===== *)
theory Shim_Pthreads
  imports Shim_Errno
begin

text \<open>
  Threads of the C library shim (\<^verbatim>\<open>src/src/vendor/libc-shim/src/pthreads.cpp\<close>, \<^verbatim>\<open>pthreads.h\<close>, \<^verbatim>\<open>meta.h\<close>): guest
  mutexes wrap a host mutex that is allocated on first use.  The model has the sequential operations, the
  interleaving of threads inside \<^verbatim>\<open>to_host\<close>, the cleanup handlers, \<^verbatim>\<open>pthread_once\<close> and the attributes.  The
  host is Linux; the return code of the host's constructor is the parameter \<open>ctor\<close>.  Pointers are natural
  numbers, 0 is the null pointer.
\<close>

section \<open>Wrapped host objects\<close>

text \<open>Memory of a host object: allocated only, or set up by its constructor.\<close>

datatype 'a cell = Raw | Built 'a

record 'a host_heap =
  cells :: "nat \<Rightarrow> 'a cell option"
  next_cell :: nat

definition new_cell :: "'a host_heap \<Rightarrow> nat \<times> 'a host_heap" where
  "new_cell h = (next_cell h, h\<lparr>cells := (cells h)(next_cell h \<mapsto> Raw), next_cell := Suc (next_cell h)\<rparr>)"

definition run_constructor :: "(nat \<Rightarrow> int) \<Rightarrow> 'a \<Rightarrow> nat \<Rightarrow> 'a host_heap \<Rightarrow> int \<times> 'a host_heap" where
  "run_constructor ctor x p h =
     (ctor p, h\<lparr>cells := (if ctor p \<noteq> 0 then (cells h)(p := None) else (cells h)(p \<mapsto> Built x))\<rparr>)"

definition make_c_wrapped :: "(nat \<Rightarrow> int) \<Rightarrow> 'a \<Rightarrow> 'a host_heap \<Rightarrow> int \<times> nat \<times> 'a host_heap" where
  "make_c_wrapped ctor x h =
     (let (p, h1) = new_cell h; (ret, h2) = run_constructor ctor x p h1 in (ret, p, h2))"

definition destroy_c_wrapped :: "('a \<Rightarrow> int) \<Rightarrow> nat \<Rightarrow> 'a host_heap \<Rightarrow> (int \<times> 'a host_heap) result" where
  "destroy_c_wrapped dtor p h =
     (case cells h p of Some (Built x) \<Rightarrow> Inr (dtor x, h\<lparr>cells := (cells h)(p := None)\<rparr>) | _ \<Rightarrow> Inl Invalid_access)"

section \<open>The host's mutexes\<close>

text \<open>Kinds 0, 1, 2 are normal, recursive, error checking; the holder is a thread with its lock count.\<close>

record host_mutex =
  kind :: int
  holder :: "(nat \<times> nat) option"

text \<open>\<open>None\<close>: the caller blocks.\<close>

definition host_lock :: "nat \<Rightarrow> host_mutex \<Rightarrow> (int \<times> host_mutex) option" where
  "host_lock t x =
     (case holder x of
        None \<Rightarrow> Some (0, x\<lparr>holder := Some (t, 1)\<rparr>)
      | Some (u, n) \<Rightarrow>
          if u = t \<and> kind x = 1 then Some (0, x\<lparr>holder := Some (t, Suc n)\<rparr>)
          else if u = t \<and> kind x = 2 then Some (35, x) else None)"

definition host_trylock :: "nat \<Rightarrow> host_mutex \<Rightarrow> (int \<times> host_mutex) option" where
  "host_trylock t x =
     (case holder x of
        None \<Rightarrow> Some (0, x\<lparr>holder := Some (t, 1)\<rparr>)
      | Some (u, n) \<Rightarrow> if u = t \<and> kind x = 1 then Some (0, x\<lparr>holder := Some (t, Suc n)\<rparr>) else Some (16, x))"

definition host_unlock :: "nat \<Rightarrow> host_mutex \<Rightarrow> (int \<times> host_mutex) option" where
  "host_unlock t x =
     (case holder x of
        None \<Rightarrow> if kind x = 0 then Some (0, x) else Some (1, x)
      | Some (u, n) \<Rightarrow>
          if kind x \<noteq> 0 \<and> u \<noteq> t then Some (1, x)
          else if kind x = 1 \<and> n > 1 then Some (0, x\<lparr>holder := Some (u, n - 1)\<rparr>)
          else Some (0, x\<lparr>holder := None\<rparr>))"

section \<open>Guest mutexes\<close>

record guest_mutex =
  init_value :: u64
  wrapped :: nat

abbreviation recursive_mutex_init_value :: u64 where "recursive_mutex_init_value \<equiv> 0x4000"
abbreviation errorcheck_mutex_init_value :: u64 where "errorcheck_mutex_init_value \<equiv> 0x8000"

type_synonym mutex_env = "guest_mutex \<times> host_mutex host_heap"

definition is_mutex_initialized :: "guest_mutex \<Rightarrow> bool" where
  "is_mutex_initialized m \<longleftrightarrow> wrapped m \<noteq> 0"

definition pthread_mutexattr_init :: int where
  "pthread_mutexattr_init = 0"

definition pthread_mutexattr_settype :: "int \<Rightarrow> int \<Rightarrow> int \<times> int" where
  "pthread_mutexattr_settype attr type = (if type < 0 \<or> type > 2 then (22, attr) else (0, type))"

definition to_host_mutex_type :: "int \<Rightarrow> int result" where
  "to_host_mutex_type type =
     (if type = 0 then Inr 0 else if type = 1 then Inr 1 else if type = 2 then Inr 2
      else Inl (Runtime_error ''Invalid mutex type''))"

fun host_mutexattr :: "int option \<Rightarrow> int result" where
  "host_mutexattr None = Inr 0"
| "host_mutexattr (Some type) = to_host_mutex_type type"

definition pthread_mutex_init :: "(nat \<Rightarrow> int) \<Rightarrow> int option \<Rightarrow> mutex_env \<Rightarrow> int result \<times> mutex_env" where
  "pthread_mutex_init ctor attr s =
     (case host_mutexattr attr of
        Inl e \<Rightarrow> (Inl e, s)
      | Inr k \<Rightarrow>
          let (ret, p, h) = make_c_wrapped ctor \<lparr>kind = k, holder = None\<rparr> (snd s)
          in (Inr (translate_errno_from_host linux_errno ret), ((fst s)\<lparr>wrapped := p\<rparr>, h)))"

definition static_mutex_type :: "u64 \<Rightarrow> int" where
  "static_mutex_type v =
     (if v = recursive_mutex_init_value then snd (pthread_mutexattr_settype pthread_mutexattr_init 1)
      else if v = errorcheck_mutex_init_value then snd (pthread_mutexattr_settype pthread_mutexattr_init 2)
      else pthread_mutexattr_init)"

definition mutex_static_initializer :: "(nat \<Rightarrow> int) \<Rightarrow> mutex_env \<Rightarrow> unit result \<times> mutex_env" where
  "mutex_static_initializer ctor s =
     (if is_mutex_initialized (fst s) then (Inr (), s)
      else case pthread_mutex_init ctor (Some (static_mutex_type (init_value (fst s)))) s of
          (Inl e, s') \<Rightarrow> (Inl e, s')
        | (Inr ret, s') \<Rightarrow> (if ret \<noteq> 0 then Inl (Runtime_error ''Failed to init mutex'') else Inr (), s'))"

definition to_host_mutex :: "(nat \<Rightarrow> int) \<Rightarrow> mutex_env \<Rightarrow> nat result \<times> mutex_env" where
  "to_host_mutex ctor s =
     (if is_mutex_initialized (fst s) then (Inr (wrapped (fst s)), s)
      else case mutex_static_initializer ctor s of
          (Inl e, s') \<Rightarrow> (Inl e, s')
        | (Inr _, s') \<Rightarrow> (Inr (wrapped (fst s')), s'))"

text \<open>A host function on the host mutex; using memory that holds no mutex is an invalid access.\<close>

definition mutex_call ::
    "(host_mutex \<Rightarrow> (int \<times> host_mutex) option) \<Rightarrow> (int \<Rightarrow> int) \<Rightarrow> (nat \<Rightarrow> int) \<Rightarrow> mutex_env \<Rightarrow>
     (int result \<times> mutex_env) option" where
  "mutex_call op conv ctor s =
     (case to_host_mutex ctor s of
        (Inl e, s') \<Rightarrow> Some (Inl e, s')
      | (Inr p, m, h) \<Rightarrow>
          (case cells h p of
             Some (Built x) \<Rightarrow>
               (case op x of
                  None \<Rightarrow> None
                | Some (ret, x') \<Rightarrow> Some (Inr (conv ret), m, h\<lparr>cells := (cells h)(p \<mapsto> Built x')\<rparr>))
           | _ \<Rightarrow> Some (Inl Invalid_access, m, h)))"

definition pthread_mutex_lock :: "(nat \<Rightarrow> int) \<Rightarrow> nat \<Rightarrow> mutex_env \<Rightarrow> (int result \<times> mutex_env) option" where
  "pthread_mutex_lock ctor t = mutex_call (host_lock t) (\<lambda>ret. 0) ctor"

definition pthread_mutex_unlock :: "(nat \<Rightarrow> int) \<Rightarrow> nat \<Rightarrow> mutex_env \<Rightarrow> (int result \<times> mutex_env) option" where
  "pthread_mutex_unlock ctor t = mutex_call (host_unlock t) (translate_errno_from_host linux_errno) ctor"

definition pthread_mutex_trylock :: "(nat \<Rightarrow> int) \<Rightarrow> nat \<Rightarrow> mutex_env \<Rightarrow> (int result \<times> mutex_env) option" where
  "pthread_mutex_trylock ctor t = mutex_call (host_trylock t) (translate_errno_from_host linux_errno) ctor"

definition pthread_mutex_destroy :: "(host_mutex \<Rightarrow> int) \<Rightarrow> mutex_env \<Rightarrow> (int \<times> mutex_env) result" where
  "pthread_mutex_destroy dtor s =
     (if \<not> is_mutex_initialized (fst s) then Inr (0, s)
      else and_then (destroy_c_wrapped dtor (wrapped (fst s)) (snd s))
        (\<lambda>(ret, h). Inr (translate_errno_from_host linux_errno ret, fst s, h)))"

section \<open>Threads inside to\_host\<close>

text \<open>
  One call of \<^verbatim>\<open>to_host\<close> per thread, on the mutex at an address: the unguarded check, entering the guarded
  section of \<^verbatim>\<open>mutex_static_initializer\<close>, the second check with the allocation, which stores the pointer in
  the guest mutex, the host's constructor, leaving the section and reading the pointer.
\<close>

datatype pc =
    At_check nat
  | At_guard nat
  | At_recheck nat
  | At_construct nat nat int
  | At_leave nat
  | At_fetch nat
  | Got nat nat
  | Failed nat

record threads =
  mutexes :: "nat \<Rightarrow> guest_mutex"
  heap :: "host_mutex host_heap"
  guard :: "nat option"
  pcs :: "nat \<Rightarrow> pc"

definition goto :: "nat \<Rightarrow> pc \<Rightarrow> threads \<Rightarrow> threads" where
  "goto t c s = s\<lparr>pcs := (pcs s)(t := c)\<rparr>"

fun to_host_step :: "(nat \<Rightarrow> int) \<Rightarrow> nat \<Rightarrow> pc \<Rightarrow> threads \<Rightarrow> threads option" where
  "to_host_step ctor t (At_check a) s =
     Some (goto t (if is_mutex_initialized (mutexes s a) then At_fetch a else At_guard a) s)"
| "to_host_step ctor t (At_guard a) s =
     (if guard s = None then Some (goto t (At_recheck a) (s\<lparr>guard := Some t\<rparr>)) else None)"
| "to_host_step ctor t (At_recheck a) s =
     Some (if is_mutex_initialized (mutexes s a) then goto t (At_leave a) s
           else let (p, h) = new_cell (heap s)
                in goto t (At_construct a p (static_mutex_type (init_value (mutexes s a))))
                     (s\<lparr>heap := h, mutexes := (mutexes s)(a := (mutexes s a)\<lparr>wrapped := p\<rparr>)\<rparr>))"
| "to_host_step ctor t (At_construct a p k) s =
     (let (ret, h) = run_constructor ctor \<lparr>kind = k, holder = None\<rparr> p (heap s)
      in Some (if ret \<noteq> 0 then goto t (Failed a) (s\<lparr>heap := h, guard := None\<rparr>)
               else goto t (At_leave a) (s\<lparr>heap := h\<rparr>)))"
| "to_host_step ctor t (At_leave a) s = Some (goto t (At_fetch a) (s\<lparr>guard := None\<rparr>))"
| "to_host_step ctor t (At_fetch a) s = Some (goto t (Got a (wrapped (mutexes s a))) s)"
| "to_host_step ctor t (Got a p) s = None"
| "to_host_step ctor t (Failed a) s = None"

definition thread_step :: "(nat \<Rightarrow> int) \<Rightarrow> nat \<Rightarrow> threads \<Rightarrow> threads option" where
  "thread_step ctor t s = to_host_step ctor t (pcs s t) s"

inductive interleaved :: "(nat \<Rightarrow> int) \<Rightarrow> threads \<Rightarrow> threads \<Rightarrow> bool" for ctor s0 where
  start: "interleaved ctor s0 s0"
| step: "interleaved ctor s0 s \<Longrightarrow> thread_step ctor t s = Some s' \<Longrightarrow> interleaved ctor s0 s'"

fun run_schedule :: "(nat \<Rightarrow> int) \<Rightarrow> nat list \<Rightarrow> threads \<Rightarrow> threads option" where
  "run_schedule ctor [] s = Some s"
| "run_schedule ctor (t # ts) s = (case thread_step ctor t s of None \<Rightarrow> None | Some s' \<Rightarrow> run_schedule ctor ts s')"

section \<open>Cleanup handlers and one-time initialisation\<close>

record cleanup_node =
  prev :: nat
  routine :: nat
  arg :: nat

record 'w cleanup_state =
  nodes :: "nat \<Rightarrow> cleanup_node"
  current :: nat
  world :: 'w

definition pthread_cleanup_push_impl :: "nat \<Rightarrow> nat \<Rightarrow> nat \<Rightarrow> 'w cleanup_state \<Rightarrow> 'w cleanup_state" where
  "pthread_cleanup_push_impl c cb a s =
     s\<lparr>nodes := (nodes s)(c := \<lparr>prev = current s, routine = cb, arg = a\<rparr>), current := c\<rparr>"

definition pthread_cleanup_pop_impl ::
    "(nat \<Rightarrow> nat \<Rightarrow> 'w cleanup_state \<Rightarrow> 'w cleanup_state) \<Rightarrow> nat \<Rightarrow> bool \<Rightarrow> 'w cleanup_state \<Rightarrow> 'w cleanup_state" where
  "pthread_cleanup_pop_impl call c execute s =
     (let s1 = s\<lparr>current := prev (nodes s c)\<rparr>
      in if execute then call (routine (nodes s1 c)) (arg (nodes s1 c)) s1 else s1)"

partial_function (option) cleanup_loop ::
    "(nat \<Rightarrow> nat \<Rightarrow> 'w cleanup_state \<Rightarrow> 'w cleanup_state) \<Rightarrow> nat \<Rightarrow> 'w cleanup_state \<Rightarrow> 'w cleanup_state option" where
  "cleanup_loop call p s =
     (if p = 0 then Some s
      else let s' = call (routine (nodes s p)) (arg (nodes s p)) s in cleanup_loop call (prev (nodes s' p)) s')"

definition destroy_cleanup_holder ::
    "(nat \<Rightarrow> nat \<Rightarrow> 'w cleanup_state \<Rightarrow> 'w cleanup_state) \<Rightarrow> 'w cleanup_state \<Rightarrow> 'w cleanup_state option" where
  "destroy_cleanup_holder call s = cleanup_loop call (current s) s"

record 'w once_state =
  controls :: "nat \<Rightarrow> int"
  once_world :: 'w

definition pthread_once ::
    "(nat \<Rightarrow> 'w once_state \<Rightarrow> 'w once_state) \<Rightarrow> nat \<Rightarrow> nat \<Rightarrow> 'w once_state \<Rightarrow> int \<times> 'w once_state" where
  "pthread_once call control r s =
     (0, if controls s control = 0 then call r (s\<lparr>controls := (controls s)(control := 1)\<rparr>) else s)"

section \<open>Thread attributes and keys\<close>

record pthread_attr =
  detached :: bool
  user_stack :: bool
  stack_base :: u64
  stack_size :: u64
  guard_size :: u64
  sched_priority :: int

definition pthread_attr_init :: pthread_attr where
  "pthread_attr_init =
     \<lparr>detached = False, user_stack = False, stack_base = 0, stack_size = 0, guard_size = 0, sched_priority = 0\<rparr>"

definition pthread_attr_setdetachstate :: "int \<Rightarrow> pthread_attr \<Rightarrow> int \<times> pthread_attr" where
  "pthread_attr_setdetachstate v a = (if v \<noteq> 0 \<and> v \<noteq> 1 then (22, a) else (0, a\<lparr>detached := v = 1\<rparr>))"

definition pthread_attr_setschedparam :: "int \<Rightarrow> pthread_attr \<Rightarrow> int \<times> pthread_attr" where
  "pthread_attr_setschedparam v a = (0, a\<lparr>sched_priority := v\<rparr>)"

definition pthread_attr_setstacksize :: "u64 \<Rightarrow> u64 \<Rightarrow> pthread_attr \<Rightarrow> int \<times> pthread_attr" where
  "pthread_attr_setstacksize stack_min v a = (if v < stack_min then (0, a) else (0, a\<lparr>stack_size := v\<rparr>))"

definition pthread_attr_setguardsize :: "u64 \<Rightarrow> pthread_attr \<Rightarrow> int \<times> pthread_attr" where
  "pthread_attr_setguardsize v a = (0, a\<lparr>guard_size := v\<rparr>)"

text \<open>The host's attribute, as far as the shim sets it: \<open>None\<close> is the host's default.\<close>

record host_attr =
  h_detached :: bool
  h_stack_size :: "u64 option"
  h_priority :: "int option"

fun host_pthread_attr :: "pthread_attr option \<Rightarrow> host_attr" where
  "host_pthread_attr None = \<lparr>h_detached = False, h_stack_size = None, h_priority = None\<rparr>"
| "host_pthread_attr (Some a) =
     \<lparr>h_detached = detached a, h_stack_size = (if stack_size a \<noteq> 0 then Some (stack_size a) else None),
      h_priority = (if sched_priority a \<noteq> 0 then Some (sched_priority a) else None)\<rparr>"

definition shim_pthread_create :: "(host_attr \<Rightarrow> int) option \<Rightarrow> pthread_attr option \<Rightarrow> int result" where
  "shim_pthread_create impl attr =
     (case impl of
        None \<Rightarrow> Inl (Assert_failure ''pthread_create_impl'')
      | Some f \<Rightarrow> Inr (translate_errno_from_host linux_errno (f (host_pthread_attr attr))))"

definition shim_pthread_key_create :: "(int \<times> u32) option \<Rightarrow> (int \<times> u32) result" where
  "shim_pthread_key_create impl =
     (case impl of
        None \<Rightarrow> Inl (Assert_failure ''pthread_key_create_impl'')
      | Some (ret, host_key) \<Rightarrow>
          if host_key > 0x7fffffff then Inl (Runtime_error ''Unsupported host pthread key implementation'')
          else Inr (translate_errno_from_host linux_errno ret, host_key))"

section \<open>A guest mutex behaves as its host mutex\<close>

definition mutex_wf :: "mutex_env \<Rightarrow> bool" where
  "mutex_wf s \<longleftrightarrow> next_cell (snd s) \<noteq> 0 \<and> (\<forall>p. p = 0 \<or> next_cell (snd s) \<le> p \<longrightarrow> cells (snd s) p = None)"

text \<open>The mutex the guest sees: before the first use, a free mutex of the kind its initialiser names.\<close>

definition mutex_value :: "mutex_env \<Rightarrow> host_mutex option" where
  "mutex_value s =
     (if wrapped (fst s) = 0 then Some \<lparr>kind = static_mutex_type (init_value (fst s)), holder = None\<rparr>
      else case cells (snd s) (wrapped (fst s)) of Some (Built x) \<Rightarrow> Some x | _ \<Rightarrow> None)"

lemma static_mutex_type_eq:
  "static_mutex_type v = (if v = 0x4000 then 1 else if v = 0x8000 then 2 else 0)"
  by (simp add: static_mutex_type_def pthread_mutexattr_settype_def pthread_mutexattr_init_def)

lemma host_mutexattr_static [simp]: "host_mutexattr (Some (static_mutex_type v)) = Inr (static_mutex_type v)"
  by (simp add: static_mutex_type_eq to_host_mutex_type_def)

lemma to_host_mutex_value:
  assumes "\<And>p. ctor p = 0" "mutex_wf s" "mutex_value s = Some x"
  obtains m h where "to_host_mutex ctor s = (Inr (wrapped m), m, h)" "cells h (wrapped m) = Some (Built x)"
    "wrapped m \<noteq> 0" "mutex_wf (m, h)" "\<And>q. q = wrapped m \<or> cells h q = cells (snd s) q"
proof (cases "wrapped (fst s) = 0")
  case True
  then have x: "x = \<lparr>kind = static_mutex_type (init_value (fst s)), holder = None\<rparr>"
    using assms(3) by (simp add: mutex_value_def)
  let ?p = "next_cell (snd s)"
  let ?h = "(snd s)\<lparr>cells := (cells (snd s))(?p \<mapsto> Built x), next_cell := Suc ?p\<rparr>"
  have "to_host_mutex ctor s = (Inr ?p, (fst s)\<lparr>wrapped := ?p\<rparr>, ?h)"
    using True assms(1,2)
    by (simp add: to_host_mutex_def is_mutex_initialized_def mutex_static_initializer_def pthread_mutex_init_def
        make_c_wrapped_def new_cell_def run_constructor_def x del: host_mutexattr.simps)
  then show ?thesis using that [of "(fst s)\<lparr>wrapped := ?p\<rparr>" ?h] assms(2) by (auto simp: mutex_wf_def)
next
  case False
  then show ?thesis
    using that [of "fst s" "snd s"] assms(2,3)
    by (auto simp: to_host_mutex_def is_mutex_initialized_def mutex_value_def split: option.splits cell.splits)
qed

text \<open>\<open>f\<close> acts on the guest mutex as \<open>op\<close> on its value, changes no other host object, and reports \<open>conv\<close> of the code.\<close>

definition implements ::
    "(mutex_env \<Rightarrow> (int result \<times> mutex_env) option) \<Rightarrow> (host_mutex \<Rightarrow> (int \<times> host_mutex) option) \<Rightarrow>
     (int \<Rightarrow> int) \<Rightarrow> mutex_env \<Rightarrow> bool" where
  "implements f op conv s \<longleftrightarrow>
     (case mutex_value s of
        None \<Rightarrow> False
      | Some x \<Rightarrow>
          (case op x of
             None \<Rightarrow> f s = None
           | Some (ret, x') \<Rightarrow>
               (\<exists>s'. f s = Some (Inr (conv ret), s') \<and> mutex_value s' = Some x' \<and> mutex_wf s' \<and>
                  (\<forall>q. q = wrapped (fst s') \<or> cells (snd s') q = cells (snd s) q))))"

lemma mutex_call_implements:
  assumes "\<And>p. ctor p = 0" "mutex_wf s" "mutex_value s \<noteq> None"
  shows "implements (mutex_call op conv ctor) op conv s"
proof -
  obtain x where x: "mutex_value s = Some x" using assms(3) by blast
  obtain m h where mh: "to_host_mutex ctor s = (Inr (wrapped m), m, h)" "cells h (wrapped m) = Some (Built x)"
    "wrapped m \<noteq> 0" "mutex_wf (m, h)" and frame: "\<And>q. q = wrapped m \<or> cells h q = cells (snd s) q"
    by (rule to_host_mutex_value [of ctor, OF assms(1,2) x]) blast
  show ?thesis
  proof (cases "op x")
    case None
    then show ?thesis by (simp add: implements_def x mutex_call_def mh)
  next
    case (Some r)
    obtain ret x' where r: "r = (ret, x')" by (cases r)
    let ?s = "(m, h\<lparr>cells := (cells h)(wrapped m \<mapsto> Built x')\<rparr>)"
    have "mutex_call op conv ctor s = Some (Inr (conv ret), ?s)"
      by (simp add: mutex_call_def mh Some r)
    moreover have "mutex_value ?s = Some x'" using mh(3) by (simp add: mutex_value_def)
    moreover have "wrapped m < next_cell h" using mh(2,4) by (cases "next_cell h \<le> wrapped m") (simp_all add: mutex_wf_def)
    then have "mutex_wf ?s" using mh(3,4) by (simp add: mutex_wf_def)
    moreover have "\<forall>q. q = wrapped (fst ?s) \<or> cells (snd ?s) q = cells (snd s) q" using frame by auto
    ultimately show ?thesis unfolding implements_def x Some r option.case prod.case by blast
  qed
qed


definition static_mutex :: "u64 \<Rightarrow> mutex_env" where
  "static_mutex v = (\<lparr>init_value = v, wrapped = 0\<rparr>, \<lparr>cells = (\<lambda>_. None), next_cell = 1\<rparr>)"


text \<open>An error checking mutex locked twice by its holder: the host refuses, the guest is told it holds the lock again.\<close>

lemma errorcheck_relock_reports_success:
  assumes "\<And>p. ctor p = 0" "mutex_wf s" "mutex_value s = Some \<lparr>kind = 2, holder = Some (t, n)\<rparr>"
  shows "host_lock t \<lparr>kind = 2, holder = Some (t, n)\<rparr> = Some (35, \<lparr>kind = 2, holder = Some (t, n)\<rparr>)"
    "\<exists>s'. pthread_mutex_lock ctor t s = Some (Inr 0, s') \<and> mutex_value s' = mutex_value s"
proof -
  show h: "host_lock t \<lparr>kind = 2, holder = Some (t, n)\<rparr> = Some (35, \<lparr>kind = 2, holder = Some (t, n)\<rparr>)"
    by (simp add: host_lock_def)
  show "\<exists>s'. pthread_mutex_lock ctor t s = Some (Inr 0, s') \<and> mutex_value s' = mutex_value s"
    using mutex_call_implements [of ctor, OF assms(1,2), of "host_lock t" "\<lambda>_. 0"] assms(3) h
    by (auto simp: implements_def pthread_mutex_lock_def)
qed

text \<open>A destroyed mutex keeps its pointer: destroying or locking it again uses freed memory.\<close>

lemma destroyed_mutex_dangles:
  assumes "wrapped m \<noteq> 0" "cells h (wrapped m) = Some (Built x)"
  shows "\<exists>h'. pthread_mutex_destroy dtor (m, h) = Inr (dtor x, m, h') \<and>
           pthread_mutex_destroy dtor (m, h') = Inl Invalid_access \<and>
           pthread_mutex_lock ctor t (m, h') = Some (Inl Invalid_access, m, h')"
  using assms
  by (simp add: pthread_mutex_destroy_def is_mutex_initialized_def destroy_c_wrapped_def pthread_mutex_lock_def
      mutex_call_def to_host_mutex_def)

section \<open>First use of a mutex by several threads\<close>

fun inside :: "pc \<Rightarrow> bool" where
  "inside (At_recheck _) = True"
| "inside (At_construct _ _ _) = True"
| "inside (At_leave _) = True"
| "inside _ = False"

fun pc_ok :: "(nat \<Rightarrow> guest_mutex) \<Rightarrow> pc \<Rightarrow> bool" where
  "pc_ok ms (At_construct a p k) \<longleftrightarrow> p \<noteq> 0 \<and> wrapped (ms a) = p \<and> k = static_mutex_type (init_value (ms a))"
| "pc_ok ms (At_leave a) \<longleftrightarrow> wrapped (ms a) \<noteq> 0"
| "pc_ok ms (At_fetch a) \<longleftrightarrow> wrapped (ms a) \<noteq> 0"
| "pc_ok ms (Got a p) \<longleftrightarrow> p \<noteq> 0 \<and> wrapped (ms a) = p"
| "pc_ok ms _ \<longleftrightarrow> True"

text \<open>The mutex at \<open>a\<close> owns a finished host mutex, or a thread is about to construct it.\<close>

definition constructed :: "threads \<Rightarrow> nat \<Rightarrow> bool" where
  "constructed s a \<longleftrightarrow>
     cells (heap s) (wrapped (mutexes s a)) =
       Some (Built \<lparr>kind = static_mutex_type (init_value (mutexes s a)), holder = None\<rparr>)"

definition all_static :: "threads \<Rightarrow> bool" where
  "all_static s \<longleftrightarrow>
     guard s = None \<and> (\<forall>t. \<exists>a. pcs s t = At_check a) \<and> next_cell (heap s) \<noteq> 0 \<and> (\<forall>a. wrapped (mutexes s a) = 0)"

definition threads_inv :: "threads \<Rightarrow> bool" where
  "threads_inv s \<longleftrightarrow>
     (\<forall>t. inside (pcs s t) \<longleftrightarrow> guard s = Some t) \<and> (\<forall>t. pc_ok (mutexes s) (pcs s t)) \<and> next_cell (heap s) \<noteq> 0 \<and>
     (\<forall>a. wrapped (mutexes s a) < next_cell (heap s)) \<and>
     (\<forall>a b. wrapped (mutexes s a) \<noteq> 0 \<longrightarrow> wrapped (mutexes s a) = wrapped (mutexes s b) \<longrightarrow> a = b)"

definition constructed_inv :: "threads \<Rightarrow> bool" where
  "constructed_inv s \<longleftrightarrow>
     (\<forall>a. wrapped (mutexes s a) = 0 \<or> constructed s a \<or>
        (\<exists>t k. pcs s t = At_construct a (wrapped (mutexes s a)) k))"

lemmas step_simps = thread_step_def goto_def new_cell_def run_constructor_def is_mutex_initialized_def

lemma step_other_pc: "thread_step ctor t s = Some s' \<Longrightarrow> u \<noteq> t \<Longrightarrow> pcs s' u = pcs s u"
  by (cases "pcs s t") (auto simp: step_simps split: if_splits)

lemma step_keeps_wrapped:
  assumes "thread_step ctor t s = Some s'" "wrapped (mutexes s a) \<noteq> 0"
  shows "mutexes s' a = mutexes s a"
  using assms by (cases "pcs s t") (auto simp: step_simps split: if_splits)

lemma pc_ok_mono:
  assumes "pc_ok ms c" "\<And>a. wrapped (ms a) \<noteq> 0 \<Longrightarrow> ms' a = ms a"
  shows "pc_ok ms' c"
  using assms by (cases c) auto

lemma step_own_pc:
  assumes "thread_step ctor t s = Some s'" "threads_inv s"
  shows "pc_ok (mutexes s') (pcs s' t)" "inside (pcs s' t) \<longleftrightarrow> guard s' = Some t"
    "inside (pcs s t) \<or> guard s' = guard s \<or> guard s = None" "guard s' = Some u \<Longrightarrow> u = t \<or> guard s = Some u"
proof -
  have f: "pc_ok (mutexes s) (pcs s t)" "inside (pcs s t) \<longleftrightarrow> guard s = Some t" "next_cell (heap s) \<noteq> 0"
    using assms(2) by (auto simp: threads_inv_def)
  show "pc_ok (mutexes s') (pcs s' t)" "inside (pcs s' t) \<longleftrightarrow> guard s' = Some t"
    "inside (pcs s t) \<or> guard s' = guard s \<or> guard s = None" "guard s' = Some u \<Longrightarrow> u = t \<or> guard s = Some u"
    using assms(1) f by (cases "pcs s t"; auto simp: step_simps split: if_splits)+
qed

lemma step_threads_inv:
  assumes s: "thread_step ctor t s = Some s'" and i: "threads_inv s"
  shows "threads_inv s'"
proof -
  have g: "inside (pcs s u) \<longleftrightarrow> guard s = Some u" and ok: "pc_ok (mutexes s) (pcs s u)" for u
    using i by (auto simp: threads_inv_def)
  have "inside (pcs s' u) \<longleftrightarrow> guard s' = Some u" for u
  proof (cases "u = t")
    case False
    then show ?thesis
      using step_other_pc [OF s False] step_own_pc(2-4) [OF s i] g [of u] g [of t] by auto
  qed (simp add: step_own_pc(2) [OF s i])
  moreover have "pc_ok (mutexes s') (pcs s' u)" for u
    using step_own_pc(1) [OF s i] step_other_pc [OF s, of u] pc_ok_mono [OF ok [of u] step_keeps_wrapped [OF s]]
    by (cases "u = t") auto
  moreover have "next_cell (heap s') \<noteq> 0 \<and> wrapped (mutexes s' a) < next_cell (heap s') \<and>
      (wrapped (mutexes s' a) \<noteq> 0 \<longrightarrow> wrapped (mutexes s' a) = wrapped (mutexes s' b) \<longrightarrow> a = b)" for a b
  proof -
    have "next_cell (heap s) \<noteq> 0" "wrapped (mutexes s a) < next_cell (heap s)" "wrapped (mutexes s b) < next_cell (heap s)"
      "wrapped (mutexes s a) \<noteq> 0 \<Longrightarrow> wrapped (mutexes s a) = wrapped (mutexes s b) \<Longrightarrow> a = b"
      using i by (auto simp: threads_inv_def)
    then show ?thesis using s by (cases "pcs s t") (auto simp: step_simps split: if_splits)
  qed
  ultimately show ?thesis unfolding threads_inv_def by blast
qed

lemma step_constructed_inv:
  assumes s: "thread_step ctor t s = Some s'" and i: "threads_inv s" and c: "constructed_inv s" and ctor: "\<And>p. ctor p = 0"
  shows "constructed_inv s'"
  unfolding constructed_inv_def
proof
  fix b
  have lt: "wrapped (mutexes s b) < next_cell (heap s)" and ok: "pc_ok (mutexes s) (pcs s t)"
    using i by (auto simp: threads_inv_def)
  have inj: "wrapped (mutexes s b) \<noteq> 0 \<Longrightarrow> wrapped (mutexes s b) = wrapped (mutexes s a) \<Longrightarrow> b = a" for a
    using i by (auto simp: threads_inv_def)
  consider "wrapped (mutexes s b) = 0" | "wrapped (mutexes s b) \<noteq> 0" "constructed s b"
    | u k where "wrapped (mutexes s b) \<noteq> 0" "pcs s u = At_construct b (wrapped (mutexes s b)) k"
    using c [unfolded constructed_inv_def, THEN spec, of b] by (cases "wrapped (mutexes s b) = 0") auto
  then show "wrapped (mutexes s' b) = 0 \<or> constructed s' b \<or>
      (\<exists>t k. pcs s' t = At_construct b (wrapped (mutexes s' b)) k)"
  proof cases
    case 1
    then show ?thesis using s by (cases "pcs s t") (auto simp: step_simps split: if_splits)
  next
    case 2
    have "constructed s' b"
    proof (cases "pcs s t")
      case (At_recheck a)
      then show ?thesis using s 2 lt by (auto simp: step_simps constructed_def split: if_splits)
    next
      case (At_construct a p k)
      then have "b = a \<or> wrapped (mutexes s b) \<noteq> p" "wrapped (mutexes s a) = p"
        "k = static_mutex_type (init_value (mutexes s a))"
        using ok inj [OF 2(1), of a] by auto
      then show ?thesis using s 2(2) At_construct ctor by (auto simp: step_simps constructed_def)
    qed (use s 2 in \<open>auto simp: step_simps constructed_def split: if_splits\<close>)
    then show ?thesis by blast
  next
    case (3 u k)
    have m: "mutexes s' b = mutexes s b" using step_keeps_wrapped [OF s 3(1)] .
    show ?thesis
    proof (cases "u = t")
      case True
      then have "constructed s' b"
        using s 3 ok ctor by (auto simp: step_simps constructed_def)
      then show ?thesis by blast
    next
      case False
      then show ?thesis using step_other_pc [OF s False] 3(2) m by auto
    qed
  qed
qed

lemma interleaved_inv:
  assumes "interleaved ctor s0 s" "all_static s0"
  shows "threads_inv s" "(\<And>p. ctor p = 0) \<Longrightarrow> constructed_inv s"
proof -
  have "\<not> inside (pcs s0 t) \<and> pc_ok (mutexes s0) (pcs s0 t)" for t
  proof -
    obtain a where "pcs s0 t = At_check a" using assms(2) unfolding all_static_def by blast
    then show ?thesis by simp
  qed
  then have start: "threads_inv s0" "constructed_inv s0"
    using assms(2) by (simp_all add: all_static_def threads_inv_def constructed_inv_def)
  show "threads_inv s" using assms(1) by induction (use start step_threads_inv in blast)+
  show "constructed_inv s" if "\<And>p. ctor p = 0"
  proof -
    from assms(1) have "threads_inv s \<and> constructed_inv s"
      by induction (use start step_threads_inv step_constructed_inv that in blast)+
    then show ?thesis ..
  qed
qed

lemma interleaved_schedule: "run_schedule ctor ts s = Some s' \<Longrightarrow> interleaved ctor s0 s \<Longrightarrow> interleaved ctor s0 s'"
  by (induction ts arbitrary: s) (auto split: option.splits intro: interleaved.step)


definition two_threads :: threads where
  "two_threads =
     \<lparr>mutexes = (\<lambda>_. \<lparr>init_value = 0x4000, wrapped = 0\<rparr>), heap = \<lparr>cells = (\<lambda>_. None), next_cell = 1\<rparr>,
      guard = None, pcs = (\<lambda>_. At_check 5)\<rparr>"



text \<open>A thread that runs alone computes the sequential \<open>to_host_mutex\<close>.\<close>

lemma solo_run_sequential:
  assumes "guard s = None" "pcs s t = At_check a" "to_host_mutex ctor (mutexes s a, heap s) = (r, m, h)"
    "next_cell (heap s) \<noteq> 0"
  shows "\<exists>ts s'. set ts \<subseteq> {t} \<and> run_schedule ctor ts s = Some s' \<and> mutexes s' = (mutexes s)(a := m) \<and> heap s' = h \<and>
           guard s' = None \<and> pcs s' t = (case r of Inl _ \<Rightarrow> Failed a | Inr p \<Rightarrow> Got a p)"
proof -
  note defs = step_simps to_host_mutex_def mutex_static_initializer_def pthread_mutex_init_def make_c_wrapped_def
  consider "wrapped (mutexes s a) \<noteq> 0" | "wrapped (mutexes s a) = 0" "next_cell (heap s) \<noteq> 0" "ctor (next_cell (heap s)) = 0"
    | "wrapped (mutexes s a) = 0" "ctor (next_cell (heap s)) \<noteq> 0"
    using assms(4) by blast
  then show ?thesis
  proof cases
    case 1
    then show ?thesis using assms by (intro exI [of _ "[t, t]"]) (auto simp: defs)
  next
    case 2
    then show ?thesis using assms
      by (intro exI [of _ "[t, t, t, t, t, t]"]) (auto simp: defs simp del: host_mutexattr.simps)
  next
    case 3
    then show ?thesis using assms
      by (intro exI [of _ "[t, t, t, t]"]) (auto simp: defs simp del: host_mutexattr.simps)
  qed
qed

section \<open>Handlers run in reverse order\<close>

abbreviation world_call :: "(nat \<Rightarrow> nat \<Rightarrow> 'w \<Rightarrow> 'w) \<Rightarrow> nat \<Rightarrow> nat \<Rightarrow> 'w cleanup_state \<Rightarrow> 'w cleanup_state" where
  "world_call eff \<equiv> \<lambda>r a s. s\<lparr>world := eff r a (world s)\<rparr>"

fun frames :: "(nat \<Rightarrow> cleanup_node) \<Rightarrow> nat \<Rightarrow> (nat \<times> nat \<times> nat) list \<Rightarrow> bool" where
  "frames n p [] \<longleftrightarrow> p = 0"
| "frames n p ((c, r, a) # fs) \<longleftrightarrow>
     p = c \<and> c \<noteq> 0 \<and> routine (n c) = r \<and> arg (n c) = a \<and> frames n (prev (n c)) fs"

definition push_all :: "(nat \<times> nat \<times> nat) list \<Rightarrow> 'w cleanup_state \<Rightarrow> 'w cleanup_state" where
  "push_all = fold (\<lambda>(c, r, a). pthread_cleanup_push_impl c r a)"

definition pop_all ::
    "(nat \<Rightarrow> nat \<Rightarrow> 'w \<Rightarrow> 'w) \<Rightarrow> ((nat \<times> nat \<times> nat) \<times> bool) list \<Rightarrow> 'w cleanup_state \<Rightarrow> 'w cleanup_state" where
  "pop_all eff = fold (\<lambda>((c, r, a), e). pthread_cleanup_pop_impl (world_call eff) c e)"

definition run_frames :: "(nat \<Rightarrow> nat \<Rightarrow> 'w \<Rightarrow> 'w) \<Rightarrow> (nat \<times> nat \<times> nat) list \<Rightarrow> 'w \<Rightarrow> 'w" where
  "run_frames eff = fold (\<lambda>(c, r, a). eff r a)"

lemma frames_other: "c \<notin> fst ` set fs \<Longrightarrow> frames (n(c := x)) p fs = frames n p fs"
  by (induction n p fs rule: frames.induct) auto

lemma frames_push_all:
  assumes "frames (nodes s) (current s) gs" "distinct (map fst (fs @ gs))" "0 \<notin> fst ` set fs"
  shows "frames (nodes (push_all fs s)) (current (push_all fs s)) (rev fs @ gs) \<and> world (push_all fs s) = world s"
  using assms
proof (induction fs arbitrary: s gs)
  case (Cons f fs)
  obtain c r a where f: "f = (c, r, a)" by (cases f)
  let ?s = "pthread_cleanup_push_impl c r a s"
  have "frames (nodes ?s) (current ?s) (f # gs)"
    using Cons.prems frames_other [of c gs] by (auto simp: f pthread_cleanup_push_impl_def)
  moreover have "distinct (map fst (fs @ f # gs))" "0 \<notin> fst ` set fs" using Cons.prems by auto
  moreover have "world ?s = world s" by (simp add: pthread_cleanup_push_impl_def)
  ultimately show ?case using Cons.IH [of ?s "f # gs"] by (simp add: push_all_def f)
qed (simp add: push_all_def)

lemma frames_pop_all:
  assumes "frames (nodes s) (current s) fs"
  shows "\<exists>t. pop_all eff (zip fs es) s = t \<and> frames (nodes t) (current t) (drop (length es) fs) \<and>
           world t = run_frames eff (map fst (filter snd (zip fs es))) (world s)"
  using assms
proof (induction fs arbitrary: s es)
  case (Cons f fs)
  obtain c r a where f: "f = (c, r, a)" by (cases f)
  show ?case
  proof (cases es)
    case (Cons e es')
    let ?s = "pthread_cleanup_pop_impl (world_call eff) c e s"
    have "frames (nodes ?s) (current ?s) fs" "world ?s = (if e then eff r a (world s) else world s)"
      using Cons.prems by (cases e; auto simp: f pthread_cleanup_pop_impl_def Let_def)+
    then show ?thesis using Cons.IH [of ?s es'] by (auto simp: Cons f pop_all_def run_frames_def)
  qed (use Cons.prems in \<open>simp add: pop_all_def run_frames_def\<close>)
qed (simp add: pop_all_def run_frames_def)

lemma cleanup_loop_frames:
  "frames (nodes s) p fs \<Longrightarrow> cleanup_loop (world_call eff) p s = Some (s\<lparr>world := run_frames eff fs (world s)\<rparr>)"
proof (induction fs arbitrary: p s)
  case (Cons f fs)
  obtain c r a where f: "f = (c, r, a)" by (cases f)
  show ?case
    using Cons.prems Cons.IH [of "s\<lparr>world := eff r a (world s)\<rparr>" "prev (nodes s c)"]
    by (subst cleanup_loop.simps) (auto simp: f run_frames_def)
qed (simp add: cleanup_loop.simps run_frames_def)



text \<open>A routine runs on the first call only, also when it calls \<^verbatim>\<open>pthread_once\<close> itself.\<close>

lemma pthread_once_runs_once:
  assumes "\<And>r s c. controls s c \<noteq> 0 \<Longrightarrow> controls (call r s) c \<noteq> 0"
  shows "controls (snd (pthread_once call c r s)) c \<noteq> 0"
    "pthread_once call c r' (snd (pthread_once call c r s)) = (0, snd (pthread_once call c r s))"
proof -
  show c: "controls (snd (pthread_once call c r s)) c \<noteq> 0"
    using assms by (auto simp: pthread_once_def)
  show "pthread_once call c r' (snd (pthread_once call c r s)) = (0, snd (pthread_once call c r s))"
    using c unfolding pthread_once_def [of call c r' "snd (pthread_once call c r s)"] by simp
qed

text \<open>What the guest set in an attribute reaches the host's thread, except for the size of the guard.\<close>

lemma attributes_reach_host:
  assumes "v = 0 \<or> v = 1" "stack_min \<le> n" "n \<noteq> 0" "q \<noteq> 0"
  shows "host_pthread_attr (Some (snd (pthread_attr_setschedparam q (snd (pthread_attr_setstacksize stack_min n
           (snd (pthread_attr_setguardsize g (snd (pthread_attr_setdetachstate v pthread_attr_init))))))))) =
         \<lparr>h_detached = (v = 1), h_stack_size = Some n, h_priority = Some q\<rparr>"
  using assms
  by (auto simp: pthread_attr_setschedparam_def pthread_attr_setstacksize_def pthread_attr_setguardsize_def
      pthread_attr_setdetachstate_def pthread_attr_init_def)

end
