(* ===== verification/Spec2Isabelle.thy ===== *)
theory Spec2Isabelle
  imports Thread_Keys Jni_Tables App_State Keyboard Main_Routines Linker_Binding Graphics_Symbols Shim_Network Shim_Pthreads
begin

text \<open>
  \<^bold>\<open>The program.\<close>  Sober runs the Android (AArch64) build of a program on an x86-64 Linux host.  The guest's
  shared libraries are loaded by a port of Android's linker (\<^verbatim>\<open>src/subprojects/liblinker\<close>) and executed by
  a recompiler (\<^verbatim>\<open>src/subprojects/dynarmic\<close>).  Every host function the guest may call owns a trampoline, a
  supervisor call followed by a return, in a code buffer the guest can execute
  (\<^verbatim>\<open>src/src/trampoline.cpp\<close>).  At start-up \<^verbatim>\<open>syms_init\<close> (\<^verbatim>\<open>src/src/libs/syms.cpp\<close>) registers the host libraries
  with the linker; relocation writes the trampolines' addresses into the guest's import slots; a
  supervisor call leaves the guest, converts the arguments and calls the host function
  (\<^verbatim>\<open>src/src/execution_context.cpp\<close>); host code enters the guest through fibers.  Around that are an
  emulated Java virtual machine (\<^verbatim>\<open>src/src/jni.cpp\<close>) with the classes the guest expects
  (\<^verbatim>\<open>src/src/class\<close>), a C library shim (\<^verbatim>\<open>src/src/vendor/libc-shim\<close>), resolvers for OpenGL and Vulkan, and the
  main program with its event loop (\<^verbatim>\<open>src/src/main.cpp\<close>).

  \<^bold>\<open>Conventions.\<close>  \<open>Sober_Prelude\<close> fixes the word types, the errors as values (an exception, a failed assertion,
  an access out of range or to freed memory, the end of the process), and the sequencing of fallible steps;
  a function that may fail returns \<open>error + 'a\<close>.  Loops that may not end are \<open>option\<close>-valued partial functions, so
  that \<open>None\<close> is divergence.  Guest and host share one memory, a function from addresses to bytes; host objects
  whose identity matters live in stores from addresses to objects.

  \<^bold>\<open>Theories and the code they model.\<close>

  \<^item> Calls between guest and host.  \<open>Function_Traits\<close> (\<^verbatim>\<open>function_traits.hpp\<close>) classifies C++ signatures;
    \<open>Trampolines\<close> (\<^verbatim>\<open>trampoline.cpp\<close>) is the table of host functions, its contract is the locale
    \<open>host_function_registry\<close>; \<open>Symbol_Tables\<close> binds symbol descriptions to addresses.  \<open>Guest_Cpu\<close> is the
    register file, flags and memory callbacks; \<open>Execution_Context\<close> the life of a thread's context and its processor
    id; \<open>Supervisor_Call\<close> the direct and the halting path of a call, with \<^verbatim>\<open>va_list\<close> conversion; \<open>Execution_Fiber\<close>
    the execution loop and host-to-guest calls (all \<^verbatim>\<open>execution_context.cpp\<close> and the parts of the recompiler
    they use).  Shown: dispatch reaches exactly the registered function; what happens when the
    buffer is full; arguments follow the AArch64 procedure call standard; both paths of a call agree; the
    loop returns exactly when the guest yields; a host-to-guest call keeps the guest's registers;
    processor ids of live contexts differ.
  \<^item> Callbacks.  \<open>Guest_Callbacks\<close> (\<^verbatim>\<open>libs/libc_impl.cpp\<close>, thread entry, zlib allocators): sorting and searching with
    guest comparators, \<^verbatim>\<open>setjmp\<close> and \<^verbatim>\<open>longjmp\<close>.  \<open>Thread_Keys\<close> (\<^verbatim>\<open>libs/pthread_impl.cpp\<close>): thread-specific values are a map
    over threads and keys, and the reference counts of contexts are right in every reachable state.
  \<^item> Linker.  \<open>Linker_Lookup\<close> has the hash functions, the searches of a library and of a lookup list;
    \<open>Linker_Tables\<close> says what well-formed GNU and System V tables mean and that the searches compute it, on
    the fast and the slow path.  \<open>Linker_Relocate\<close> has the version tracker, the packed, RELR and plain relocations;
    \<open>Linker_Binding\<close> shows which words they write.
  \<^item> Host libraries.  \<open>Symbol_Data\<close> has the symbol tables entry by entry; \<open>Symbol_Libraries\<close> their registration by
    \<open>syms_init\<close> and that the linker then finds exactly these names; \<open>Graphics_Symbols\<close> the functions bound on
    demand, \<^verbatim>\<open>eglGetProcAddress\<close> and the Vulkan resolvers.
  \<^item> C library shim.  \<open>Shim_Errno\<close> translates error numbers; \<open>Shim_Network\<close> converts socket addresses, options and
    address lists; \<open>Shim_Pthreads\<close> has mutexes as a refinement of host mutexes, their first use by several threads as
    an interleaving semantics, cleanup handlers, \<^verbatim>\<open>pthread_once\<close> and attributes.
  \<^item> Java.  \<open>Jni_Model\<close> has the object store and the operations of the virtual machine, with the contract
    \<open>keep_first_table\<close> of its method and field tables; \<open>Jni_Invariants\<close> consistency of reachable states and
    stability of identifiers; \<open>Jni_Operations\<close> calls, strings and arrays; \<open>Jni_Tables\<close> the function tables and
    their binding to trampolines.  \<open>Java_Classes\<close> and \<open>Java_Objects\<close> are the classes of the program and that
    each is found by name with its methods.
  \<^item> Main program.  \<open>App_State\<close> (paths, cookies), \<open>Keyboard\<close> (both key translations agree), \<open>Main_Loop\<close> (start-up, event
    loop, shutdown), \<open>Main_Properties\<close> (what a frame does, when the loop ends, agreement with SDL) and
    \<open>Main_Routines\<close> (every guest call goes to a routine that was found).

  This theory composes them: from \<open>syms_init\<close> through relocation to dispatch, an import slot of a guest
  library leads to the host function registered under its name.

  \<^bold>\<open>Parameters.\<close>  The recompiled guest, the compiler's view of the symbol expressions (address and type), host
  functions, the GL and Vulkan loaders, SDL, curl, the environment, the values of the host's error constants and
  SDL's scancodes are arguments of the definitions; what is relied on appears as hypotheses, each with a
  witness.

  \<^bold>\<open>Bounds.\<close>  The code buffer has room for 8191 trampolines; the registration of all libraries needs 1452, so it
  succeeds on an empty table.  The search of a System V chain gets one unit of fuel more than the table has
  links, which is enough on every table without a cycle.  Processor ids are below 64.  Words keep their
  width throughout.

  \<^bold>\<open>Not modelled.\<close>  The recompiler's decoder, optimiser and emitters apart from the call path, because a
  guest run is a parameter; the mapping of ELF files, namespaces, \<^verbatim>\<open>dlopen\<close> and constructors, which are work
  of the file system and memory mapping; condition variables and read-write locks, which repeat the
  wrapper of the mutexes; the shim's wrappers for files, directories, streams and time, and the Android, log,
  media and OpenSL functions, which log, return constants or pass their arguments on (their symbol tables
  are modelled); the SDL audio device; the allocator, the GL loader and the JSON library, third-party
  sources the program only calls.  In \<open>Shim_Pthreads\<close> reads and writes of a pointer are atomic, although the
  source does not make them so.
\<close>

section \<open>From an import of the guest to the host function\<close>

text \<open>The symbol the host libraries offer for a name: the first library of \<^verbatim>\<open>syms_init\<close> that has it.\<close>

fun host_symbol :: "declarations \<Rightarrow> (string \<times> symbol_entry list) list \<Rightarrow> string \<Rightarrow> dynamic_symbol option" where
  "host_symbol decl [] name = None"
| "host_symbol decl ((lib, table) # ls) name =
     (case last_symbol (map (symbol_of decl) table) name of
        Some d \<Rightarrow> Some d
      | None \<Rightarrow> host_symbol decl ls name)"

lemma library_bound_exported:
  assumes "library_bound ts lib ds si"
  shows "symbol_bound ts ds name (exported si name vi)"
proof -
  have e: "si = (empty_soinfo lib)\<lparr>custom_symbols := custom_symbols si\<rparr>"
    and b: "symbol_bound ts ds name (custom_symbols si name)"
    using assms by (simp_all add: library_bound_def)
  have "exported si name vi = custom_symbols si name"
    using empty_soinfo_fields [OF e] by (simp add: exported_def split: option.splits)
  then show ?thesis using b by simp
qed

lemma host_symbol_exported:
  assumes "list_all2 (\<lambda>l. library_bound ts (fst l) (map (symbol_of decl) (snd l))) ls sis"
    "host_symbol decl ls name = Some d"
  shows "\<exists>lib a. first_export sis name vi = Some (lib, custom_symbol a) \<and> load_bias lib = 0 \<and> bound_to ts d a"
  using assms
proof (induction ls sis rule: list_all2_induct)
  case (Cons l ls si sis)
  have b: "symbol_bound ts (map (symbol_of decl) (snd l)) name (exported si name vi)"
    by (rule library_bound_exported [OF Cons.hyps(1)])
  have "load_bias si = 0"
    using Cons.hyps(1) empty_soinfo_fields(4) [of si] unfolding library_bound_def by blast
  then show ?case
    using b Cons by (cases l) (auto simp: symbol_bound_def split: option.splits)
qed simp

lemma first_export_append:
  "first_export pre name vi = None \<Longrightarrow> first_export (pre @ sis) name vi = first_export sis name vi"
  by (induction pre) (auto split: option.splits)

text \<open>A relocation of a guest library that imports a host symbol under a name its own libraries lack.\<close>

definition host_import :: "declarations \<Rightarrow> soinfo list \<Rightarrow> soinfo \<Rightarrow> version_tracker \<Rightarrow> rela \<Rightarrow> bool" where
  "host_import decl pre si vs r \<longleftrightarrow>
     (let n = R_SYM (r_info r); t = R_TYPE (r_info r)
      in (t = R_GENERIC_JUMP_SLOT \<or> t = R_GENERIC_GLOB_DAT \<or> t = R_GENERIC_ABSOLUTE) \<and> n \<noteq> 0 \<and> r_addend r = 0 \<and>
         unat n < length (si_symtab si) \<and> string_ok si (st_name (si_symtab si ! unat n)) \<and>
         lookup_version_info si vs n = Inr None \<and> resolved pre si vs n = None \<and>
         host_symbol decl sober_libraries (reloc_name si n) \<noteq> None)"

definition imported :: "declarations \<Rightarrow> soinfo \<Rightarrow> rela \<Rightarrow> dynamic_symbol" where
  "imported decl si r = the (host_symbol decl sober_libraries (reloc_name si (R_SYM (r_info r))))"

lemma host_import_binds:
  assumes "libraries_ready decl hs sis" "host_import decl pre si vs r"
  shows "bindable (pre @ sis) si vs r \<and> bound_to (hs_trampolines hs) (imported decl si r) (reloc_value ifunc (pre @ sis) si vs r)"
proof -
  let ?n = "R_SYM (r_info r)"
  have l: "list_all2 (\<lambda>l. library_bound (hs_trampolines hs) (fst l) (map (symbol_of decl) (snd l))) sober_libraries sis"
    using assms(1) by (simp add: libraries_ready_def)
  have d: "host_symbol decl sober_libraries (reloc_name si ?n) = Some (imported decl si r)"
    using assms(2) by (auto simp: host_import_def imported_def Let_def)
  have none: "first_export pre (reloc_name si ?n) (wanted_version si vs ?n) = None"
    using assms(2) by (simp add: host_import_def resolved_def Let_def)
  obtain lib a where res: "resolved (pre @ sis) si vs ?n = Some (lib, custom_symbol a)" "load_bias lib = 0"
    "bound_to (hs_trampolines hs) (imported decl si r) a"
    using host_symbol_exported [OF l d] first_export_append [OF none, of sis] unfolding resolved_def by metis
  have "bindable (pre @ sis) si vs r"
    using assms(2) res(1) by (auto simp: bindable_def host_import_def symbol_available_def handled_by_def
        version_request_ok_def Let_def)
  moreover have "reloc_value ifunc (pre @ sis) si vs r = a"
    using assms(2) res(1,2) by (auto simp: host_import_def reloc_value_def symbol_value_def resolve_custom_symbol Let_def)
  ultimately show ?thesis using res(3) by simp
qed

lemma libraries_ready_wf: "libraries_ready decl hs sis \<Longrightarrow> list_all library_wf sis"
proof -
  assume "libraries_ready decl hs sis"
  then have "list_all2 (\<lambda>l. library_bound (hs_trampolines hs) (fst l) (map (symbol_of decl) (snd l))) sober_libraries sis"
    by (simp add: libraries_ready_def)
  then show ?thesis by (induction rule: list_all2_induct) (use library_bound_exports in auto)
qed


text \<open>A guest library with a jump slot for a loader function.\<close>

definition demo_guest :: soinfo where
  "demo_guest = new_soinfo
     \<lparr>si_soname := ''libguest.so'', load_bias := 0x7e0000000000,
      si_strtab := [CHR 0x00] @ ''__loader_dlopen'' @ [CHR 0x00],
      si_symtab := [\<lparr>st_name = 0, st_info = 0, st_shndx = 0, st_value = 0, st_size = 0\<rparr>,
        \<lparr>st_name = 1, st_info = 0x12, st_shndx = 0, st_value = 0, st_size = 0\<rparr>],
      si_plt_rela := Some [\<lparr>r_offset = 0x2000, r_info = 0x100000402, r_addend = 0\<rparr>]\<rparr>"

abbreviation demo_decl :: declarations where
  "demo_decl \<equiv> (\<lambda>_. Func 0x1234 CPointer [CPointer, CInt])"

lemma demo_guest_values:
  "version_tracker_init demo_guest = Inr []"
  "relocation_list (si_rela demo_guest) @ relocation_list (si_plt_rela demo_guest) =
     [\<lparr>r_offset = 0x2000, r_info = 0x100000402, r_addend = 0\<rparr>]"
  "reloc_target demo_guest \<lparr>r_offset = 0x2000, r_info = 0x100000402, r_addend = 0\<rparr> = 0x7e0000002000"
  "reloc_name demo_guest 1 = ''__loader_dlopen''" "R_SYM 0x100000402 = 1"
  by code_simp+

lemma demo_guest_wf: "list_all library_wf [demo_guest]"
  by (simp add: library_wf_def verdefs_ok_def demo_guest_def new_soinfo_def is_gnu_hash_def FLAG_GNU_HASH_def)

lemma demo_guest_imports:
  "host_import demo_decl [demo_guest] demo_guest [] \<lparr>r_offset = 0x2000, r_info = 0x100000402, r_addend = 0\<rparr>"
  by code_simp

lemma demo_imported:
  "imported demo_decl demo_guest \<lparr>r_offset = 0x2000, r_info = 0x100000402, r_addend = 0\<rparr> =
     symbol_of demo_decl (effect ''__loader_dlopen'' ''__loader_dlopen'')"
  by code_simp


end
